(* ===== verification/Mormi_Prelude.thy ===== *)
theory Mormi_Prelude
  imports Main "HOL-Library.AList" "HOL-Library.Char_ord" "HOL-Library.List_Lexorder"
    "HOL-Library.Code_Target_Nat"
begin

text \<open>
  Shared vocabulary of the development.

  \<^item> Python exceptions are values of \<open>py_error\<close>; a fallible function returns
    \<open>'a res\<close>, with \<open>Inl\<close> for the exception. \<open>bindr\<close> sequences two fallible steps
    and \<open>check_all\<close> is a block of guards of the form
    \<^verbatim>\<open>if cond: raise err\<close>, run from top to bottom.
  \<^item> A Python \<^verbatim>\<open>dict\<close> is an association list in insertion order;
    \<open>AList.update\<close> keeps the position of a key that is already there and appends a new
    one, as the assignment \<^verbatim>\<open>d[k] = v\<close> does.
  \<^item> \<open>dedup\<close> is \<^verbatim>\<open>list(dict.fromkeys(xs))\<close>: the first occurrence of
    every element, in order.
  \<^item> Identifiers are \<open>string\<close>s (UTF-8 bytes); child text is a list of code points
    \<open>ustr\<close>, because offsets into it are counted in code points.
\<close>

section \<open>Exceptions as values\<close>

datatype py_error =
    ValueError string
  | ValidationError string
  | DialogueV2LedgerError string
  | KeyError string
  | StopIteration
  | AssertionError
  | RuntimeError string
  | IndexError
  | OverflowError
  | ConversationNotFoundError string
  | StaleConversationError string
  | DuplicateResponseError string
  | PersistenceError string
  | InvalidTurnResponseError string
  | CopyCacheCorruptionError string
  | StableCopyCacheKeyError string
  | LadderAnalysisNotFoundError string
  | LadderAnalysisStaleError string
  | LadderAnalysisNotApplicableError string
  | IntegrityError string

type_synonym 'a res = "py_error + 'a"
type_synonym ustr = "nat list"
type_synonym ('k, 'v) dict = "('k \<times> 'v) list"

definition bindr :: "'a res \<Rightarrow> ('a \<Rightarrow> 'b res) \<Rightarrow> 'b res" where
  "bindr m f = (case m of Inl e \<Rightarrow> Inl e | Inr a \<Rightarrow> f a)"

fun check_all :: "(bool \<times> py_error) list \<Rightarrow> unit res" where
  "check_all [] = Inr ()"
| "check_all ((bad, e) # cs) = (if bad then Inl e else check_all cs)"

named_theorems res_simps \<open>sequencing of fallible steps\<close>
named_theorems dict_simps \<open>lookup and update of insertion-ordered dictionaries\<close>

lemma bindr_Inl [simp, res_simps]: "bindr (Inl e) f = Inl e"
  by (simp add: bindr_def)

lemma bindr_Inr [simp, res_simps]: "bindr (Inr a) f = f a"
  by (simp add: bindr_def)

lemma bindr_eq_Inr [res_simps]: "bindr m f = Inr b \<longleftrightarrow> (\<exists>a. m = Inr a \<and> f a = Inr b)"
  by (cases m) auto

lemma bindr_eq_Inl [res_simps]:
  "bindr m f = Inl e \<longleftrightarrow> m = Inl e \<or> (\<exists>a. m = Inr a \<and> f a = Inl e)"
  by (cases m) auto

lemma bindr_cases:
  assumes "bindr m f = Inr b"
  obtains a where "m = Inr a" and "f a = Inr b"
  using assms by (auto simp: bindr_eq_Inr)

lemma bindr_assoc: "bindr (bindr m f) g = bindr m (\<lambda>a. bindr (f a) g)"
  by (cases m) auto

lemma check_all_Inr [res_simps]: "check_all cs = Inr u \<longleftrightarrow> (\<forall>(bad, e) \<in> set cs. \<not> bad)"
  by (induction cs rule: check_all.induct) auto

lemma check_all_Inl_in: "check_all cs = Inl e \<Longrightarrow> \<exists>(bad, e') \<in> set cs. bad \<and> e' = e"
  by (induction cs rule: check_all.induct) (auto split: if_splits)

lemma check_all_append [simp]:
  "check_all (cs @ ds) = bindr (check_all cs) (\<lambda>_. check_all ds)"
  by (induction cs rule: check_all.induct) auto

text \<open>
  Loops over a list whose body may raise: \<open>for_each\<close> runs a check, \<open>mapr\<close> is a list
  comprehension and \<open>fold_res\<close> threads a state.
\<close>

fun for_each :: "('a \<Rightarrow> unit res) \<Rightarrow> 'a list \<Rightarrow> unit res" where
  "for_each f [] = Inr ()"
| "for_each f (x # xs) = bindr (f x) (\<lambda>_. for_each f xs)"

lemma for_each_Inr [res_simps]: "for_each f xs = Inr u \<longleftrightarrow> (\<forall>x \<in> set xs. f x = Inr ())"
  by (induction xs) (auto simp: bindr_eq_Inr)

definition check :: "bool \<Rightarrow> string \<Rightarrow> unit res" where
  "check ok msg = (if ok then Inr () else Inl (ValueError msg))"

lemma check_Inr [res_simps]: "check ok msg = Inr u \<longleftrightarrow> ok"
  by (simp add: check_def)

fun mapr :: "('a \<Rightarrow> 'b res) \<Rightarrow> 'a list \<Rightarrow> 'b list res" where
  "mapr f [] = Inr []"
| "mapr f (x # xs) = bindr (f x) (\<lambda>y. bindr (mapr f xs) (\<lambda>ys. Inr (y # ys)))"

lemma mapr_Inr: "mapr f xs = Inr ys \<Longrightarrow> list_all2 (\<lambda>x y. f x = Inr y) xs ys"
  by (induction xs arbitrary: ys) (auto simp: bindr_eq_Inr)

lemma mapr_length: "mapr f xs = Inr ys \<Longrightarrow> length ys = length xs"
  by (auto dest!: mapr_Inr list_all2_lengthD)

fun fold_res :: "('a \<Rightarrow> 's \<Rightarrow> 's res) \<Rightarrow> 'a list \<Rightarrow> 's \<Rightarrow> 's res" where
  "fold_res f [] s = Inr s"
| "fold_res f (x # xs) s = bindr (f x s) (fold_res f xs)"

lemma fold_res_append [simp]:
  "fold_res f (xs @ ys) s = bindr (fold_res f xs s) (fold_res f ys)"
proof (induction xs arbitrary: s)
  case (Cons x xs)
  then show ?case by (cases "f x s") simp_all
qed simp

lemma fold_res_preserves:
  assumes "fold_res f xs s = Inr s'" and "P s"
    and "\<And>x s s'. x \<in> set xs \<Longrightarrow> P s \<Longrightarrow> f x s = Inr s' \<Longrightarrow> P s'"
  shows "P s'"
  using assms by (induction xs arbitrary: s) (auto simp: bindr_eq_Inr)

lemma fold_res_total:
  assumes "P s" and "\<And>x s. x \<in> set xs \<Longrightarrow> P s \<Longrightarrow> \<exists>s'. f x s = Inr s' \<and> P s'"
  shows "\<exists>s'. fold_res f xs s = Inr s' \<and> P s'"
  using assms
proof (induction xs arbitrary: s)
  case (Cons x xs)
  from Cons.prems(2) [of x s] Cons.prems(1) obtain s1 where "f x s = Inr s1" "P s1" by auto
  with Cons.IH [of s1] Cons.prems(2) show ?case by auto
qed simp

section \<open>Insertion-ordered dictionaries\<close>

abbreviation dict_keys :: "('k, 'v) dict \<Rightarrow> 'k list" where
  "dict_keys d \<equiv> map fst d"

abbreviation dict_get :: "('k, 'v) dict \<Rightarrow> 'k \<Rightarrow> 'v option" where
  "dict_get \<equiv> map_of"

definition dict_ok :: "('k, 'v) dict \<Rightarrow> bool" where
  "dict_ok d \<longleftrightarrow> distinct (dict_keys d)"

lemma dict_get_update [dict_simps, simp]:
  "dict_get (AList.update k v d) k' = (if k' = k then Some v else dict_get d k')"
  by (simp add: update_conv' fun_upd_def)

lemma dict_keys_update [dict_simps, simp]:
  "set (dict_keys (AList.update k v d)) = insert k (set (dict_keys d))"
  by (induction d) auto

lemma dict_fst_update [dict_simps, simp]: "fst ` set (AList.update k v d) = insert k (fst ` set d)"
  using dict_keys_update [of k v d] by simp

lemma dict_ok_update [dict_simps, simp]: "dict_ok d \<Longrightarrow> dict_ok (AList.update k v d)"
  unfolding dict_ok_def by (rule distinct_update)

lemma dict_ok_Nil [dict_simps, simp]: "dict_ok []"
  by (simp add: dict_ok_def)

lemma dict_update_entries:
  "(k', v') \<in> set (AList.update k v d) \<Longrightarrow> (k' = k \<and> v' = v) \<or> (k', v') \<in> set d"
  by (induction d) (auto split: if_splits)

lemma dict_get_None_iff: "dict_get d k = None \<longleftrightarrow> k \<notin> set (dict_keys d)"
  by (simp add: map_of_eq_None_iff)

lemma dict_get_Some_in: "dict_get d k = Some v \<Longrightarrow> (k, v) \<in> set d"
  by (rule map_of_SomeD)

lemma dict_get_Some_key: "dict_get d k = Some v \<Longrightarrow> k \<in> set (dict_keys d)"
  by (force dest: map_of_SomeD)

lemma dict_in_get: "dict_ok d \<Longrightarrow> (k, v) \<in> set d \<Longrightarrow> dict_get d k = Some v"
  unfolding dict_ok_def by (rule map_of_is_SomeI)

lemma dict_update_fresh_length:
  "k \<notin> set (dict_keys d) \<Longrightarrow> length (AList.update k v d) = Suc (length d)"
  by (induction d) auto

lemma dict_update_length_le: "length (AList.update k v d) \<le> Suc (length d)"
  by (induction d) auto

lemma dict_length_card: "dict_ok d \<Longrightarrow> length d = card (set (dict_keys d))"
  unfolding dict_ok_def using distinct_card by force

lemma dict_length_bound:
  assumes "dict_ok d" and "set (dict_keys d) \<subseteq> set ks"
  shows "length d \<le> length ks"
proof -
  have "card (set (dict_keys d)) \<le> card (set ks)"
    using assms(2) by (simp add: card_mono)
  also have "\<dots> \<le> length ks" by (rule card_length)
  finally show ?thesis using assms(1) by (simp add: dict_length_card)
qed

text \<open>A dictionary comprehension \<^verbatim>\<open>{key(x): x for x in xs}\<close>: a later key overwrites.\<close>

definition dict_by :: "('a \<Rightarrow> 'k) \<Rightarrow> 'a list \<Rightarrow> ('k, 'a) dict" where
  "dict_by key xs = foldl (\<lambda>d x. AList.update (key x) x d) [] xs"

lemma dict_update_fresh: "k \<notin> set (dict_keys d) \<Longrightarrow> AList.update k v d = d @ [(k, v)]"
  by (induction d) auto

lemma foldl_update_fresh:
  "distinct (map key xs) \<Longrightarrow> set (map key xs) \<inter> set (dict_keys d) = {} \<Longrightarrow>
   foldl (\<lambda>d x. AList.update (key x) x d) d xs = d @ map (\<lambda>x. (key x, x)) xs"
proof (induction xs arbitrary: d)
  case (Cons x xs)
  then have "AList.update (key x) x d = d @ [(key x, x)]"
    by (intro dict_update_fresh) auto
  with Cons show ?case by auto
qed simp

lemma dict_by_distinct: "distinct (map key xs) \<Longrightarrow> dict_by key xs = map (\<lambda>x. (key x, x)) xs"
  by (simp add: dict_by_def foldl_update_fresh)

lemma foldl_update_keys:
  "set (dict_keys (foldl (\<lambda>d x. AList.update (key x) x d) d xs)) = set (dict_keys d) \<union> key ` set xs"
  by (induction xs arbitrary: d) (auto simp del: set_map)

lemma dict_by_keys [simp]: "set (dict_keys (dict_by key xs)) = key ` set xs"
  using foldl_update_keys [of key "[]" xs] by (simp add: dict_by_def)

lemma dict_by_fst [simp]: "fst ` set (dict_by key xs) = key ` set xs"
  using dict_by_keys [of key xs] by simp

lemma foldl_update_ok: "dict_ok d \<Longrightarrow> dict_ok (foldl (\<lambda>d x. AList.update (key x) x d) d xs)"
  by (induction xs arbitrary: d) auto

lemma dict_by_ok [simp]: "dict_ok (dict_by key xs)"
  by (simp add: dict_by_def foldl_update_ok)

lemma foldl_update_entries:
  "dict_get (foldl (\<lambda>d x. AList.update (key x) x d) d xs) k = Some x \<Longrightarrow>
   dict_get d k = Some x \<or> (x \<in> set xs \<and> key x = k)"
  by (induction xs arbitrary: d) (force split: if_splits)+

lemma dict_by_get: "dict_get (dict_by key xs) k = Some x \<Longrightarrow> x \<in> set xs \<and> key x = k"
  using foldl_update_entries [of key "[]" xs k x] by (simp add: dict_by_def)

lemma dict_by_get_mem: "k \<in> key ` set xs \<Longrightarrow> \<exists>x. dict_get (dict_by key xs) k = Some x"
  by (metis dict_by_keys dict_get_None_iff not_None_eq)

definition py_index :: "('k, 'v) dict \<Rightarrow> 'k \<Rightarrow> 'v res" where
  "py_index d k = (case dict_get d k of None \<Rightarrow> Inl (KeyError ''key'') | Some v \<Rightarrow> Inr v)"

lemma py_index_Inr [res_simps]: "py_index d k = Inr v \<longleftrightarrow> dict_get d k = Some v"
  by (auto simp: py_index_def split: option.splits)

lemma dict_by_lookup:
  assumes "distinct (map k xs)" and "x \<in> set xs"
  shows "dict_get (dict_by k xs) (k x) = Some x"
proof -
  obtain y where y: "dict_get (dict_by k xs) (k x) = Some y"
    using dict_by_get_mem [of "k x" k xs] assms(2) by auto
  with dict_by_get [OF y] assms show ?thesis by (metis distinct_map inj_on_def)
qed

text \<open>Every entry of a dictionary satisfies a predicate on its key and value.\<close>

definition dict_all :: "('k \<Rightarrow> 'v \<Rightarrow> bool) \<Rightarrow> ('k, 'v) dict \<Rightarrow> bool" where
  "dict_all P d \<longleftrightarrow> (\<forall>(k, v) \<in> set d. P k v)"

lemma dict_all_Nil [simp]: "dict_all P []"
  by (simp add: dict_all_def)

lemma dict_all_update: "dict_all P d \<Longrightarrow> P k v \<Longrightarrow> dict_all P (AList.update k v d)"
  unfolding dict_all_def by (auto dest: dict_update_entries)

lemma dict_all_get: "dict_all P d \<Longrightarrow> dict_get d k = Some v \<Longrightarrow> P k v"
  unfolding dict_all_def by (auto dest: dict_get_Some_in)

text \<open>Growth of a dictionary: no key is lost and every entry only grows along \<open>R\<close>.\<close>

definition dict_le :: "('v \<Rightarrow> 'v \<Rightarrow> bool) \<Rightarrow> ('k, 'v) dict \<Rightarrow> ('k, 'v) dict \<Rightarrow> bool" where
  "dict_le R d d' \<longleftrightarrow> (\<forall>k v. dict_get d k = Some v \<longrightarrow> (\<exists>v'. dict_get d' k = Some v' \<and> R v v'))"

lemma dict_le_refl [simp, intro]: "(\<And>v. R v v) \<Longrightarrow> dict_le R d d"
  by (simp add: dict_le_def)

lemma dict_le_trans:
  "dict_le R a b \<Longrightarrow> dict_le R b c \<Longrightarrow> (\<And>u v w. R u v \<Longrightarrow> R v w \<Longrightarrow> R u w) \<Longrightarrow> dict_le R a c"
  unfolding dict_le_def by meson

lemma dict_le_update:
  "(\<And>v. R v v) \<Longrightarrow> (\<And>v. dict_get d k = Some v \<Longrightarrow> R v w) \<Longrightarrow> dict_le R d (AList.update k w d)"
  by (auto simp: dict_le_def)

lemma dict_le_keys: "dict_le R d d' \<Longrightarrow> set (dict_keys d) \<subseteq> set (dict_keys d')"
  unfolding dict_le_def by (metis dict_get_None_iff not_None_eq subsetI)

section \<open>First occurrences\<close>

fun dedup :: "'a list \<Rightarrow> 'a list" where
  "dedup [] = []"
| "dedup (x # xs) = x # dedup (filter (\<lambda>y. y \<noteq> x) xs)"

lemma set_dedup [simp]: "set (dedup xs) = set xs"
  by (induction xs rule: dedup.induct) auto

lemma distinct_dedup [simp]: "distinct (dedup xs)"
  by (induction xs rule: dedup.induct) auto

lemma dedup_distinct_id: "distinct xs \<Longrightarrow> dedup xs = xs"
proof (induction xs rule: dedup.induct)
  case (2 x xs)
  then have "filter (\<lambda>y. y \<noteq> x) xs = xs" by (auto simp: filter_id_conv)
  with 2 show ?case by simp
qed simp

section \<open>Lists\<close>

text \<open>
  \<^verbatim>\<open>next(x for x in xs if p(x))\<close> without a default raises
  \<^verbatim>\<open>StopIteration\<close> when nothing matches.
\<close>

definition py_next :: "('a \<Rightarrow> bool) \<Rightarrow> 'a list \<Rightarrow> 'a res" where
  "py_next p xs = (case List.find p xs of None \<Rightarrow> Inl StopIteration | Some x \<Rightarrow> Inr x)"

lemma find_Some_mem: "List.find p xs = Some x \<Longrightarrow> x \<in> set xs \<and> p x"
  by (auto simp: find_Some_iff)

lemma find_exists: "(\<exists>x \<in> set xs. p x) \<Longrightarrow> \<exists>x. List.find p xs = Some x"
  by (metis find_None_iff not_None_eq)

lemma py_next_Inr: "py_next p xs = Inr x \<Longrightarrow> x \<in> set xs \<and> p x"
  by (auto simp: py_next_def dest: find_Some_mem split: option.splits)

lemma py_next_total: "(\<exists>x \<in> set xs. p x) \<Longrightarrow> \<exists>x. py_next p xs = Inr x"
  by (auto simp: py_next_def find_None_iff split: option.splits)

lemma length_filter_one_ex:
  "length (filter p xs) = 1 \<Longrightarrow> \<exists>x \<in> set xs. p x"
  by (metis One_nat_def filter_False length_0_conv zero_neq_one list.size(3))

lemma distinct_map_unique:
  assumes "distinct (map k xs)" and "y \<in> k ` set xs"
  shows "\<exists>!x. x \<in> set xs \<and> k x = y"
  using assms by (auto simp: distinct_map inj_on_def)

lemma length_filter_one_unique:
  assumes "length (filter P xs) = 1" and "distinct xs"
  shows "\<exists>!x. x \<in> set xs \<and> P x"
proof -
  obtain y where y: "filter P xs = [y]" using assms(1) by (auto simp: length_Suc_conv)
  show ?thesis
  proof
    have "y \<in> set (filter P xs)" using y by simp
    then show "y \<in> set xs \<and> P y" by simp
    show "x = y" if "x \<in> set xs \<and> P x" for x
    proof -
      have "x \<in> set (filter P xs)" using that by simp
      then show ?thesis using y by simp
    qed
  qed
qed

end
