(* ===== verification/Schemas.thy ===== *)
theory Schemas
  imports Mormi_Prelude Complex_Main
begin

text \<open>
  The data contracts of \<^verbatim>\<open>schemas.py\<close> that the dialogue core exchanges: the two support
  ladders (expression level L, hint level H), canonical values, understanding claims and
  responses, child responses, and type-exact comparison of JSON values. Enumerations are
  datatypes with the source's members, Pydantic models are records, and a
  \<^verbatim>\<open>model_validator\<close> is a function to \<open>unit res\<close> that raises what the source
  raises. A finite Python float is represented by the rational that its shortest decimal form
  denotes, which is the number \<^verbatim>\<open>Decimal(str(x))\<close> reads; two floats are equal
  exactly when these are.
\<close>

section \<open>The two ladders\<close>

datatype expression_level = L4 | L3 | L2 | L1 | L0

datatype hint_level = H0 | H1 | H2 | H3

definition canonical :: "expression_level \<Rightarrow> expression_level" where
  "canonical l = (if l = L1 then L2 else l)"

definition expression_order :: "expression_level list" where
  "expression_order = [L4, L3, L2, L0]"

definition hint_order :: "hint_level list" where
  "hint_order = [H0, H1, H2, H3]"

fun index_of :: "'a list \<Rightarrow> 'a \<Rightarrow> nat" where
  "index_of [] y = 0"
| "index_of (x # xs) y = (if x = y then 0 else Suc (index_of xs y))"

definition lower :: "expression_level \<Rightarrow> expression_level" where
  "lower l = (let current = canonical l in
     expression_order ! min (index_of expression_order current + 1) (length expression_order - 1))"

definition higher :: "expression_level \<Rightarrow> expression_level" where
  "higher l = (let current = canonical l in
     expression_order ! nat (max (int (index_of expression_order current) - 1) 0))"

fun rank :: "expression_level \<Rightarrow> nat" where
  "rank L4 = 4" | "rank L3 = 3" | "rank L2 = 2" | "rank L1 = 2" | "rank L0 = 0"

definition increase :: "hint_level \<Rightarrow> hint_level" where
  "increase h = hint_order ! min (index_of hint_order h + 1) (length hint_order - 1)"

definition hint_rank :: "hint_level \<Rightarrow> nat" where
  "hint_rank h = index_of hint_order h"

definition max_hint :: "hint_level \<Rightarrow> hint_level \<Rightarrow> hint_level" where
  "max_hint a b = hint_order ! max (index_of hint_order a) (index_of hint_order b)"

named_theorems ladder_simps \<open>evaluation of the two ladders\<close>

lemma canonical_simps [simp, ladder_simps]:
  "canonical L4 = L4" "canonical L3 = L3" "canonical L2 = L2" "canonical L1 = L2" "canonical L0 = L0"
  by (simp_all add: canonical_def)

lemma lower_simps [simp, ladder_simps]:
  "lower L4 = L3" "lower L3 = L2" "lower L2 = L0" "lower L1 = L0" "lower L0 = L0"
  by (simp_all add: lower_def expression_order_def)

lemma higher_simps [simp, ladder_simps]:
  "higher L4 = L4" "higher L3 = L4" "higher L2 = L3" "higher L1 = L3" "higher L0 = L2"
  by (simp_all add: higher_def expression_order_def nat_numeral)

lemma increase_simps [simp, ladder_simps]:
  "increase H0 = H1" "increase H1 = H2" "increase H2 = H3" "increase H3 = H3"
  by (simp_all add: increase_def hint_order_def)

lemma hint_rank_simps [simp, ladder_simps]:
  "hint_rank H0 = 0" "hint_rank H1 = 1" "hint_rank H2 = 2" "hint_rank H3 = 3"
  by (simp_all add: hint_rank_def hint_order_def)

lemma max_hint_rank: "hint_rank (max_hint a b) = max (hint_rank a) (hint_rank b)"
  by (cases a; cases b) (simp_all add: max_hint_def hint_order_def hint_rank_def)

lemma max_hint_cases: "max_hint a b = a \<or> max_hint a b = b"
  by (cases a; cases b) (simp_all add: max_hint_def hint_order_def)

lemma hint_rank_inj: "hint_rank a = hint_rank b \<Longrightarrow> a = b"
  by (cases a; cases b) simp_all

lemma hint_rank_le3: "hint_rank a \<le> 3"
  by (cases a) simp_all

lemma rank_canonical [simp]: "rank (canonical l) = rank l"
  by (cases l) simp_all

lemma canonical_idem [simp]: "canonical (canonical l) = canonical l"
  by (cases l) simp_all

lemma canonical_not_L1 [simp]: "canonical l \<noteq> L1"
  by (cases l) simp_all

lemma rank_lower_le: "rank (lower l) \<le> rank l"
  by (cases l) simp_all

section \<open>Enumerations\<close>

datatype session_status = ACTIVE | COMPLETED
datatype runtime_contract_version = LEGACY_V1 | VERDICT_V1
datatype completion_outcome = TAUGHT | SUPPORTED | BRIGHT_EXIT
datatype input_kind = IK_TEXT | IK_CHOICES | IK_FILL | IK_COUNT | IK_EQUATION | IK_JOINT | IK_BUTTON | IK_NONE
datatype response_type = RT_TEXT | RT_CHOICE | RT_FILL | RT_COUNT | RT_EQUATION | RT_ACTION | RT_NO_RESPONSE
datatype no_response_kind = EXPLICIT_HELP | SILENCE_TIMEOUT | ASR_EMPTY
datatype scene_type = HOME_TEACH | CAFE | AMUSEMENT_PARK

datatype utterance_class =
  UC_LEARNING_RESPONSE | UC_TASK_QUESTION | UC_HELP_REQUEST | UC_NON_LEARNING_SAFE
  | UC_SYSTEM_MANIPULATION | UC_SAFETY_RISK
datatype question_focus = QF_REASON_OR_METHOD | QF_MEANING | QF_CONFIRMATION_OR_CHALLENGE
datatype conversation_move =
  MOVE_NONE | MOVE_TASK_QUESTION | MOVE_META_QUESTION | MOVE_REQUEST_MORMI_ANSWER
  | MOVE_REFUSAL | MOVE_SAFE_PLAY
datatype ui_interaction =
  ASKS_WHY | ASKS_WHAT_NEXT | EXPRESSES_CONFUSION | CHALLENGES | UI_OTHER | UI_UNCERTAIN
datatype ui_basis = DIRECT | DEICTIC | CONTENT_ECHO
datatype move_subject =
  SUBJ_TASK | SUBJ_MORMI_KNOWLEDGE | SUBJ_MORMI_AI_IDENTITY | SUBJ_PARTICIPATION | SUBJ_OTHER
datatype non_learning_kind = NL_PLAYFUL | NL_META | NL_OFF_TOPIC | NL_REFUSAL | NL_INSULT
datatype support_need = SN_EXPRESSION | SN_CONCEPT | SN_BOTH | SN_GENERAL_HELP | SN_NONE
datatype answer_status =
  AS_COMPLETE | AS_PARTIAL | AS_MISSING | AS_INCORRECT | AS_UNCERTAIN | AS_NOT_APPLICABLE
datatype reasoning_status =
  RS_SUFFICIENT | RS_PARTIAL | RS_INSUFFICIENT | RS_MISSING | RS_INCORRECT | RS_UNCERTAIN
  | RS_NOT_APPLICABLE
datatype confidence_level = CONF_LOW | CONF_MEDIUM | CONF_HIGH
datatype verdict = Correct | Sufficient | Partial | Incorrect | Uncertain
datatype target_kind = TK_Fact | TK_Relation
datatype ask_kind = Ask_Answer | Ask_Reason_Or_Method

section \<open>Canonical values\<close>

text \<open>
  A Pydantic field \<^verbatim>\<open>int | float\<close> remembers which of the two it holds, but
  \<^verbatim>\<open>==\<close> compares numerically (\<^verbatim>\<open>1 == 1.0\<close>).
\<close>

datatype pynum = PInt int | PFloat rat

fun num_value :: "pynum \<Rightarrow> rat" where
  "num_value (PInt i) = of_int i"
| "num_value (PFloat q) = q"

datatype canonical_value =
    MoneyValue pynum string
  | NumberValue pynum "string option"
  | TextValue string
  | BooleanValue bool
  | ChoiceValue string

fun value_eq :: "canonical_value \<Rightarrow> canonical_value \<Rightarrow> bool" where
  "value_eq (MoneyValue a c) (MoneyValue b d) \<longleftrightarrow> num_value a = num_value b \<and> c = d"
| "value_eq (NumberValue a u) (NumberValue b v) \<longleftrightarrow> num_value a = num_value b \<and> u = v"
| "value_eq (TextValue s) (TextValue t) \<longleftrightarrow> s = t"
| "value_eq (BooleanValue p) (BooleanValue q) \<longleftrightarrow> p = q"
| "value_eq (ChoiceValue s) (ChoiceValue t) \<longleftrightarrow> s = t"
| "value_eq _ _ \<longleftrightarrow> False"

lemma value_eq_refl [simp]: "value_eq v v"
  by (cases v) simp_all

lemma value_eq_sym: "value_eq v w \<Longrightarrow> value_eq w v"
  by (cases v; cases w) simp_all

lemma value_eq_trans: "value_eq u v \<Longrightarrow> value_eq v w \<Longrightarrow> value_eq u w"
  by (cases u; cases v; cases w) simp_all

section \<open>JSON values\<close>

datatype json =
    JNull
  | JBool bool
  | JInt int
  | JFloat rat
  | JStr string
  | JList "json list"
  | JObj "(string \<times> json) list"

fun primitive :: "canonical_value \<Rightarrow> json" where
  "primitive (MoneyValue (PInt i) _) = JInt i"
| "primitive (MoneyValue (PFloat q) _) = JFloat q"
| "primitive (NumberValue (PInt i) _) = JInt i"
| "primitive (NumberValue (PFloat q) _) = JFloat q"
| "primitive (TextValue s) = JStr s"
| "primitive (BooleanValue b) = JBool b"
| "primitive (ChoiceValue c) = JStr c"

text \<open>
  \<^verbatim>\<open>_same_json_value\<close>: the types must be the same Python type, objects must have the
  same keys and every member must agree, lists must agree position by position.
\<close>

lemma json_item_size: "i < length xs \<Longrightarrow> size (xs ! i) \<le> size_list size (xs :: json list)"
  by (rule size_list_estimation' [where x = "xs ! i"]) simp_all

lemma json_obj_size:
  "Some v = map_of d k \<Longrightarrow> size (v :: json) \<le> size_list (size_prod (\<lambda>x. 0) size) d"
  by (induction d) (auto split: if_splits)

function same_json_value :: "json \<Rightarrow> json \<Rightarrow> bool" where
  "same_json_value actual expected =
     (case (actual, expected) of
        (JNull, JNull) \<Rightarrow> True
      | (JBool a, JBool b) \<Rightarrow> a = b
      | (JInt a, JInt b) \<Rightarrow> a = b
      | (JFloat a, JFloat b) \<Rightarrow> a = b
      | (JStr a, JStr b) \<Rightarrow> a = b
      | (JList xs, JList ys) \<Rightarrow>
          length xs = length ys
          \<and> (\<forall>i \<in> set [0..<length xs]. same_json_value (xs ! i) (ys ! i))
      | (JObj d, JObj e) \<Rightarrow>
          set (map fst d) = set (map fst e)
          \<and> (\<forall>k \<in> set (map fst d).
               case (map_of d k, map_of e k) of
                 (Some v, Some w) \<Rightarrow> same_json_value v w
               | _ \<Rightarrow> False)
      | _ \<Rightarrow> False)"
  by pat_completeness auto
termination
  by (relation "measure (\<lambda>(a, e). size a)")
    (auto simp: less_Suc_eq_le intro: json_item_size json_obj_size)

declare same_json_value.simps [simp del]

lemma same_json_scalar [simp]:
  "same_json_value (JBool a) (JBool b) \<longleftrightarrow> a = b"
  "same_json_value (JInt i) (JInt j) \<longleftrightarrow> i = j"
  "same_json_value (JFloat p) (JFloat q) \<longleftrightarrow> p = q"
  "same_json_value (JStr s) (JStr t) \<longleftrightarrow> s = t"
  "\<not> same_json_value (JBool a) (JInt j)"
  "\<not> same_json_value (JInt i) (JBool b)"
  "\<not> same_json_value (JInt i) (JFloat q)"
  "\<not> same_json_value (JFloat p) (JInt j)"
  "\<not> same_json_value (JBool a) (JFloat q)"
  "\<not> same_json_value (JFloat p) (JBool b)"
  "\<not> same_json_value (JStr s) (JBool b)"
  "\<not> same_json_value (JStr s) (JInt j)"
  "\<not> same_json_value (JStr s) (JFloat q)"
  "\<not> same_json_value (JBool a) (JStr t)"
  "\<not> same_json_value (JInt i) (JStr t)"
  "\<not> same_json_value (JFloat p) (JStr t)"
  by (simp_all add: same_json_value.simps)

lemma same_json_obj:
  "same_json_value (JObj d) (JObj e) \<longleftrightarrow>
     set (map fst d) = set (map fst e)
     \<and> (\<forall>k \<in> set (map fst d).
          case (map_of d k, map_of e k) of
            (Some v, Some w) \<Rightarrow> same_json_value v w
          | _ \<Rightarrow> False)"
  by (subst same_json_value.simps) simp

fun is_scalar :: "json \<Rightarrow> bool" where
  "is_scalar JNull = True"
| "is_scalar (JBool _) = True"
| "is_scalar (JInt _) = True"
| "is_scalar (JFloat _) = True"
| "is_scalar (JStr _) = True"
| "is_scalar (JList _) = False"
| "is_scalar (JObj _) = False"

lemma same_json_scalar_eq: "is_scalar v \<Longrightarrow> same_json_value v w \<longleftrightarrow> v = w"
  by (cases v; cases w) (simp_all add: same_json_value.simps)

lemma primitive_scalar [simp]: "is_scalar (primitive v)"
  by (cases v rule: primitive.cases) simp_all

section \<open>Understanding claims and responses\<close>

text \<open>
  \<open>arith_interp\<close> is diagnostic metadata: it is carried and compared, never evaluated.
\<close>

record arith_interp =
  ai_operation :: string
  ai_operands :: "pynum list"
  ai_result :: pynum
  ai_validity :: string

record fact_claim =
  fc_claim_id :: string
  fc_fact_id :: string
  fc_claim_type :: string
  fc_evidence_span :: ustr
  fc_interpreted_value :: "canonical_value option"
  fc_verdict :: verdict
  fc_confidence :: "rat option"

record relation_claim =
  rc_claim_id :: string
  rc_relation_id :: string
  rc_claim_type :: string
  rc_evidence_span :: ustr
  rc_verdict :: verdict
  rc_arithmetic :: "arith_interp option"
  rc_confidence :: "rat option"

record auxiliary_claim =
  ac_claim_id :: string
  ac_evidence_span :: ustr
  ac_summary :: string
  ac_verdict :: verdict
  ac_interpreted_value :: "canonical_value option"
  ac_arithmetic :: "arith_interp option"
  ac_confidence :: "rat option"

datatype understanding_claim =
    FactClaim fact_claim
  | RelationClaim relation_claim
  | AuxiliaryClaim auxiliary_claim

fun claim_id :: "understanding_claim \<Rightarrow> string" where
  "claim_id (FactClaim c) = fc_claim_id c"
| "claim_id (RelationClaim c) = rc_claim_id c"
| "claim_id (AuxiliaryClaim c) = ac_claim_id c"

fun evidence_span :: "understanding_claim \<Rightarrow> ustr" where
  "evidence_span (FactClaim c) = fc_evidence_span c"
| "evidence_span (RelationClaim c) = rc_evidence_span c"
| "evidence_span (AuxiliaryClaim c) = ac_evidence_span c"

fun claim_verdict :: "understanding_claim \<Rightarrow> verdict" where
  "claim_verdict (FactClaim c) = fc_verdict c"
| "claim_verdict (RelationClaim c) = rc_verdict c"
| "claim_verdict (AuxiliaryClaim c) = ac_verdict c"

text \<open>The field constraints of the three claim models.\<close>

definition bounded :: "nat \<Rightarrow> nat \<Rightarrow> 'a list \<Rightarrow> bool" where
  "bounded lo hi xs \<longleftrightarrow> lo \<le> length xs \<and> length xs \<le> hi"

fun claim_fields_ok :: "understanding_claim \<Rightarrow> bool" where
  "claim_fields_ok (FactClaim c) \<longleftrightarrow>
     bounded 1 100 (fc_claim_id c) \<and> bounded 1 160 (fc_fact_id c)
     \<and> fc_claim_type c \<in> {''final_answer'', ''intermediate_result''}
     \<and> bounded 1 300 (fc_evidence_span c)
     \<and> fc_verdict c \<in> {Correct, Partial, Incorrect, Uncertain}"
| "claim_fields_ok (RelationClaim c) \<longleftrightarrow>
     bounded 1 100 (rc_claim_id c) \<and> bounded 1 160 (rc_relation_id c)
     \<and> rc_claim_type c \<in> {''procedure_step'', ''explanation''}
     \<and> bounded 1 300 (rc_evidence_span c)"
| "claim_fields_ok (AuxiliaryClaim c) \<longleftrightarrow>
     bounded 1 100 (ac_claim_id c) \<and> bounded 1 300 (ac_evidence_span c)
     \<and> bounded 1 160 (ac_summary c)
     \<and> ac_verdict c \<in> {Correct, Sufficient, Partial, Uncertain}"

record ui_reference =
  ur_element_id :: string
  ur_interaction :: ui_interaction
  ur_basis :: ui_basis
  ur_evidence_span :: ustr
  ur_confidence :: "rat option"

record understanding_response =
  utterance_class :: utterance_class
  conversation_move :: conversation_move
  move_subject :: move_subject
  question_focus :: "question_focus option"
  support_need :: support_need
  ui_reference :: "ui_reference option"
  non_learning_kind :: "non_learning_kind option"
  contains_learning_evidence :: bool
  answer_status :: answer_status
  reasoning_status :: reasoning_status
  claims :: "understanding_claim list"
  confidence :: confidence_level

text \<open>The defaults of \<^verbatim>\<open>UnderstandingResponseV2(utterance_class=...)\<close>.\<close>

definition default_response :: "utterance_class \<Rightarrow> understanding_response" where
  "default_response uc = \<lparr>utterance_class = uc, conversation_move = MOVE_NONE,
     move_subject = SUBJ_OTHER, question_focus = None, support_need = SN_NONE,
     ui_reference = None, non_learning_kind = None, contains_learning_evidence = False,
     answer_status = AS_NOT_APPLICABLE, reasoning_status = RS_NOT_APPLICABLE,
     claims = [], confidence = CONF_MEDIUM\<rparr>"

definition validate_semantic_contract :: "understanding_response \<Rightarrow> unit res" where
  "validate_semantic_contract r = check_all
     [(\<not> distinct (map claim_id (claims r)),
         ValueError ''understanding claim_ids must be unique''),
      (claims r \<noteq> [] \<and> \<not> contains_learning_evidence r,
         ValueError ''claims require contains_learning_evidence=true''),
      (utterance_class r = UC_HELP_REQUEST \<and> support_need r = SN_NONE,
         ValueError ''help_request requires an explicit support_need''),
      (conversation_move r = MOVE_TASK_QUESTION \<and> question_focus r = None,
         ValueError ''task_question requires question_focus''),
      (conversation_move r \<noteq> MOVE_TASK_QUESTION \<and> question_focus r \<noteq> None,
         ValueError ''question_focus is only valid for task_question'')]"

text \<open>The axes a legacy response JSON lacks, derived from the fields it has.\<close>

definition backfill_move ::
    "utterance_class \<Rightarrow> non_learning_kind option \<Rightarrow> conversation_move option \<Rightarrow> conversation_move" where
  "backfill_move uc kind move =
     (case move of
        Some m \<Rightarrow> m
      | None \<Rightarrow>
          if uc = UC_TASK_QUESTION then MOVE_TASK_QUESTION
          else if uc = UC_NON_LEARNING_SAFE then
            (if kind = Some NL_META then MOVE_META_QUESTION
             else if kind = Some NL_REFUSAL then MOVE_REFUSAL
             else MOVE_SAFE_PLAY)
          else MOVE_NONE)"

definition backfill_subject ::
    "conversation_move \<Rightarrow> move_subject option \<Rightarrow> move_subject" where
  "backfill_subject m subject =
     (case subject of
        Some s \<Rightarrow> s
      | None \<Rightarrow>
         (case m of
            MOVE_TASK_QUESTION \<Rightarrow> SUBJ_TASK
          | MOVE_META_QUESTION \<Rightarrow> SUBJ_MORMI_KNOWLEDGE
          | MOVE_REQUEST_MORMI_ANSWER \<Rightarrow> SUBJ_PARTICIPATION
          | MOVE_REFUSAL \<Rightarrow> SUBJ_PARTICIPATION
          | _ \<Rightarrow> SUBJ_OTHER))"

section \<open>The understanding request\<close>

record relation_contract =
  ct_relation_id :: string
  ct_speaker_label :: ustr
  ct_operation :: string
  ct_input_fact_ids :: "string list"
  ct_output_fact_id :: string
  ct_method_policy :: string
  ct_numeric_expression_required :: bool
  ct_answer_required_in_same_utterance :: bool

record understanding_target =
  ut_target_kind :: target_kind
  ut_target_id :: string
  ut_ask_kind :: ask_kind
  ut_rubric :: "(string \<times> ustr) list"
  ut_expected_truth :: "canonical_value option"
  ut_semantic_contract :: "relation_contract option"

record fact_context =
  cx_fact_id :: string
  cx_speaker_label :: ustr
  cx_semantic_aliases :: "ustr list"
  cx_visible :: bool

record claimable_graph =
  cg_fact_ids :: "string list"
  cg_relation_ids :: "string list"
  cg_open_auxiliary_claims :: bool

record turn_context =
  tc_mormi_question :: ustr
  tc_asks :: "ask_kind list"
  tc_expression_level :: expression_level
  tc_hint_level :: hint_level
  tc_help_scaffolded_relation_ids :: "string list"

record ui_element =
  ue_element_id :: string
  ue_text :: ustr
  ue_hint_level :: "hint_level option"

record history_turn =
  ht_turn_id :: string
  ht_mormi :: ustr
  ht_child :: "ustr option"

record understanding_request =
  req_task_id :: string
  req_visible_facts :: "(string \<times> json) list"
  req_fact_contexts :: "fact_context list"
  req_targets :: "understanding_target list"
  req_graph :: claimable_graph
  req_turn :: turn_context
  req_ui_elements :: "ui_element list"
  req_history :: "history_turn list"
  req_child_utterance :: ustr
  req_guard_feedback_codes :: "string list"

definition validate_relation_contract :: "relation_contract \<Rightarrow> unit res" where
  "validate_relation_contract c = check_all
     [(\<not> distinct (ct_input_fact_ids c),
         ValueError ''relation semantic contract inputs must be unique''),
      (ct_output_fact_id c \<in> set (ct_input_fact_ids c),
         ValueError ''relation output cannot also be an input'')]"

definition validate_understanding_target :: "understanding_target \<Rightarrow> unit res" where
  "validate_understanding_target t = check_all
     ([(ut_target_kind t = TK_Fact \<and> ut_semantic_contract t \<noteq> None,
          ValueError ''fact target cannot declare a relation semantic contract'')]
      @ (if ut_target_kind t = TK_Relation then
           (case ut_semantic_contract t of
              None \<Rightarrow> [(True, ValueError ''relation target needs a semantic contract'')]
            | Some c \<Rightarrow> [(ct_relation_id c \<noteq> ut_target_id t,
                 ValueError ''semantic contract relation_id must match target_id'')])
         else []))"

definition validate_claimable_graph :: "claimable_graph \<Rightarrow> unit res" where
  "validate_claimable_graph g = check_all
     [(\<not> distinct (cg_fact_ids g), ValueError ''claimable fact_ids must be unique''),
      (\<not> distinct (cg_relation_ids g), ValueError ''claimable relation_ids must be unique'')]"

definition validate_help_scaffold_scope :: "turn_context \<Rightarrow> unit res" where
  "validate_help_scaffold_scope c = check_all
     [(\<not> distinct (tc_help_scaffolded_relation_ids c),
         ValueError ''help scaffold relation ids must be unique''),
      (tc_help_scaffolded_relation_ids c \<noteq> [] \<and> tc_hint_level c \<notin> {H2, H3},
         ValueError ''help scaffold relations require an H2 or H3 card'')]"

definition target_reference_checks ::
    "string set \<Rightarrow> string set \<Rightarrow> understanding_target \<Rightarrow> (bool \<times> py_error) list" where
  "target_reference_checks fact_ids relation_ids t =
     [(ut_target_kind t = TK_Fact \<and> ut_target_id t \<notin> fact_ids,
         ValueError ''fact target must exist in claimable_graph.fact_ids'')]
     @ (if ut_target_kind t = TK_Relation then
          [(ut_target_id t \<notin> relation_ids,
              ValueError ''relation target must exist in claimable_graph.relation_ids''),
           (ut_expected_truth t \<noteq> None,
              ValueError ''relation target cannot declare expected_truth'')]
          @ (case ut_semantic_contract t of
               None \<Rightarrow> [(True, AssertionError)]
             | Some c \<Rightarrow>
                 [(\<not> set (ct_input_fact_ids c) \<subseteq> fact_ids,
                     ValueError ''semantic contract inputs must be claimable facts''),
                  (ct_output_fact_id c \<notin> fact_ids,
                     ValueError ''semantic contract output must be a claimable fact'')])
        else [])"

definition targets_must_reference_the_claimable_graph :: "understanding_request \<Rightarrow> unit res" where
  "targets_must_reference_the_claimable_graph r =
    (let fact_ids = set (cg_fact_ids (req_graph r));
         relation_ids = set (cg_relation_ids (req_graph r));
         context_ids = map cx_fact_id (req_fact_contexts r);
         visible_ids = set (map fst (req_visible_facts r))
     in check_all
     ([(\<not> distinct (map (\<lambda>t. (ut_target_kind t, ut_target_id t)) (req_targets r)),
          ValueError ''understanding targets must be unique''),
       (\<not> distinct context_ids, ValueError ''understanding fact contexts must be unique''),
       (set context_ids \<noteq> fact_ids,
          ValueError ''understanding fact contexts must cover claimable facts''),
       (\<not> visible_ids \<subseteq> fact_ids, ValueError ''visible facts must reference claimable facts''),
       (set (map cx_fact_id (filter cx_visible (req_fact_contexts r))) \<noteq> visible_ids,
          ValueError ''visible fact contexts must match visible_facts''),
       (\<not> distinct (map ue_element_id (req_ui_elements r)),
          ValueError ''visible UI element ids must be unique'')]
      @ concat (map (target_reference_checks fact_ids relation_ids) (req_targets r))
      @ [(set (tc_asks (req_turn r)) \<noteq> set (map ut_ask_kind (req_targets r)),
            ValueError ''current_turn asks must match target ask kinds''),
         (\<not> set (tc_help_scaffolded_relation_ids (req_turn r))
              \<subseteq> set (map ut_target_id (filter (\<lambda>t. ut_target_kind t = TK_Relation) (req_targets r))),
            ValueError ''help scaffold relations must be unresolved relation targets'')]))"

section \<open>Child responses and input contracts\<close>

record child_response =
  turn_id :: string
  response_id :: string
  resp_type :: response_type
  resp_text :: "ustr option"
  choice_ids :: "string list"
  resp_values :: "(string \<times> json) list"
  no_response_kind :: "no_response_kind option"

definition is_space :: "nat \<Rightarrow> bool" where
  "is_space c \<longleftrightarrow> c \<in> {9, 10, 11, 12, 13, 28, 29, 30, 31, 32, 133, 160, 5760, 8192, 8193, 8194,
     8195, 8196, 8197, 8198, 8199, 8200, 8201, 8202, 8232, 8233, 8239, 8287, 12288}"

definition strip :: "ustr \<Rightarrow> ustr" where
  "strip s = rev (dropWhile is_space (rev (dropWhile is_space s)))"

text \<open>
  \<^verbatim>\<open>ChildResponse.validate_payload\<close>, which also fills in the legacy meaning of a
  \<^verbatim>\<open>no_response\<close> without a kind.
\<close>

definition validate_payload :: "child_response \<Rightarrow> child_response res" where
  "validate_payload r =
     bindr (check_all
       [(resp_type r = RT_TEXT
           \<and> (case resp_text r of None \<Rightarrow> True | Some s \<Rightarrow> s = [] \<or> strip s = []),
           ValueError ''text response requires non-empty text''),
        (resp_type r \<in> {RT_CHOICE, RT_FILL} \<and> choice_ids r = [],
           ValueError ''choice/fill response requires choice_ids''),
        (resp_type r \<in> {RT_COUNT, RT_EQUATION, RT_ACTION} \<and> resp_values r = [],
           ValueError ''response requires values'')])
     (\<lambda>_. if resp_type r = RT_NO_RESPONSE then
             Inr (if no_response_kind r = None
                  then r\<lparr>no_response_kind := Some EXPLICIT_HELP\<rparr> else r)
           else if no_response_kind r \<noteq> None then
             Inl (ValueError ''no_response_kind is valid only for no_response'')
           else Inr r)"

text \<open>
  A value of a response dictionary is JSON or reviewed Korean copy, which is kept as code points.
\<close>

datatype wire_value = WJson json | WText ustr

record choice_option =
  opt_id :: string
  opt_label :: ustr
  opt_disabled :: "bool option"

record input_contract =
  kind :: input_kind
  placeholder :: "ustr option"
  choices :: "choice_option list"
  target_slots :: "string list"
  submit_label :: "ustr option"
  config :: "(string \<times> wire_value) list"

section \<open>Validation of a whole understanding request\<close>

text \<open>
  \<^verbatim>\<open>UnderstandingRequestV2.model_validate\<close>: the field bounds of the request and of the
  models nested in it, then the nested validators, then the cross-reference validator. A violated
  bound is Pydantic's \<^verbatim>\<open>ValidationError\<close>.
\<close>

definition field :: "bool \<Rightarrow> string \<Rightarrow> bool \<times> py_error" where
  "field ok name = (\<not> ok, ValidationError name)"

lemma field_ok [simp]: "fst (field ok name) = (\<not> ok)" "field ok name = (b, e) \<longleftrightarrow> b = (\<not> ok) \<and> e = ValidationError name"
  by (auto simp: field_def)

definition fact_context_fields :: "fact_context \<Rightarrow> (bool \<times> py_error) list" where
  "fact_context_fields c =
     [field (bounded 1 160 (cx_fact_id c)) ''fact_id'',
      field (bounded 1 100 (cx_speaker_label c)) ''speaker_label'',
      field (bounded 0 12 (cx_semantic_aliases c)) ''semantic_aliases'',
      (\<not> distinct (cx_semantic_aliases c), ValueError ''fact semantic aliases must be unique'')]"

definition relation_contract_fields :: "relation_contract \<Rightarrow> (bool \<times> py_error) list" where
  "relation_contract_fields c =
     [field (bounded 1 160 (ct_relation_id c)) ''relation_id'',
      field (bounded 1 160 (ct_speaker_label c)) ''speaker_label'',
      field (bounded 1 20 (ct_input_fact_ids c)) ''input_fact_ids'',
      field (bounded 1 160 (ct_output_fact_id c)) ''output_fact_id'']"

definition validate_request_target :: "understanding_target \<Rightarrow> unit res" where
  "validate_request_target t =
     bindr (check_all [field (bounded 1 160 (ut_target_id t)) ''target_id'']) (\<lambda>_.
     bindr (case ut_semantic_contract t of
              None \<Rightarrow> Inr ()
            | Some c \<Rightarrow> bindr (check_all (relation_contract_fields c)) (\<lambda>_. validate_relation_contract c)) (\<lambda>_.
     validate_understanding_target t))"

definition turn_context_fields :: "turn_context \<Rightarrow> (bool \<times> py_error) list" where
  "turn_context_fields c =
     [field (tc_mormi_question c \<noteq> []) ''mormi_question'',
      field (bounded 1 2 (tc_asks c)) ''asks'',
      field (bounded 0 20 (tc_help_scaffolded_relation_ids c)) ''help_scaffolded_relation_ids'']"

definition ui_element_fields :: "ui_element \<Rightarrow> (bool \<times> py_error) list" where
  "ui_element_fields e =
     [field (bounded 1 120 (ue_element_id e)) ''element_id'',
      field (bounded 1 300 (ue_text e)) ''text'',
      (ue_hint_level e \<notin> {Some H1, Some H2, Some H3},
         ValueError ''a visible help card requires an H1-H3 hint level'')]"

definition request_fields :: "understanding_request \<Rightarrow> (bool \<times> py_error) list" where
  "request_fields r =
     [field (bounded 1 160 (req_task_id r)) ''task_id'',
      field (bounded 0 100 (req_fact_contexts r)) ''fact_contexts'',
      field (bounded 1 20 (req_targets r)) ''targets'',
      field (bounded 0 100 (cg_fact_ids (req_graph r))) ''fact_ids'',
      field (bounded 0 100 (cg_relation_ids (req_graph r))) ''relation_ids'',
      field (bounded 0 8 (req_ui_elements r)) ''visible_ui_elements'',
      field (bounded 0 6 (req_history r)) ''recent_history'',
      field (bounded 1 300 (req_child_utterance r)) ''child_utterance'',
      field (bounded 0 20 (req_guard_feedback_codes r)) ''guard_feedback_codes'']"

definition validate_understanding_request :: "understanding_request \<Rightarrow> unit res" where
  "validate_understanding_request r =
     bindr (check_all (request_fields r)) (\<lambda>_.
     bindr (for_each (\<lambda>c. check_all (fact_context_fields c)) (req_fact_contexts r)) (\<lambda>_.
     bindr (for_each validate_request_target (req_targets r)) (\<lambda>_.
     bindr (validate_claimable_graph (req_graph r)) (\<lambda>_.
     bindr (check_all (turn_context_fields (req_turn r))) (\<lambda>_.
     bindr (validate_help_scaffold_scope (req_turn r)) (\<lambda>_.
     bindr (for_each (\<lambda>e. check_all (ui_element_fields e)) (req_ui_elements r)) (\<lambda>_.
     targets_must_reference_the_claimable_graph r)))))))"

end
