(* ===== verification/Evidence.thy ===== *)
theory Evidence
  imports Schemas
begin

text \<open>
  The literal-evidence guard of \<^verbatim>\<open>dialogue_v2_evidence.py\<close>: the boundary between the
  understanding model and the reasoning ledger. It checks that every claim names a graph
  identifier and that its evidence span is a contiguous piece of the child's own words, and
  nothing else. Unicode NFC normalisation is table data of the Unicode database, so it is the
  parameter \<open>nfc\<close> of every definition that uses it; \<open>nfc_hangul\<close> is the algorithmic
  part of it that composes Hangul syllables, used to run the guard on Korean text.
\<close>

section \<open>Python string search\<close>

fun str_find :: "ustr \<Rightarrow> ustr \<Rightarrow> nat option" where
  "str_find [] p = (if p = [] then Some 0 else None)"
| "str_find (c # s) p =
     (if take (length p) (c # s) = p then Some 0 else map_option Suc (str_find s p))"

definition slice :: "ustr \<Rightarrow> nat \<Rightarrow> nat \<Rightarrow> ustr" where
  "slice s i j = take (j - i) (drop i s)"

lemma str_find_slice:
  "str_find s p = Some i \<Longrightarrow> i + length p \<le> length s \<and> slice s i (i + length p) = p"
proof (induction s arbitrary: i)
  case Nil
  then show ?case by (auto simp: slice_def split: if_splits)
next
  case (Cons c s)
  show ?case
  proof (cases "take (length p) (c # s) = p")
    case True
    with Cons.prems have "i = 0" by simp
    moreover from True have "length p \<le> length (c # s)" by (metis length_take min.cobounded1 min_def)
    ultimately show ?thesis using True by (simp add: slice_def)
  next
    case False
    with Cons.prems obtain k where "str_find s p = Some k" "i = Suc k" by auto
    with Cons.IH show ?thesis by (simp add: slice_def)
  qed
qed

lemma str_find_complete:
  "i + length p \<le> length s \<Longrightarrow> slice s i (i + length p) = p \<Longrightarrow> \<exists>k \<le> i. str_find s p = Some k"
proof (induction s arbitrary: i)
  case (Cons c s)
  then show ?case
  proof (cases i)
    case (Suc m)
    with Cons.prems have "m + length p \<le> length s" "slice s m (m + length p) = p"
      by (simp_all add: slice_def)
    from Cons.IH [OF this] Suc show ?thesis by auto
  qed (auto simp: slice_def)
qed (auto simp: slice_def)

lemma length_slice [simp]: "j \<le> length s \<Longrightarrow> length (slice s i j) = j - i"
  by (simp add: slice_def)

section \<open>The bare-result pattern\<close>

text \<open>
  \<^verbatim>\<open>_BARE_NUMERIC_RESULT_V2\<close> as a matcher that lists every remainder it can leave;
  \<^verbatim>\<open>fullmatch\<close> asks whether the empty remainder is among them. Code points: units
  \<^verbatim>\<open>won, myeong, gae, gwon, beon, hoe, jjok, jul, jan, jang\<close>, the copula endings, and the
  decimal digits of Unicode 15 (category Nd), which is what \<^verbatim>\<open>\d\<close> matches on a
  \<^verbatim>\<open>str\<close>.
\<close>

definition digit_starts :: "nat list" where
  "digit_starts = [48, 1632, 1776, 1984, 2406, 2534, 2662, 2790, 2918, 3046, 3174, 3302, 3430,
     3558, 3664, 3792, 3872, 4160, 4240, 6112, 6160, 6470, 6608, 6784, 6800, 6992, 7088, 7232,
     7248, 42528, 43216, 43264, 43472, 43504, 43600, 44016, 65296, 66720, 68912, 69734, 69872,
     69942, 70096, 70384, 70736, 70864, 71248, 71360, 71472, 71904, 72016, 72784, 73040, 73120,
     73552, 92768, 92864, 93008, 120782, 120792, 120802, 120812, 120822, 123200, 123632, 124144,
     125264, 130032]"

definition is_digit :: "nat \<Rightarrow> bool" where
  "is_digit c \<longleftrightarrow> (\<exists>lo \<in> set digit_starts. lo \<le> c \<and> c \<le> lo + 9)"

type_synonym matcher = "ustr \<Rightarrow> ustr list"

definition m_char :: "(nat \<Rightarrow> bool) \<Rightarrow> matcher" where
  "m_char p s = (case s of [] \<Rightarrow> [] | c # r \<Rightarrow> if p c then [r] else [])"

fun m_star :: "(nat \<Rightarrow> bool) \<Rightarrow> matcher" where
  "m_star p [] = [[]]"
| "m_star p (c # r) = (if p c then m_star p r @ [c # r] else [c # r])"

definition m_lit :: "ustr \<Rightarrow> matcher" where
  "m_lit u s = (if take (length u) s = u then [drop (length u) s] else [])"

definition m_seq :: "matcher \<Rightarrow> matcher \<Rightarrow> matcher" where
  "m_seq m n s = concat (map n (m s))"

definition m_alt :: "matcher list \<Rightarrow> matcher" where
  "m_alt ms s = concat (map (\<lambda>m. m s) ms)"

definition m_opt :: "matcher \<Rightarrow> matcher" where
  "m_opt m s = m s @ [s]"

fun m_all :: "matcher list \<Rightarrow> matcher" where
  "m_all [] s = [s]"
| "m_all (m # ms) s = m_seq m (m_all ms) s"

definition bare_units :: "ustr list" where
  "bare_units = [[50896], [47749], [44060], [44428], [48264], [54924], [51901], [51460], [51092], [51109]]"

definition bare_copulas :: "ustr list" where
  "bare_copulas = [[51060, 50556], [50556], [51060, 50640, 50836], [50696, 50836], [51077, 45768, 45796]]"

definition is_sign :: "nat \<Rightarrow> bool" where "is_sign c \<longleftrightarrow> c = 45 \<or> c = 43"
definition is_digit_or_comma :: "nat \<Rightarrow> bool" where "is_digit_or_comma c \<longleftrightarrow> is_digit c \<or> c = 44"
definition is_bare_punct :: "nat \<Rightarrow> bool" where "is_bare_punct c \<longleftrightarrow> c \<in> {46, 33, 63, 126, 94}"

definition bare_numeric_result :: matcher where
  "bare_numeric_result = m_all
     [m_star is_space,
      m_opt (m_char is_sign), m_char is_digit, m_star is_digit_or_comma,
      m_opt (m_all [m_lit [46], m_char is_digit, m_star is_digit]),
      m_star is_space, m_opt (m_alt (map m_lit bare_units)),
      m_star is_space, m_opt (m_alt (map m_lit bare_copulas)),
      m_star is_space, m_star is_bare_punct, m_star is_space]"

definition is_bare_numeric_result :: "ustr \<Rightarrow> bool" where
  "is_bare_numeric_result s \<longleftrightarrow> [] \<in> set (bare_numeric_result s)"

text \<open>A matcher consumes a prefix over an alphabet; the combinators keep that.\<close>

definition consumes :: "(nat \<Rightarrow> bool) \<Rightarrow> matcher \<Rightarrow> bool" where
  "consumes A m \<longleftrightarrow> (\<forall>s. \<forall>r \<in> set (m s). \<exists>u. s = u @ r \<and> list_all A u)"

named_theorems consumes_intros \<open>matchers that consume over an alphabet\<close>

lemma consumes_mono: "consumes A m \<Longrightarrow> (\<And>c. A c \<Longrightarrow> B c) \<Longrightarrow> consumes B m"
  unfolding consumes_def by (meson list.pred_mono_strong)

lemma consumes_char [consumes_intros]: "consumes p (m_char p)"
  unfolding consumes_def m_char_def by (auto split: list.splits if_splits intro: exI [where x = "[_]"])

lemma consumes_star_aux: "r \<in> set (m_star p s) \<Longrightarrow> \<exists>u. s = u @ r \<and> list_all p u"
proof (induction s)
  case (Cons c s)
  show ?case
  proof (cases "r = c # s")
    case True
    then show ?thesis by simp
  next
    case False
    with Cons.prems have "p c" "r \<in> set (m_star p s)" by (auto split: if_splits)
    with Cons.IH obtain u where "s = u @ r" "list_all p u" by blast
    with \<open>p c\<close> have "c # s = (c # u) @ r \<and> list_all p (c # u)" by simp
    then show ?thesis by blast
  qed
qed simp

lemma consumes_star [consumes_intros]: "consumes p (m_star p)"
  unfolding consumes_def using consumes_star_aux by blast

lemma consumes_lit [consumes_intros]: "list_all A u \<Longrightarrow> consumes A (m_lit u)"
  unfolding consumes_def m_lit_def by (metis append_take_drop_id empty_iff empty_set set_ConsD)

lemma consumes_seq [consumes_intros]:
  assumes "consumes A m" and "consumes A n"
  shows "consumes A (m_seq m n)"
  unfolding consumes_def
proof (intro allI ballI)
  fix s r
  assume "r \<in> set (m_seq m n s)"
  then obtain t where "t \<in> set (m s)" "r \<in> set (n t)" by (auto simp: m_seq_def)
  with assms obtain u v where "s = u @ t" "list_all A u" "t = v @ r" "list_all A v"
    unfolding consumes_def by metis
  then have "s = (u @ v) @ r \<and> list_all A (u @ v)" by simp
  then show "\<exists>u. s = u @ r \<and> list_all A u" by blast
qed

lemma consumes_alt [consumes_intros]:
  "(\<And>m. m \<in> set ms \<Longrightarrow> consumes A m) \<Longrightarrow> consumes A (m_alt ms)"
  unfolding consumes_def m_alt_def by auto

lemma consumes_opt [consumes_intros]: "consumes A m \<Longrightarrow> consumes A (m_opt m)"
  unfolding consumes_def m_opt_def by auto

lemma consumes_all [consumes_intros]:
  "(\<And>m. m \<in> set ms \<Longrightarrow> consumes A m) \<Longrightarrow> consumes A (m_all ms)"
proof (induction ms)
  case Nil
  then show ?case by (simp add: consumes_def)
next
  case (Cons m ms)
  then have "consumes A (m_seq m (m_all ms))" by (intro consumes_seq) auto
  then show ?case by (simp add: consumes_def)
qed

definition bare_alphabet :: "nat \<Rightarrow> bool" where
  "bare_alphabet c \<longleftrightarrow> is_space c \<or> is_sign c \<or> is_digit_or_comma c \<or> is_bare_punct c
     \<or> c \<in> set (concat bare_units) \<or> c \<in> set (concat bare_copulas)"

lemma bare_numeric_result_consumes: "consumes bare_alphabet bare_numeric_result"
proof -
  have sp: "consumes bare_alphabet (m_star is_space)"
    and sg: "consumes bare_alphabet (m_char is_sign)"
    and dg: "consumes bare_alphabet (m_char is_digit)"
    and ds: "consumes bare_alphabet (m_star is_digit)"
    and dc: "consumes bare_alphabet (m_star is_digit_or_comma)"
    and pu: "consumes bare_alphabet (m_star is_bare_punct)"
    by (rule consumes_mono, rule consumes_intros, simp add: bare_alphabet_def is_digit_or_comma_def)+
  have un: "consumes bare_alphabet (m_alt (map m_lit bare_units))"
    and co: "consumes bare_alphabet (m_alt (map m_lit bare_copulas))"
    by (rule consumes_alt, auto intro!: consumes_lit simp: list_all_iff bare_alphabet_def)+
  have dot: "consumes bare_alphabet (m_lit [46])"
    by (rule consumes_lit) (simp add: bare_alphabet_def is_bare_punct_def)
  have frac: "consumes bare_alphabet (m_all [m_lit [46], m_char is_digit, m_star is_digit])"
    by (rule consumes_all) (auto simp: dot dg ds)
  show ?thesis
    unfolding bare_numeric_result_def
    by (rule consumes_all) (auto simp: sp sg dg dc pu un co frac intro: consumes_opt)
qed

lemma bare_result_alphabet: "is_bare_numeric_result s \<Longrightarrow> list_all bare_alphabet s"
  using bare_numeric_result_consumes unfolding is_bare_numeric_result_def consumes_def by force

section \<open>Locating literal evidence\<close>

datatype match_kind = EXACT | UNICODE_NFC

datatype violation_code =
    UNKNOWN_FACT_ID
  | UNKNOWN_RELATION_ID
  | AUXILIARY_CLAIMS_DISABLED
  | EVIDENCE_NOT_LITERAL
  | RELATION_EVIDENCE_IS_BARE_RESULT

definition source_slices :: "ustr \<Rightarrow> (nat \<times> nat) list" where
  "source_slices s =
     concat (map (\<lambda>i. map (\<lambda>j. (i, j)) [Suc i..<Suc (length s)]) [0..<length s])"

definition literal_evidence_match ::
    "(ustr \<Rightarrow> ustr) \<Rightarrow> ustr \<Rightarrow> ustr \<Rightarrow> (nat \<times> nat \<times> match_kind) option" where
  "literal_evidence_match nfc child_utterance evidence =
     (case str_find child_utterance evidence of
        Some exact_start \<Rightarrow> Some (exact_start, exact_start + length evidence, EXACT)
      | None \<Rightarrow>
          let normalized = nfc evidence
          in if str_find (nfc child_utterance) normalized = None then None
             else case List.find (\<lambda>(i, j). nfc (slice child_utterance i j) = normalized)
                         (source_slices child_utterance) of
                    None \<Rightarrow> None
                  | Some (i, j) \<Rightarrow> Some (i, j, UNICODE_NFC))"

lemma source_slices_mem: "(i, j) \<in> set (source_slices s) \<longleftrightarrow> i < j \<and> j \<le> length s"
  by (auto simp: source_slices_def simp del: upt_Suc intro!: bexI [where x = i])

text \<open>
  Soundness of the search: the returned range is a non-empty range of the child's utterance
  whose text is the evidence, exactly or up to NFC.
\<close>

lemma literal_evidence_match_sound:
  assumes "literal_evidence_match nfc s p = Some (i, j, k)" and "p \<noteq> []"
  shows "i < j" and "j \<le> length s"
    and "k = EXACT \<Longrightarrow> slice s i j = p"
    and "nfc (slice s i j) = nfc p"
proof -
  have "i < j \<and> j \<le> length s \<and> (k = EXACT \<longrightarrow> slice s i j = p) \<and> nfc (slice s i j) = nfc p"
  proof (cases "str_find s p")
    case (Some a)
    with assms str_find_slice [OF Some] show ?thesis
      by (auto simp: literal_evidence_match_def)
  next
    case None
    with assms have
      "List.find (\<lambda>(i, j). nfc (slice s i j) = nfc p) (source_slices s) = Some (i, j)"
      and "k = UNICODE_NFC"
      by (auto simp: literal_evidence_match_def Let_def split: if_splits option.splits)
    then show ?thesis by (auto simp: source_slices_mem dest!: find_Some_mem)
  qed
  then show "i < j" and "j \<le> length s"
    and "k = EXACT \<Longrightarrow> slice s i j = p" and "nfc (slice s i j) = nfc p" by auto
qed

section \<open>Admission of claims\<close>

record evidence_match =
  em_claim_id :: string
  em_source_start :: nat
  em_source_end :: nat
  em_source_text :: ustr
  em_match_kind :: match_kind

record guard_violation =
  gv_claim_id :: string
  gv_code :: violation_code

record guarded_understanding =
  response :: understanding_response
  evidence_matches :: "evidence_match list"

record understanding_admission =
  guarded :: guarded_understanding
  quarantined_claims :: "guard_violation list"

definition needs_repair :: "understanding_admission \<Rightarrow> bool" where
  "needs_repair a \<longleftrightarrow> quarantined_claims a \<noteq> []"

definition match_boundaries_ok :: "evidence_match \<Rightarrow> bool" where
  "match_boundaries_ok m \<longleftrightarrow>
     0 < em_source_end m \<and> em_source_start m < em_source_end m
     \<and> em_source_end m - em_source_start m = length (em_source_text m)
     \<and> bounded 1 300 (em_source_text m)"

definition violation :: "understanding_claim \<Rightarrow> violation_code \<Rightarrow> guard_violation" where
  "violation c code = \<lparr>gv_claim_id = claim_id c, gv_code = code\<rparr>"

fun graph_violations :: "claimable_graph \<Rightarrow> understanding_claim \<Rightarrow> guard_violation list" where
  "graph_violations g (FactClaim c) =
     (if fc_fact_id c \<notin> set (cg_fact_ids g) then [violation (FactClaim c) UNKNOWN_FACT_ID] else [])"
| "graph_violations g (RelationClaim c) =
     (if rc_relation_id c \<notin> set (cg_relation_ids g)
      then [violation (RelationClaim c) UNKNOWN_RELATION_ID] else [])"
| "graph_violations g (AuxiliaryClaim c) =
     (if \<not> cg_open_auxiliary_claims g
      then [violation (AuxiliaryClaim c) AUXILIARY_CLAIMS_DISABLED] else [])"

fun bare_relation_evidence :: "understanding_claim \<Rightarrow> bool" where
  "bare_relation_evidence (RelationClaim c) \<longleftrightarrow>
     rc_verdict c \<in> {Correct, Sufficient} \<and> is_bare_numeric_result (rc_evidence_span c)"
| "bare_relation_evidence _ \<longleftrightarrow> False"

definition make_match ::
    "ustr \<Rightarrow> understanding_claim \<Rightarrow> nat \<times> nat \<times> match_kind \<Rightarrow> evidence_match" where
  "make_match utterance c m =
     (case m of (i, j, k) \<Rightarrow>
        \<lparr>em_claim_id = claim_id c, em_source_start = i, em_source_end = j,
         em_source_text = slice utterance i j, em_match_kind = k\<rparr>)"

definition admitted_ui_reference ::
    "(ustr \<Rightarrow> ustr) \<Rightarrow> understanding_request \<Rightarrow> understanding_response \<Rightarrow> ui_reference option" where
  "admitted_ui_reference nfc request resp =
     (case ui_reference resp of
        None \<Rightarrow> None
      | Some ref \<Rightarrow>
          if ur_element_id ref \<notin> set (map ue_element_id (req_ui_elements request)) then None
          else if literal_evidence_match nfc (req_child_utterance request) (ur_evidence_span ref)
                    = None then None
          else Some ref)"

text \<open>The strict guard: one violation anywhere rejects the whole response.\<close>

definition guard_step ::
    "(ustr \<Rightarrow> ustr) \<Rightarrow> understanding_request \<Rightarrow> guard_violation list \<times> evidence_match list
     \<Rightarrow> understanding_claim \<Rightarrow> guard_violation list \<times> evidence_match list" where
  "guard_step nfc request acc c =
     (case acc of (violations, matches) \<Rightarrow>
       let violations = violations @ graph_violations (req_graph request) c
       in case literal_evidence_match nfc (req_child_utterance request) (evidence_span c) of
            None \<Rightarrow> (violations @ [violation c EVIDENCE_NOT_LITERAL], matches)
          | Some m \<Rightarrow>
              if bare_relation_evidence c
              then (violations @ [violation c RELATION_EVIDENCE_IS_BARE_RESULT], matches)
              else (violations, matches @ [make_match (req_child_utterance request) c m]))"

definition guard_understanding_response ::
    "(ustr \<Rightarrow> ustr) \<Rightarrow> understanding_request \<Rightarrow> understanding_response
     \<Rightarrow> guard_violation list + guarded_understanding" where
  "guard_understanding_response nfc request resp =
     (case foldl (guard_step nfc request) ([], []) (claims resp) of
        (violations, matches) \<Rightarrow>
          if violations \<noteq> [] then Inl violations
          else Inr \<lparr>response = resp\<lparr>ui_reference := admitted_ui_reference nfc request resp\<rparr>,
                    evidence_matches = matches\<rparr>)"

text \<open>Claim-level admission: only the claims with a violation are quarantined.\<close>

definition claim_violations ::
    "(ustr \<Rightarrow> ustr) \<Rightarrow> understanding_request \<Rightarrow> understanding_claim \<Rightarrow> guard_violation list" where
  "claim_violations nfc request c =
     graph_violations (req_graph request) c
     @ (case literal_evidence_match nfc (req_child_utterance request) (evidence_span c) of
          None \<Rightarrow> [violation c EVIDENCE_NOT_LITERAL]
        | Some m \<Rightarrow>
            if bare_relation_evidence c
            then [violation c RELATION_EVIDENCE_IS_BARE_RESULT] else [])"

definition admit_step ::
    "(ustr \<Rightarrow> ustr) \<Rightarrow> understanding_request
     \<Rightarrow> understanding_claim list \<times> evidence_match list \<times> guard_violation list
     \<Rightarrow> understanding_claim
     \<Rightarrow> understanding_claim list \<times> evidence_match list \<times> guard_violation list" where
  "admit_step nfc request acc c =
     (case acc of (accepted, matches, quarantined) \<Rightarrow>
       let vs = claim_violations nfc request c
       in if vs \<noteq> [] then (accepted, matches, quarantined @ vs)
          else (case literal_evidence_match nfc (req_child_utterance request) (evidence_span c) of
                  None \<Rightarrow> (accepted, matches, quarantined)
                | Some m \<Rightarrow>
                    (accepted @ [c], matches @ [make_match (req_child_utterance request) c m],
                     quarantined)))"

definition admit_understanding_response ::
    "(ustr \<Rightarrow> ustr) \<Rightarrow> understanding_request \<Rightarrow> understanding_response \<Rightarrow> understanding_admission" where
  "admit_understanding_response nfc request resp =
     (case foldl (admit_step nfc request) ([], [], []) (claims resp) of
        (accepted, matches, quarantined) \<Rightarrow>
          \<lparr>guarded =
             \<lparr>response = resp\<lparr>claims := accepted, contains_learning_evidence := accepted \<noteq> [],
                ui_reference := admitted_ui_reference nfc request resp\<rparr>,
              evidence_matches = matches\<rparr>,
           quarantined_claims = quarantined\<rparr>)"

section \<open>What the guard admits\<close>

definition claim_admissible ::
    "(ustr \<Rightarrow> ustr) \<Rightarrow> understanding_request \<Rightarrow> understanding_claim \<Rightarrow> bool" where
  "claim_admissible nfc request c \<longleftrightarrow> claim_violations nfc request c = []"

definition match_for ::
    "(ustr \<Rightarrow> ustr) \<Rightarrow> understanding_request \<Rightarrow> understanding_claim \<Rightarrow> evidence_match" where
  "match_for nfc request c =
     make_match (req_child_utterance request) c
       (the (literal_evidence_match nfc (req_child_utterance request) (evidence_span c)))"

lemma admissible_has_match:
  "claim_admissible nfc request c \<Longrightarrow>
     \<exists>m. literal_evidence_match nfc (req_child_utterance request) (evidence_span c) = Some m"
  by (auto simp: claim_admissible_def claim_violations_def split: option.splits)

lemma admit_step_eq:
  "admit_step nfc request (a, m, q) c =
     (if claim_admissible nfc request c
      then (a @ [c], m @ [match_for nfc request c], q)
      else (a, m, q @ claim_violations nfc request c))"
  using admissible_has_match [of nfc request c]
  by (auto simp: admit_step_def claim_admissible_def match_for_def Let_def)

lemma admit_fold:
  "foldl (admit_step nfc request) (a, m, q) cs =
     (a @ filter (claim_admissible nfc request) cs,
      m @ map (match_for nfc request) (filter (claim_admissible nfc request) cs),
      q @ concat (map (claim_violations nfc request) cs))"
  by (induction cs arbitrary: a m q) (auto simp: admit_step_eq claim_admissible_def)

lemma guard_step_eq:
  "guard_step nfc request (v, m) c =
     (v @ claim_violations nfc request c,
      m @ (if literal_evidence_match nfc (req_child_utterance request) (evidence_span c) = None
              \<or> bare_relation_evidence c then [] else [match_for nfc request c]))"
  by (auto simp: guard_step_def claim_violations_def match_for_def Let_def split: option.splits)

lemma guard_fold_violations:
  "fst (foldl (guard_step nfc request) (v, m) cs) = v @ concat (map (claim_violations nfc request) cs)"
  by (induction cs arbitrary: v m) (auto simp: guard_step_eq)

lemma guard_fold_matches:
  "\<forall>c \<in> set cs. claim_admissible nfc request c \<Longrightarrow>
   snd (foldl (guard_step nfc request) (v, m) cs) = m @ map (match_for nfc request) cs"
  by (induction cs arbitrary: v m)
    (auto simp: guard_step_eq claim_admissible_def claim_violations_def
      split: option.splits if_splits)

lemma admitted_claims:
  "claims (response (guarded (admit_understanding_response nfc request resp)))
     = filter (claim_admissible nfc request) (claims resp)"
  by (simp add: admit_understanding_response_def admit_fold)

lemma admitted_matches:
  "evidence_matches (guarded (admit_understanding_response nfc request resp))
     = map (match_for nfc request) (filter (claim_admissible nfc request) (claims resp))"
  by (simp add: admit_understanding_response_def admit_fold)

lemma quarantined_eq:
  "quarantined_claims (admit_understanding_response nfc request resp)
     = concat (map (claim_violations nfc request) (claims resp))"
  by (simp add: admit_understanding_response_def admit_fold)

lemma em_claim_id_match_for [simp]: "em_claim_id (match_for nfc request c) = claim_id c"
  by (simp add: match_for_def make_match_def split: prod.splits)

lemma match_for_sound:
  assumes "claim_admissible nfc request c" and "evidence_span c \<noteq> []"
  defines "m \<equiv> match_for nfc request c"
  shows "em_source_start m < em_source_end m \<and> em_source_end m \<le> length (req_child_utterance request)
    \<and> em_source_text m = slice (req_child_utterance request) (em_source_start m) (em_source_end m)
    \<and> nfc (em_source_text m) = nfc (evidence_span c)
    \<and> (em_match_kind m = EXACT \<longrightarrow> em_source_text m = evidence_span c)"
proof -
  obtain i j k where "literal_evidence_match nfc (req_child_utterance request) (evidence_span c) = Some (i, j, k)"
    using admissible_has_match [OF assms(1)] by auto
  with literal_evidence_match_sound [OF this assms(2)] show ?thesis
    by (simp add: m_def match_for_def make_match_def)
qed

lemma match_for_boundaries:
  assumes "claim_admissible nfc request c" and "evidence_span c \<noteq> []"
    and "length (req_child_utterance request) \<le> 300"
  shows "match_boundaries_ok (match_for nfc request c)"
proof -
  obtain i j k where m: "literal_evidence_match nfc (req_child_utterance request) (evidence_span c)
      = Some (i, j, k)"
    using admissible_has_match [OF assms(1)] by auto
  from literal_evidence_match_sound [OF m assms(2)] m assms(3) show ?thesis
    by (auto simp: match_for_def make_match_def match_boundaries_ok_def bounded_def)
qed

lemma quarantined_empty_iff:
  "quarantined_claims (admit_understanding_response nfc request resp) = []
     \<longleftrightarrow> (\<forall>c \<in> set (claims resp). claim_admissible nfc request c)"
  by (auto simp: quarantined_eq claim_admissible_def)

lemma guard_accepts_iff:
  "(\<exists>g. guard_understanding_response nfc request resp = Inr g)
     \<longleftrightarrow> (\<forall>c \<in> set (claims resp). claim_admissible nfc request c)"
  using guard_fold_violations [of nfc request "[]" "[]" "claims resp"]
  by (auto simp: guard_understanding_response_def claim_admissible_def split: prod.splits)

section \<open>Hangul composition\<close>

text \<open>
  The arithmetic part of NFC: a leading consonant and a vowel compose, and so do an open
  syllable and a trailing consonant.
\<close>

fun nfc_hangul :: "ustr \<Rightarrow> ustr" where
  "nfc_hangul [] = []"
| "nfc_hangul [a] = [a]"
| "nfc_hangul (a # b # s) =
     (if 4352 \<le> a \<and> a < 4371 \<and> 4449 \<le> b \<and> b < 4470
      then nfc_hangul ((44032 + ((a - 4352) * 21 + (b - 4449)) * 28) # s)
      else if 44032 \<le> a \<and> a < 55204 \<and> (a - 44032) mod 28 = 0 \<and> 4520 \<le> b \<and> b < 4547
      then nfc_hangul ((a + (b - 4519)) # s)
      else a # nfc_hangul (b # s))"

end
