(* ===== verification/Content.thy ===== *)
theory Content
  imports Evidence
begin

text \<open>
  The reviewed content packs: the typed fact and relation graph of
  \<^verbatim>\<open>dialogue_v2_content.py\<close> and \<^verbatim>\<open>dialogue_v2_life_content.py\<close>, the
  question, choice, joint-action and help plans built on it, and the validators that reject an
  inconsistent pack before a conversation can use it. Decimal arithmetic is exact rational
  arithmetic (the numbers of a pack have far fewer than the 28 digits of Python's decimal
  context).
\<close>

section \<open>Facts and relations\<close>

datatype fact_role =
  Visible_Condition | Visible_Value | Intermediate_Result | Final_Answer | Selection_Role

datatype operation =
  Counting | Comparison | Addition | Subtraction | Multiplication | Division | Selection

record content_fact =
  fact_id :: string
  fact_role :: fact_role
  fact_value :: canonical_value
  fact_label :: ustr
  initially_visible :: bool
  fact_required :: bool
  surface_forms :: "ustr list"

record rubric =
  rb_sufficient :: "ustr list"
  rb_partial :: "ustr list"
  rb_incorrect :: "ustr list"

record content_relation =
  relation_id :: string
  rel_role :: string
  operation :: operation
  input_fact_ids :: "string list"
  output_fact_id :: string
  evaluation_mode :: string
  rel_label :: ustr
  rel_rubric :: rubric
  rel_required :: bool

record completion_contract =
  required_fact_ids :: "string list"
  required_relation_ids :: "string list"

record reasoning_graph =
  facts :: "content_fact list"
  relations :: "content_relation list"
  completion :: completion_contract
  open_auxiliary_claims :: bool

section \<open>Numbers in reviewed text\<close>

fun decimal_value :: "canonical_value \<Rightarrow> rat res" where
  "decimal_value (MoneyValue a _) = Inr (num_value a)"
| "decimal_value (NumberValue a _) = Inr (num_value a)"
| "decimal_value _ = Inl (ValueError ''arithmetic relation facts must use typed numeric values'')"

fun is_numeric :: "canonical_value \<Rightarrow> bool" where
  "is_numeric (MoneyValue _ _) = True"
| "is_numeric (NumberValue _ _) = True"
| "is_numeric _ = False"

datatype dimension = Money_Dim string | Number_Dim "string option"

fun numeric_dimension :: "canonical_value \<Rightarrow> dimension res" where
  "numeric_dimension (MoneyValue _ c) = Inr (Money_Dim c)"
| "numeric_dimension (NumberValue _ u) = Inr (Number_Dim u)"
| "numeric_dimension _ = Inl (ValueError ''arithmetic relation facts must use typed numeric values'')"

fun is_money_dim :: "dimension \<Rightarrow> bool" where
  "is_money_dim (Money_Dim _) = True"
| "is_money_dim (Number_Dim _) = False"

text \<open>
  The token \<^verbatim>\<open>\d[\d,]*(?:\.\d+)?\<close>. Every part is greedy and no later part can use what
  an earlier one gives back, so the longest token is the only one the pattern can take; a
  decimal digit of any script has the value of its offset in its block of ten.
\<close>

definition digit_val :: "nat \<Rightarrow> nat" where
  "digit_val c = (case List.find (\<lambda>lo. lo \<le> c \<and> c \<le> lo + 9) digit_starts of
                    None \<Rightarrow> 0 | Some lo \<Rightarrow> c - lo)"

fun digits_val :: "nat \<Rightarrow> ustr \<Rightarrow> nat" where
  "digits_val acc [] = acc"
| "digits_val acc (c # s) =
     (if is_digit c then digits_val (10 * acc + digit_val c) s else digits_val acc s)"

definition number_token :: "ustr \<Rightarrow> (rat \<times> ustr) option" where
  "number_token s =
     (case s of
        [] \<Rightarrow> None
      | c # r \<Rightarrow>
          if \<not> is_digit c then None
          else let whole = c # takeWhile is_digit_or_comma r;
                   rest = dropWhile is_digit_or_comma r;
                   frac = (case rest of [] \<Rightarrow> []
                           | d # r' \<Rightarrow> if d = 46 then takeWhile is_digit r' else [])
               in if frac = [] then Some (of_nat (digits_val 0 whole), rest)
                  else Some (of_nat (digits_val 0 whole)
                               + of_nat (digits_val 0 frac) / 10 ^ length frac,
                             drop (Suc (length frac)) rest))"

lemma dropWhile_Cons_length: "dropWhile p xs = y # ys \<Longrightarrow> length ys < length xs"
  by (metis length_Cons length_dropWhile_le less_eq_Suc_le)

lemma number_token_shorter: "number_token s = Some (q, r) \<Longrightarrow> length r < length s"
  by (auto simp: number_token_def Let_def less_Suc_eq_le length_dropWhile_le
      dest!: dropWhile_Cons_length split: list.splits if_splits)

function text_numbers :: "ustr \<Rightarrow> rat list" where
  "text_numbers [] = []"
| "text_numbers (c # s) =
     (case number_token (c # s) of
        None \<Rightarrow> text_numbers s
      | Some (q, r) \<Rightarrow> q # text_numbers r)"
  by pat_completeness auto
termination
  by (relation "measure length") (auto dest: number_token_shorter)

text \<open>
  \<^verbatim>\<open>_ARITHMETIC_EQUATION\<close>: a chain of tokens joined by \<open>+\<close>, \<open>\<times>\<close>,
  \<open>\<div>\<close> or \<open>-\<close> (code points 43, 215, 247, 45), an equals sign and a token.
\<close>

definition is_operator :: "nat \<Rightarrow> bool" where
  "is_operator c \<longleftrightarrow> c \<in> {43, 215, 247, 45}"

definition skip_space :: "ustr \<Rightarrow> ustr" where
  "skip_space s = dropWhile is_space s"

lemma skip_space_length: "length (skip_space s) \<le> length s"
  by (simp add: skip_space_def length_dropWhile_le)

function expression_tail :: "ustr \<Rightarrow> (nat \<times> rat) list \<times> ustr" where
  "expression_tail s =
     (case skip_space s of
        [] \<Rightarrow> ([], s)
      | c # r \<Rightarrow>
          if is_operator c then
            (case number_token (skip_space r) of
               None \<Rightarrow> ([], s)
             | Some (q, r') \<Rightarrow> (case expression_tail r' of (ts, r'') \<Rightarrow> ((c, q) # ts, r'')))
          else ([], s))"
  by pat_completeness auto
termination
proof (relation "measure length", goal_cases)
  case (2 s c r p q r')
  have "length r' < length (skip_space r)" using 2 by (auto dest: number_token_shorter)
  also have "\<dots> \<le> length r" by (rule skip_space_length)
  also have "\<dots> < length (skip_space s)" using 2 by simp
  also have "\<dots> \<le> length s" by (rule skip_space_length)
  finally show ?case by simp
qed simp

declare expression_tail.simps [simp del]

record equation =
  eq_first :: rat
  eq_steps :: "(nat \<times> rat) list"
  eq_result :: rat

definition equation_at :: "ustr \<Rightarrow> (equation \<times> ustr) option" where
  "equation_at s =
     (case number_token s of
        None \<Rightarrow> None
      | Some (q, r) \<Rightarrow>
         (case expression_tail r of
            ([], _) \<Rightarrow> None
          | (ts, r') \<Rightarrow>
             (case skip_space r' of
                [] \<Rightarrow> None
              | c # r'' \<Rightarrow>
                  if c = 61 then
                    (case number_token (skip_space r'') of
                       None \<Rightarrow> None
                     | Some (res, rest) \<Rightarrow>
                         Some (\<lparr>eq_first = q, eq_steps = ts, eq_result = res\<rparr>,
                               drop (length s - length rest) s))
                  else None)))"

lemma number_token_nonempty: "number_token s = Some x \<Longrightarrow> s \<noteq> []"
  by (auto simp: number_token_def)

function equations :: "ustr \<Rightarrow> equation list" where
  "equations [] = []"
| "equations (c # s) =
     (case equation_at (c # s) of
        None \<Rightarrow> equations s
      | Some (e, r) \<Rightarrow> if length r < length (c # s) then e # equations r else [e])"
  by pat_completeness auto
termination
  by (relation "measure length") auto

definition equation_holds :: "equation \<Rightarrow> unit res" where
  "equation_holds e =
    (let operators = map fst (eq_steps e);
         operands = eq_first e # map snd (eq_steps e)
     in if operators = [] \<or> length (remdups operators) \<noteq> 1
        then Inl (ValueError ''authored equations must use one explicit operation'')
        else
          bindr
           (if hd operators = 43 then Inr (sum_list operands)
            else if hd operators = 215 then Inr (prod_list operands)
            else if length operands \<noteq> 2
              then Inl (ValueError ''subtraction and division equations must be binary'')
            else if hd operators = 45 then Inr (operands ! 0 - operands ! 1)
            else if operands ! 1 = 0
              then Inl (ValueError ''authored equation cannot divide by zero'')
            else Inr (operands ! 0 / operands ! 1))
           (\<lambda>expected.
              if expected \<noteq> eq_result e
              then Inl (ValueError ''child-facing authored equation is mathematically invalid'')
              else Inr ()))"

definition validate_authored_equations :: "ustr \<Rightarrow> unit res" where
  "validate_authored_equations s = for_each equation_holds (equations s)"

section \<open>Relations are arithmetically true\<close>

fun is_choice :: "canonical_value \<Rightarrow> bool" where
  "is_choice (ChoiceValue _) = True"
| "is_choice _ = False"

fun is_number :: "canonical_value \<Rightarrow> bool" where
  "is_number (NumberValue _ _) = True"
| "is_number _ = False"

definition expected_choice :: "rat \<Rightarrow> rat \<Rightarrow> string" where
  "expected_choice a b = (if a > b then ''left'' else if a < b then ''right'' else ''same'')"

definition validate_comparison :: "canonical_value list \<Rightarrow> rat list \<Rightarrow> canonical_value \<Rightarrow> unit res" where
  "validate_comparison inputs ns output =
     bindr (check (length inputs = 2 \<and> is_choice output)
              ''comparison needs two numeric inputs and one choice output'') (\<lambda>_.
     bindr (numeric_dimension (inputs ! 0)) (\<lambda>d0.
     bindr (numeric_dimension (inputs ! 1)) (\<lambda>d1.
     bindr (check (d0 = d1) ''comparison inputs must use the same numeric dimension'') (\<lambda>_.
     check (output = ChoiceValue (expected_choice (ns ! 0) (ns ! 1)))
       ''relation comparison result is invalid''))))"

definition validate_additive ::
    "operation \<Rightarrow> canonical_value list \<Rightarrow> rat list \<Rightarrow> canonical_value \<Rightarrow> rat \<Rightarrow> unit res" where
  "validate_additive op inputs ns output out =
     bindr (check (\<not> (op = Subtraction \<and> length inputs \<noteq> 2))
              ''subtraction relation must have exactly two ordered inputs'') (\<lambda>_.
     bindr (mapr numeric_dimension (inputs @ [output])) (\<lambda>dims.
     bindr (check (length (remdups dims) = 1) ''inputs and output must share a dimension'') (\<lambda>_.
     check (out = (if op = Addition then sum_list ns else ns ! 0 - ns ! 1))
       ''relation arithmetic result is invalid'')))"

definition validate_multiplicative ::
    "operation \<Rightarrow> canonical_value list \<Rightarrow> rat list \<Rightarrow> canonical_value \<Rightarrow> rat \<Rightarrow> unit res" where
  "validate_multiplicative op inputs ns output out =
     bindr (check (length inputs = 2) ''relation must have exactly two ordered inputs'') (\<lambda>_.
     bindr (numeric_dimension (inputs ! 0)) (\<lambda>l.
     bindr (numeric_dimension (inputs ! 1)) (\<lambda>r.
     bindr (numeric_dimension output) (\<lambda>d.
     if op = Multiplication then
       bindr (if is_money_dim l \<and> \<not> is_money_dim r
              then check (d = l) ''money multiplied by a count must produce the same currency''
              else check (\<not> is_money_dim l \<and> \<not> is_money_dim r \<and> \<not> is_money_dim d)
                     ''unsupported multiplication dimensions'') (\<lambda>_.
       check (out = ns ! 0 * ns ! 1) ''relation arithmetic result is invalid'')
     else
       bindr (check (ns ! 1 \<noteq> 0) ''division relation cannot divide by zero'') (\<lambda>_.
       bindr (if is_money_dim l \<and> \<not> is_money_dim r
              then check (d = l) ''money divided by a count must produce the same currency''
              else if is_money_dim l \<and> is_money_dim r
              then check (l = r \<and> \<not> is_money_dim d) ''money divided by money must produce a number''
              else check (\<not> is_money_dim l \<and> \<not> is_money_dim r \<and> \<not> is_money_dim d)
                     ''unsupported division dimensions'') (\<lambda>_.
       check (out * ns ! 1 = ns ! 0) ''relation arithmetic result is invalid''))))))"

definition validate_relation_math ::
    "(string, content_fact) dict \<Rightarrow> content_relation \<Rightarrow> unit res" where
  "validate_relation_math fs rel =
     bindr (mapr (\<lambda>i. bindr (py_index fs i) (\<lambda>f. Inr (fact_value f))) (input_fact_ids rel)) (\<lambda>inputs.
     bindr (py_index fs (output_fact_id rel)) (\<lambda>out_fact.
     let output = fact_value out_fact; op = operation rel in
     bindr (check (distinct (input_fact_ids rel)) ''relation inputs must be unique'') (\<lambda>_.
     if op = Counting then check (is_number output) ''counting relation output must be a typed number''
     else
       bindr (mapr decimal_value inputs) (\<lambda>ns.
       if op = Comparison then validate_comparison inputs ns output
       else bindr (decimal_value output) (\<lambda>out.
         if op \<in> {Addition, Subtraction} then validate_additive op inputs ns output out
         else validate_multiplicative op inputs ns output out)))))"

definition validate_relation_rubric ::
    "(string, content_fact) dict \<Rightarrow> content_relation \<Rightarrow> unit res" where
  "validate_relation_rubric fs rel =
     bindr (mapr (py_index fs) (input_fact_ids rel @ [output_fact_id rel])) (\<lambda>used.
     bindr (mapr (\<lambda>f. decimal_value (fact_value f)) (filter (\<lambda>f. is_numeric (fact_value f)) used))
       (\<lambda>allowed.
     for_each (\<lambda>line.
         bindr (check (set (text_numbers line) \<subseteq> set allowed) ''relation rubric contains an undeclared value'')
           (\<lambda>_. validate_authored_equations line))
       (rb_sufficient (rel_rubric rel) @ rb_partial (rel_rubric rel) @ rb_incorrect (rel_rubric rel))))"

text \<open>What a numeric relation means, independently of how it is checked.\<close>

definition relation_true :: "(string \<Rightarrow> rat) \<Rightarrow> content_relation \<Rightarrow> bool" where
  "relation_true val rel =
     (let xs = map val (input_fact_ids rel); y = val (output_fact_id rel) in
      case operation rel of
        Addition \<Rightarrow> y = sum_list xs
      | Subtraction \<Rightarrow> length xs = 2 \<and> y = xs ! 0 - xs ! 1
      | Multiplication \<Rightarrow> length xs = 2 \<and> y = xs ! 0 * xs ! 1
      | Division \<Rightarrow> length xs = 2 \<and> xs ! 1 \<noteq> 0 \<and> y = xs ! 0 / xs ! 1
      | _ \<Rightarrow> True)"

fun numeric_part :: "canonical_value \<Rightarrow> rat" where
  "numeric_part (MoneyValue a _) = num_value a"
| "numeric_part (NumberValue a _) = num_value a"
| "numeric_part _ = 0"

definition graph_number :: "(string, content_fact) dict \<Rightarrow> string \<Rightarrow> rat" where
  "graph_number fs i = (case dict_get fs i of None \<Rightarrow> 0 | Some f \<Rightarrow> numeric_part (fact_value f))"

lemma decimal_value_numeric_part: "decimal_value v = Inr q \<Longrightarrow> numeric_part v = q"
  by (cases v) auto

lemma input_values:
  assumes "mapr (\<lambda>i. bindr (py_index fs i) (\<lambda>f. Inr (fact_value f))) is = Inr inputs"
    and "mapr decimal_value inputs = Inr ns"
  shows "map (graph_number fs) is = ns"
  using assms
proof (induction "is" arbitrary: inputs ns)
  case (Cons i "is")
  then obtain f vs q qs where "dict_get fs i = Some f" "inputs = fact_value f # vs"
    "mapr (\<lambda>i. bindr (py_index fs i) (\<lambda>f. Inr (fact_value f))) is = Inr vs"
    "decimal_value (fact_value f) = Inr q" "mapr decimal_value vs = Inr qs" "ns = q # qs"
    by (auto simp: bindr_eq_Inr py_index_Inr)
  with Cons.IH show ?case
    by (auto simp: graph_number_def decimal_value_numeric_part)
qed auto

lemma validate_relation_math_true:
  assumes "validate_relation_math fs rel = Inr ()"
  shows "relation_true (graph_number fs) rel"
proof (cases "operation rel \<in> {Addition, Subtraction, Multiplication, Division}")
  case False
  then show ?thesis by (cases "operation rel") (simp_all add: relation_true_def)
next
  case True
  from assms True obtain inputs ns out f where
    i: "mapr (\<lambda>i. bindr (py_index fs i) (\<lambda>f. Inr (fact_value f))) (input_fact_ids rel) = Inr inputs"
    and n: "mapr decimal_value inputs = Inr ns"
    and f: "dict_get fs (output_fact_id rel) = Some f"
    and o: "decimal_value (fact_value f) = Inr out"
    and c: "if operation rel \<in> {Addition, Subtraction}
            then validate_additive (operation rel) inputs ns (fact_value f) out = Inr ()
            else validate_multiplicative (operation rel) inputs ns (fact_value f) out = Inr ()"
    by (auto simp: validate_relation_math_def Let_def bindr_eq_Inr py_index_Inr split: if_splits)
  have ns: "map (graph_number fs) (input_fact_ids rel) = ns" using i n by (rule input_values)
  have len: "length ns = length inputs" using n by (rule mapr_length)
  have out: "graph_number fs (output_fact_id rel) = out"
    using f o by (simp add: graph_number_def decimal_value_numeric_part)
  show ?thesis
  proof (cases "operation rel \<in> {Addition, Subtraction}")
    case True
    with c ns len out show ?thesis
      by (auto simp: relation_true_def Let_def validate_additive_def bindr_eq_Inr check_Inr
          split: if_splits)
  next
    case False
    with True c ns len out show ?thesis
      by (auto simp: relation_true_def Let_def validate_multiplicative_def bindr_eq_Inr check_Inr
          eq_divide_eq split: if_splits)
  qed
qed

section \<open>Facts\<close>

definition derived_role :: "fact_role \<Rightarrow> bool" where
  "derived_role r \<longleftrightarrow> r \<in> {Intermediate_Result, Final_Answer}"

definition surface_ok :: "canonical_value \<Rightarrow> ustr \<Rightarrow> unit res" where
  "surface_ok v surface =
     bindr (decimal_value v) (\<lambda>expected.
       let numbers = text_numbers surface
       in check (numbers = [] \<or> numbers = [expected])
            ''numeric fact surface form must equal canonical truth'')"

definition validate_visibility_and_aliases :: "content_fact \<Rightarrow> unit res" where
  "validate_visibility_and_aliases f =
     bindr (check_all
       [(derived_role (fact_role f) \<and> initially_visible f,
           ValueError ''derived facts cannot be initially visible''),
        (fact_required f \<and> surface_forms f = [],
           ValueError ''required facts need accepted surface forms''),
        (\<not> distinct (surface_forms f), ValueError ''fact surface forms must be unique'')])
     (\<lambda>_. if is_numeric (fact_value f) then for_each (surface_ok (fact_value f)) (surface_forms f)
           else Inr ())"

text \<open>
  Field constraints on identifiers: \<^verbatim>\<open>_ID_PATTERN\<close> is
  \<^verbatim>\<open>^[a-z][a-z0-9_.-]*$\<close>, with at most 120 characters for graph identifiers.
\<close>

definition code_in :: "char \<Rightarrow> nat \<Rightarrow> nat \<Rightarrow> bool" where
  "code_in c lo hi \<longleftrightarrow> lo \<le> of_char c \<and> (of_char c :: nat) \<le> hi"

definition is_lower :: "char \<Rightarrow> bool" where "is_lower c \<longleftrightarrow> code_in c 97 122"
definition is_upper :: "char \<Rightarrow> bool" where "is_upper c \<longleftrightarrow> code_in c 65 90"
definition is_decimal :: "char \<Rightarrow> bool" where "is_decimal c \<longleftrightarrow> code_in c 48 57"

definition content_id_ok :: "nat \<Rightarrow> string \<Rightarrow> bool" where
  "content_id_ok n s \<longleftrightarrow> length s \<le> n
     \<and> (case s of
          [] \<Rightarrow> False
        | c # r \<Rightarrow> is_lower c \<and> list_all (\<lambda>d. is_lower d \<or> is_decimal d \<or> d \<in> set ''_.-'') r)"

definition graph_fields :: "nat \<Rightarrow> nat \<Rightarrow> nat \<Rightarrow> string list \<Rightarrow> string list \<Rightarrow> unit res" where
  "graph_fields min_facts min_relations max_items fact_ids relation_ids = check_all
     [(\<not> list_all (content_id_ok 120) fact_ids, ValidationError ''fact_id''),
      (\<not> list_all (content_id_ok 120) relation_ids, ValidationError ''relation_id''),
      (\<not> bounded min_facts max_items fact_ids, ValidationError ''facts''),
      (\<not> bounded min_relations max_items relation_ids, ValidationError ''relations'')]"

lemma graph_fields_Inr:
  "graph_fields a b n fs rs = Inr () \<longleftrightarrow>
     list_all (content_id_ok 120) fs \<and> list_all (content_id_ok 120) rs
     \<and> bounded a n fs \<and> bounded b n rs"
  by (auto simp: graph_fields_def)

section \<open>Acyclicity of the reasoning graph\<close>

text \<open>
  \<open>visit_all\<close> is the depth-first search \<^verbatim>\<open>visit\<close> applied to each element of a list.
  \<^verbatim>\<open>visiting\<close> is the recursion stack, which every call restores before it returns;
  \<^verbatim>\<open>visited\<close> is threaded through, newest first. A missing key raises
  \<^verbatim>\<open>KeyError\<close>.
\<close>

definition dependencies_of :: "content_relation list \<Rightarrow> string \<Rightarrow> string list" where
  "dependencies_of rels i = concat (map input_fact_ids (filter (\<lambda>r. output_fact_id r = i) rels))"

definition dependencies :: "string list \<Rightarrow> content_relation list \<Rightarrow> (string, string list) dict" where
  "dependencies ids rels = map (\<lambda>i. (i, dependencies_of rels i)) ids"

function visit_all ::
    "(string, string list) dict \<Rightarrow> string list \<Rightarrow> string list \<Rightarrow> string list \<Rightarrow> string list res" where
  "visit_all deps visiting visited [] = Inr visited"
| "visit_all deps visiting visited (x # xs) =
     (if x \<in> set visiting then Inl (ValueError ''reasoning graph must be acyclic'')
      else if x \<in> set visited then visit_all deps visiting visited xs
      else case dict_get deps x of
             None \<Rightarrow> Inl (KeyError ''key'')
           | Some ds \<Rightarrow>
               bindr (visit_all deps (x # visiting) visited ds)
                 (\<lambda>visited'. visit_all deps visiting (x # visited') xs))"
  by pat_completeness auto
termination
proof (relation "measures [\<lambda>(deps, vg, vd, xs). card (set (dict_keys deps) - set vg),
                           \<lambda>(deps, vg, vd, xs). length xs]", goal_cases)
  case (3 deps visiting visited x xs ds)
  then have "x \<in> set (dict_keys deps) - set visiting" by (auto dest: dict_get_Some_key)
  then have "set (dict_keys deps) - set (x # visiting) \<subset> set (dict_keys deps) - set visiting"
    by auto
  then have "card (set (dict_keys deps) - set (x # visiting)) < card (set (dict_keys deps) - set visiting)"
    by (intro psubset_card_mono) auto
  then show ?case by simp
qed auto

text \<open>
  A list is in dependency order when every element's dependencies come later in it.
\<close>

fun dep_ordered :: "(string, string list) dict \<Rightarrow> string list \<Rightarrow> bool" where
  "dep_ordered deps [] = True"
| "dep_ordered deps (x # xs) \<longleftrightarrow>
     (\<exists>ds. dict_get deps x = Some ds \<and> set ds \<subseteq> set xs) \<and> x \<notin> set xs \<and> dep_ordered deps xs"

lemma visit_all_ordered:
  assumes "visit_all deps visiting visited xs = Inr vd"
    and "dep_ordered deps visited" and "set visiting \<inter> set visited = {}"
  shows "dep_ordered deps vd \<and> set visited \<subseteq> set vd \<and> set xs \<subseteq> set vd
         \<and> set visiting \<inter> set vd = {}"
  using assms
proof (induction deps visiting visited xs arbitrary: vd rule: visit_all.induct)
  case (2 deps visiting visited x xs)
  show ?case
  proof (cases "x \<in> set visited")
    case True
    with 2 show ?thesis by (auto split: if_splits)
  next
    case False
    from 2(4) False obtain ds vd1 where x: "x \<notin> set visiting" "dict_get deps x = Some ds"
      and v1: "visit_all deps (x # visiting) visited ds = Inr vd1"
      and v2: "visit_all deps visiting (x # vd1) xs = Inr vd"
      by (auto simp: bindr_eq_Inr split: if_splits option.splits)
    have i1: "dep_ordered deps vd1 \<and> set visited \<subseteq> set vd1 \<and> set ds \<subseteq> set vd1
        \<and> set (x # visiting) \<inter> set vd1 = {}"
      using 2(2) [OF x(1) False x(2) v1 2(5)] 2(6) False by auto
    with x have "dep_ordered deps (x # vd1)" "set visiting \<inter> set (x # vd1) = {}" by auto
    from 2(3) [OF x(1) False x(2) v2 this] i1 show ?thesis by auto
  qed
qed auto

definition fact_edges :: "content_relation list \<Rightarrow> (string \<times> string) set" where
  "fact_edges rels = {(i, output_fact_id r) | i r. r \<in> set rels \<and> i \<in> set (input_fact_ids r)}"

lemma fact_edges_dependencies_of: "(a, b) \<in> fact_edges rels \<longleftrightarrow> a \<in> set (dependencies_of rels b)"
  by (auto simp: fact_edges_def dependencies_of_def)

lemma dict_get_dependencies:
  "dict_get (dependencies ids rels) i = (if i \<in> set ids then Some (dependencies_of rels i) else None)"
  by (induction ids) (auto simp: dependencies_def)

lemma dep_ordered_edge:
  assumes "dep_ordered (dependencies ids rels) vs" and "b \<in> set vs" and "(a, b) \<in> fact_edges rels"
  shows "a \<in> set vs \<and> index_of vs b < index_of vs a"
  using assms
proof (induction vs)
  case (Cons x vs)
  show ?case
  proof (cases "b = x")
    case True
    with Cons.prems show ?thesis
      by (auto simp: dict_get_dependencies fact_edges_dependencies_of split: if_splits)
  next
    case False
    with Cons show ?thesis by auto
  qed
qed simp

lemma dep_ordered_path:
  assumes "(a, b) \<in> (fact_edges rels)\<^sup>+" and "dep_ordered (dependencies ids rels) vs" and "b \<in> set vs"
  shows "a \<in> set vs \<and> index_of vs b < index_of vs a"
  using assms
proof (induction rule: converse_trancl_induct)
  case (base y)
  then show ?case using dep_ordered_edge by blast
next
  case (step y z)
  then show ?case using dep_ordered_edge [of ids rels vs z y] by fastforce
qed

lemma dep_ordered_acyclic:
  assumes "dep_ordered (dependencies ids rels) vs" and "output_fact_id ` set rels \<subseteq> set vs"
  shows "acyclic (fact_edges rels)"
proof (rule acyclicI, rule allI, rule notI)
  fix x
  assume x: "(x, x) \<in> (fact_edges rels)\<^sup>+"
  then obtain y where "(y, x) \<in> fact_edges rels" by (meson tranclE)
  then have "x \<in> set vs" using assms(2) by (auto simp: fact_edges_def)
  with dep_ordered_path [OF x assms(1)] show False by simp
qed

lemma visit_all_acyclic:
  assumes "acyclic (fact_edges rels)"
    and "set xs \<subseteq> set ids" and "\<forall>i \<in> set ids. set (dependencies_of rels i) \<subseteq> set ids"
    and "\<forall>x \<in> set xs. \<forall>y \<in> set visiting. (x, y) \<in> (fact_edges rels)\<^sup>+"
  shows "\<exists>vd. visit_all (dependencies ids rels) visiting visited xs = Inr vd"
  using assms(2,4)
proof (induction "dependencies ids rels" visiting visited xs rule: visit_all.induct)
  case (2 visiting visited x xs)
  have nv: "x \<notin> set visiting" using 2(5) assms(1) by (auto simp: acyclic_def)
  have gx: "dict_get (dependencies ids rels) x = Some (dependencies_of rels x)"
    using 2(4) by (simp add: dict_get_dependencies)
  show ?case
  proof (cases "x \<in> set visited")
    case True
    with nv 2(1,4,5) show ?thesis by auto
  next
    case False
    have "\<forall>d \<in> set (dependencies_of rels x). \<forall>y \<in> set (x # visiting). (d, y) \<in> (fact_edges rels)\<^sup>+"
      using 2(5) by (auto simp flip: fact_edges_dependencies_of intro: trancl_into_trancl2)
    moreover have "set (dependencies_of rels x) \<subseteq> set ids" using 2(4) assms(3) by simp
    ultimately obtain v1 where
      "visit_all (dependencies ids rels) (x # visiting) visited (dependencies_of rels x) = Inr v1"
      using 2(2) [OF nv False gx] by blast
    moreover from 2(3) [OF nv False gx, of v1] 2(4,5) obtain vd where
      "visit_all (dependencies ids rels) visiting (x # v1) xs = Inr vd" by auto
    ultimately show ?thesis using nv False gx by auto
  qed
qed simp

section \<open>The reasoning graph validator\<close>

definition validate_relation_refs :: "string list \<Rightarrow> content_relation \<Rightarrow> unit res" where
  "validate_relation_refs fact_ids r = check_all
     [(\<not> set (input_fact_ids r) \<subseteq> set fact_ids,
         ValueError ''relation inputs must reference graph facts''),
      (output_fact_id r \<notin> set fact_ids, ValueError ''relation output must reference a graph fact''),
      (output_fact_id r \<in> set (input_fact_ids r), ValueError ''relation cannot consume its own output'')]"

definition validate_completion :: "reasoning_graph \<Rightarrow> unit res" where
  "validate_completion g = check_all
     [(set (required_fact_ids (completion g)) \<noteq> set (map fact_id (filter fact_required (facts g))),
         ValueError ''completion fact ids must equal required graph facts''),
      (set (required_relation_ids (completion g))
         \<noteq> set (map relation_id (filter rel_required (relations g))),
         ValueError ''completion relation ids must equal required graph relations''),
      (\<not> distinct (required_fact_ids (completion g)), ValueError ''completion fact ids must be unique''),
      (\<not> distinct (required_relation_ids (completion g)),
         ValueError ''completion relation ids must be unique'')]"

definition validate_graph :: "reasoning_graph \<Rightarrow> unit res" where
  "validate_graph g =
    (let fact_ids = map fact_id (facts g); facts_by_id = dict_by fact_id (facts g) in
     bindr (check_all
       [(\<not> distinct fact_ids, ValueError ''reasoning graph fact ids must be unique''),
        (\<not> distinct (map relation_id (relations g)),
           ValueError ''reasoning graph relation ids must be unique'')]) (\<lambda>_.
     bindr (for_each (\<lambda>r. bindr (validate_relation_refs fact_ids r) (\<lambda>_.
                       bindr (validate_relation_math facts_by_id r) (\<lambda>_.
                       validate_relation_rubric facts_by_id r))) (relations g)) (\<lambda>_.
     bindr (validate_completion g) (\<lambda>_.
     bindr (visit_all (dependencies fact_ids (relations g)) [] [] fact_ids) (\<lambda>_. Inr ())))))"

lemma validate_relation_refs_Inr:
  "validate_relation_refs ids r = Inr () \<longleftrightarrow>
     set (input_fact_ids r) \<subseteq> set ids \<and> output_fact_id r \<in> set ids
     \<and> output_fact_id r \<notin> set (input_fact_ids r)"
  by (auto simp: validate_relation_refs_def check_all_Inr)

lemma validate_graph_parts:
  assumes "validate_graph g = Inr ()"
  shows "distinct (map fact_id (facts g))" and "distinct (map relation_id (relations g))"
    and "\<And>r. r \<in> set (relations g) \<Longrightarrow> validate_relation_refs (map fact_id (facts g)) r = Inr ()"
    and "\<And>r. r \<in> set (relations g) \<Longrightarrow> validate_relation_math (dict_by fact_id (facts g)) r = Inr ()"
    and "validate_completion g = Inr ()"
    and "\<exists>vd. visit_all (dependencies (map fact_id (facts g)) (relations g)) [] [] (map fact_id (facts g)) = Inr vd"
  using assms
  by (auto simp: validate_graph_def Let_def bindr_eq_Inr for_each_Inr split: if_splits)

lemma validate_completion_parts:
  assumes "validate_completion g = Inr ()"
  shows "set (required_fact_ids (completion g)) \<subseteq> fact_id ` set (facts g)"
    and "set (required_relation_ids (completion g)) \<subseteq> relation_id ` set (relations g)"
    and "distinct (required_fact_ids (completion g))"
    and "distinct (required_relation_ids (completion g))"
  using assms by (auto simp: validate_completion_def split: if_splits)

lemma validate_graph_acyclic:
  assumes "validate_graph g = Inr ()"
  shows "acyclic (fact_edges (relations g))"
proof -
  note p = validate_graph_parts [OF assms]
  obtain vd where v: "visit_all (dependencies (map fact_id (facts g)) (relations g)) [] []
      (map fact_id (facts g)) = Inr vd" using p(6) by blast
  then have "dep_ordered (dependencies (map fact_id (facts g)) (relations g)) vd"
    and "set (map fact_id (facts g)) \<subseteq> set vd"
    using visit_all_ordered [OF v] by auto
  moreover have "output_fact_id ` set (relations g) \<subseteq> set (map fact_id (facts g))"
    using p(3) by (auto simp: validate_relation_refs_Inr)
  ultimately show ?thesis using dep_ordered_acyclic by blast
qed

end
