(* ===== verification/Packs.thy ===== *)
theory Packs
  imports Content
begin

text \<open>
  Question, choice, joint-action and help plans over a reasoning graph, and the
  reviewed pack built from them, first a home teaching pack
  (\<^verbatim>\<open>RequiredHomeTeachingPackV2\<close> in \<^verbatim>\<open>dialogue_v2_content.py\<close>) and a
  real-life task pack (\<^verbatim>\<open>LifeTaskPackV2\<close> in
  \<^verbatim>\<open>dialogue_v2_life_content.py\<close>). The validators are the source's cross-reference
  checks, in the source's order; so that every
  required target can be asked, chosen, performed jointly and revealed.
\<close>

section \<open>Plans\<close>

type_synonym tkey = "target_kind \<times> string"

record target_ref =
  tr_kind :: target_kind
  tr_id :: string
  tr_ask :: ask_kind

record question_plan =
  qp_plan_id :: string
  qp_targets :: "target_ref list"
  qp_fallback :: ustr

datatype copy_purpose = Initial_Help | L2_Question | L0_Intro | L0_Action

record copy_slot =
  cs_slot :: string
  cs_purpose :: copy_purpose
  cs_targets :: "target_ref list"
  cs_brief :: ustr
  cs_fallback :: ustr

record choice_effect =
  ef_verdict :: verdict
  ef_target_kind :: target_kind
  ef_target_id :: string
  ef_value :: "canonical_value option"
  ef_misconception :: "string option"

record l2_choice =
  ch_id :: string
  ch_label :: ustr
  ch_effect :: choice_effect

record l2_plan =
  lp_plan_id :: string
  lp_target :: target_ref
  lp_copy_slot :: string
  lp_choices :: "l2_choice list"

datatype joint_completion =
    JointFact string canonical_value
  | JointRelation string

fun joint_key :: "joint_completion \<Rightarrow> tkey" where
  "joint_key (JointFact i _) = (TK_Fact, i)"
| "joint_key (JointRelation i) = (TK_Relation, i)"

record joint_plan =
  jp_action_id :: string
  jp_intro_slot :: string
  jp_action_slot :: string
  jp_completion :: "joint_completion list"
  jp_button :: ustr
  jp_config :: "(string \<times> json) list"

datatype support_type = Attention | Guided_Action | Joint_Model
datatype answer_policy = Hidden | Partially_Shown | Revealed

record help_card =
  hc_level :: hint_level
  hc_support :: support_type
  hc_policy :: answer_policy
  hc_body :: ustr
  hc_action :: "ustr option"
  hc_facts :: "string list"
  hc_relations :: "string list"

record help_plan =
  card_H1 :: help_card
  card_H2 :: help_card
  card_H3 :: help_card

definition validate_effect :: "choice_effect \<Rightarrow> unit res" where
  "validate_effect e = check_all
     (if ef_verdict e = Correct then
        [(ef_misconception e \<noteq> None, ValueError ''correct choice cannot declare a misconception''),
         (ef_target_kind e = TK_Fact \<and> ef_value e = None,
            ValueError ''correct fact choice needs interpreted_value''),
         (ef_target_kind e = TK_Relation \<and> ef_value e \<noteq> None,
            ValueError ''relation choice cannot declare interpreted_value'')]
      else
        [(ef_value e \<noteq> None, ValueError ''incorrect choice cannot verify a value''),
         (ef_misconception e = None, ValueError ''incorrect choice needs misconception_code'')])"

definition plan_key :: "target_ref \<Rightarrow> tkey" where
  "plan_key t = (tr_kind t, tr_id t)"

definition validate_choices :: "l2_plan \<Rightarrow> unit res" where
  "validate_choices p = check_all
     ([(\<not> distinct (map ch_id (lp_choices p)), ValueError ''L2 choice ids must be unique''),
       (length (filter (\<lambda>c. ef_verdict (ch_effect c) = Correct) (lp_choices p)) \<noteq> 1,
          ValueError ''L2 plan needs exactly one correct choice'')]
      @ map (\<lambda>c. ((ef_target_kind (ch_effect c), ef_target_id (ch_effect c)) \<noteq> plan_key (lp_target p),
                   ValueError ''L2 effects must target the plan target'')) (lp_choices p))"

definition card_profile_ok :: "hint_level \<Rightarrow> support_type \<Rightarrow> answer_policy \<Rightarrow> help_card \<Rightarrow> (bool \<times> py_error) list" where
  "card_profile_ok level support policy c =
     [(hc_level c \<noteq> level, ValueError ''help card level does not match its key''),
      (hc_support c \<noteq> support \<or> hc_policy c \<noteq> policy,
         ValueError ''help card support profile does not match its level'')]"

definition validate_levels :: "help_plan \<Rightarrow> unit res" where
  "validate_levels h = check_all
     (card_profile_ok H1 Attention Hidden (card_H1 h)
      @ card_profile_ok H2 Guided_Action Partially_Shown (card_H2 h)
      @ card_profile_ok H3 Joint_Model Revealed (card_H3 h)
      @ [(hc_facts (card_H1 h) \<noteq> [] \<or> hc_relations (card_H1 h) \<noteq> [],
            ValueError ''H1 cannot reveal derived facts or relations'')])"

definition help_card_for :: "help_plan \<Rightarrow> hint_level \<Rightarrow> help_card option" where
  "help_card_for h l =
     (case l of H0 \<Rightarrow> None | H1 \<Rightarrow> Some (card_H1 h) | H2 \<Rightarrow> Some (card_H2 h) | H3 \<Rightarrow> Some (card_H3 h))"

definition card_targets :: "'a help_card_scheme \<Rightarrow> tkey set" where
  "card_targets c = Pair TK_Fact ` set (hc_facts c) \<union> Pair TK_Relation ` set (hc_relations c)"

section \<open>Home teaching packs\<close>

record home_pack =
  hp_pack_id :: string
  hp_content_version :: nat
  hp_session_id :: string
  hp_title :: ustr
  hp_journey_role :: string
  hp_transfer_ids :: "string list"
  hp_prompt :: ustr
  hp_rendered_labels :: "(string \<times> ustr option) list"
  hp_answers :: "ustr list"
  hp_correct :: ustr
  hp_graph :: reasoning_graph
  hp_initial :: question_plan
  hp_l3_plans :: "question_plan list"
  hp_copy_slots :: "copy_slot list"
  hp_l2_plans :: "l2_plan list"
  hp_l0 :: joint_plan
  hp_help :: help_plan
  hp_note_relation_ids :: "string list"

definition required_targets :: "completion_contract \<Rightarrow> tkey set" where
  "required_targets c = Pair TK_Fact ` set (required_fact_ids c)
     \<union> Pair TK_Relation ` set (required_relation_ids c)"

definition target_key :: "string list \<Rightarrow> string list \<Rightarrow> target_ref \<Rightarrow> tkey res" where
  "target_key fact_ids relation_ids t =
     bindr (check_all
       [(tr_kind t = TK_Fact \<and> tr_id t \<notin> set fact_ids,
           ValueError ''question target must reference a graph fact''),
        (tr_kind t = TK_Relation \<and> tr_id t \<notin> set relation_ids,
           ValueError ''question target must reference a graph relation'')])
     (\<lambda>_. Inr (plan_key t))"

lemma mapr_target_key: "mapr (target_key fs rs) ts = Inr ks \<Longrightarrow> ks = map plan_key ts"
  by (induction ts arbitrary: ks) (auto simp: bindr_eq_Inr target_key_def)

text \<open>The copy slots, each with the keys of its targets.\<close>

definition slot_target_checks :: "tkey set \<Rightarrow> copy_slot \<Rightarrow> tkey list \<Rightarrow> (bool \<times> py_error) list" where
  "slot_target_checks required s keys =
     (\<not> distinct keys, ValueError ''copy slot targets must be unique'')
     # (if cs_purpose s \<in> {L0_Intro, L0_Action} then
          [(set keys \<noteq> required, ValueError ''copy slot must cover every completion target'')]
        else if cs_purpose s = Initial_Help then
          [(length keys \<noteq> 1 \<or> keys ! 0 \<notin> required \<or> tr_ask (cs_targets s ! 0) \<noteq> Ask_Answer,
              ValueError ''initial help must narrow the first request to one answer target'')]
        else
          [(length keys \<noteq> 1 \<or> keys ! 0 \<notin> required,
              ValueError ''L2 copy slot must reference one completion target'')])"

definition validate_slot :: "string list \<Rightarrow> string list \<Rightarrow> tkey set \<Rightarrow> copy_slot \<Rightarrow> unit res" where
  "validate_slot fact_ids relation_ids required s =
     bindr (mapr (target_key fact_ids relation_ids) (cs_targets s)) (\<lambda>keys.
       check_all (slot_target_checks required s keys))"

definition purpose_count :: "copy_purpose \<Rightarrow> copy_slot list \<Rightarrow> nat" where
  "purpose_count q ss = length (filter (\<lambda>s. cs_purpose s = q) ss)"

definition validate_copy_slots :: "string list \<Rightarrow> string list \<Rightarrow> tkey set \<Rightarrow> copy_slot list \<Rightarrow> unit res" where
  "validate_copy_slots fact_ids relation_ids required ss =
     bindr (check_all
       [(\<not> distinct (map cs_slot ss), ValueError ''copy slots must be unique''),
        (purpose_count Initial_Help ss \<noteq> 1, ValueError ''pack needs exactly one initial_help copy slot''),
        (purpose_count L0_Intro ss \<noteq> 1, ValueError ''pack needs exactly one l0_intro copy slot''),
        (purpose_count L0_Action ss \<noteq> 1, ValueError ''pack needs exactly one l0_action copy slot'')]) (\<lambda>_.
     bindr (for_each (validate_slot fact_ids relation_ids required) ss) (\<lambda>_.
       let l2_copy_targets = map (\<lambda>s. plan_key (cs_targets s ! 0))
                               (filter (\<lambda>s. cs_purpose s = L2_Question) ss)
       in check_all [(\<not> distinct l2_copy_targets \<or> set l2_copy_targets \<noteq> required,
            ValueError ''L2 needs exactly one copy slot for every completion target'')]))"

definition validate_l2_choice :: "(string, content_fact) dict \<Rightarrow> l2_choice \<Rightarrow> unit res" where
  "validate_l2_choice fs c =
    (let e = ch_effect c in
     if ef_verdict e = Correct \<and> ef_target_kind e = TK_Fact then
       (case ef_value e of
          None \<Rightarrow> Inl AssertionError
        | Some v \<Rightarrow> bindr (py_index fs (ef_target_id e)) (\<lambda>f.
            check (value_eq v (fact_value f)) ''correct L2 fact value must equal canonical graph truth''))
     else Inr ())"

definition validate_l2_plan ::
    "(string, content_fact) dict \<Rightarrow> string list \<Rightarrow> string list \<Rightarrow> copy_slot list \<Rightarrow> l2_plan \<Rightarrow> unit res" where
  "validate_l2_plan fs fact_ids relation_ids ss p =
     bindr (target_key fact_ids relation_ids (lp_target p)) (\<lambda>key.
     bindr (case dict_get (dict_by cs_slot ss) (lp_copy_slot p) of
              None \<Rightarrow> Inl (ValueError ''L2 plan must reference an l2_question copy slot'')
            | Some s \<Rightarrow> check_all
                [(cs_purpose s \<noteq> L2_Question,
                    ValueError ''L2 plan must reference an l2_question copy slot''),
                 (map plan_key (cs_targets s) \<noteq> [key],
                    ValueError ''L2 copy slot target must match its choice plan'')]) (\<lambda>_.
     for_each (validate_l2_choice fs) (lp_choices p)))"

definition slot_has_purpose :: "copy_slot list \<Rightarrow> string \<Rightarrow> copy_purpose \<Rightarrow> bool" where
  "slot_has_purpose ss i q =
     (case dict_get (dict_by cs_slot ss) i of None \<Rightarrow> False | Some s \<Rightarrow> cs_purpose s = q)"

fun validate_joint_completion ::
    "(string, content_fact) dict \<Rightarrow> string list \<Rightarrow> joint_completion \<Rightarrow> unit res" where
  "validate_joint_completion fs relation_ids (JointFact i v) =
     (case dict_get fs i of
        None \<Rightarrow> Inl (ValueError ''L0 fact completion must reference a graph fact'')
      | Some f \<Rightarrow> check (value_eq v (fact_value f)) ''L0 fact completion must use canonical graph truth'')"
| "validate_joint_completion fs relation_ids (JointRelation i) =
     check (i \<in> set relation_ids) ''L0 relation completion must reference a graph relation''"

fun validate_joint_targets ::
    "(string, content_fact) dict \<Rightarrow> string list \<Rightarrow> tkey list \<Rightarrow> joint_completion list \<Rightarrow> tkey list res" where
  "validate_joint_targets fs relation_ids seen [] = Inr seen"
| "validate_joint_targets fs relation_ids seen (c # cs) =
     bindr (check (joint_key c \<notin> set seen) ''L0 completion targets must be unique'') (\<lambda>_.
     bindr (validate_joint_completion fs relation_ids c) (\<lambda>_.
     validate_joint_targets fs relation_ids (joint_key c # seen) cs))"

definition help_reference_checks :: "string list \<Rightarrow> string list \<Rightarrow> help_card \<Rightarrow> (bool \<times> py_error) list" where
  "help_reference_checks fact_ids relation_ids c =
     [(\<not> set (hc_facts c) \<subseteq> set fact_ids, ValueError ''help card fact refs must reference graph facts''),
      (\<not> set (hc_relations c) \<subseteq> set relation_ids,
         ValueError ''help card relation refs must reference graph relations'')]"

definition validate_help_scope ::
    "string list \<Rightarrow> string list \<Rightarrow> completion_contract \<Rightarrow> string list \<Rightarrow> help_plan \<Rightarrow> unit res" where
  "validate_help_scope fact_ids relation_ids contract note_ids h = check_all
     (help_reference_checks fact_ids relation_ids (card_H1 h)
      @ help_reference_checks fact_ids relation_ids (card_H2 h)
      @ help_reference_checks fact_ids relation_ids (card_H3 h)
      @ [(\<not> required_targets contract \<subseteq> card_targets (card_H3 h),
            ValueError ''H3 must reveal every required graph target''),
         (set (hc_facts (card_H2 h)) \<inter> set (required_fact_ids contract) \<noteq> {},
            ValueError ''H2 cannot reveal a required final fact''),
         (set (hc_relations (card_H2 h)) \<inter> set (required_relation_ids contract) \<noteq> {},
            ValueError ''H2 cannot reveal a required relation''),
         (\<not> set note_ids \<subseteq> set relation_ids,
            ValueError ''note relation ids must reference graph relations''),
         (\<not> set note_ids \<subseteq> set (hc_relations (card_H3 h)),
            ValueError ''every note relation must be covered by the H3 joint model'')])"

definition validate_answer_contract :: "home_pack \<Rightarrow> content_fact \<Rightarrow> unit res" where
  "validate_answer_contract p final =
     (case List.find (\<lambda>q. plan_key (lp_target q) = (TK_Fact, fact_id final)) (hp_l2_plans p) of
        None \<Rightarrow> Inl (ValueError ''L2 needs a final-answer choice plan'')
      | Some q \<Rightarrow>
          let correct = filter (\<lambda>c. ef_verdict (ch_effect c) = Correct) (lp_choices q)
          in check_all
             [(map ch_label (lp_choices q) \<noteq> hp_answers p,
                 ValueError ''source answer options must equal the ordered L2 answer choices''),
              (length correct \<noteq> 1 \<or> ch_label (correct ! 0) \<noteq> hp_correct p,
                 ValueError ''source correct label must equal the correct L2 answer choice'')])"

definition validate_questions :: "home_pack \<Rightarrow> string list \<Rightarrow> string list \<Rightarrow> tkey set \<Rightarrow> unit res" where
  "validate_questions p fact_ids relation_ids required =
     bindr (mapr (target_key fact_ids relation_ids) (qp_targets (hp_initial p))) (\<lambda>init.
     bindr (check_all
       [(\<not> distinct init, ValueError ''initial question targets must be unique''),
        (set init \<noteq> required, ValueError ''initial question must ask every completion target''),
        (\<not> distinct (qp_plan_id (hp_initial p) # map qp_plan_id (hp_l3_plans p)
                       @ map lp_plan_id (hp_l2_plans p)),
           ValueError ''question plan ids must be unique'')]) (\<lambda>_.
     bindr (mapr (target_key fact_ids relation_ids) (concat (map qp_targets (hp_l3_plans p)))) (\<lambda>l3.
     check_all
       [(\<exists>q \<in> set (hp_l3_plans p). length (qp_targets q) \<noteq> 1,
           ValueError ''each L3 plan must ask one semantic target''),
        (\<not> distinct l3 \<or> set l3 \<noteq> required,
           ValueError ''L3 needs exactly one plan for every completion target'')])))"

definition validate_pack_structure :: "home_pack \<Rightarrow> unit res" where
  "validate_pack_structure p =
    (let g = hp_graph p; fs = dict_by fact_id (facts g);
         fact_ids = map fact_id (facts g); relation_ids = map relation_id (relations g);
         required = required_targets (completion g);
         l2_target_keys = map (\<lambda>q. plan_key (lp_target q)) (hp_l2_plans p);
         finals = filter (\<lambda>f. fact_role f = Final_Answer) (facts g) in
     bindr (validate_questions p fact_ids relation_ids required) (\<lambda>_.
     bindr (validate_copy_slots fact_ids relation_ids required (hp_copy_slots p)) (\<lambda>_.
     bindr (for_each (validate_l2_plan fs fact_ids relation_ids (hp_copy_slots p)) (hp_l2_plans p)) (\<lambda>_.
     bindr (check_all
       [(\<not> distinct l2_target_keys \<or> set l2_target_keys \<noteq> required,
           ValueError ''L2 needs exactly one plan for every completion target''),
        (\<not> slot_has_purpose (hp_copy_slots p) (jp_intro_slot (hp_l0 p)) L0_Intro,
           ValueError ''L0 plan must reference an l0_intro copy slot''),
        (\<not> slot_has_purpose (hp_copy_slots p) (jp_action_slot (hp_l0 p)) L0_Action,
           ValueError ''L0 plan must reference an l0_action copy slot'')]) (\<lambda>_.
     bindr (validate_joint_targets fs relation_ids [] (jp_completion (hp_l0 p))) (\<lambda>joint.
     bindr (check (set joint = required) ''L0 completion must cover every required graph target'') (\<lambda>_.
     bindr (validate_help_scope fact_ids relation_ids (completion g) (hp_note_relation_ids p) (hp_help p)) (\<lambda>_.
     bindr (check (length finals = 1) ''required home pack needs exactly one final answer fact'') (\<lambda>_.
     validate_answer_contract p (finals ! 0))))))))))"

text \<open>The length bounds of the texts and lists of a pack, as its fields declare them.\<close>

definition question_fields :: "question_plan \<Rightarrow> (bool \<times> py_error) list" where
  "question_fields q =
     [field (bounded 1 4 (qp_targets q)) ''targets'',
      field (bounded 1 220 (qp_fallback q)) ''reviewed_fallback'']"

definition slot_fields :: "copy_slot \<Rightarrow> (bool \<times> py_error) list" where
  "slot_fields s =
     [field (bounded 1 4 (cs_targets s)) ''targets'',
      field (bounded 1 240 (cs_brief s)) ''generation_brief'',
      field (bounded 1 220 (cs_fallback s)) ''reviewed_fallback'']"

definition relation_fields :: "content_relation \<Rightarrow> (bool \<times> py_error) list" where
  "relation_fields r =
     [field (bounded 1 16 (input_fact_ids r)) ''input_fact_ids'',
      field (bounded 1 120 (rel_label r)) ''speaker_label'',
      field (bounded 1 12 (rb_sufficient (rel_rubric r))) ''sufficient'',
      field (bounded 1 12 (rb_partial (rel_rubric r))) ''partial'',
      field (bounded 1 12 (rb_incorrect (rel_rubric r))) ''incorrect'']"

definition card_fields :: "help_card \<Rightarrow> (bool \<times> py_error) list" where
  "card_fields c =
     [field (bounded 1 240 (hc_body c)) ''body'',
      field (bounded 0 20 (hc_facts c)) ''revealed_fact_ids'',
      field (bounded 0 20 (hc_relations c)) ''revealed_relation_ids'']"

definition rendered_label_ok :: "string \<times> ustr option \<Rightarrow> bool" where
  "rendered_label_ok b = (case snd b of None \<Rightarrow> True | Some s \<Rightarrow> bounded 1 80 s)"

definition home_fields :: "home_pack \<Rightarrow> (bool \<times> py_error) list" where
  "home_fields p =
     field (bounded 1 220 (hp_prompt p)) ''prompt''
     # field (bounded 1 20 (hp_rendered_labels p)) ''rendered_facts''
     # field (list_all rendered_label_ok (hp_rendered_labels p)) ''rendered_label''
     # field (list_all (\<lambda>f. bounded 1 100 (fact_label f)) (facts (hp_graph p))) ''speaker_label''
     # concat (map relation_fields (relations (hp_graph p)))
     @ concat (map question_fields (hp_initial p # hp_l3_plans p))
     @ concat (map slot_fields (hp_copy_slots p))
     @ [field (list_all (\<lambda>q. bounded 2 8 (lp_choices q)
                \<and> list_all (\<lambda>c. bounded 1 80 (ch_label c)) (lp_choices q)) (hp_l2_plans p)) ''choices'',
        field (bounded 2 4 (hp_l3_plans p)) ''l3_plans'',
        field (bounded 2 4 (hp_l2_plans p)) ''l2_plans'',
        field (bounded 5 8 (hp_copy_slots p)) ''copy_slots'',
        field (bounded 2 20 (jp_completion (hp_l0 p))) ''completion_values'',
        field (bounded 1 30 (jp_button (hp_l0 p))) ''button_label'',
        field (bounded 1 10 (hp_note_relation_ids p)) ''note_relation_ids'']
     @ card_fields (card_H1 (hp_help p)) @ card_fields (card_H2 (hp_help p))
     @ card_fields (card_H3 (hp_help p))"

text \<open>
  Validation of a whole home pack: Pydantic validates the parts (facts, graph, choice effects,
  choice plans, help cards) before the model validator of the pack runs.
\<close>

definition validate_home_pack :: "home_pack \<Rightarrow> unit res" where
  "validate_home_pack p =
     bindr (graph_fields 2 1 50 (map fact_id (facts (hp_graph p)))
              (map relation_id (relations (hp_graph p)))) (\<lambda>_.
     bindr (check_all (home_fields p)) (\<lambda>_.
     bindr (for_each validate_visibility_and_aliases (facts (hp_graph p))) (\<lambda>_.
     bindr (validate_graph (hp_graph p)) (\<lambda>_.
     bindr (for_each (\<lambda>q. bindr (for_each (\<lambda>c. validate_effect (ch_effect c)) (lp_choices q)) (\<lambda>_.
                      validate_choices q)) (hp_l2_plans p)) (\<lambda>_.
     bindr (validate_levels (hp_help p)) (\<lambda>_.
     bindr (check (\<not> (hp_journey_role p = ''cafe_required'' \<and> hp_transfer_ids p \<noteq> []))
              ''cafe required home packs do not map to park scenarios'') (\<lambda>_.
     validate_pack_structure p)))))))"

section \<open>What an accepted home pack guarantees\<close>

lemma validate_joint_targets_Inr:
  assumes "validate_joint_targets fs rs seen cs = Inr keys" and "distinct seen"
  shows "distinct (map joint_key cs)" and "set keys = set seen \<union> joint_key ` set cs"
    and "\<And>c. c \<in> set cs \<Longrightarrow> validate_joint_completion fs rs c = Inr ()"
    and "joint_key ` set cs \<inter> set seen = {}"
proof -
  have "distinct (map joint_key cs) \<and> set keys = set seen \<union> joint_key ` set cs
    \<and> (\<forall>c \<in> set cs. validate_joint_completion fs rs c = Inr ()) \<and> joint_key ` set cs \<inter> set seen = {}"
    using assms
  proof (induction cs arbitrary: seen)
    case (Cons c cs)
    from Cons.prems have v: "validate_joint_targets fs rs (joint_key c # seen) cs = Inr keys"
      and c: "joint_key c \<notin> set seen" "validate_joint_completion fs rs c = Inr ()"
      by (auto simp: bindr_eq_Inr check_Inr)
    from Cons.IH [OF v] c Cons.prems show ?case by auto
  qed simp
  then show "distinct (map joint_key cs)" "set keys = set seen \<union> joint_key ` set cs"
    "\<And>c. c \<in> set cs \<Longrightarrow> validate_joint_completion fs rs c = Inr ()"
    "joint_key ` set cs \<inter> set seen = {}" by blast+
qed

lemma validate_home_pack_parts:
  assumes "validate_home_pack p = Inr ()"
  shows "validate_graph (hp_graph p) = Inr ()"
    and "validate_pack_structure p = Inr ()"
    and "\<And>q. q \<in> set (hp_l2_plans p) \<Longrightarrow> validate_choices q = Inr ()"
    and "\<And>q c. q \<in> set (hp_l2_plans p) \<Longrightarrow> c \<in> set (lp_choices q) \<Longrightarrow> validate_effect (ch_effect c) = Inr ()"
    and "validate_levels (hp_help p) = Inr ()"
    and "graph_fields 2 1 50 (map fact_id (facts (hp_graph p)))
           (map relation_id (relations (hp_graph p))) = Inr ()"
    and "check_all (home_fields p) = Inr ()"
  using assms by (auto simp: validate_home_pack_def bindr_eq_Inr for_each_Inr check_Inr)

lemma validate_pack_structure_parts:
  assumes "validate_pack_structure p = Inr ()"
  defines "g \<equiv> hp_graph p"
  defines "fids \<equiv> map fact_id (facts g)" and "rids \<equiv> map relation_id (relations g)"
  shows "validate_questions p fids rids (required_targets (completion g)) = Inr ()"
    and "\<And>q. q \<in> set (hp_l2_plans p) \<Longrightarrow>
           validate_l2_plan (dict_by fact_id (facts g)) fids rids (hp_copy_slots p) q = Inr ()"
    and "distinct (map (\<lambda>q. plan_key (lp_target q)) (hp_l2_plans p))"
    and "(\<lambda>q. plan_key (lp_target q)) ` set (hp_l2_plans p) = required_targets (completion g)"
    and "\<exists>joint. validate_joint_targets (dict_by fact_id (facts g)) rids [] (jp_completion (hp_l0 p)) = Inr joint
           \<and> set joint = required_targets (completion g)"
    and "validate_help_scope fids rids (completion g) (hp_note_relation_ids p) (hp_help p) = Inr ()"
  using assms(1) unfolding g_def fids_def rids_def validate_pack_structure_def Let_def
  by (auto simp: bindr_eq_Inr for_each_Inr check_Inr split: if_splits)

lemma home_joint_completion:
  assumes "validate_home_pack p = Inr ()"
  shows "distinct (map joint_key (jp_completion (hp_l0 p)))"
    and "joint_key ` set (jp_completion (hp_l0 p)) = required_targets (completion (hp_graph p))"
    and "\<And>i v. JointFact i v \<in> set (jp_completion (hp_l0 p)) \<Longrightarrow>
           \<exists>f \<in> set (facts (hp_graph p)). fact_id f = i \<and> value_eq v (fact_value f)"
    and "\<And>i. JointRelation i \<in> set (jp_completion (hp_l0 p)) \<Longrightarrow>
           i \<in> relation_id ` set (relations (hp_graph p))"
proof -
  let ?fs = "dict_by fact_id (facts (hp_graph p))" and ?rs = "map relation_id (relations (hp_graph p))"
  obtain joint where j: "validate_joint_targets ?fs ?rs [] (jp_completion (hp_l0 p)) = Inr joint"
    and s: "set joint = required_targets (completion (hp_graph p))"
    using validate_pack_structure_parts(5) [OF validate_home_pack_parts(2) [OF assms]] by blast
  note r = validate_joint_targets_Inr [OF j]
  show "distinct (map joint_key (jp_completion (hp_l0 p)))" using r(1) by simp
  show "joint_key ` set (jp_completion (hp_l0 p)) = required_targets (completion (hp_graph p))"
    using r(2) s by simp
  show "\<exists>f \<in> set (facts (hp_graph p)). fact_id f = i \<and> value_eq v (fact_value f)"
    if "JointFact i v \<in> set (jp_completion (hp_l0 p))" for i v
    using r(3) [OF _ that] by (auto simp: check_Inr split: option.splits dest!: dict_by_get)
  show "i \<in> relation_id ` set (relations (hp_graph p))"
    if "JointRelation i \<in> set (jp_completion (hp_l0 p))" for i
    using r(3) [OF _ that] by (auto simp: check_Inr)
qed

lemma home_l2_plan_unique:
  assumes "validate_home_pack p = Inr ()" and "t \<in> required_targets (completion (hp_graph p))"
  shows "\<exists>!q. q \<in> set (hp_l2_plans p) \<and> plan_key (lp_target q) = t"
proof -
  note s = validate_pack_structure_parts [OF validate_home_pack_parts(2) [OF assms(1)]]
  show ?thesis using distinct_map_unique [OF s(3)] s(4) assms(2) by simp
qed

lemma validate_choices_parts:
  assumes "validate_choices q = Inr ()"
  shows "distinct (map ch_id (lp_choices q))"
    and "\<exists>!c. c \<in> set (lp_choices q) \<and> ef_verdict (ch_effect c) = Correct"
    and "\<And>c. c \<in> set (lp_choices q) \<Longrightarrow>
          (ef_target_kind (ch_effect c), ef_target_id (ch_effect c)) = plan_key (lp_target q)"
proof -
  show d: "distinct (map ch_id (lp_choices q))"
    and "\<And>c. c \<in> set (lp_choices q) \<Longrightarrow>
          (ef_target_kind (ch_effect c), ef_target_id (ch_effect c)) = plan_key (lp_target q)"
    using assms by (auto simp: validate_choices_def bindr_eq_Inr check_all_Inr split: if_splits)
  have "length (filter (\<lambda>c. ef_verdict (ch_effect c) = Correct) (lp_choices q)) = 1"
    using assms by (simp add: validate_choices_def bindr_eq_Inr split: if_splits)
  then show "\<exists>!c. c \<in> set (lp_choices q) \<and> ef_verdict (ch_effect c) = Correct"
    using d by (intro length_filter_one_unique) (auto simp: distinct_map)
qed

lemma home_correct_choice_value:
  assumes "validate_home_pack p = Inr ()" and "q \<in> set (hp_l2_plans p)" and "c \<in> set (lp_choices q)"
    and "ef_verdict (ch_effect c) = Correct" and "ef_target_kind (ch_effect c) = TK_Fact"
  shows "\<exists>f v. f \<in> set (facts (hp_graph p)) \<and> fact_id f = ef_target_id (ch_effect c)
           \<and> ef_value (ch_effect c) = Some v \<and> value_eq v (fact_value f)"
proof -
  let ?fs = "dict_by fact_id (facts (hp_graph p))"
  have "validate_l2_choice ?fs c = Inr ()"
    using validate_pack_structure_parts(2) [OF validate_home_pack_parts(2) [OF assms(1)] assms(2)]
      assms(3) by (auto simp: validate_l2_plan_def bindr_eq_Inr for_each_Inr)
  then show ?thesis using assms(4,5)
    by (auto simp: validate_l2_choice_def Let_def bindr_eq_Inr py_index_Inr check_Inr
        split: option.splits dest!: dict_by_get)
qed

lemma home_help_scope:
  assumes "validate_home_pack p = Inr ()"
  shows "required_targets (completion (hp_graph p)) \<subseteq> card_targets (card_H3 (hp_help p))"
    and "required_targets (completion (hp_graph p)) \<inter> card_targets (card_H2 (hp_help p)) = {}"
    and "card_targets (card_H1 (hp_help p)) = {}"
proof -
  note h = validate_pack_structure_parts(6) [OF validate_home_pack_parts(2) [OF assms]]
  show "required_targets (completion (hp_graph p)) \<subseteq> card_targets (card_H3 (hp_help p))"
    and "required_targets (completion (hp_graph p)) \<inter> card_targets (card_H2 (hp_help p)) = {}"
    using h by (auto simp: validate_help_scope_def bindr_eq_Inr required_targets_def card_targets_def
        help_reference_checks_def split: if_splits)
  show "card_targets (card_H1 (hp_help p)) = {}"
    using validate_home_pack_parts(5) [OF assms]
    by (auto simp: validate_levels_def bindr_eq_Inr card_profile_ok_def card_targets_def
        split: if_splits)
qed

end
