(* ===== verification/Life_Packs.thy ===== *)
theory Life_Packs
  imports Packs
begin

text \<open>
  Real-life task packs (\<^verbatim>\<open>dialogue_v2_life_content.py\<close>): facts with several accepted
  values, relations with a comparison goal, choices that update several targets, task stages with
  variants selected by an earlier answer, and scenarios with a completion projection. The last
  section is the view of a home pack and of a life pack that the ledger and the runtime share.
\<close>

section \<open>Life facts and relations\<close>

record life_fact = content_fact +
  accepted_values :: "canonical_value list"

datatype comparison_goal = Maximum | Minimum

record life_relation = content_relation +
  comparison_goal :: "comparison_goal option"

record life_graph =
  lg_facts :: "life_fact list"
  lg_relations :: "life_relation list"
  lg_completion :: completion_contract
  lg_open_auxiliary_claims :: bool

text \<open>
  \<^verbatim>\<open>_value_key\<close> is the canonical JSON of a value: it tells an integer from a float, so
  two keys agree exactly when the values are the same.
\<close>

definition accepts_value :: "life_fact \<Rightarrow> canonical_value \<Rightarrow> bool" where
  "accepts_value f v \<longleftrightarrow> v \<in> set (fact_value f # accepted_values f)"

definition validate_life_fact :: "life_fact \<Rightarrow> unit res" where
  "validate_life_fact f = check_all
     [(fact_role f \<in> {Intermediate_Result, Final_Answer, Selection_Role} \<and> initially_visible f,
         ValueError ''derived life facts cannot be initially visible''),
      (\<not> distinct (fact_value f # accepted_values f),
         ValueError ''life fact accepted values must be unique''),
      (\<not> distinct (surface_forms f), ValueError ''life fact surface forms must be unique''),
      (fact_required f \<and> surface_forms f = [],
         ValueError ''required life facts need reviewed surface forms'')]"

definition life_number :: "canonical_value \<Rightarrow> rat res" where
  "life_number v =
     (case v of
        MoneyValue a _ \<Rightarrow> Inr (num_value a)
      | NumberValue a _ \<Rightarrow> Inr (num_value a)
      | _ \<Rightarrow> Inl (ValueError ''life arithmetic facts must use typed numbers''))"

definition life_dimension :: "canonical_value \<Rightarrow> dimension res" where
  "life_dimension v =
     (case v of
        MoneyValue _ c \<Rightarrow> Inr (Money_Dim c)
      | NumberValue _ u \<Rightarrow> Inr (Number_Dim u)
      | _ \<Rightarrow> Inl (ValueError ''life arithmetic facts must use typed numbers''))"

definition life_expected_choice :: "comparison_goal \<Rightarrow> rat \<Rightarrow> rat \<Rightarrow> string" where
  "life_expected_choice goal a b =
     (if a = b then ''same''
      else if goal = Maximum then (if a > b then ''left'' else ''right'')
      else (if a < b then ''left'' else ''right''))"

definition validate_life_comparison ::
    "life_relation \<Rightarrow> canonical_value list \<Rightarrow> rat list \<Rightarrow> canonical_value \<Rightarrow> unit res" where
  "validate_life_comparison rel inputs vals output =
     bindr (check (length inputs = 2 \<and> is_choice output)
              ''life comparison needs two values and a choice output'') (\<lambda>_.
     bindr (life_dimension (inputs ! 0)) (\<lambda>d0.
     bindr (life_dimension (inputs ! 1)) (\<lambda>d1.
     bindr (check (d0 = d1) ''life comparison inputs must share a dimension'') (\<lambda>_.
     case comparison_goal rel of
       None \<Rightarrow> Inl (ValueError ''life comparison must declare maximum or minimum'')
     | Some goal \<Rightarrow> check (output = ChoiceValue (life_expected_choice goal (vals ! 0) (vals ! 1)))
                      ''life comparison output contradicts reviewed facts''))))"

definition life_expected_number ::
    "operation \<Rightarrow> canonical_value list \<Rightarrow> rat list \<Rightarrow> canonical_value \<Rightarrow> rat res" where
  "life_expected_number op inputs vals output =
     (if op \<in> {Addition, Subtraction} then
        bindr (check (\<not> (op = Subtraction \<and> length vals \<noteq> 2)) ''life subtraction must be binary'') (\<lambda>_.
        bindr (mapr life_dimension (inputs @ [output])) (\<lambda>dims.
        bindr (check (length (remdups dims) = 1) ''life addition/subtraction dimensions must match'') (\<lambda>_.
        Inr (if op = Addition then sum_list vals else vals ! 0 - vals ! 1))))
      else if op = Multiplication then
        bindr (check (length vals = 2) ''life multiplication must be binary'') (\<lambda>_.
        Inr (vals ! 0 * vals ! 1))
      else
        bindr (check (length vals = 2 \<and> vals ! 1 \<noteq> 0)
                 ''life division needs two values and a nonzero divisor'') (\<lambda>_.
        Inr (vals ! 0 / vals ! 1)))"

definition validate_life_relation :: "(string, life_fact) dict \<Rightarrow> life_relation \<Rightarrow> unit res" where
  "validate_life_relation fs rel =
     bindr (mapr (\<lambda>i. bindr (py_index fs i) (\<lambda>f. Inr (fact_value f))) (input_fact_ids rel)) (\<lambda>inputs.
     bindr (py_index fs (output_fact_id rel)) (\<lambda>out_fact.
     let output = fact_value out_fact; op = operation rel in
     bindr (check (length inputs = length (input_fact_ids rel)) ''life relation inputs must be unique'') (\<lambda>_.
     if op \<in> {Counting, Selection} then
       check (comparison_goal rel = None) ''comparison_goal belongs only to comparison relations''
     else
       bindr (mapr life_number inputs) (\<lambda>vals.
       if op = Comparison then validate_life_comparison rel inputs vals output
       else
         bindr (life_number output) (\<lambda>out.
         bindr (life_expected_number op inputs vals output) (\<lambda>expected.
         check (out = expected) ''life relation arithmetic contradicts reviewed facts''))))))"

definition validate_life_refs :: "string list \<Rightarrow> life_relation \<Rightarrow> unit res" where
  "validate_life_refs fact_ids r = check_all
     [(\<not> set (input_fact_ids r) \<subseteq> set fact_ids,
         ValueError ''life relation inputs must reference graph facts''),
      (output_fact_id r \<notin> set fact_ids, ValueError ''life relation output must reference a graph fact''),
      (output_fact_id r \<in> set (input_fact_ids r),
         ValueError ''life relation cannot consume its own output'')]"

definition validate_life_graph :: "life_graph \<Rightarrow> unit res" where
  "validate_life_graph g =
    (let fact_ids = map fact_id (lg_facts g); c = lg_completion g in
     bindr (check_all
       [(\<not> distinct fact_ids \<or> \<not> distinct (map relation_id (lg_relations g)),
           ValueError ''life graph IDs must be unique''),
        (set (required_fact_ids c) \<noteq> set (map fact_id (filter fact_required (lg_facts g))),
           ValueError ''life completion facts must match required facts''),
        (set (required_relation_ids c) \<noteq> set (map relation_id (filter rel_required (lg_relations g))),
           ValueError ''life completion relations must match required relations''),
        (\<not> distinct (required_fact_ids c) \<or> \<not> distinct (required_relation_ids c),
           ValueError ''life completion targets must be unique'')]) (\<lambda>_.
     for_each (\<lambda>r. bindr (validate_life_refs fact_ids r) (\<lambda>_.
                validate_life_relation (dict_by fact_id (lg_facts g)) r)) (lg_relations g)))"

section \<open>Life plans\<close>

record life_effect =
  le_verdict :: verdict
  le_fact_updates :: "(string \<times> canonical_value) list"
  le_relation_ids :: "string list"
  le_misconception :: "string option"
  le_visual_patch :: "(string \<times> json) list"

record life_choice =
  lc_id :: string
  lc_label :: ustr
  lc_image :: "string option"
  lc_disabled :: bool
  lc_effect :: life_effect

record life_l2_plan =
  ll_plan_id :: string
  ll_target :: target_ref
  ll_copy_slot :: string
  ll_choices :: "life_choice list"
  ll_config :: "(string \<times> json) list"
  ll_submit_label :: ustr

record life_help_card = help_card +
  hc_visual_type :: "string option"
  hc_visual_data :: "(string \<times> json) list"

record life_help_plan =
  life_H1 :: life_help_card
  life_H2 :: life_help_card
  life_H3 :: life_help_card

datatype note_policy = Note_None | Verified_Child_Or_Coauthored

record life_policies =
  po_entry_level :: expression_level
  po_note_policy :: note_policy
  po_note_relation_ids :: "string list"
  po_note_skill_id :: "string option"
  po_note_context :: "ustr option"
  po_direct_fallback :: "ustr option"
  po_coauthored_note :: "ustr option"
  po_transition_text :: "ustr option"

definition validate_life_effect :: "life_effect \<Rightarrow> unit res" where
  "validate_life_effect e = check_all
     ((if le_verdict e = Correct then
         [(le_fact_updates e = [] \<and> le_relation_ids e = [],
             ValueError ''correct life choice must apply reviewed progress''),
          (le_misconception e \<noteq> None,
             ValueError ''correct life choice cannot declare a misconception'')]
       else
         [(le_misconception e = None, ValueError ''incorrect life choice needs a misconception code'')])
      @ [(\<not> distinct (map fst (le_fact_updates e)),
            ValueError ''life choice fact updates must be unique''),
         (\<not> distinct (le_relation_ids e), ValueError ''life choice relations must be unique'')])"

definition validate_life_choices :: "life_l2_plan \<Rightarrow> unit res" where
  "validate_life_choices p = check_all
     [(\<not> distinct (map lc_id (ll_choices p)), ValueError ''life choice IDs must be unique''),
      (\<not> (\<exists>c \<in> set (ll_choices p). le_verdict (lc_effect c) = Correct \<and> \<not> lc_disabled c),
         ValueError ''life L2 plan needs one enabled correct choice'')]"

definition life_card_profile_ok ::
    "hint_level \<Rightarrow> support_type \<Rightarrow> answer_policy \<Rightarrow> life_help_card \<Rightarrow> bool \<times> py_error" where
  "life_card_profile_ok level support policy c =
     (hc_level c \<noteq> level \<or> hc_support c \<noteq> support \<or> hc_policy c \<noteq> policy,
        ValueError ''life help card profile does not match its level'')"

definition validate_life_help :: "life_help_plan \<Rightarrow> unit res" where
  "validate_life_help h = check_all
     [life_card_profile_ok H1 Attention Hidden (life_H1 h),
      life_card_profile_ok H2 Guided_Action Partially_Shown (life_H2 h),
      life_card_profile_ok H3 Joint_Model Revealed (life_H3 h),
      (hc_facts (life_H1 h) \<noteq> [] \<or> hc_relations (life_H1 h) \<noteq> [],
         ValueError ''life H1 cannot reveal derived truth'')]"

definition truthy :: "'a list option \<Rightarrow> bool" where
  "truthy s = (case s of None \<Rightarrow> False | Some t \<Rightarrow> t \<noteq> [])"

definition validate_note_policy :: "life_policies \<Rightarrow> unit res" where
  "validate_note_policy p = check_all
     [(po_note_policy p = Note_None
         \<and> (po_note_relation_ids p \<noteq> [] \<or> truthy (po_note_skill_id p) \<or> truthy (po_note_context p)
            \<or> truthy (po_direct_fallback p) \<or> truthy (po_coauthored_note p)),
         ValueError ''note-disabled life task cannot carry note material''),
      (po_note_policy p \<noteq> Note_None
         \<and> (po_note_relation_ids p = [] \<or> po_note_skill_id p = None \<or> po_note_context p = None
            \<or> po_direct_fallback p = None \<or> po_coauthored_note p = None),
         ValueError ''note-enabled life task needs relation, skill and reviewed copy'')]"

section \<open>Life task packs\<close>

datatype life_phase = Single | Selection_Phase | Calculation | Primary | Transfer

record life_pack =
  li_pack_id :: string
  li_content_version :: nat
  li_scene :: scene_type
  li_scenario_id :: string
  li_task_id :: string
  li_stage_id :: string
  li_phase :: life_phase
  li_skill_id :: string
  li_title :: ustr
  li_dictionary_card_id :: string
  li_source_prompt :: ustr
  li_base_visual :: "string \<times> (string \<times> json) list"
  li_graph :: life_graph
  li_initial :: question_plan
  li_l3_plans :: "question_plan list"
  li_copy_slots :: "copy_slot list"
  li_l2_plans :: "life_l2_plan list"
  li_l0 :: joint_plan
  li_help :: life_help_plan
  li_policies :: life_policies

definition life_key :: "string list \<Rightarrow> string list \<Rightarrow> target_ref \<Rightarrow> tkey res" where
  "life_key fact_ids relation_ids t =
     bindr (check_all
       [(tr_kind t = TK_Fact \<and> tr_id t \<notin> set fact_ids,
           ValueError ''life question target must reference a fact''),
        (tr_kind t = TK_Relation \<and> tr_id t \<notin> set relation_ids,
           ValueError ''life question target must reference a relation'')])
     (\<lambda>_. Inr (plan_key t))"

definition first_target :: "question_plan \<Rightarrow> target_ref res" where
  "first_target q = (case qp_targets q of [] \<Rightarrow> Inl (ValidationError ''targets'') | t # _ \<Rightarrow> Inr t)"

definition validate_life_questions :: "life_pack \<Rightarrow> string list \<Rightarrow> string list \<Rightarrow> tkey set \<Rightarrow> unit res" where
  "validate_life_questions p fact_ids relation_ids required =
     bindr (mapr (life_key fact_ids relation_ids) (qp_targets (li_initial p))) (\<lambda>init.
     bindr (check (set init = required) ''life initial question must cover required targets'') (\<lambda>_.
     bindr (mapr (\<lambda>q. bindr (first_target q) (life_key fact_ids relation_ids)) (li_l3_plans p)) (\<lambda>l3.
     check (\<not> (\<exists>q \<in> set (li_l3_plans p). length (qp_targets q) \<noteq> 1)
            \<and> distinct l3 \<and> set l3 = required)
       ''life L3 needs one plan per required target'')))"

definition update_reviewed :: "(string, life_fact) dict \<Rightarrow> string \<times> canonical_value \<Rightarrow> bool" where
  "update_reviewed fs u =
     (case dict_get fs (fst u) of None \<Rightarrow> False | Some f \<Rightarrow> accepts_value f (snd u))"

definition validate_life_choice ::
    "(string, life_fact) dict \<Rightarrow> string list \<Rightarrow> tkey \<Rightarrow> life_choice \<Rightarrow> unit res" where
  "validate_life_choice fs relation_ids key c =
    (let e = lc_effect c in check_all
       (map (\<lambda>u. (\<not> update_reviewed fs u,
                   ValueError ''life choice fact update is outside reviewed truth'')) (le_fact_updates e)
        @ [(\<not> set (le_relation_ids e) \<subseteq> set relation_ids,
              ValueError ''life choice relation update is unknown''),
           (le_verdict e = Correct \<and> fst key = TK_Fact \<and> snd key \<notin> set (map fst (le_fact_updates e)),
              ValueError ''correct life choice must update its fact target''),
           (le_verdict e = Correct \<and> fst key = TK_Relation \<and> snd key \<notin> set (le_relation_ids e),
              ValueError ''correct life choice must update its relation target'')]))"

definition validate_life_l2_plan ::
    "(string, life_fact) dict \<Rightarrow> string list \<Rightarrow> string list \<Rightarrow> copy_slot list \<Rightarrow> life_l2_plan \<Rightarrow> unit res" where
  "validate_life_l2_plan fs fact_ids relation_ids ss p =
     bindr (life_key fact_ids relation_ids (ll_target p)) (\<lambda>key.
     bindr (case dict_get (dict_by cs_slot ss) (ll_copy_slot p) of
              None \<Rightarrow> Inl (ValueError ''life L2 plan and copy slot must share one target'')
            | Some s \<Rightarrow>
                if cs_purpose s \<noteq> L2_Question \<or> length (cs_targets s) \<noteq> 1
                then Inl (ValueError ''life L2 plan and copy slot must share one target'')
                else bindr (life_key fact_ids relation_ids (cs_targets s ! 0)) (\<lambda>k.
                  check (k = key) ''life L2 plan and copy slot must share one target'')) (\<lambda>_.
     for_each (validate_life_choice fs relation_ids key) (ll_choices p)))"

fun validate_life_joint :: "(string, life_fact) dict \<Rightarrow> string list \<Rightarrow> joint_completion \<Rightarrow> unit res" where
  "validate_life_joint fs relation_ids (JointFact i v) =
     check (update_reviewed fs (i, v)) ''life L0 fact value is outside reviewed truth''"
| "validate_life_joint fs relation_ids (JointRelation i) =
     check (i \<in> set relation_ids) ''life L0 relation target is unknown''"

definition life_help_known :: "string list \<Rightarrow> string list \<Rightarrow> life_help_card \<Rightarrow> bool \<times> py_error" where
  "life_help_known fact_ids relation_ids c =
     (\<not> set (hc_facts c) \<subseteq> set fact_ids \<or> \<not> set (hc_relations c) \<subseteq> set relation_ids,
        ValueError ''life help card contains an unknown graph reference'')"

definition validate_task :: "life_pack \<Rightarrow> unit res" where
  "validate_task p =
    (let g = li_graph p; fs = dict_by fact_id (lg_facts g);
         fact_ids = map fact_id (lg_facts g); relation_ids = map relation_id (lg_relations g);
         required = required_targets (lg_completion g); ss = li_copy_slots p;
         l2 = map (\<lambda>q. plan_key (ll_target q)) (li_l2_plans p);
         cs = jp_completion (li_l0 p) in
     bindr (validate_life_questions p fact_ids relation_ids required) (\<lambda>_.
     bindr (check_all
       [(\<not> distinct (map cs_slot ss), ValueError ''life copy slots must be unique''),
        (purpose_count Initial_Help ss \<noteq> 1 \<or> purpose_count L0_Intro ss \<noteq> 1
           \<or> purpose_count L0_Action ss \<noteq> 1,
           ValueError ''life task needs one initial-help and two L0 copy slots'')]) (\<lambda>_.
     bindr (for_each (validate_life_l2_plan fs fact_ids relation_ids ss) (li_l2_plans p)) (\<lambda>_.
     bindr (check (distinct l2 \<and> set l2 = required) ''life L2 needs one plan per required target'') (\<lambda>_.
     bindr (for_each (validate_life_joint fs relation_ids) cs) (\<lambda>_.
     check_all
       [(set (map joint_key cs) \<noteq> required \<or> \<not> distinct (map joint_key cs),
           ValueError ''life L0 completion must cover required targets exactly''),
        (\<not> set (po_note_relation_ids (li_policies p)) \<subseteq> set relation_ids,
           ValueError ''life note relations must reference the task graph''),
        life_help_known fact_ids relation_ids (life_H1 (li_help p)),
        life_help_known fact_ids relation_ids (life_H2 (li_help p)),
        life_help_known fact_ids relation_ids (life_H3 (li_help p)),
        (\<not> required \<subseteq> card_targets (life_H3 (li_help p)),
           ValueError ''life H3 must reveal all required targets'')]))))))"

text \<open>The length bounds of the pack's own fields and of the plans and copy slots in it.\<close>

definition life_fields :: "life_pack \<Rightarrow> (bool \<times> py_error) list" where
  "life_fields p =
     [field (bounded 1 120 (li_title p)) ''title'',
      field (bounded 1 240 (li_source_prompt p)) ''source_prompt'',
      field (bounded 1 20 (required_fact_ids (lg_completion (li_graph p)))) ''required_fact_ids'',
      field (bounded 0 20 (required_relation_ids (lg_completion (li_graph p)))) ''required_relation_ids'',
      field (bounded 1 8 (li_l3_plans p)) ''l3_plans'',
      field (bounded 4 12 (li_copy_slots p)) ''copy_slots'',
      field (bounded 1 8 (li_l2_plans p)) ''l2_plans'']
     @ concat (map question_fields (li_initial p # li_l3_plans p))
     @ concat (map slot_fields (li_copy_slots p))"

definition validate_life_pack :: "life_pack \<Rightarrow> unit res" where
  "validate_life_pack p =
     bindr (check_all (life_fields p)) (\<lambda>_.
     bindr (graph_fields 1 0 60 (map fact_id (lg_facts (li_graph p)))
              (map relation_id (lg_relations (li_graph p)))) (\<lambda>_.
     bindr (for_each validate_life_fact (lg_facts (li_graph p))) (\<lambda>_.
     bindr (validate_life_graph (li_graph p)) (\<lambda>_.
     bindr (for_each (\<lambda>q. bindr (for_each (\<lambda>c. validate_life_effect (lc_effect c)) (ll_choices q)) (\<lambda>_.
                      validate_life_choices q)) (li_l2_plans p)) (\<lambda>_.
     bindr (validate_life_help (li_help p)) (\<lambda>_.
     bindr (validate_note_policy (li_policies p)) (\<lambda>_.
     validate_task p)))))))"

section \<open>Task stages and scenarios\<close>

record variant_selector =
  vs_source_task_id :: string
  vs_fact_id :: string
  vs_value_to_variant :: "(string, string) dict"

record task_stage =
  st_task_id :: string
  st_default_variant :: string
  st_variants :: "(string, life_pack) dict"
  st_selector :: "variant_selector option"

datatype projection_kind = PK_Fact | PK_Relation_Constant

record completion_projection =
  cp_output_key :: string
  cp_source_task_id :: string
  cp_source_kind :: projection_kind
  cp_source_id :: string
  cp_relation_value :: "json option"

record scenario_pack =
  sp_pack_id :: string
  sp_content_version :: nat
  sp_scene :: scene_type
  sp_scenario_id :: string
  sp_stages :: "task_stage list"
  sp_projection :: "completion_projection list"

definition validate_variants :: "task_stage \<Rightarrow> unit res" where
  "validate_variants s = check_all
     [(st_default_variant s \<notin> set (dict_keys (st_variants s)),
         ValueError ''life task default variant is missing''),
      (\<exists>p \<in> set (map snd (st_variants s)). li_task_id p \<noteq> st_task_id s,
         ValueError ''life task variants must share their task ID''),
      (case st_selector s of
         None \<Rightarrow> False
       | Some sel \<Rightarrow> \<not> set (map snd (vs_value_to_variant sel)) \<subseteq> set (dict_keys (st_variants s)),
         ValueError ''life task selector references an unknown variant'')]"

definition validate_projection :: "completion_projection \<Rightarrow> unit res" where
  "validate_projection c =
     check ((cp_source_kind c = PK_Relation_Constant) = (cp_relation_value c \<noteq> None))
       ''relation projection must declare its reviewed value''"

definition pack_fact_ids :: "life_pack \<Rightarrow> string set" where
  "pack_fact_ids p = fact_id ` set (lg_facts (li_graph p))"

definition pack_relation_ids :: "life_pack \<Rightarrow> string set" where
  "pack_relation_ids p = relation_id ` set (lg_relations (li_graph p))"

definition validate_stage_selector :: "task_stage list \<Rightarrow> nat \<Rightarrow> unit res" where
  "validate_stage_selector stages i =
     (case st_selector (stages ! i) of
        None \<Rightarrow> Inr ()
      | Some sel \<Rightarrow>
          bindr (check (vs_source_task_id sel \<in> set (take i (map st_task_id stages)))
                   ''life variant selector must use an earlier task'') (\<lambda>_.
          bindr (py_index (dict_by st_task_id stages) (vs_source_task_id sel)) (\<lambda>source.
          for_each (\<lambda>p. check (vs_fact_id sel \<in> pack_fact_ids p) ''life selector source fact is missing'')
            (map snd (st_variants source)))))"

definition validate_scenario_projection :: "task_stage list \<Rightarrow> completion_projection \<Rightarrow> unit res" where
  "validate_scenario_projection stages c =
     (case dict_get (dict_by st_task_id stages) (cp_source_task_id c) of
        None \<Rightarrow> Inl (ValueError ''life completion projection source task is missing'')
      | Some s \<Rightarrow>
          for_each (\<lambda>p. check_all
             [(cp_source_kind c = PK_Fact \<and> cp_source_id c \<notin> pack_fact_ids p,
                 ValueError ''life completion projection fact is missing''),
              (cp_source_kind c = PK_Relation_Constant \<and> cp_source_id c \<notin> pack_relation_ids p,
                 ValueError ''life completion projection relation is missing'')])
            (map snd (st_variants s)))"

definition validate_scenario :: "scenario_pack \<Rightarrow> unit res" where
  "validate_scenario sc =
    (let stages = sp_stages sc in
     bindr (check_all
       [(\<not> distinct (map st_task_id stages), ValueError ''life scenario task IDs must be unique''),
        (\<exists>s \<in> set stages. \<exists>p \<in> set (map snd (st_variants s)).
            li_scene p \<noteq> sp_scene sc \<or> li_scenario_id p \<noteq> sp_scenario_id sc,
           ValueError ''life task variants must match their scenario'')]) (\<lambda>_.
     bindr (for_each (validate_stage_selector stages) [0..<length stages]) (\<lambda>_.
     bindr (check (distinct (map cp_output_key (sp_projection sc)))
              ''life completion projection keys must be unique'') (\<lambda>_.
     for_each (validate_scenario_projection stages) (sp_projection sc)))))"

definition stage_by_task_id :: "scenario_pack \<Rightarrow> string \<Rightarrow> task_stage res" where
  "stage_by_task_id sc i = py_next (\<lambda>s. st_task_id s = i) (sp_stages sc)"

section \<open>Task packs\<close>

text \<open>
  \<^verbatim>\<open>TaskPackV2\<close> is the union of the two kinds of pack; \<open>task_fact\<close> keeps the
  \<^verbatim>\<open>isinstance(fact, LifeFactV2)\<close> distinction on which the comparison of values depends.
\<close>

datatype task_pack = Home home_pack | Life life_pack

datatype task_fact = HomeFact content_fact | LifeFact life_fact

fun tf_id :: "task_fact \<Rightarrow> string" where
  "tf_id (HomeFact f) = fact_id f" | "tf_id (LifeFact f) = fact_id f"

fun tf_role :: "task_fact \<Rightarrow> fact_role" where
  "tf_role (HomeFact f) = fact_role f" | "tf_role (LifeFact f) = fact_role f"

fun tf_value :: "task_fact \<Rightarrow> canonical_value" where
  "tf_value (HomeFact f) = fact_value f" | "tf_value (LifeFact f) = fact_value f"

fun tf_visible :: "task_fact \<Rightarrow> bool" where
  "tf_visible (HomeFact f) = initially_visible f" | "tf_visible (LifeFact f) = initially_visible f"

fun tf_accepts :: "task_fact \<Rightarrow> canonical_value \<Rightarrow> bool" where
  "tf_accepts (HomeFact f) v \<longleftrightarrow> value_eq v (fact_value f)"
| "tf_accepts (LifeFact f) v \<longleftrightarrow> accepts_value f v"

fun pack_facts :: "task_pack \<Rightarrow> task_fact list" where
  "pack_facts (Home p) = map HomeFact (facts (hp_graph p))"
| "pack_facts (Life p) = map LifeFact (lg_facts (li_graph p))"

fun pack_relations :: "task_pack \<Rightarrow> string list" where
  "pack_relations (Home p) = map relation_id (relations (hp_graph p))"
| "pack_relations (Life p) = map relation_id (lg_relations (li_graph p))"

fun pack_completion :: "task_pack \<Rightarrow> completion_contract" where
  "pack_completion (Home p) = completion (hp_graph p)"
| "pack_completion (Life p) = lg_completion (li_graph p)"

fun pack_joint :: "task_pack \<Rightarrow> joint_plan" where
  "pack_joint (Home p) = hp_l0 p" | "pack_joint (Life p) = li_l0 p"

fun validate_task_pack :: "task_pack \<Rightarrow> unit res" where
  "validate_task_pack (Home p) = validate_home_pack p"
| "validate_task_pack (Life p) = validate_life_pack p"

lemma tf_accepts_own [simp]: "tf_accepts f (tf_value f)"
  by (cases f) (simp_all add: accepts_value_def)

section \<open>What an accepted pack guarantees\<close>

lemma validate_life_pack_parts:
  assumes "validate_life_pack p = Inr ()"
  shows "validate_life_graph (li_graph p) = Inr ()" and "validate_task p = Inr ()"
    and "\<And>q. q \<in> set (li_l2_plans p) \<Longrightarrow> validate_life_choices q = Inr ()"
    and "\<And>q c. q \<in> set (li_l2_plans p) \<Longrightarrow> c \<in> set (ll_choices q) \<Longrightarrow> validate_life_effect (lc_effect c) = Inr ()"
    and "graph_fields 1 0 60 (map fact_id (lg_facts (li_graph p)))
           (map relation_id (lg_relations (li_graph p))) = Inr ()"
    and "check_all (life_fields p) = Inr ()"
  using assms by (auto simp: validate_life_pack_def bindr_eq_Inr for_each_Inr)

lemma validate_life_graph_parts:
  assumes "validate_life_graph g = Inr ()"
  shows "distinct (map fact_id (lg_facts g))" and "distinct (map relation_id (lg_relations g))"
    and "set (required_fact_ids (lg_completion g)) \<subseteq> fact_id ` set (lg_facts g)"
    and "set (required_relation_ids (lg_completion g)) \<subseteq> relation_id ` set (lg_relations g)"
    and "distinct (required_fact_ids (lg_completion g))"
    and "distinct (required_relation_ids (lg_completion g))"
  using assms by (auto simp: validate_life_graph_def Let_def bindr_eq_Inr split: if_splits)

lemma validate_task_parts:
  assumes "validate_task p = Inr ()"
  shows "distinct (map joint_key (jp_completion (li_l0 p)))"
    and "joint_key ` set (jp_completion (li_l0 p)) = required_targets (lg_completion (li_graph p))"
    and "\<And>c. c \<in> set (jp_completion (li_l0 p)) \<Longrightarrow>
          validate_life_joint (dict_by fact_id (lg_facts (li_graph p)))
            (map relation_id (lg_relations (li_graph p))) c = Inr ()"
    and "distinct (map (\<lambda>q. plan_key (ll_target q)) (li_l2_plans p))"
    and "(\<lambda>q. plan_key (ll_target q)) ` set (li_l2_plans p) = required_targets (lg_completion (li_graph p))"
    and "\<And>q. q \<in> set (li_l2_plans p) \<Longrightarrow>
          validate_life_l2_plan (dict_by fact_id (lg_facts (li_graph p)))
            (map fact_id (lg_facts (li_graph p))) (map relation_id (lg_relations (li_graph p)))
            (li_copy_slots p) q = Inr ()"
    and "required_targets (lg_completion (li_graph p)) \<subseteq> card_targets (life_H3 (li_help p))"
  using assms
  by (auto simp: validate_task_def Let_def bindr_eq_Inr for_each_Inr check_Inr life_help_known_def
      split: if_splits)

lemma life_joint_completion:
  assumes "validate_life_pack p = Inr ()"
  shows "\<And>i v. JointFact i v \<in> set (jp_completion (li_l0 p)) \<Longrightarrow>
           \<exists>f \<in> set (lg_facts (li_graph p)). fact_id f = i \<and> accepts_value f v"
    and "\<And>i. JointRelation i \<in> set (jp_completion (li_l0 p)) \<Longrightarrow>
           i \<in> relation_id ` set (lg_relations (li_graph p))"
  using validate_task_parts(3) [OF validate_life_pack_parts(2) [OF assms]]
  by (force simp: check_Inr update_reviewed_def split: option.splits dest!: dict_by_get)+

text \<open>The same guarantees for both kinds of pack.\<close>

lemma validated_pack:
  assumes "validate_task_pack tp = Inr ()"
  shows "distinct (map tf_id (pack_facts tp))" and "distinct (pack_relations tp)"
    and "set (required_fact_ids (pack_completion tp)) \<subseteq> tf_id ` set (pack_facts tp)"
    and "set (required_relation_ids (pack_completion tp)) \<subseteq> set (pack_relations tp)"
    and "distinct (required_fact_ids (pack_completion tp))"
    and "distinct (required_relation_ids (pack_completion tp))"
proof -
  have c: "distinct (map tf_id (pack_facts tp)) \<and> distinct (pack_relations tp)
    \<and> set (required_fact_ids (pack_completion tp)) \<subseteq> tf_id ` set (pack_facts tp)
    \<and> set (required_relation_ids (pack_completion tp)) \<subseteq> set (pack_relations tp)
    \<and> distinct (required_fact_ids (pack_completion tp))
    \<and> distinct (required_relation_ids (pack_completion tp))"
  proof (cases tp)
    case (Home p)
    then have v: "validate_graph (hp_graph p) = Inr ()"
      using assms validate_home_pack_parts(1) by simp
    note g = validate_graph_parts [OF v]
    note c = validate_completion_parts [OF g(5)]
    show ?thesis using Home g(1,2) c by (auto simp: comp_def image_image)
  next
    case (Life p)
    then have v: "validate_life_graph (li_graph p) = Inr ()"
      using assms validate_life_pack_parts(1) by simp
    show ?thesis using Life validate_life_graph_parts [OF v] by (auto simp: comp_def image_image)
  qed
  then show "distinct (map tf_id (pack_facts tp))" "distinct (pack_relations tp)"
    "set (required_fact_ids (pack_completion tp)) \<subseteq> tf_id ` set (pack_facts tp)"
    "set (required_relation_ids (pack_completion tp)) \<subseteq> set (pack_relations tp)"
    "distinct (required_fact_ids (pack_completion tp))"
    "distinct (required_relation_ids (pack_completion tp))" by blast+
qed

lemma validated_pack_fields:
  assumes "validate_task_pack tp = Inr ()"
  shows "list_all (content_id_ok 120) (map tf_id (pack_facts tp))"
    and "list_all (content_id_ok 120) (pack_relations tp)"
    and "length (pack_facts tp) \<le> 60" and "length (pack_relations tp) \<le> 60"
  using assms validate_home_pack_parts(6) validate_life_pack_parts(5)
  by (cases tp; force simp: graph_fields_Inr list_all_iff bounded_def)+

lemma validated_pack_joint:
  assumes "validate_task_pack tp = Inr ()"
  shows "distinct (map joint_key (jp_completion (pack_joint tp)))"
    and "joint_key ` set (jp_completion (pack_joint tp)) = required_targets (pack_completion tp)"
    and "\<And>i v. JointFact i v \<in> set (jp_completion (pack_joint tp)) \<Longrightarrow>
           \<exists>f \<in> set (pack_facts tp). tf_id f = i \<and> tf_accepts f v"
    and "\<And>i. JointRelation i \<in> set (jp_completion (pack_joint tp)) \<Longrightarrow> i \<in> set (pack_relations tp)"
proof -
  have c: "distinct (map joint_key (jp_completion (pack_joint tp)))
    \<and> joint_key ` set (jp_completion (pack_joint tp)) = required_targets (pack_completion tp)
    \<and> (\<forall>i v. JointFact i v \<in> set (jp_completion (pack_joint tp)) \<longrightarrow>
           (\<exists>f \<in> set (pack_facts tp). tf_id f = i \<and> tf_accepts f v))
    \<and> (\<forall>i. JointRelation i \<in> set (jp_completion (pack_joint tp)) \<longrightarrow> i \<in> set (pack_relations tp))"
  proof (cases tp)
    case (Home p)
    with assms home_joint_completion [of p] show ?thesis by auto
  next
    case (Life p)
    then have v: "validate_life_pack p = Inr ()" using assms by simp
    with Life validate_task_parts(1,2) [OF validate_life_pack_parts(2) [OF v]]
      life_joint_completion [OF v] show ?thesis by auto
  qed
  then show "distinct (map joint_key (jp_completion (pack_joint tp)))"
    "joint_key ` set (jp_completion (pack_joint tp)) = required_targets (pack_completion tp)"
    "\<And>i v. JointFact i v \<in> set (jp_completion (pack_joint tp)) \<Longrightarrow>
       \<exists>f \<in> set (pack_facts tp). tf_id f = i \<and> tf_accepts f v"
    "\<And>i. JointRelation i \<in> set (jp_completion (pack_joint tp)) \<Longrightarrow> i \<in> set (pack_relations tp)"
    by blast+
qed

end
