(* ===== verification/Money_Price.thy ===== *)
theory Money_Price
  imports Life_Packs
begin

text \<open>
  One pack of the shipped catalog
  (\<^verbatim>\<open>dialogue_v2_required_home_catalog.json\<close>, session \<^verbatim>\<open>money-price\<close>): a juice
  for 700 won and a bread for 500 won, and the child teaches why they cost 1,200 won together. It
  is the concrete pack on which the properties of the development are instantiated; Korean copy is
  written as lists of code points.
\<close>

definition money_price_graph :: reasoning_graph where
  "money_price_graph =
   \<lparr>facts =
     [\<lparr>fact_id = ''juice_price'',
      fact_role = Visible_Value,
      fact_value = MoneyValue (PInt 700) ''KRW'',
      fact_label = [51452, 49828, 32, 44032, 44201],
      initially_visible = True,
      fact_required = False,
      surface_forms = [[55, 48, 48, 50896]]\<rparr>,
      \<lparr>fact_id = ''bread_price'',
      fact_role = Visible_Value,
      fact_value = MoneyValue (PInt 500) ''KRW'',
      fact_label = [48757, 32, 44032, 44201],
      initially_visible = True,
      fact_required = False,
      surface_forms = [[53, 48, 48, 50896]]\<rparr>,
      \<lparr>fact_id = ''purchase_total'',
      fact_role = Final_Answer,
      fact_value = MoneyValue (PInt 1200) ''KRW'',
      fact_label = [51452, 49828, 50752, 32, 48757, 51032, 32, 51204, 52404, 32, 44050],
      initially_visible = False,
      fact_required = True,
      surface_forms = [[49, 44, 50, 48, 48, 50896],
        [49, 50, 48, 48, 50896],
        [49, 50, 48, 48]]\<rparr>],
    relations =
     [\<lparr>relation_id = ''add_item_prices'',
      rel_role = ''procedure_step'',
      operation = Addition,
      input_fact_ids = [''juice_price'', ''bread_price''],
      output_fact_id = ''purchase_total'',
      evaluation_mode = ''open_semantic_support'',
      rel_label = [46160, 32, 47932, 44148, 44050, 51012, 32, 45908, 54616, 45716, 32, 48169, 48277],
      rel_rubric = \<lparr>rb_sufficient = [[55, 48, 48, 50896, 44284, 32, 53, 48, 48, 50896, 51012, 32, 45908, 54620, 45796, 44256,
        32, 47568, 54620, 45796],
        [46160, 32, 47932, 44148, 44050, 51012, 32, 54633, 52432, 32, 51204, 52404, 32, 44050,
        51012, 32, 44396, 54620, 45796, 45716, 32, 46041, 52824, 32, 48169, 48277, 51012, 32,
        47568, 54620, 45796]],
      rb_partial = [[46160, 32, 44050, 51012, 32, 44228, 49328, 54620, 45796, 44256, 47564, 32, 47568, 54616,
        44256, 32, 45908, 54616, 45716, 32, 44288, 44228, 45716, 32, 47568, 54616, 51648, 32,
        50506, 45716, 45796]],
      rb_incorrect = [[46160, 32, 44050, 51012, 32, 48764, 44144, 45208, 32, 54620, 32, 47932, 44148, 44050,
        47564, 32, 51204, 52404, 32, 44050, 51004, 47196, 32, 47568, 54620, 45796]]\<rparr>,
      rel_required = True\<rparr>],
    completion = \<lparr>required_fact_ids = [''purchase_total''], required_relation_ids = [''add_item_prices'']\<rparr>,
    open_auxiliary_claims = True\<rparr>"

definition money_price_slots :: "copy_slot list" where
  "money_price_slots =
    [\<lparr>cs_slot = ''money-price.initial-help'',
      cs_purpose = Initial_Help,
      cs_targets = [\<lparr>tr_kind = TK_Fact, tr_id = ''purchase_total'', tr_ask = Ask_Answer\<rparr>],
      cs_brief = [51656, 47928, 32, 48512, 45812, 51012, 32, 47784, 47476, 48120, 44032, 32, 47585, 44256,
        32, 51204, 52404, 32, 47932, 44148, 44050, 48512, 53552, 32, 48512, 53441, 54620, 45796],
      cs_fallback = [45236, 44032, 32, 54620, 44732, 48264, 50640, 32, 47932, 50612, 48420, 45348, 46, 46, 46,
        32, 51452, 49828, 50752, 32, 48757, 51060, 32, 47784, 46160, 32, 50620, 47560, 51064,
        51648, 47564, 32, 47676, 51200, 32, 50508, 47140, 51460, 32, 49688, 32, 51080, 50612, 63]\<rparr>,
     \<lparr>cs_slot = ''money-price.l2.answer'',
      cs_purpose = L2_Question,
      cs_targets = [\<lparr>tr_kind = TK_Fact, tr_id = ''purchase_total'', tr_ask = Ask_Answer\<rparr>],
      cs_brief = [46160, 32, 47932, 44148, 51032, 32, 51204, 52404, 32, 44050, 51012, 32, 49440, 53469,
        54644, 49436, 32, 50508, 47140, 32, 45804, 46972, 44256, 32, 48512, 53441, 54620, 45796],
      cs_fallback = [45208, 32, 51452, 49828, 50752, 32, 48757, 51060, 32, 47784, 46160, 32, 50620, 47560,
        51064, 51648, 32, 50500, 51649, 32, 54775, 44040, 47140, 46, 46, 46, 32, 50668, 44592,
        50640, 49436, 32, 44264, 46972, 49436, 32, 50508, 47140, 51460, 32, 49688, 32, 51080,
        50612, 63]\<rparr>,
     \<lparr>cs_slot = ''money-price.l2.method'',
      cs_purpose = L2_Question,
      cs_targets = [\<lparr>tr_kind = TK_Relation, tr_id = ''add_item_prices'', tr_ask = Ask_Reason_Or_Method\<rparr>],
      cs_brief = [46160, 32, 47932, 44148, 44050, 32, 44228, 49328, 32, 48169, 48277, 51012, 32, 49440,
        53469, 54644, 49436, 32, 50508, 47140, 32, 45804, 46972, 44256, 32, 48512, 53441, 54620,
        45796],
      cs_fallback = [45208, 32, 51452, 49828, 50752, 32, 48757, 51032, 32, 44050, 51012, 32, 50612, 46523,
        44172, 32, 44228, 49328, 54616, 45716, 51648, 32, 44417, 44552, 54644, 46, 46, 46, 32,
        50668, 44592, 50640, 49436, 32, 44264, 46972, 49436, 32, 50508, 47140, 51460, 32, 49688,
        32, 51080, 50612, 63]\<rparr>,
     \<lparr>cs_slot = ''money-price.l0.intro'',
      cs_purpose = L0_Intro,
      cs_targets = [\<lparr>tr_kind = TK_Fact, tr_id = ''purchase_total'', tr_ask = Ask_Answer\<rparr>,
        \<lparr>tr_kind = TK_Relation, tr_id = ''add_item_prices'', tr_ask = Ask_Reason_Or_Method\<rparr>],
      cs_brief = [46020, 50880, 32, 52852, 46300, 47484, 32, 48372, 47728, 32, 47932, 44148, 44050, 51012,
        32, 44277, 46041, 32, 44228, 49328, 54644, 32, 45804, 46972, 44256, 32, 48512, 53441,
        54620, 45796],
      cs_fallback = [50500, 51649, 32, 54775, 44040, 47140, 49436, 32, 44536, 47088, 45936, 44, 32, 46020,
        50880, 32, 52852, 46300, 47484, 32, 48372, 47732, 49436, 32, 45208, 50752, 32, 44057,
        51060, 32, 44228, 49328, 54644, 32, 51460, 32, 49688, 32, 51080, 50612, 63]\<rparr>,
     \<lparr>cs_slot = ''money-price.l0.action'',
      cs_purpose = L0_Action,
      cs_targets = [\<lparr>tr_kind = TK_Fact, tr_id = ''purchase_total'', tr_ask = Ask_Answer\<rparr>,
        \<lparr>tr_kind = TK_Relation, tr_id = ''add_item_prices'', tr_ask = Ask_Reason_Or_Method\<rparr>],
      cs_brief = [55, 48, 48, 50896, 44284, 32, 53, 48, 48, 50896, 51012, 32, 45908, 54616, 45716, 32,
        44277, 46041, 32, 54665, 46041, 51012, 32, 48512, 53441, 54620, 45796],
      cs_fallback = [55, 48, 48, 50896, 44284, 32, 53, 48, 48, 50896, 51012, 32, 52852, 46300, 50640, 32,
        45208, 50728, 32, 49885, 52376, 47100, 32, 44057, 51060, 32, 45908, 54644, 32, 51460, 32,
        49688, 32, 51080, 50612, 63]\<rparr>]"

definition money_price_l2 :: "l2_plan list" where
  "money_price_l2 =
    [\<lparr>lp_plan_id = ''l2.answer'',
      lp_target = \<lparr>tr_kind = TK_Fact, tr_id = ''purchase_total'', tr_ask = Ask_Answer\<rparr>,
      lp_copy_slot = ''money-price.l2.answer'',
      lp_choices = [\<lparr>ch_id = ''answer_0'',
      ch_label = [49, 44, 50, 48, 48, 50896],
      ch_effect = \<lparr>ef_verdict = Correct,
      ef_target_kind = TK_Fact,
      ef_target_id = ''purchase_total'',
      ef_value = Some (MoneyValue (PInt 1200) ''KRW''),
      ef_misconception = None\<rparr>\<rparr>,
      \<lparr>ch_id = ''answer_1'',
      ch_label = [49, 44, 49, 48, 48, 50896],
      ch_effect = \<lparr>ef_verdict = Incorrect,
      ef_target_kind = TK_Fact,
      ef_target_id = ''purchase_total'',
      ef_value = None,
      ef_misconception = Some ''price_under_add''\<rparr>\<rparr>,
      \<lparr>ch_id = ''answer_2'',
      ch_label = [49, 44, 51, 48, 48, 50896],
      ch_effect = \<lparr>ef_verdict = Incorrect,
      ef_target_kind = TK_Fact,
      ef_target_id = ''purchase_total'',
      ef_value = None,
      ef_misconception = Some ''price_over_add''\<rparr>\<rparr>]\<rparr>,
     \<lparr>lp_plan_id = ''l2.method'',
      lp_target = \<lparr>tr_kind = TK_Relation, tr_id = ''add_item_prices'', tr_ask = Ask_Reason_Or_Method\<rparr>,
      lp_copy_slot = ''money-price.l2.method'',
      lp_choices = [\<lparr>ch_id = ''short_0'',
      ch_label = [55, 48, 48, 50896, 44284, 32, 53, 48, 48, 50896, 51012, 32, 45908, 54616, 44592],
      ch_effect = \<lparr>ef_verdict = Correct,
      ef_target_kind = TK_Relation,
      ef_target_id = ''add_item_prices'',
      ef_value = None,
      ef_misconception = None\<rparr>\<rparr>,
      \<lparr>ch_id = ''short_1'',
      ch_label = [55, 48, 48, 50896, 50640, 49436, 32, 53, 48, 48, 50896, 51012, 32, 48764, 44592],
      ch_effect = \<lparr>ef_verdict = Incorrect,
      ef_target_kind = TK_Relation,
      ef_target_id = ''add_item_prices'',
      ef_value = None,
      ef_misconception = Some ''price_subtract''\<rparr>\<rparr>,
      \<lparr>ch_id = ''short_2'',
      ch_label = [55, 48, 48, 50896, 47564, 32, 44228, 49328, 54616, 44592],
      ch_effect = \<lparr>ef_verdict = Incorrect,
      ef_target_kind = TK_Relation,
      ef_target_id = ''add_item_prices'',
      ef_value = None,
      ef_misconception = Some ''price_ignore_item''\<rparr>\<rparr>]\<rparr>]"

definition money_price_help :: help_plan where
  "money_price_help =
    \<lparr>card_H1 = \<lparr>hc_level = H1,
      hc_support = Attention,
      hc_policy = Hidden,
      hc_body = [51452, 49828, 44050, 32, 55, 48, 48, 50896, 44284, 32, 48757, 44050, 32, 53, 48, 48,
        50896, 51012, 32, 44033, 44033, 32, 49332, 54196, 48372, 51088, 46],
      hc_action = None,
      hc_facts = [],
      hc_relations = []\<rparr>,
     card_H2 = \<lparr>hc_level = H2,
      hc_support = Guided_Action,
      hc_policy = Partially_Shown,
      hc_body = [55, 48, 48, 43, 53, 48, 48, 61, 9633, 32, 49885, 51032, 32, 48712, 52856, 51012, 32,
        44396, 54644, 32, 48372, 51088, 46],
      hc_action = Some [55, 48, 48, 43, 53, 48, 48, 32, 49885, 51032, 32, 48712, 52856, 32, 44396, 54616, 44592],
      hc_facts = [],
      hc_relations = []\<rparr>,
     card_H3 = \<lparr>hc_level = H3,
      hc_support = Joint_Model,
      hc_policy = Revealed,
      hc_body = [55, 48, 48, 50896, 50640, 32, 53, 48, 48, 50896, 51012, 32, 45908, 54616, 47732, 32,
        47784, 46160, 32, 49, 44, 50, 48, 48, 50896, 51060, 50556, 46],
      hc_action = Some [55, 48, 48, 43, 53, 48, 48, 61, 49, 44, 50, 48, 48, 51012, 32, 54632, 44760, 32, 54869,
        51064, 54616, 44592],
      hc_facts = [''purchase_total''],
      hc_relations = [''add_item_prices'']\<rparr>\<rparr>"

definition money_price_pack :: home_pack where
  "money_price_pack =
   \<lparr>hp_pack_id = ''home.money-price.v2'', hp_content_version = 1, hp_session_id = ''money-price'',
    hp_title = [47932, 44148, 44050, 51012, 32, 45908, 54644, 50836],
    hp_journey_role = ''cafe_required'', hp_transfer_ids = [],
    hp_prompt = [47784, 46160, 32, 50620, 47560, 51068, 44620, 63],
    hp_rendered_labels = [(''juice_price'', Some [51452, 49828]), (''bread_price'', Some [48757])],
    hp_answers = [[49, 44, 50, 48, 48, 50896], [49, 44, 49, 48, 48, 50896], [49, 44, 51, 48, 48, 50896]],
    hp_correct = [49, 44, 50, 48, 48, 50896],
    hp_graph = money_price_graph,
    hp_initial = \<lparr>qp_plan_id = ''initial'',
      qp_targets = [\<lparr>tr_kind = TK_Fact, tr_id = ''purchase_total'', tr_ask = Ask_Answer\<rparr>,
        \<lparr>tr_kind = TK_Relation, tr_id = ''add_item_prices'', tr_ask = Ask_Reason_Or_Method\<rparr>],
      qp_fallback = [45208, 32, 51452, 49828, 46993, 32, 48757, 51012, 32, 54632, 44760, 32, 49324, 47140,
        45716, 45936, 32, 54775, 44040, 47140, 46, 46, 46, 32, 45244, 32, 46024, 44284, 32, 44228,
        49328, 32, 48169, 48277, 51012, 32, 50508, 47140, 51460, 32, 49688, 32, 51080, 50612, 63]\<rparr>,
    hp_l3_plans =
     [\<lparr>qp_plan_id = ''l3.answer'',
      qp_targets = [\<lparr>tr_kind = TK_Fact, tr_id = ''purchase_total'', tr_ask = Ask_Answer\<rparr>],
      qp_fallback = [45208, 32, 51452, 49828, 46993, 32, 48757, 51012, 32, 54632, 44760, 32, 49324, 47732, 32,
        50620, 47560, 51064, 51648, 32, 54775, 44040, 47140, 46, 46, 46, 32, 45244, 32, 46024,
        47564, 32, 47676, 51200, 32, 50508, 47140, 51460, 32, 49688, 32, 51080, 50612, 63]\<rparr>,
      \<lparr>qp_plan_id = ''l3.method'',
      qp_targets = [\<lparr>tr_kind = TK_Relation, tr_id = ''add_item_prices'', tr_ask = Ask_Reason_Or_Method\<rparr>],
      qp_fallback = [45208, 32, 55, 48, 48, 50896, 51676, 47532, 32, 51452, 49828, 50752, 32, 53, 48, 48,
        50896, 51676, 47532, 32, 48757, 51012, 32, 50612, 46523, 44172, 32, 44228, 49328, 54616,
        45716, 51648, 32, 44417, 44552, 54644, 46, 46, 46, 32, 48169, 48277, 51012, 32, 50508,
        47140, 51460, 32, 49688, 32, 51080, 50612, 63]\<rparr>],
    hp_copy_slots = money_price_slots,
    hp_l2_plans = money_price_l2,
    hp_l0 = \<lparr>jp_action_id = ''add_item_prices_together'', jp_intro_slot = ''money-price.l0.intro'', jp_action_slot = ''money-price.l0.action'',
      jp_completion = [JointFact ''purchase_total'' (MoneyValue (PInt 1200) ''KRW''), JointRelation ''add_item_prices''],
      jp_button = [44057, 51060, 32, 44228, 49328, 54616, 44592], jp_config = []\<rparr>,
    hp_help = money_price_help,
    hp_note_relation_ids = [''add_item_prices'']\<rparr>"

lemma money_price_valid: "validate_home_pack money_price_pack = Inr ()"
  by code_simp

end
