(* ===== verification/Ledger.thy ===== *)
theory Ledger
  imports Life_Packs "HOL-Library.Sublist"
begin

text \<open>
  The reasoning ledger of \<^verbatim>\<open>dialogue_v2_ledger.py\<close>: content snapshots pinned to a
  conversation, the ledger of verified facts and relations bound to one snapshot, and the two
  operations that extend it, one from admitted understanding claims and one from a resolved choice
  or joint action. SHA-256 is a parameter of every definition that uses it:
  \<open>pack_hash\<close> is the digest of a pack's canonical JSON and \<open>sha\<close> the digest of the
  canonical JSON of an \<open>evidence_key\<close>, the record of fields the source hashes.
\<close>

section \<open>Pinned snapshots\<close>

text \<open>
  The two snapshot classes differ in the name of one identity field
  (\<^verbatim>\<open>curriculum_session_id\<close> or \<^verbatim>\<open>task_id\<close>), here \<open>sn_subject\<close>. The
  payload is the JSON dump of a pack, which the pack model reads back to the same pack.
\<close>

record snapshot =
  sn_pack_id :: string
  sn_content_version :: nat
  sn_subject :: string
  sn_content_hash :: string
  sn_payload :: task_pack

fun pack_identity :: "task_pack \<Rightarrow> string \<times> nat \<times> string" where
  "pack_identity (Home p) = (hp_pack_id p, hp_content_version p, hp_session_id p)"
| "pack_identity (Life p) = (li_pack_id p, li_content_version p, li_task_id p)"

definition snapshot_matches :: "(task_pack \<Rightarrow> string) \<Rightarrow> snapshot \<Rightarrow> bool" where
  "snapshot_matches pack_hash sn \<longleftrightarrow>
     pack_identity (sn_payload sn) = (sn_pack_id sn, sn_content_version sn, sn_subject sn)
     \<and> pack_hash (sn_payload sn) = sn_content_hash sn"

definition validate_pinned_pack :: "(task_pack \<Rightarrow> string) \<Rightarrow> snapshot \<Rightarrow> unit res" where
  "validate_pinned_pack pack_hash sn =
     bindr (validate_task_pack (sn_payload sn)) (\<lambda>_.
     check (snapshot_matches pack_hash sn) ''pinned content does not match its payload'')"

definition resolve_pack :: "(task_pack \<Rightarrow> string) \<Rightarrow> snapshot \<Rightarrow> task_pack res" where
  "resolve_pack pack_hash sn =
     bindr (validate_task_pack (sn_payload sn)) (\<lambda>_.
     if snapshot_matches pack_hash sn then Inr (sn_payload sn)
     else Inl (DialogueV2LedgerError ''pinned content snapshot failed integrity validation''))"

definition pin_pack :: "(task_pack \<Rightarrow> string) \<Rightarrow> task_pack \<Rightarrow> snapshot res" where
  "pin_pack pack_hash p =
    (case pack_identity p of (i, v, s) \<Rightarrow>
      let sn = \<lparr>sn_pack_id = i, sn_content_version = v, sn_subject = s,
                sn_content_hash = pack_hash p, sn_payload = p\<rparr>
      in bindr (validate_pinned_pack pack_hash sn) (\<lambda>_. Inr sn))"

section \<open>Evidence and entries\<close>

record evidence_pointer =
  ep_evidence_id :: string
  ep_source_turn_id :: string
  ep_source_start :: nat
  ep_source_end :: nat
  ep_match_kind :: match_kind

datatype source_kind = Choice_Source | Joint_Source

record structured_evidence =
  se_evidence_id :: string
  se_source_turn_id :: string
  se_source_kind :: source_kind
  se_target_kind :: target_kind
  se_target_id :: string

datatype fact_evidence = FactVerification evidence_pointer | FactStructured structured_evidence
datatype relation_evidence =
  RelationVerification evidence_pointer verdict | RelationStructured structured_evidence

fun fe_id :: "fact_evidence \<Rightarrow> string" where
  "fe_id (FactVerification p) = ep_evidence_id p"
| "fe_id (FactStructured s) = se_evidence_id s"

fun re_id :: "relation_evidence \<Rightarrow> string" where
  "re_id (RelationVerification p _) = ep_evidence_id p"
| "re_id (RelationStructured s) = se_evidence_id s"

record fact_entry =
  fe_fact_id :: string
  fe_canonical_value :: canonical_value
  fe_evidence :: "fact_evidence list"

record relation_entry =
  re_relation_id :: string
  re_evidence :: "relation_evidence list"

record partial_entry =
  pe_relation_id :: string
  pe_evidence :: "evidence_pointer list"

record auxiliary_evidence =
  ae_pointer :: evidence_pointer
  ae_summary :: string
  ae_verdict :: verdict

record reasoning_ledger =
  rl_pack_id :: string
  rl_content_version :: nat
  rl_content_hash :: string
  verified_facts :: "(string, fact_entry) dict"
  verified_relations :: "(string, relation_entry) dict"
  partial_relations :: "(string, partial_entry) dict"
  accepted_auxiliary :: "(string, auxiliary_evidence) dict"

text \<open>
  Identifiers in the ledger match \<^verbatim>\<open>^[A-Za-z0-9][A-Za-z0-9_.:-]*$\<close>.
\<close>

definition ledger_id_ok :: "nat \<Rightarrow> string \<Rightarrow> bool" where
  "ledger_id_ok n s \<longleftrightarrow> length s \<le> n
     \<and> (case s of
          [] \<Rightarrow> False
        | c # r \<Rightarrow> (is_lower c \<or> is_upper c \<or> is_decimal c)
            \<and> list_all (\<lambda>d. is_lower d \<or> is_upper d \<or> is_decimal d \<or> d \<in> set ''_.:-'') r)"

definition map_keys_must_match_entries :: "reasoning_ledger \<Rightarrow> unit res" where
  "map_keys_must_match_entries l = check_all
     [(\<not> bounded 0 100 (verified_facts l), ValidationError ''verified_facts''),
      (\<not> bounded 0 100 (verified_relations l), ValidationError ''verified_relations''),
      (\<not> bounded 0 100 (partial_relations l), ValidationError ''partial_relations''),
      (\<not> bounded 0 200 (accepted_auxiliary l), ValidationError ''accepted_auxiliary_evidence''),
      (\<exists>(k, e) \<in> set (verified_facts l). k \<noteq> fe_fact_id e,
         ValueError ''verified fact map keys must match fact ids''),
      (\<exists>(k, e) \<in> set (verified_relations l). k \<noteq> re_relation_id e,
         ValueError ''verified relation map keys must match relation ids''),
      (\<exists>(k, e) \<in> set (partial_relations l). k \<noteq> pe_relation_id e,
         ValueError ''partial relation map keys must match relation ids''),
      (\<exists>(k, e) \<in> set (accepted_auxiliary l). k \<noteq> ep_evidence_id (ae_pointer e),
         ValueError ''auxiliary evidence map keys must match evidence ids'')]"

definition empty_reasoning_ledger :: "snapshot \<Rightarrow> reasoning_ledger" where
  "empty_reasoning_ledger sn =
     \<lparr>rl_pack_id = sn_pack_id sn, rl_content_version = sn_content_version sn,
      rl_content_hash = sn_content_hash sn, verified_facts = [], verified_relations = [],
      partial_relations = [], accepted_auxiliary = []\<rparr>"

section \<open>Binding and completion\<close>

definition validate_ledger_binding :: "snapshot \<Rightarrow> reasoning_ledger \<Rightarrow> task_pack \<Rightarrow> unit res" where
  "validate_ledger_binding sn l tp =
    (let fs = dict_by tf_id (pack_facts tp); rs = set (pack_relations tp) in
     bindr (check_all
       [((rl_pack_id l, rl_content_version l, rl_content_hash l)
           \<noteq> (sn_pack_id sn, sn_content_version sn, sn_content_hash sn),
           DialogueV2LedgerError ''reasoning ledger is not bound to the pinned content''),
        (\<not> set (dict_keys (verified_facts l)) \<subseteq> set (dict_keys fs),
           DialogueV2LedgerError ''reasoning ledger contains an unknown fact''),
        (\<not> set (dict_keys (verified_relations l)) \<subseteq> rs,
           DialogueV2LedgerError ''reasoning ledger contains an unknown relation''),
        (\<not> set (dict_keys (partial_relations l)) \<subseteq> rs,
           DialogueV2LedgerError ''reasoning ledger contains an unknown partial relation'')]) (\<lambda>_.
     for_each (\<lambda>(i, e). bindr (py_index fs i) (\<lambda>f.
         if tf_accepts f (fe_canonical_value e) then Inr ()
         else Inl (DialogueV2LedgerError ''reasoning ledger canonical fact differs from pinned content'')))
       (verified_facts l)))"

record reasoning_completion =
  co_required_fact_ids :: "string list"
  co_required_relation_ids :: "string list"
  co_remaining_fact_ids :: "string list"
  co_remaining_relation_ids :: "string list"
  co_complete :: bool

definition completion_of :: "task_pack \<Rightarrow> reasoning_ledger \<Rightarrow> reasoning_completion" where
  "completion_of tp l =
    (let c = pack_completion tp;
         rf = filter (\<lambda>i. i \<notin> set (dict_keys (verified_facts l))) (required_fact_ids c);
         rr = filter (\<lambda>i. i \<notin> set (dict_keys (verified_relations l))) (required_relation_ids c)
     in \<lparr>co_required_fact_ids = required_fact_ids c,
         co_required_relation_ids = required_relation_ids c,
         co_remaining_fact_ids = rf, co_remaining_relation_ids = rr,
         co_complete = (rf = [] \<and> rr = [])\<rparr>)"

definition reasoning_completion ::
    "(task_pack \<Rightarrow> string) \<Rightarrow> snapshot \<Rightarrow> reasoning_ledger \<Rightarrow> reasoning_completion res" where
  "reasoning_completion pack_hash sn l =
     bindr (resolve_pack pack_hash sn) (\<lambda>tp.
     bindr (validate_ledger_binding sn l tp) (\<lambda>_. Inr (completion_of tp l)))"

section \<open>Applying admitted claims\<close>

datatype evidence_key =
    UnderstandingKey string nat nat match_kind string string verdict
  | StructuredKey string source_kind target_kind string "canonical_value option"

definition evidence_matches_by_claim ::
    "guarded_understanding \<Rightarrow> (string, evidence_match) dict res" where
  "evidence_matches_by_claim g =
    (let ms = dict_by em_claim_id (evidence_matches g) in
     if length ms \<noteq> length (evidence_matches g)
        \<or> set (dict_keys ms) \<noteq> set (map claim_id (claims (response g)))
     then Inl (DialogueV2LedgerError
                 ''guarded understanding must contain exactly one evidence match per claim'')
     else Inr ms)"

definition stable_evidence_id ::
    "(evidence_key \<Rightarrow> string) \<Rightarrow> string \<Rightarrow> evidence_match \<Rightarrow> string \<Rightarrow> string \<Rightarrow> verdict \<Rightarrow> string" where
  "stable_evidence_id sha turn m claim_kind target v =
     sha (UnderstandingKey turn (em_source_start m) (em_source_end m) (em_match_kind m) claim_kind target v)"

definition make_pointer :: "string \<Rightarrow> string \<Rightarrow> evidence_match \<Rightarrow> evidence_pointer res" where
  "make_pointer evidence_id turn m =
     (if em_source_end m \<le> em_source_start m
      then Inl (ValueError ''ledger evidence end must follow its start'')
      else Inr \<lparr>ep_evidence_id = evidence_id, ep_source_turn_id = turn,
                ep_source_start = em_source_start m, ep_source_end = em_source_end m,
                ep_match_kind = em_match_kind m\<rparr>)"

record apply_state =
  as_facts :: "(string, fact_entry) dict"
  as_relations :: "(string, relation_entry) dict"
  as_partial :: "(string, partial_entry) dict"
  as_auxiliary :: "(string, auxiliary_evidence) dict"
  as_new_fact_ids :: "string list"
  as_new_relation_ids :: "string list"
  as_new_milestone_fact_ids :: "string list"
  as_new_fact_evidence_ids :: "string list"
  as_new_relation_evidence_ids :: "string list"
  as_new_partial_relation_ids :: "string list"
  as_new_partial_evidence_ids :: "string list"
  as_new_auxiliary_ids :: "string list"
  as_claim_evidence_ids :: "(string, string) dict"
  as_ignored_claim_ids :: "string list"

definition initial_state :: "reasoning_ledger \<Rightarrow> apply_state" where
  "initial_state l = \<lparr>as_facts = verified_facts l, as_relations = verified_relations l,
     as_partial = partial_relations l, as_auxiliary = accepted_auxiliary l,
     as_new_fact_ids = [], as_new_relation_ids = [], as_new_milestone_fact_ids = [],
     as_new_fact_evidence_ids = [], as_new_relation_evidence_ids = [],
     as_new_partial_relation_ids = [], as_new_partial_evidence_ids = [],
     as_new_auxiliary_ids = [], as_claim_evidence_ids = [], as_ignored_claim_ids = []\<rparr>"

definition ignore_claim :: "string \<Rightarrow> apply_state \<Rightarrow> apply_state" where
  "ignore_claim cid st = st\<lparr>as_ignored_claim_ids := as_ignored_claim_ids st @ [cid]\<rparr>"

definition note_claim :: "string \<Rightarrow> string \<Rightarrow> apply_state \<Rightarrow> apply_state" where
  "note_claim cid eid st = st\<lparr>as_claim_evidence_ids := AList.update cid eid (as_claim_evidence_ids st)\<rparr>"

definition record_fact ::
    "(string, task_fact) dict \<Rightarrow> string \<Rightarrow> (task_fact \<Rightarrow> canonical_value) \<Rightarrow> fact_evidence
     \<Rightarrow> apply_state \<Rightarrow> apply_state res" where
  "record_fact fs fid val ev st =
     (case dict_get (as_facts st) fid of
        None \<Rightarrow>
          bindr (py_index fs fid) (\<lambda>f.
          if \<not> ledger_id_ok 160 fid then Inl (ValidationError ''fact_id'')
          else Inr (st\<lparr>
            as_facts := AList.update fid \<lparr>fe_fact_id = fid, fe_canonical_value = val f,
                                          fe_evidence = [ev]\<rparr> (as_facts st),
            as_new_fact_ids := as_new_fact_ids st @ [fid],
            as_new_milestone_fact_ids := as_new_milestone_fact_ids st
              @ (if tf_role f = Intermediate_Result then [fid] else []),
            as_new_fact_evidence_ids := as_new_fact_evidence_ids st @ [fe_id ev]\<rparr>))
      | Some e \<Rightarrow>
          Inr (if fe_id ev \<in> set (map fe_id (fe_evidence e)) then st
               else st\<lparr>as_facts := AList.update fid (e\<lparr>fe_evidence := fe_evidence e @ [ev]\<rparr>) (as_facts st),
                       as_new_fact_evidence_ids := as_new_fact_evidence_ids st @ [fe_id ev]\<rparr>))"

definition record_relation :: "string \<Rightarrow> relation_evidence \<Rightarrow> apply_state \<Rightarrow> apply_state res" where
  "record_relation rid ev st =
     (case dict_get (as_relations st) rid of
        None \<Rightarrow>
          if \<not> ledger_id_ok 160 rid then Inl (ValidationError ''relation_id'')
          else Inr (st\<lparr>
            as_relations := AList.update rid \<lparr>re_relation_id = rid, re_evidence = [ev]\<rparr> (as_relations st),
            as_new_relation_ids := as_new_relation_ids st @ [rid],
            as_new_relation_evidence_ids := as_new_relation_evidence_ids st @ [re_id ev]\<rparr>)
      | Some e \<Rightarrow>
          Inr (if re_id ev \<in> set (map re_id (re_evidence e)) then st
               else st\<lparr>as_relations := AList.update rid (e\<lparr>re_evidence := re_evidence e @ [ev]\<rparr>) (as_relations st),
                       as_new_relation_evidence_ids := as_new_relation_evidence_ids st @ [re_id ev]\<rparr>))"

definition record_partial :: "string \<Rightarrow> evidence_pointer \<Rightarrow> apply_state \<Rightarrow> apply_state res" where
  "record_partial rid ev st =
     (case dict_get (as_partial st) rid of
        None \<Rightarrow>
          if \<not> ledger_id_ok 160 rid then Inl (ValidationError ''relation_id'')
          else Inr (st\<lparr>
            as_partial := AList.update rid \<lparr>pe_relation_id = rid, pe_evidence = [ev]\<rparr> (as_partial st),
            as_new_partial_relation_ids := as_new_partial_relation_ids st @ [rid],
            as_new_partial_evidence_ids := as_new_partial_evidence_ids st @ [ep_evidence_id ev]\<rparr>)
      | Some e \<Rightarrow>
          Inr (if ep_evidence_id ev \<in> set (map ep_evidence_id (pe_evidence e)) then st
               else st\<lparr>as_partial := AList.update rid (e\<lparr>pe_evidence := pe_evidence e @ [ev]\<rparr>) (as_partial st),
                       as_new_partial_evidence_ids := as_new_partial_evidence_ids st @ [ep_evidence_id ev]\<rparr>))"

definition record_auxiliary :: "evidence_pointer \<Rightarrow> verdict \<Rightarrow> apply_state \<Rightarrow> apply_state" where
  "record_auxiliary ev v st =
     (if ep_evidence_id ev \<in> set (dict_keys (as_auxiliary st)) then st
      else st\<lparr>as_auxiliary := AList.update (ep_evidence_id ev)
                \<lparr>ae_pointer = ev, ae_summary = ''task_related_auxiliary_evidence'', ae_verdict = v\<rparr>
                (as_auxiliary st),
              as_new_auxiliary_ids := as_new_auxiliary_ids st @ [ep_evidence_id ev]\<rparr>)"

fun apply_claim ::
    "(evidence_key \<Rightarrow> string) \<Rightarrow> (string, task_fact) dict \<Rightarrow> (string, evidence_match) dict \<Rightarrow> string
     \<Rightarrow> understanding_claim \<Rightarrow> apply_state \<Rightarrow> apply_state res" where
  "apply_claim sha fs ms turn (FactClaim c) st =
     bindr (py_index ms (fc_claim_id c)) (\<lambda>m.
     if fc_verdict c \<noteq> Correct then Inr (ignore_claim (fc_claim_id c) st)
     else let eid = stable_evidence_id sha turn m ''fact'' (fc_fact_id c) (fc_verdict c) in
       bindr (make_pointer eid turn m) (\<lambda>ptr.
       record_fact fs (fc_fact_id c) tf_value (FactVerification ptr) (note_claim (fc_claim_id c) eid st)))"
| "apply_claim sha fs ms turn (RelationClaim c) st =
     bindr (py_index ms (rc_claim_id c)) (\<lambda>m.
     if rc_verdict c = Partial then
       (if rc_relation_id c \<in> set (dict_keys (as_relations st)) then Inr (ignore_claim (rc_claim_id c) st)
        else let eid = stable_evidence_id sha turn m ''relation'' (rc_relation_id c) Partial in
          bindr (make_pointer eid turn m) (\<lambda>ptr.
          record_partial (rc_relation_id c) ptr (note_claim (rc_claim_id c) eid st)))
     else if rc_verdict c \<notin> {Correct, Sufficient} then Inr (ignore_claim (rc_claim_id c) st)
     else let eid = stable_evidence_id sha turn m ''relation'' (rc_relation_id c) (rc_verdict c) in
       bindr (make_pointer eid turn m) (\<lambda>ptr.
       record_relation (rc_relation_id c) (RelationVerification ptr (rc_verdict c))
         (note_claim (rc_claim_id c) eid st)))"
| "apply_claim sha fs ms turn (AuxiliaryClaim c) st =
     bindr (py_index ms (ac_claim_id c)) (\<lambda>m.
     if ac_verdict c \<notin> {Correct, Sufficient, Partial} then Inr (ignore_claim (ac_claim_id c) st)
     else let eid = stable_evidence_id sha turn m ''auxiliary'' ''open'' (ac_verdict c) in
       if eid \<in> set (dict_keys (as_auxiliary st)) then Inr (note_claim (ac_claim_id c) eid st)
       else bindr (make_pointer eid turn m) (\<lambda>ptr.
         Inr (record_auxiliary ptr (ac_verdict c) (note_claim (ac_claim_id c) eid st))))"

record apply_result =
  ar_ledger :: reasoning_ledger
  ar_state :: apply_state
  ar_completion :: reasoning_completion
  ar_completion_became_true :: bool

definition next_ledger :: "reasoning_ledger \<Rightarrow> apply_state \<Rightarrow> reasoning_ledger" where
  "next_ledger l st = l\<lparr>verified_facts := as_facts st, verified_relations := as_relations st,
     partial_relations := as_partial st, accepted_auxiliary := as_auxiliary st\<rparr>"

definition finish_apply ::
    "(task_pack \<Rightarrow> string) \<Rightarrow> snapshot \<Rightarrow> reasoning_ledger \<Rightarrow> reasoning_completion \<Rightarrow> apply_state
     \<Rightarrow> apply_result res" where
  "finish_apply pack_hash sn l prior st =
    (let l' = next_ledger l st in
     bindr (map_keys_must_match_entries l') (\<lambda>_.
     bindr (reasoning_completion pack_hash sn l') (\<lambda>after.
     Inr \<lparr>ar_ledger = l', ar_state = st, ar_completion = after,
          ar_completion_became_true = (co_complete after \<and> \<not> co_complete prior)\<rparr>)))"

definition turn_id_error :: py_error where
  "turn_id_error = DialogueV2LedgerError ''source_turn_id must be a non-empty bounded id''"

definition apply_guarded_understanding ::
    "(task_pack \<Rightarrow> string) \<Rightarrow> (evidence_key \<Rightarrow> string) \<Rightarrow> snapshot \<Rightarrow> reasoning_ledger
     \<Rightarrow> guarded_understanding \<Rightarrow> string \<Rightarrow> apply_result res" where
  "apply_guarded_understanding pack_hash sha sn l g turn =
     (if \<not> bounded 1 100 turn then Inl turn_id_error
      else
        bindr (resolve_pack pack_hash sn) (\<lambda>tp.
        bindr (validate_ledger_binding sn l tp) (\<lambda>_.
        bindr (evidence_matches_by_claim g) (\<lambda>ms.
        bindr (reasoning_completion pack_hash sn l) (\<lambda>prior.
        bindr (fold_res (apply_claim sha (dict_by tf_id (pack_facts tp)) ms turn)
                 (claims (response g)) (initial_state l)) (\<lambda>st.
        finish_apply pack_hash sn l prior st))))))"

section \<open>Applying a resolved choice or joint action\<close>

definition structured_evidence_id ::
    "(evidence_key \<Rightarrow> string) \<Rightarrow> string \<Rightarrow> source_kind \<Rightarrow> target_kind \<Rightarrow> string
     \<Rightarrow> canonical_value option \<Rightarrow> string" where
  "structured_evidence_id sha turn sk tk target v = sha (StructuredKey turn sk tk target v)"

definition make_structured ::
    "(evidence_key \<Rightarrow> string) \<Rightarrow> string \<Rightarrow> source_kind \<Rightarrow> target_kind \<Rightarrow> string
     \<Rightarrow> canonical_value option \<Rightarrow> structured_evidence" where
  "make_structured sha turn sk tk target v =
     \<lparr>se_evidence_id = structured_evidence_id sha turn sk tk target v, se_source_turn_id = turn,
      se_source_kind = sk, se_target_kind = tk, se_target_id = target\<rparr>"

definition check_structured_value ::
    "(string, task_fact) dict \<Rightarrow> string \<times> canonical_value \<Rightarrow> unit res" where
  "check_structured_value fs u =
     bindr (py_index fs (fst u)) (\<lambda>f.
     if tf_accepts f (snd u) then Inr ()
     else Inl (DialogueV2LedgerError ''structured fact value differs from pinned canonical content''))"

definition apply_structured_fact ::
    "(evidence_key \<Rightarrow> string) \<Rightarrow> (string, task_fact) dict \<Rightarrow> string \<Rightarrow> source_kind
     \<Rightarrow> string \<times> canonical_value \<Rightarrow> apply_state \<Rightarrow> apply_state res" where
  "apply_structured_fact sha fs turn sk u st =
     record_fact fs (fst u) (\<lambda>_. snd u)
       (FactStructured (make_structured sha turn sk TK_Fact (fst u) (Some (snd u)))) st"

definition apply_structured_relation ::
    "(evidence_key \<Rightarrow> string) \<Rightarrow> string \<Rightarrow> source_kind \<Rightarrow> string \<Rightarrow> apply_state \<Rightarrow> apply_state res" where
  "apply_structured_relation sha turn sk rid st =
     record_relation rid (RelationStructured (make_structured sha turn sk TK_Relation rid None)) st"

definition apply_structured_progress ::
    "(task_pack \<Rightarrow> string) \<Rightarrow> (evidence_key \<Rightarrow> string) \<Rightarrow> snapshot \<Rightarrow> reasoning_ledger
     \<Rightarrow> (string, canonical_value) dict \<Rightarrow> string list \<Rightarrow> string \<Rightarrow> source_kind \<Rightarrow> apply_result res" where
  "apply_structured_progress pack_hash sha sn l fact_values relation_ids turn sk =
     (if \<not> bounded 1 100 turn then Inl turn_id_error
      else if \<not> distinct relation_ids
        then Inl (DialogueV2LedgerError ''structured relation ids must be unique'')
      else
        bindr (resolve_pack pack_hash sn) (\<lambda>tp.
        bindr (validate_ledger_binding sn l tp) (\<lambda>_.
        let fs = dict_by tf_id (pack_facts tp) in
        bindr (check_all
          [(\<not> set (dict_keys fact_values) \<subseteq> set (dict_keys fs),
              DialogueV2LedgerError ''structured progress contains an unknown fact''),
           (\<not> set relation_ids \<subseteq> set (pack_relations tp),
              DialogueV2LedgerError ''structured progress contains an unknown relation'')]) (\<lambda>_.
        bindr (for_each (check_structured_value fs) fact_values) (\<lambda>_.
        bindr (reasoning_completion pack_hash sn l) (\<lambda>prior.
        bindr (fold_res (apply_structured_fact sha fs turn sk) fact_values (initial_state l)) (\<lambda>st.
        bindr (fold_res (apply_structured_relation sha turn sk) relation_ids st) (\<lambda>st'.
        finish_apply pack_hash sn l prior st'))))))))"

section \<open>The learning delta of a turn\<close>

datatype progress_kind =
  PROG_NONE | ANSWER_ONLY | METHOD_ONLY | ANSWER_AND_METHOD | METHOD_PARTIAL | MIXED

definition progress_kind :: "apply_state \<Rightarrow> progress_kind" where
  "progress_kind st =
    (let has_facts = as_new_fact_ids st \<noteq> []; has_relations = as_new_relation_ids st \<noteq> [];
         has_partial = as_new_partial_relation_ids st \<noteq> [] in
     if has_partial \<and> (has_facts \<or> has_relations) then MIXED
     else if has_facts \<and> has_relations then ANSWER_AND_METHOD
     else if has_facts then ANSWER_ONLY
     else if has_relations then METHOD_ONLY
     else if has_partial then METHOD_PARTIAL
     else PROG_NONE)"

end
