(* ===== verification/Ledger_Laws.thy ===== *)
theory Ledger_Laws
  imports Ledger
begin

text \<open>
  Laws of the reasoning ledger: progress is inflationary, the verified keys after a turn are
  exactly the old ones and those of the claims the verdict accepts, every operation keeps the
  well-formedness of the ledger and its binding to the pinned content, and applying the same
  evidence twice changes nothing.
\<close>

section \<open>Growth\<close>

definition fact_le :: "fact_entry \<Rightarrow> fact_entry \<Rightarrow> bool" where
  "fact_le e e' \<longleftrightarrow> fe_fact_id e' = fe_fact_id e \<and> fe_canonical_value e' = fe_canonical_value e
     \<and> prefix (fe_evidence e) (fe_evidence e')"

definition relation_le :: "relation_entry \<Rightarrow> relation_entry \<Rightarrow> bool" where
  "relation_le e e' \<longleftrightarrow> re_relation_id e' = re_relation_id e \<and> prefix (re_evidence e) (re_evidence e')"

definition partial_le :: "partial_entry \<Rightarrow> partial_entry \<Rightarrow> bool" where
  "partial_le e e' \<longleftrightarrow> pe_relation_id e' = pe_relation_id e \<and> prefix (pe_evidence e) (pe_evidence e')"

definition ledger_le :: "reasoning_ledger \<Rightarrow> reasoning_ledger \<Rightarrow> bool" where
  "ledger_le l l' \<longleftrightarrow>
     (rl_pack_id l', rl_content_version l', rl_content_hash l')
       = (rl_pack_id l, rl_content_version l, rl_content_hash l)
     \<and> dict_le fact_le (verified_facts l) (verified_facts l')
     \<and> dict_le relation_le (verified_relations l) (verified_relations l')
     \<and> dict_le partial_le (partial_relations l) (partial_relations l')
     \<and> dict_le (=) (accepted_auxiliary l) (accepted_auxiliary l')"

definition state_le :: "apply_state \<Rightarrow> apply_state \<Rightarrow> bool" where
  "state_le st st' \<longleftrightarrow>
     dict_le fact_le (as_facts st) (as_facts st')
     \<and> dict_le relation_le (as_relations st) (as_relations st')
     \<and> dict_le partial_le (as_partial st) (as_partial st')
     \<and> dict_le (=) (as_auxiliary st) (as_auxiliary st')"

lemma entry_le_refl [simp]: "fact_le e e" "relation_le r r" "partial_le p p"
  by (simp_all add: fact_le_def relation_le_def partial_le_def)

lemma entry_le_trans:
  "fact_le a b \<Longrightarrow> fact_le b c \<Longrightarrow> fact_le a c"
  "relation_le r s \<Longrightarrow> relation_le s t \<Longrightarrow> relation_le r t"
  "partial_le p q \<Longrightarrow> partial_le q w \<Longrightarrow> partial_le p w"
  by (auto simp: fact_le_def relation_le_def partial_le_def)

lemma state_le_refl [simp]: "state_le st st"
  by (auto simp: state_le_def)

lemma entry_dict_trans:
  "dict_le fact_le a b \<Longrightarrow> dict_le fact_le b c \<Longrightarrow> dict_le fact_le a c"
  "dict_le relation_le p q \<Longrightarrow> dict_le relation_le q r \<Longrightarrow> dict_le relation_le p r"
  "dict_le partial_le u v \<Longrightarrow> dict_le partial_le v w \<Longrightarrow> dict_le partial_le u w"
  "dict_le (=) x y \<Longrightarrow> dict_le (=) y z \<Longrightarrow> dict_le (=) x z"
  by (rule dict_le_trans, assumption+, rule entry_le_trans trans, assumption+)+

lemma state_le_trans: "state_le a b \<Longrightarrow> state_le b c \<Longrightarrow> state_le a c"
  unfolding state_le_def
  using entry_dict_trans(1) [of "as_facts a" "as_facts b" "as_facts c"]
    entry_dict_trans(2) [of "as_relations a" "as_relations b" "as_relations c"]
    entry_dict_trans(3) [of "as_partial a" "as_partial b" "as_partial c"]
    entry_dict_trans(4) [of "as_auxiliary a" "as_auxiliary b" "as_auxiliary c"] by simp

lemma ledger_le_refl [simp]: "ledger_le l l"
  by (auto simp: ledger_le_def)

lemma ledger_le_trans: "ledger_le a b \<Longrightarrow> ledger_le b c \<Longrightarrow> ledger_le a c"
  unfolding ledger_le_def
  using entry_dict_trans(1) [of "verified_facts a" "verified_facts b" "verified_facts c"]
    entry_dict_trans(2) [of "verified_relations a" "verified_relations b" "verified_relations c"]
    entry_dict_trans(3) [of "partial_relations a" "partial_relations b" "partial_relations c"]
    entry_dict_trans(4) [of "accepted_auxiliary a" "accepted_auxiliary b" "accepted_auxiliary c"] by simp

lemma ledger_le_initial: "state_le (initial_state l) st \<Longrightarrow> ledger_le l (next_ledger l st)"
  by (simp add: state_le_def ledger_le_def initial_state_def next_ledger_def)

section \<open>Effects of the recording steps\<close>

lemma bookkeeping_dicts [simp]:
  "as_facts (ignore_claim c st) = as_facts st" "as_relations (ignore_claim c st) = as_relations st"
  "as_partial (ignore_claim c st) = as_partial st" "as_auxiliary (ignore_claim c st) = as_auxiliary st"
  "as_facts (note_claim c e st) = as_facts st" "as_relations (note_claim c e st) = as_relations st"
  "as_partial (note_claim c e st) = as_partial st" "as_auxiliary (note_claim c e st) = as_auxiliary st"
  by (simp_all add: ignore_claim_def note_claim_def)

lemma record_fact_effect:
  assumes "record_fact fs fid val ev st = Inr st'"
  shows "set (dict_keys (as_facts st')) = insert fid (set (dict_keys (as_facts st)))"
    and "as_relations st' = as_relations st" and "as_partial st' = as_partial st"
    and "as_auxiliary st' = as_auxiliary st"
    and "dict_le fact_le (as_facts st) (as_facts st')"
    and "\<exists>e. dict_get (as_facts st') fid = Some e \<and> fe_id ev \<in> set (map fe_id (fe_evidence e))"
  using assms
  by (auto simp: record_fact_def bindr_eq_Inr fact_le_def dict_get_Some_key insert_absorb
      intro!: dict_le_update split: option.splits if_splits simp del: set_map)

lemma record_relation_effect:
  assumes "record_relation rid ev st = Inr st'"
  shows "set (dict_keys (as_relations st')) = insert rid (set (dict_keys (as_relations st)))"
    and "as_facts st' = as_facts st" and "as_partial st' = as_partial st"
    and "as_auxiliary st' = as_auxiliary st"
    and "dict_le relation_le (as_relations st) (as_relations st')"
    and "\<exists>e. dict_get (as_relations st') rid = Some e \<and> re_id ev \<in> set (map re_id (re_evidence e))"
  using assms
  by (auto simp: record_relation_def relation_le_def dict_get_Some_key insert_absorb
      intro!: dict_le_update split: option.splits if_splits simp del: set_map)

lemma record_partial_effect:
  assumes "record_partial rid ev st = Inr st'"
  shows "set (dict_keys (as_partial st')) = insert rid (set (dict_keys (as_partial st)))"
    and "as_facts st' = as_facts st" and "as_relations st' = as_relations st"
    and "as_auxiliary st' = as_auxiliary st"
    and "dict_le partial_le (as_partial st) (as_partial st')"
    and "\<exists>e. dict_get (as_partial st') rid = Some e
           \<and> ep_evidence_id ev \<in> set (map ep_evidence_id (pe_evidence e))"
  using assms
  by (auto simp: record_partial_def partial_le_def dict_get_Some_key insert_absorb
      intro!: dict_le_update split: option.splits if_splits simp del: set_map)

lemma record_auxiliary_effect [simp]:
  "as_facts (record_auxiliary ev v st) = as_facts st"
  "as_relations (record_auxiliary ev v st) = as_relations st"
  "as_partial (record_auxiliary ev v st) = as_partial st"
  "dict_le (=) (as_auxiliary st) (as_auxiliary (record_auxiliary ev v st))"
  "ep_evidence_id ev \<in> set (dict_keys (as_auxiliary (record_auxiliary ev v st)))"
  by (auto simp: record_auxiliary_def intro!: dict_le_update simp del: set_map
      dest: dict_get_Some_key)

lemmas record_effects = record_fact_effect record_relation_effect record_partial_effect

lemma record_fact_dest:
  "record_fact fs fid val ev st = Inr st' \<Longrightarrow>
   state_le st st' \<and> set (dict_keys (as_facts st')) = insert fid (set (dict_keys (as_facts st)))
   \<and> as_relations st' = as_relations st"
  using record_fact_effect by (simp add: state_le_def)

lemma record_relation_dest:
  "record_relation rid ev st = Inr st' \<Longrightarrow>
   state_le st st' \<and> set (dict_keys (as_relations st')) = insert rid (set (dict_keys (as_relations st)))
   \<and> as_facts st' = as_facts st"
  using record_relation_effect by (simp add: state_le_def)

lemma record_partial_dest:
  "record_partial rid ev st = Inr st' \<Longrightarrow>
   state_le st st' \<and> as_relations st' = as_relations st \<and> as_facts st' = as_facts st"
  using record_partial_effect by (simp add: state_le_def)

lemma state_le_bookkeeping [simp]:
  "state_le (note_claim c e st) st' \<longleftrightarrow> state_le st st'"
  "state_le st (note_claim c e st)" "state_le st (ignore_claim c st)"
  "state_le st (record_auxiliary ev v (note_claim c e st))"
  using record_auxiliary_effect(4) [of "note_claim c e st" ev v] by (auto simp: state_le_def)

lemmas record_dests = record_fact_dest record_relation_dest record_partial_dest

text \<open>What a claim adds to the verified sets.\<close>

fun claim_facts :: "understanding_claim \<Rightarrow> string set" where
  "claim_facts (FactClaim c) = (if fc_verdict c = Correct then {fc_fact_id c} else {})"
| "claim_facts _ = {}"

fun claim_relations :: "understanding_claim \<Rightarrow> string set" where
  "claim_relations (RelationClaim c) =
     (if rc_verdict c \<in> {Correct, Sufficient} then {rc_relation_id c} else {})"
| "claim_relations _ = {}"

lemma apply_claim_effect:
  assumes "apply_claim sha fs ms turn c st = Inr st'"
  shows "state_le st st'"
    and "set (dict_keys (as_facts st')) = set (dict_keys (as_facts st)) \<union> claim_facts c"
    and "set (dict_keys (as_relations st')) = set (dict_keys (as_relations st)) \<union> claim_relations c"
proof -
  have "state_le st st'
    \<and> set (dict_keys (as_facts st')) = set (dict_keys (as_facts st)) \<union> claim_facts c
    \<and> set (dict_keys (as_relations st')) = set (dict_keys (as_relations st)) \<union> claim_relations c"
  proof (cases c)
    case (FactClaim f)
    then show ?thesis using assms
      by (auto simp: bindr_eq_Inr Let_def simp del: set_map dest: record_fact_dest split: if_splits)
  next
    case (RelationClaim r)
    then show ?thesis using assms
      by (auto simp: bindr_eq_Inr Let_def simp del: set_map dest: record_relation_dest record_partial_dest
          split: if_splits)
  next
    case (AuxiliaryClaim a)
    then show ?thesis using assms
      by (auto simp: bindr_eq_Inr Let_def simp del: set_map split: if_splits)
  qed
  then show "state_le st st'"
    "set (dict_keys (as_facts st')) = set (dict_keys (as_facts st)) \<union> claim_facts c"
    "set (dict_keys (as_relations st')) = set (dict_keys (as_relations st)) \<union> claim_relations c"
    by blast+
qed

lemma apply_claims_effect:
  assumes "fold_res (apply_claim sha fs ms turn) cs st = Inr st'"
  shows "state_le st st'"
    and "set (dict_keys (as_facts st')) = set (dict_keys (as_facts st)) \<union> \<Union> (claim_facts ` set cs)"
    and "set (dict_keys (as_relations st'))
           = set (dict_keys (as_relations st)) \<union> \<Union> (claim_relations ` set cs)"
proof -
  have "state_le st st'
    \<and> set (dict_keys (as_facts st')) = set (dict_keys (as_facts st)) \<union> \<Union> (claim_facts ` set cs)
    \<and> set (dict_keys (as_relations st'))
        = set (dict_keys (as_relations st)) \<union> \<Union> (claim_relations ` set cs)"
    using assms
  proof (induction cs arbitrary: st)
    case (Cons c cs)
    then obtain s1 where c: "apply_claim sha fs ms turn c st = Inr s1"
      and s: "fold_res (apply_claim sha fs ms turn) cs s1 = Inr st'"
      by (auto simp: bindr_eq_Inr)
    from Cons.IH [OF s] apply_claim_effect [OF c] show ?case
      by (auto intro: state_le_trans simp del: set_map)
  qed simp
  then show "state_le st st'"
    "set (dict_keys (as_facts st')) = set (dict_keys (as_facts st)) \<union> \<Union> (claim_facts ` set cs)"
    "set (dict_keys (as_relations st'))
       = set (dict_keys (as_relations st)) \<union> \<Union> (claim_relations ` set cs)" by blast+
qed

lemma apply_structured_effect:
  assumes "fold_res (apply_structured_fact sha fs turn sk) us st = Inr st1"
    and "fold_res (apply_structured_relation sha turn sk) rids st1 = Inr st2"
  shows "state_le st st2"
    and "set (dict_keys (as_facts st2)) = set (dict_keys (as_facts st)) \<union> fst ` set us"
    and "set (dict_keys (as_relations st2)) = set (dict_keys (as_relations st)) \<union> set rids"
    and "as_partial st2 = as_partial st" and "as_auxiliary st2 = as_auxiliary st"
proof -
  have f: "state_le st st1 \<and> set (dict_keys (as_facts st1)) = set (dict_keys (as_facts st)) \<union> fst ` set us
      \<and> as_relations st1 = as_relations st \<and> as_partial st1 = as_partial st
      \<and> as_auxiliary st1 = as_auxiliary st"
    using assms(1)
  proof (induction us arbitrary: st)
    case (Cons u us)
    then obtain s where r: "apply_structured_fact sha fs turn sk u st = Inr s"
      and s: "fold_res (apply_structured_fact sha fs turn sk) us s = Inr st1"
      by (auto simp: bindr_eq_Inr)
    note e = record_fact_effect [OF r [unfolded apply_structured_fact_def]]
    from Cons.IH [OF s] record_fact_dest [OF r [unfolded apply_structured_fact_def]] e(2-4) show ?case
      by (auto intro: state_le_trans simp del: set_map)
  qed simp
  have g: "state_le st1 st2 \<and> set (dict_keys (as_relations st2)) = set (dict_keys (as_relations st1)) \<union> set rids
      \<and> as_facts st2 = as_facts st1 \<and> as_partial st2 = as_partial st1
      \<and> as_auxiliary st2 = as_auxiliary st1"
    using assms(2)
  proof (induction rids arbitrary: st1)
    case (Cons i rids)
    then obtain s where r: "apply_structured_relation sha turn sk i st1 = Inr s"
      and s: "fold_res (apply_structured_relation sha turn sk) rids s = Inr st2"
      by (auto simp: bindr_eq_Inr)
    note e = record_relation_effect [OF r [unfolded apply_structured_relation_def]]
    from Cons.IH [OF s] record_relation_dest [OF r [unfolded apply_structured_relation_def]] e(2-4) show ?case
      by (auto intro: state_le_trans simp del: set_map)
  qed simp
  from f g show "state_le st st2"
    "set (dict_keys (as_facts st2)) = set (dict_keys (as_facts st)) \<union> fst ` set us"
    "set (dict_keys (as_relations st2)) = set (dict_keys (as_relations st)) \<union> set rids"
    "as_partial st2 = as_partial st" "as_auxiliary st2 = as_auxiliary st"
    by (auto intro: state_le_trans simp del: set_map)
qed

section \<open>Inversion of the two operations\<close>

lemma resolve_pack_Inr:
  "resolve_pack H sn = Inr tp \<longleftrightarrow>
     tp = sn_payload sn \<and> validate_task_pack tp = Inr () \<and> snapshot_matches H sn"
  by (auto simp: resolve_pack_def bindr_eq_Inr)

lemma resolve_pack_valid: "resolve_pack H sn = Inr tp \<Longrightarrow> validate_task_pack tp = Inr ()"
  by (auto simp: resolve_pack_Inr)

lemma reasoning_completion_Inr:
  "reasoning_completion H sn l = Inr c \<longleftrightarrow>
     (\<exists>tp. resolve_pack H sn = Inr tp \<and> validate_ledger_binding sn l tp = Inr () \<and> c = completion_of tp l)"
  by (auto simp: reasoning_completion_def bindr_eq_Inr)

lemma finish_apply_Inr:
  assumes "finish_apply H sn l prior st = Inr r"
  shows "ar_ledger r = next_ledger l st" and "ar_state r = st"
    and "map_keys_must_match_entries (ar_ledger r) = Inr ()"
    and "reasoning_completion H sn (ar_ledger r) = Inr (ar_completion r)"
    and "ar_completion_became_true r \<longleftrightarrow> co_complete (ar_completion r) \<and> \<not> co_complete prior"
  using assms by (auto simp: finish_apply_def Let_def bindr_eq_Inr)

lemma apply_guarded_Inr:
  assumes "apply_guarded_understanding H sha sn l g turn = Inr r"
  obtains tp ms st where
    "resolve_pack H sn = Inr tp" "validate_ledger_binding sn l tp = Inr ()"
    "evidence_matches_by_claim g = Inr ms"
    "fold_res (apply_claim sha (dict_by tf_id (pack_facts tp)) ms turn) (claims (response g))
       (initial_state l) = Inr st"
    "finish_apply H sn l (completion_of tp l) st = Inr r"
  using assms
  by (auto simp: apply_guarded_understanding_def bindr_eq_Inr reasoning_completion_Inr split: if_splits)

lemma apply_structured_Inr:
  assumes "apply_structured_progress H sha sn l us rids turn sk = Inr r"
  obtains tp st1 st2 where
    "resolve_pack H sn = Inr tp" "validate_ledger_binding sn l tp = Inr ()"
    "set (dict_keys us) \<subseteq> tf_id ` set (pack_facts tp)" "set rids \<subseteq> set (pack_relations tp)"
    "for_each (check_structured_value (dict_by tf_id (pack_facts tp))) us = Inr ()"
    "fold_res (apply_structured_fact sha (dict_by tf_id (pack_facts tp)) turn sk) us
       (initial_state l) = Inr st1"
    "fold_res (apply_structured_relation sha turn sk) rids st1 = Inr st2"
    "finish_apply H sn l (completion_of tp l) st2 = Inr r"
proof -
  from assms obtain tp st1 st2 where
    1: "resolve_pack H sn = Inr tp" "validate_ledger_binding sn l tp = Inr ()"
    and 2: "check_all
          [(\<not> set (dict_keys us) \<subseteq> set (dict_keys (dict_by tf_id (pack_facts tp))),
              DialogueV2LedgerError ''structured progress contains an unknown fact''),
           (\<not> set rids \<subseteq> set (pack_relations tp),
              DialogueV2LedgerError ''structured progress contains an unknown relation'')] = Inr ()"
    and 3: "for_each (check_structured_value (dict_by tf_id (pack_facts tp))) us = Inr ()"
    "fold_res (apply_structured_fact sha (dict_by tf_id (pack_facts tp)) turn sk) us
       (initial_state l) = Inr st1"
    "fold_res (apply_structured_relation sha turn sk) rids st1 = Inr st2"
    "finish_apply H sn l (completion_of tp l) st2 = Inr r"
    by (auto simp del: check_all.simps set_map
        simp: apply_structured_progress_def Let_def bindr_eq_Inr reasoning_completion_Inr split: if_splits)
  from 2 have "set (dict_keys us) \<subseteq> tf_id ` set (pack_facts tp)" "set rids \<subseteq> set (pack_relations tp)"
    by (simp_all del: set_map split: if_splits)
  with 1 3 show ?thesis by (intro that)
qed

section \<open>Completion\<close>

lemma completion_of_complete:
  "co_complete (completion_of tp l) \<longleftrightarrow>
     set (required_fact_ids (pack_completion tp)) \<subseteq> set (dict_keys (verified_facts l))
     \<and> set (required_relation_ids (pack_completion tp)) \<subseteq> set (dict_keys (verified_relations l))"
  by (auto simp: completion_of_def Let_def filter_empty_conv)

lemma completion_of_mono:
  assumes "ledger_le l l'" and "co_complete (completion_of tp l)"
  shows "co_complete (completion_of tp l')"
  using assms dict_le_keys [of fact_le "verified_facts l" "verified_facts l'"]
    dict_le_keys [of relation_le "verified_relations l" "verified_relations l'"]
  unfolding completion_of_complete ledger_le_def by blast

lemma guarded_monotone:
  assumes "apply_guarded_understanding H sha sn l g turn = Inr r"
  shows "ledger_le l (ar_ledger r)"
  using assms
  by (rule apply_guarded_Inr) (metis apply_claims_effect(1) finish_apply_Inr(1) ledger_le_initial)

lemma structured_monotone:
  assumes "apply_structured_progress H sha sn l us rids turn sk = Inr r"
  shows "ledger_le l (ar_ledger r)"
  using assms
  by (rule apply_structured_Inr) (metis apply_structured_effect(1) finish_apply_Inr(1) ledger_le_initial)

section \<open>Progress as an inflationary system\<close>

text \<open>
  An operation on a state may fail; when it succeeds it only grows the state, and the goal is
  closed under growth. Then so is every successful run of operations.
\<close>

locale inflationary =
  fixes le :: "'s \<Rightarrow> 's \<Rightarrow> bool"
    and step :: "'o \<Rightarrow> 's \<Rightarrow> 's res"
    and goal :: "'s \<Rightarrow> bool"
  assumes le_refl: "le s s"
    and le_trans: "le a b \<Longrightarrow> le b c \<Longrightarrow> le a c"
    and step_le: "step x s = Inr s' \<Longrightarrow> le s s'"
    and goal_le: "goal s \<Longrightarrow> le s s' \<Longrightarrow> goal s'"
begin

lemma run_le: "fold_res step xs s = Inr s' \<Longrightarrow> le s s'"
  by (induction xs arbitrary: s) (auto simp: bindr_eq_Inr intro: le_refl le_trans step_le)

lemma run_goal: "fold_res step xs s = Inr s' \<Longrightarrow> goal s \<Longrightarrow> goal s'"
  using goal_le run_le by blast

lemma run_goal_split:
  assumes "fold_res step (xs @ ys) s = Inr s'" and "\<And>t. fold_res step xs s = Inr t \<Longrightarrow> goal t"
  shows "goal s'"
  using assms run_goal by (fastforce simp: bindr_eq_Inr)

end

datatype ledger_op =
    Understand guarded_understanding string
  | Structured "(string, canonical_value) dict" "string list" string source_kind

fun ledger_step ::
    "(task_pack \<Rightarrow> string) \<Rightarrow> (evidence_key \<Rightarrow> string) \<Rightarrow> snapshot \<Rightarrow> ledger_op \<Rightarrow> reasoning_ledger
     \<Rightarrow> reasoning_ledger res" where
  "ledger_step H sha sn (Understand g turn) l =
     bindr (apply_guarded_understanding H sha sn l g turn) (\<lambda>r. Inr (ar_ledger r))"
| "ledger_step H sha sn (Structured us rids turn sk) l =
     bindr (apply_structured_progress H sha sn l us rids turn sk) (\<lambda>r. Inr (ar_ledger r))"

interpretation ledger_progress:
  inflationary ledger_le "ledger_step H sha sn" "\<lambda>l. co_complete (completion_of tp l)"
  for H sha sn tp
proof
  fix x l l'
  assume "ledger_step H sha sn x l = Inr l'"
  then show "ledger_le l l'"
    by (cases x) (auto simp: bindr_eq_Inr dest: guarded_monotone structured_monotone)
qed (auto intro: ledger_le_trans completion_of_mono)

section \<open>Well-formed ledgers\<close>

fun fact_evidence_for :: "string \<Rightarrow> fact_evidence \<Rightarrow> bool" where
  "fact_evidence_for k (FactVerification _) = True"
| "fact_evidence_for k (FactStructured s) \<longleftrightarrow> se_target_kind s = TK_Fact \<and> se_target_id s = k"

fun relation_evidence_for :: "string \<Rightarrow> relation_evidence \<Rightarrow> bool" where
  "relation_evidence_for k (RelationVerification _ v) \<longleftrightarrow> v \<in> {Correct, Sufficient}"
| "relation_evidence_for k (RelationStructured s) \<longleftrightarrow> se_target_kind s = TK_Relation \<and> se_target_id s = k"

definition fact_entry_ok :: "string \<Rightarrow> fact_entry \<Rightarrow> bool" where
  "fact_entry_ok k e \<longleftrightarrow> fe_fact_id e = k \<and> fe_evidence e \<noteq> []
     \<and> distinct (map fe_id (fe_evidence e)) \<and> list_all (fact_evidence_for k) (fe_evidence e)"

definition relation_entry_ok :: "string \<Rightarrow> relation_entry \<Rightarrow> bool" where
  "relation_entry_ok k e \<longleftrightarrow> re_relation_id e = k \<and> re_evidence e \<noteq> []
     \<and> distinct (map re_id (re_evidence e)) \<and> list_all (relation_evidence_for k) (re_evidence e)"

definition partial_entry_ok :: "string \<Rightarrow> partial_entry \<Rightarrow> bool" where
  "partial_entry_ok k e \<longleftrightarrow> pe_relation_id e = k \<and> pe_evidence e \<noteq> []
     \<and> distinct (map ep_evidence_id (pe_evidence e))"

definition auxiliary_ok :: "string \<Rightarrow> auxiliary_evidence \<Rightarrow> bool" where
  "auxiliary_ok k e \<longleftrightarrow> ep_evidence_id (ae_pointer e) = k"

definition state_wf :: "task_pack \<Rightarrow> apply_state \<Rightarrow> bool" where
  "state_wf tp st \<longleftrightarrow>
     dict_ok (as_facts st) \<and> dict_all fact_entry_ok (as_facts st)
     \<and> dict_ok (as_relations st) \<and> dict_all relation_entry_ok (as_relations st)
     \<and> dict_ok (as_partial st) \<and> dict_all partial_entry_ok (as_partial st)
     \<and> dict_ok (as_auxiliary st) \<and> dict_all auxiliary_ok (as_auxiliary st)
     \<and> dict_all (\<lambda>k e. \<exists>f \<in> set (pack_facts tp). tf_id f = k \<and> tf_accepts f (fe_canonical_value e)) (as_facts st)
     \<and> set (dict_keys (as_relations st)) \<subseteq> set (pack_relations tp)
     \<and> set (dict_keys (as_partial st)) \<subseteq> set (pack_relations tp)"

definition ledger_wf :: "task_pack \<Rightarrow> reasoning_ledger \<Rightarrow> bool" where
  "ledger_wf tp l \<longleftrightarrow> state_wf tp (initial_state l) \<and> length (accepted_auxiliary l) \<le> 200"

lemma state_wf_bookkeeping [simp]:
  "state_wf tp (note_claim c e st) = state_wf tp st" "state_wf tp (ignore_claim c st) = state_wf tp st"
  by (simp_all add: state_wf_def)

lemma content_id_is_ledger_id: "content_id_ok 120 s \<Longrightarrow> ledger_id_ok 160 s"
  by (auto simp: content_id_ok_def ledger_id_ok_def list_all_iff split: list.splits)

lemma record_fact_total:
  assumes wf: "state_wf tp st" and tp: "validate_task_pack tp = Inr ()"
    and f: "f \<in> set (pack_facts tp)" and v: "tf_accepts f (val f)"
    and ev: "fact_evidence_for (tf_id f) ev"
  shows "\<exists>st'. record_fact (dict_by tf_id (pack_facts tp)) (tf_id f) val ev st = Inr st' \<and> state_wf tp st'
           \<and> length (as_auxiliary st') = length (as_auxiliary st)"
proof (cases "dict_get (as_facts st) (tf_id f)")
  case None
  have g: "dict_get (dict_by tf_id (pack_facts tp)) (tf_id f) = Some f"
    using validated_pack(1) [OF tp] f by (rule dict_by_lookup)
  have i: "ledger_id_ok 160 (tf_id f)"
    using validated_pack_fields(1) [OF tp] f content_id_is_ledger_id by (auto simp: list_all_iff)
  let ?e = "\<lparr>fe_fact_id = tf_id f, fe_canonical_value = val f, fe_evidence = [ev]\<rparr>"
  have "dict_all (\<lambda>k e. \<exists>f \<in> set (pack_facts tp). tf_id f = k \<and> tf_accepts f (fe_canonical_value e))
      (AList.update (tf_id f) ?e (as_facts st))"
    and "dict_all fact_entry_ok (AList.update (tf_id f) ?e (as_facts st))"
    using wf f v ev by (auto simp: state_wf_def fact_entry_ok_def intro!: dict_all_update)
  with None g i wf show ?thesis by (simp add: record_fact_def py_index_def state_wf_def)
next
  case (Some e)
  then have ok: "fact_entry_ok (tf_id f) e"
    and val: "\<exists>f' \<in> set (pack_facts tp). tf_id f' = tf_id f \<and> tf_accepts f' (fe_canonical_value e)"
    using wf by (auto simp: state_wf_def dest: dict_all_get)
  let ?e = "e\<lparr>fe_evidence := fe_evidence e @ [ev]\<rparr>"
  have "fe_id ev \<notin> fe_id ` set (fe_evidence e) \<Longrightarrow>
      dict_all fact_entry_ok (AList.update (tf_id f) ?e (as_facts st))"
    and "dict_all (\<lambda>k e. \<exists>f \<in> set (pack_facts tp). tf_id f = k \<and> tf_accepts f (fe_canonical_value e))
      (AList.update (tf_id f) ?e (as_facts st))"
    using wf ok val ev by (auto simp: state_wf_def fact_entry_ok_def intro!: dict_all_update)
  with Some wf show ?thesis by (simp add: record_fact_def state_wf_def)
qed

lemma record_relation_total:
  assumes wf: "state_wf tp st" and tp: "validate_task_pack tp = Inr ()"
    and r: "rid \<in> set (pack_relations tp)" and ev: "relation_evidence_for rid ev"
  shows "\<exists>st'. record_relation rid ev st = Inr st' \<and> state_wf tp st'
           \<and> length (as_auxiliary st') = length (as_auxiliary st)"
proof -
  have i: "ledger_id_ok 160 rid"
    using validated_pack_fields(2) [OF tp] r content_id_is_ledger_id by (auto simp: list_all_iff)
  have "dict_all relation_entry_ok
      (AList.update rid \<lparr>re_relation_id = rid, re_evidence = [ev]\<rparr> (as_relations st))"
    using wf ev by (auto simp: state_wf_def relation_entry_ok_def intro!: dict_all_update)
  moreover have "dict_all relation_entry_ok
      (AList.update rid (e\<lparr>re_evidence := re_evidence e @ [ev]\<rparr>) (as_relations st))"
    if "dict_get (as_relations st) rid = Some e" "re_id ev \<notin> re_id ` set (re_evidence e)" for e
  proof -
    have "relation_entry_ok rid e" using wf that(1) by (auto simp: state_wf_def dest: dict_all_get)
    then show ?thesis using wf ev that(2)
      by (auto simp: state_wf_def relation_entry_ok_def intro!: dict_all_update)
  qed
  ultimately show ?thesis using i wf r
    by (auto simp: record_relation_def state_wf_def split: option.splits)
qed

lemma record_partial_total:
  assumes wf: "state_wf tp st" and tp: "validate_task_pack tp = Inr ()"
    and r: "rid \<in> set (pack_relations tp)"
  shows "\<exists>st'. record_partial rid ev st = Inr st' \<and> state_wf tp st'
           \<and> length (as_auxiliary st') = length (as_auxiliary st)"
proof -
  have i: "ledger_id_ok 160 rid"
    using validated_pack_fields(2) [OF tp] r content_id_is_ledger_id by (auto simp: list_all_iff)
  have "dict_all partial_entry_ok
      (AList.update rid \<lparr>pe_relation_id = rid, pe_evidence = [ev]\<rparr> (as_partial st))"
    using wf by (auto simp: state_wf_def partial_entry_ok_def intro!: dict_all_update)
  moreover have "dict_all partial_entry_ok
      (AList.update rid (e\<lparr>pe_evidence := pe_evidence e @ [ev]\<rparr>) (as_partial st))"
    if "dict_get (as_partial st) rid = Some e" "ep_evidence_id ev \<notin> ep_evidence_id ` set (pe_evidence e)" for e
  proof -
    have "partial_entry_ok rid e" using wf that(1) by (auto simp: state_wf_def dest: dict_all_get)
    then show ?thesis using wf that(2)
      by (auto simp: state_wf_def partial_entry_ok_def intro!: dict_all_update)
  qed
  ultimately show ?thesis using i wf r
    by (auto simp: record_partial_def state_wf_def split: option.splits)
qed

lemma record_auxiliary_wf:
  "state_wf tp st \<Longrightarrow> state_wf tp (record_auxiliary ev v st)"
  "length (as_auxiliary (record_auxiliary ev v st)) \<le> Suc (length (as_auxiliary st))"
  by (auto simp: record_auxiliary_def state_wf_def auxiliary_ok_def dict_update_length_le
      intro!: dict_all_update)

section \<open>Totality\<close>

fun claim_known :: "task_pack \<Rightarrow> understanding_claim \<Rightarrow> bool" where
  "claim_known tp (FactClaim c) \<longleftrightarrow> fc_fact_id c \<in> tf_id ` set (pack_facts tp)"
| "claim_known tp (RelationClaim c) \<longleftrightarrow> rc_relation_id c \<in> set (pack_relations tp)"
| "claim_known tp (AuxiliaryClaim c) \<longleftrightarrow> True"

fun is_auxiliary :: "understanding_claim \<Rightarrow> bool" where
  "is_auxiliary (AuxiliaryClaim _) = True"
| "is_auxiliary _ = False"

definition matched :: "(string, evidence_match) dict \<Rightarrow> understanding_claim \<Rightarrow> bool" where
  "matched ms c \<longleftrightarrow> (\<exists>m. dict_get ms (claim_id c) = Some m \<and> em_source_start m < em_source_end m)"

lemma make_pointer_total:
  "em_source_start m < em_source_end m \<Longrightarrow> \<exists>p. make_pointer eid turn m = Inr p \<and> ep_evidence_id p = eid"
  by (simp add: make_pointer_def)

lemma apply_claim_total:
  assumes wf: "state_wf tp st" and tp: "validate_task_pack tp = Inr ()"
    and c: "claim_known tp c" "matched ms c"
  shows "\<exists>st'. apply_claim sha (dict_by tf_id (pack_facts tp)) ms turn c st = Inr st' \<and> state_wf tp st'
           \<and> length (as_auxiliary st') \<le> length (as_auxiliary st) + (if is_auxiliary c then 1 else 0)"
proof -
  obtain m where m: "dict_get ms (claim_id c) = Some m" "em_source_start m < em_source_end m"
    using c(2) by (auto simp: matched_def)
  note ptr = make_pointer_total [OF m(2)]
  show ?thesis
  proof (cases c)
    case (FactClaim f)
    from c(1) FactClaim obtain g where g: "g \<in> set (pack_facts tp)" "tf_id g = fc_fact_id f" by auto
    let ?eid = "stable_evidence_id sha turn m ''fact'' (fc_fact_id f) (fc_verdict f)"
    obtain p where p: "make_pointer ?eid turn m = Inr p" using ptr by blast
    have "\<exists>st'. record_fact (dict_by tf_id (pack_facts tp)) (tf_id g) tf_value (FactVerification p)
        (note_claim (fc_claim_id f) ?eid st) = Inr st' \<and> state_wf tp st'
        \<and> length (as_auxiliary st') = length (as_auxiliary (note_claim (fc_claim_id f) ?eid st))"
      by (rule record_fact_total) (use wf tp g in simp_all)
    with FactClaim m p g(2) wf show ?thesis by (auto simp: py_index_def Let_def)
  next
    case (RelationClaim r)
    let ?eid = "\<lambda>v. stable_evidence_id sha turn m ''relation'' (rc_relation_id r) v"
    obtain p q where p: "make_pointer (?eid Partial) turn m = Inr p"
      and q: "make_pointer (?eid (rc_verdict r)) turn m = Inr q" using ptr by blast
    have r: "rc_relation_id r \<in> set (pack_relations tp)" using c(1) RelationClaim by simp
    have "\<exists>st'. record_partial (rc_relation_id r) p (note_claim (rc_claim_id r) (?eid Partial) st) = Inr st'
        \<and> state_wf tp st' \<and> length (as_auxiliary st') = length (as_auxiliary st)"
      using record_partial_total [OF _ tp r, of "note_claim (rc_claim_id r) (?eid Partial) st" p] wf by simp
    moreover have "rc_verdict r \<in> {Correct, Sufficient} \<Longrightarrow>
        \<exists>st'. record_relation (rc_relation_id r) (RelationVerification q (rc_verdict r))
          (note_claim (rc_claim_id r) (?eid (rc_verdict r)) st) = Inr st'
        \<and> state_wf tp st' \<and> length (as_auxiliary st') = length (as_auxiliary st)"
      using record_relation_total [OF _ tp r, of "note_claim (rc_claim_id r) (?eid (rc_verdict r)) st"
          "RelationVerification q (rc_verdict r)"] wf by simp
    ultimately show ?thesis using RelationClaim m p q wf by (auto simp: py_index_def Let_def)
  next
    case (AuxiliaryClaim a)
    let ?eid = "stable_evidence_id sha turn m ''auxiliary'' ''open'' (ac_verdict a)"
    obtain p where p: "make_pointer ?eid turn m = Inr p" using ptr by blast
    let ?s = "record_auxiliary p (ac_verdict a) (note_claim (ac_claim_id a) ?eid st)"
    have "state_wf tp ?s \<and> length (as_auxiliary ?s) \<le> Suc (length (as_auxiliary st))"
      using record_auxiliary_wf(1) [of tp "note_claim (ac_claim_id a) ?eid st" p "ac_verdict a"]
        record_auxiliary_wf(2) [of p "ac_verdict a" "note_claim (ac_claim_id a) ?eid st"] wf by simp
    with AuxiliaryClaim m p wf show ?thesis by (auto simp: py_index_def Let_def)
  qed
qed

lemma apply_claims_total:
  assumes "state_wf tp st" and tp: "validate_task_pack tp = Inr ()"
    and "\<forall>c \<in> set cs. claim_known tp c \<and> matched ms c"
  shows "\<exists>st'. fold_res (apply_claim sha (dict_by tf_id (pack_facts tp)) ms turn) cs st = Inr st'
           \<and> state_wf tp st'
           \<and> length (as_auxiliary st') \<le> length (as_auxiliary st) + length (filter is_auxiliary cs)"
  using assms(1,3)
proof (induction cs arbitrary: st)
  case (Cons c cs)
  then obtain s where s: "apply_claim sha (dict_by tf_id (pack_facts tp)) ms turn c st = Inr s" "state_wf tp s"
    "length (as_auxiliary s) \<le> length (as_auxiliary st) + (if is_auxiliary c then 1 else 0)"
    using apply_claim_total [OF Cons.prems(1) tp, of c ms sha turn] by auto
  from Cons.IH [OF s(2)] Cons.prems(2) obtain st' where
    "fold_res (apply_claim sha (dict_by tf_id (pack_facts tp)) ms turn) cs s = Inr st'" "state_wf tp st'"
    "length (as_auxiliary st') \<le> length (as_auxiliary s) + length (filter is_auxiliary cs)" by auto
  with s show ?case by (auto split: if_splits)
qed simp

lemma state_wf_binding:
  assumes wf: "state_wf tp st" and tp: "validate_task_pack tp = Inr ()"
    and b: "validate_ledger_binding sn l tp = Inr ()"
  shows "validate_ledger_binding sn (next_ledger l st) tp = Inr ()"
proof -
  have id: "(rl_pack_id l, rl_content_version l, rl_content_hash l)
      = (sn_pack_id sn, sn_content_version sn, sn_content_hash sn)"
    using b by (auto simp: validate_ledger_binding_def Let_def bindr_eq_Inr split: if_splits)
  have v: "\<exists>f. dict_get (dict_by tf_id (pack_facts tp)) k = Some f \<and> tf_accepts f (fe_canonical_value e)"
    if "(k, e) \<in> set (as_facts st)" for k e
  proof -
    obtain f where "f \<in> set (pack_facts tp)" "tf_id f = k" "tf_accepts f (fe_canonical_value e)"
      using wf \<open>(k, e) \<in> set (as_facts st)\<close> by (auto simp: state_wf_def dict_all_def)
    then show ?thesis using dict_by_lookup [OF validated_pack(1) [OF tp]] by blast
  qed
  have "fst ` set (as_facts st) \<subseteq> tf_id ` set (pack_facts tp)"
    using wf by (force simp: state_wf_def dict_all_def)
  moreover have "for_each (\<lambda>(i, e). bindr (py_index (dict_by tf_id (pack_facts tp)) i) (\<lambda>f.
         if tf_accepts f (fe_canonical_value e) then Inr ()
         else Inl (DialogueV2LedgerError ''reasoning ledger canonical fact differs from pinned content'')))
       (as_facts st) = Inr ()"
    using v by (force simp: for_each_Inr py_index_def)
  ultimately show ?thesis using wf id
    by (auto simp: validate_ledger_binding_def Let_def next_ledger_def state_wf_def)
qed

lemma state_wf_constructor:
  assumes wf: "state_wf tp st" and tp: "validate_task_pack tp = Inr ()"
    and aux: "length (as_auxiliary st) \<le> 200"
  shows "map_keys_must_match_entries (next_ledger l st) = Inr ()"
proof -
  have "set (dict_keys (as_facts st)) \<subseteq> set (map tf_id (pack_facts tp))"
    using wf by (force simp: state_wf_def dict_all_def)
  then have "length (as_facts st) \<le> 60"
    using dict_length_bound [of "as_facts st" "map tf_id (pack_facts tp)"] wf
      validated_pack_fields(3) [OF tp] by (simp add: state_wf_def)
  moreover have "length (as_relations st) \<le> 60" "length (as_partial st) \<le> 60"
    using dict_length_bound [of "as_relations st" "pack_relations tp"]
      dict_length_bound [of "as_partial st" "pack_relations tp"] wf validated_pack_fields(4) [OF tp]
    by (auto simp: state_wf_def)
  ultimately show ?thesis using wf aux
    by (auto simp: map_keys_must_match_entries_def next_ledger_def bounded_def state_wf_def dict_all_def
        fact_entry_ok_def relation_entry_ok_def partial_entry_ok_def auxiliary_ok_def)
qed

lemma finish_apply_total:
  assumes r: "resolve_pack H sn = Inr tp" and b: "validate_ledger_binding sn l tp = Inr ()"
    and wf: "state_wf tp st" and aux: "length (as_auxiliary st) \<le> 200"
  shows "\<exists>r. finish_apply H sn l prior st = Inr r \<and> ledger_wf tp (ar_ledger r) \<and> ar_state r = st"
proof -
  have tp: "validate_task_pack tp = Inr ()" using r by (rule resolve_pack_valid)
  have "reasoning_completion H sn (next_ledger l st) = Inr (completion_of tp (next_ledger l st))"
    using r state_wf_binding [OF wf tp b] by (simp add: reasoning_completion_def)
  moreover have "ledger_wf tp (next_ledger l st)"
    using wf aux by (simp add: ledger_wf_def state_wf_def initial_state_def next_ledger_def)
  ultimately show ?thesis
    using state_wf_constructor [OF wf tp aux] by (simp add: finish_apply_def Let_def)
qed

lemma apply_guarded_total:
  assumes r: "resolve_pack H sn = Inr tp" and b: "validate_ledger_binding sn l tp = Inr ()"
    and wf: "ledger_wf tp l" and turn: "bounded 1 100 turn"
    and ms: "evidence_matches_by_claim g = Inr ms"
    and cs: "\<forall>c \<in> set (claims (response g)). claim_known tp c \<and> matched ms c"
    and aux: "length (accepted_auxiliary l) + length (filter is_auxiliary (claims (response g))) \<le> 200"
  shows "\<exists>r. apply_guarded_understanding H sha sn l g turn = Inr r \<and> ledger_wf tp (ar_ledger r)"
proof -
  have tp: "validate_task_pack tp = Inr ()" using r by (rule resolve_pack_valid)
  obtain st where st: "fold_res (apply_claim sha (dict_by tf_id (pack_facts tp)) ms turn)
      (claims (response g)) (initial_state l) = Inr st" "state_wf tp st"
    "length (as_auxiliary st) \<le> length (as_auxiliary (initial_state l))
       + length (filter is_auxiliary (claims (response g)))"
    using apply_claims_total [OF _ tp cs, of "initial_state l" sha turn] wf by (auto simp: ledger_wf_def)
  then have "length (as_auxiliary st) \<le> 200" using aux by (simp add: initial_state_def)
  then show ?thesis
    using finish_apply_total [OF r b st(2), of "completion_of tp l"] r b ms turn st(1)
    by (auto simp: apply_guarded_understanding_def reasoning_completion_def)
qed

lemma apply_structured_total:
  assumes r: "resolve_pack H sn = Inr tp" and b: "validate_ledger_binding sn l tp = Inr ()"
    and wf: "ledger_wf tp l" and turn: "bounded 1 100 turn" and d: "distinct rids"
    and us: "\<forall>(i, v) \<in> set us. \<exists>f \<in> set (pack_facts tp). tf_id f = i \<and> tf_accepts f v"
    and rs: "set rids \<subseteq> set (pack_relations tp)"
  shows "\<exists>r. apply_structured_progress H sha sn l us rids turn sk = Inr r \<and> ledger_wf tp (ar_ledger r)"
proof -
  have tp: "validate_task_pack tp = Inr ()" using r by (rule resolve_pack_valid)
  let ?fs = "dict_by tf_id (pack_facts tp)"
  let ?P = "\<lambda>st. state_wf tp st \<and> length (as_auxiliary st) \<le> 200"
  have "\<exists>s. fold_res (apply_structured_fact sha ?fs turn sk) us (initial_state l) = Inr s \<and> ?P s"
  proof (rule fold_res_total)
    show "?P (initial_state l)" using wf by (simp add: ledger_wf_def initial_state_def)
    show "\<exists>s'. apply_structured_fact sha ?fs turn sk u s = Inr s' \<and> ?P s'" if "u \<in> set us" "?P s" for u s
    proof -
      obtain f where f: "f \<in> set (pack_facts tp)" "tf_id f = fst u" "tf_accepts f (snd u)"
        using us \<open>u \<in> set us\<close> by (cases u) auto
      from record_fact_total [OF _ tp f(1), where st = s and val = "\<lambda>_. snd u"] that f show ?thesis
        by (force simp: apply_structured_fact_def make_structured_def)
    qed
  qed
  then obtain s1 where s1: "fold_res (apply_structured_fact sha ?fs turn sk) us (initial_state l) = Inr s1"
    "?P s1" by blast
  have "\<exists>s. fold_res (apply_structured_relation sha turn sk) rids s1 = Inr s \<and> ?P s"
  proof (rule fold_res_total)
    show "?P s1" by (rule s1(2))
    show "\<exists>s'. apply_structured_relation sha turn sk i s = Inr s' \<and> ?P s'" if "i \<in> set rids" "?P s" for i s
      using record_relation_total [OF _ tp, of s i] that rs
      by (force simp: apply_structured_relation_def make_structured_def)
  qed
  then obtain s2 where s2: "fold_res (apply_structured_relation sha turn sk) rids s1 = Inr s2" "?P s2" by blast
  have "for_each (check_structured_value ?fs) us = Inr ()"
    using us dict_by_lookup [OF validated_pack(1) [OF tp]]
    by (force simp: for_each_Inr check_structured_value_def py_index_def)
  moreover have "fst ` set us \<subseteq> tf_id ` set (pack_facts tp)" using us by force
  ultimately show ?thesis
    using finish_apply_total [OF r b, of s2 "completion_of tp l"] s1(1) s2 r b turn d rs
    by (auto simp: apply_structured_progress_def reasoning_completion_def Let_def)
qed

section \<open>Idempotence\<close>

text \<open>A claim is absorbed by a state that already holds its evidence.\<close>

fun absorbed ::
    "(evidence_key \<Rightarrow> string) \<Rightarrow> (string, evidence_match) dict \<Rightarrow> string \<Rightarrow> apply_state
     \<Rightarrow> understanding_claim \<Rightarrow> bool" where
  "absorbed sha ms turn st (FactClaim c) \<longleftrightarrow> fc_verdict c \<noteq> Correct \<or>
     (\<exists>m e. dict_get ms (fc_claim_id c) = Some m \<and> dict_get (as_facts st) (fc_fact_id c) = Some e
        \<and> stable_evidence_id sha turn m ''fact'' (fc_fact_id c) (fc_verdict c) \<in> fe_id ` set (fe_evidence e))"
| "absorbed sha ms turn st (RelationClaim c) \<longleftrightarrow>
     (if rc_verdict c = Partial then
        rc_relation_id c \<in> fst ` set (as_relations st) \<or>
        (\<exists>m e. dict_get ms (rc_claim_id c) = Some m \<and> dict_get (as_partial st) (rc_relation_id c) = Some e
           \<and> stable_evidence_id sha turn m ''relation'' (rc_relation_id c) Partial
               \<in> ep_evidence_id ` set (pe_evidence e))
      else rc_verdict c \<in> {Correct, Sufficient} \<longrightarrow>
        (\<exists>m e. dict_get ms (rc_claim_id c) = Some m \<and> dict_get (as_relations st) (rc_relation_id c) = Some e
           \<and> stable_evidence_id sha turn m ''relation'' (rc_relation_id c) (rc_verdict c)
               \<in> re_id ` set (re_evidence e)))"
| "absorbed sha ms turn st (AuxiliaryClaim c) \<longleftrightarrow> (ac_verdict c \<in> {Correct, Sufficient, Partial} \<longrightarrow>
     (\<exists>m. dict_get ms (ac_claim_id c) = Some m
        \<and> stable_evidence_id sha turn m ''auxiliary'' ''open'' (ac_verdict c) \<in> fst ` set (as_auxiliary st)))"

lemma prefix_image: "prefix xs ys \<Longrightarrow> x \<in> f ` set xs \<Longrightarrow> x \<in> f ` set ys"
  by (auto simp: prefix_def)

lemma state_le_entries:
  assumes "state_le st st'"
  shows "dict_get (as_facts st) k = Some e \<Longrightarrow> \<exists>e'. dict_get (as_facts st') k = Some e' \<and> prefix (fe_evidence e) (fe_evidence e')"
    and "dict_get (as_relations st) k = Some r \<Longrightarrow> \<exists>r'. dict_get (as_relations st') k = Some r' \<and> prefix (re_evidence r) (re_evidence r')"
    and "dict_get (as_partial st) k = Some p \<Longrightarrow> \<exists>p'. dict_get (as_partial st') k = Some p' \<and> prefix (pe_evidence p) (pe_evidence p')"
    and "fst ` set (as_relations st) \<subseteq> fst ` set (as_relations st')"
    and "fst ` set (as_auxiliary st) \<subseteq> fst ` set (as_auxiliary st')"
  using assms dict_le_keys [of relation_le "as_relations st" "as_relations st'"]
    dict_le_keys [of "(=)" "as_auxiliary st" "as_auxiliary st'"]
  unfolding state_le_def dict_le_def fact_le_def relation_le_def partial_le_def by (meson, meson, meson, simp_all)

lemma absorbed_mono:
  assumes "state_le st st'" and "absorbed sha ms turn st c"
  shows "absorbed sha ms turn st' c"
proof (cases c)
  case (FactClaim f)
  with assms(2) state_le_entries(1) [OF assms(1)] show ?thesis
    by (auto dest: prefix_image) (meson prefix_image image_eqI)
next
  case (RelationClaim r)
  with assms(2) state_le_entries(2,3,4) [OF assms(1)] show ?thesis
    by (simp split: if_splits) (meson prefix_image subsetD)+
next
  case (AuxiliaryClaim a)
  with assms(2) state_le_entries(5) [OF assms(1)] show ?thesis by simp (meson subsetD)
qed

lemma make_pointer_id: "make_pointer eid turn m = Inr p \<Longrightarrow> ep_evidence_id p = eid"
  by (auto simp: make_pointer_def split: if_splits)

lemma apply_claim_absorbs:
  assumes "apply_claim sha fs ms turn c st = Inr st'"
  shows "absorbed sha ms turn st' c"
proof (cases c)
  case (FactClaim f)
  with assms show ?thesis
    by (auto simp: bindr_eq_Inr py_index_Inr Let_def dest!: record_fact_effect(6) make_pointer_id
        split: if_splits)
next
  case (RelationClaim r)
  with assms show ?thesis
    by (auto simp: bindr_eq_Inr py_index_Inr Let_def dest!: record_relation_effect(6) record_partial_effect(6)
        make_pointer_id split: if_splits)
next
  case (AuxiliaryClaim a)
  show ?thesis
  proof (cases "ac_verdict a \<in> {Correct, Sufficient, Partial}")
    case True
    from assms AuxiliaryClaim obtain m where m: "dict_get ms (ac_claim_id a) = Some m"
      by (auto simp: bindr_eq_Inr py_index_Inr)
    let ?eid = "stable_evidence_id sha turn m ''auxiliary'' ''open'' (ac_verdict a)"
    note verdict = True
    have "?eid \<in> fst ` set (as_auxiliary st')"
    proof (cases "?eid \<in> fst ` set (as_auxiliary st)")
      case True
      with assms AuxiliaryClaim m verdict have "st' = note_claim (ac_claim_id a) ?eid st"
        by (simp add: py_index_def Let_def del: insert_iff)
      with True show ?thesis by simp
    next
      case False
      with assms AuxiliaryClaim m verdict obtain p where "make_pointer ?eid turn m = Inr p"
        and "st' = record_auxiliary p (ac_verdict a) (note_claim (ac_claim_id a) ?eid st)"
        by (auto simp: bindr_eq_Inr py_index_def Let_def)
      with record_auxiliary_effect(5) [of p "ac_verdict a" "note_claim (ac_claim_id a) ?eid st"]
      show ?thesis by (simp add: make_pointer_id)
    qed
    with AuxiliaryClaim m show ?thesis by auto
  qed (use AuxiliaryClaim in simp)
qed

lemma apply_claims_absorb:
  "fold_res (apply_claim sha fs ms turn) cs st = Inr st' \<Longrightarrow> c \<in> set cs \<Longrightarrow> absorbed sha ms turn st' c"
proof (induction cs arbitrary: st)
  case (Cons d cs)
  then obtain s where d: "apply_claim sha fs ms turn d st = Inr s"
    and s: "fold_res (apply_claim sha fs ms turn) cs s = Inr st'" by (auto simp: bindr_eq_Inr)
  show ?case
  proof (cases "c \<in> set cs")
    case True
    with Cons.IH [OF s] show ?thesis by simp
  next
    case False
    with Cons.prems(2) apply_claim_absorbs [OF d] absorbed_mono [OF apply_claims_effect(1) [OF s]]
    show ?thesis by simp
  qed
qed simp

text \<open>The dictionaries and the lists of new identifiers, without the claim bookkeeping.\<close>

definition progress_part :: "apply_state \<Rightarrow> apply_state" where
  "progress_part st = st\<lparr>as_claim_evidence_ids := [], as_ignored_claim_ids := []\<rparr>"

lemma progress_part_bookkeeping [simp]:
  "progress_part (note_claim c e st) = progress_part st"
  "progress_part (ignore_claim c st) = progress_part st"
  by (simp_all add: progress_part_def note_claim_def ignore_claim_def)

lemma progress_part_dicts:
  "as_facts (progress_part st) = as_facts st" "as_relations (progress_part st) = as_relations st"
  "as_partial (progress_part st) = as_partial st" "as_auxiliary (progress_part st) = as_auxiliary st"
  by (simp_all add: progress_part_def)

lemma absorbed_dicts:
  assumes "as_facts st = as_facts st'" "as_relations st = as_relations st'"
    "as_partial st = as_partial st'" "as_auxiliary st = as_auxiliary st'"
  shows "absorbed sha ms turn st c \<longleftrightarrow> absorbed sha ms turn st' c"
  using assms by (cases c) auto

lemma progress_part_absorbed:
  assumes "progress_part st = progress_part st'"
  shows "absorbed sha ms turn st c \<longleftrightarrow> absorbed sha ms turn st' c"
  using progress_part_dicts [of st] progress_part_dicts [of st'] assms by (intro absorbed_dicts) simp_all

lemma absorbed_noop:
  assumes "absorbed sha ms turn st c" and "matched ms c"
  shows "\<exists>st'. apply_claim sha fs ms turn c st = Inr st' \<and> progress_part st' = progress_part st"
proof -
  obtain m where m: "dict_get ms (claim_id c) = Some m" "em_source_start m < em_source_end m"
    using assms(2) by (auto simp: matched_def)
  then show ?thesis using assms(1)
    by (cases c) (auto simp: py_index_def Let_def make_pointer_def record_fact_def record_relation_def
        record_partial_def split: if_splits)
qed

lemma absorbed_fold_noop:
  assumes "\<forall>c \<in> set cs. absorbed sha ms turn st c \<and> matched ms c"
  shows "\<exists>st'. fold_res (apply_claim sha fs ms turn) cs st = Inr st' \<and> progress_part st' = progress_part st"
  using assms
proof (induction cs arbitrary: st)
  case (Cons c cs)
  then obtain s where s: "apply_claim sha fs ms turn c st = Inr s" "progress_part s = progress_part st"
    using absorbed_noop [of sha ms turn st c fs] by auto
  have "\<forall>c \<in> set cs. absorbed sha ms turn s c \<and> matched ms c"
    using Cons.prems progress_part_absorbed [OF s(2)] by auto
  from Cons.IH [OF this] s show ?case by auto
qed simp

lemma evidence_matches_matched:
  assumes "evidence_matches_by_claim g = Inr ms" and "list_all match_boundaries_ok (evidence_matches g)"
    and "c \<in> set (claims (response g))"
  shows "matched ms c"
proof -
  have ms: "ms = dict_by em_claim_id (evidence_matches g)"
    and k: "em_claim_id ` set (evidence_matches g) = claim_id ` set (claims (response g))"
    using assms(1) by (simp_all add: evidence_matches_by_claim_def Let_def split: if_splits)
  from k assms(3) have "claim_id c \<in> em_claim_id ` set (evidence_matches g)" by blast
  then obtain m where m: "dict_get ms (claim_id c) = Some m"
    using dict_by_get_mem [of "claim_id c" em_claim_id "evidence_matches g"] ms by auto
  then have "m \<in> set (evidence_matches g)"
    using dict_by_get [of em_claim_id "evidence_matches g" "claim_id c" m] ms by simp
  with m assms(2) show ?thesis by (auto simp: matched_def list_all_iff match_boundaries_ok_def)
qed

lemma evidence_matches_total:
  assumes "map em_claim_id (evidence_matches g) = map claim_id (claims (response g))"
    and "distinct (map claim_id (claims (response g)))"
  shows "evidence_matches_by_claim g = Inr (dict_by em_claim_id (evidence_matches g))"
proof -
  have "length (dict_by em_claim_id (evidence_matches g)) = length (evidence_matches g)"
    using assms by (simp add: dict_by_distinct)
  moreover have "em_claim_id ` set (evidence_matches g) = claim_id ` set (claims (response g))"
    using arg_cong [OF assms(1), of set] by simp
  ultimately show ?thesis by (simp add: evidence_matches_by_claim_def Let_def)
qed

lemma next_ledger_next: "initial_state (next_ledger l st) = (initial_state l)\<lparr>as_facts := as_facts st,
    as_relations := as_relations st, as_partial := as_partial st, as_auxiliary := as_auxiliary st\<rparr>"
  by (simp add: initial_state_def next_ledger_def)

lemma next_ledger_noop:
  assumes "progress_part st' = progress_part (initial_state l)"
  shows "next_ledger l st' = l"
proof -
  have "as_facts st' = verified_facts l" "as_relations st' = verified_relations l"
    "as_partial st' = partial_relations l" "as_auxiliary st' = accepted_auxiliary l"
    using progress_part_dicts [of st'] progress_part_dicts [of "initial_state l"] assms
    by (simp_all add: initial_state_def)
  then show ?thesis by (simp add: next_ledger_def)
qed

lemma apply_guarded_idempotent:
  assumes "apply_guarded_understanding H sha sn l g turn = Inr r"
    and "list_all match_boundaries_ok (evidence_matches g)"
  shows "\<exists>r'. apply_guarded_understanding H sha sn (ar_ledger r) g turn = Inr r'
           \<and> ar_ledger r' = ar_ledger r
           \<and> progress_part (ar_state r') = initial_state (ar_ledger r)
           \<and> \<not> ar_completion_became_true r'"
proof -
  from assms(1) obtain tp ms st where p: "resolve_pack H sn = Inr tp"
    "evidence_matches_by_claim g = Inr ms"
    "fold_res (apply_claim sha (dict_by tf_id (pack_facts tp)) ms turn) (claims (response g))
       (initial_state l) = Inr st"
    "finish_apply H sn l (completion_of tp l) st = Inr r"
    by (rule apply_guarded_Inr)
  have turn: "bounded 1 100 turn"
    using assms(1) by (auto simp: apply_guarded_understanding_def split: if_splits)
  let ?l = "ar_ledger r"
  note f = finish_apply_Inr [OF p(4)]
  have c: "reasoning_completion H sn ?l = Inr (completion_of tp ?l)"
    and b: "validate_ledger_binding sn ?l tp = Inr ()"
    using f(4) p(1) by (auto simp: reasoning_completion_Inr)
  have "\<forall>c \<in> set (claims (response g)). absorbed sha ms turn (initial_state ?l) c \<and> matched ms c"
  proof
    fix c assume c: "c \<in> set (claims (response g))"
    have "absorbed sha ms turn st c" using apply_claims_absorb [OF p(3) c] .
    then have "absorbed sha ms turn (initial_state ?l) c"
      by (subst absorbed_dicts [where st' = st]) (simp_all add: f(1) next_ledger_next)
    with evidence_matches_matched [OF p(2) assms(2) c]
    show "absorbed sha ms turn (initial_state ?l) c \<and> matched ms c" by blast
  qed
  then obtain st' where s: "fold_res (apply_claim sha (dict_by tf_id (pack_facts tp)) ms turn)
      (claims (response g)) (initial_state ?l) = Inr st'"
    "progress_part st' = progress_part (initial_state ?l)"
    using absorbed_fold_noop by blast
  note n = next_ledger_noop [OF s(2)]
  have "finish_apply H sn ?l (completion_of tp ?l) st' =
      Inr \<lparr>ar_ledger = ?l, ar_state = st', ar_completion = completion_of tp ?l,
           ar_completion_became_true = False\<rparr>"
    using f(3) c by (simp add: finish_apply_def n Let_def)
  moreover have "progress_part (initial_state ?l) = initial_state ?l"
    by (simp add: progress_part_def initial_state_def)
  ultimately show ?thesis
    using p(1,2) b c s turn by (simp add: apply_guarded_understanding_def)
qed

section \<open>Canonical values and joint completion\<close>

lemma record_fact_pinned:
  assumes "record_fact fs fid tf_value ev st = Inr st'"
    and "\<And>k e. dict_get (as_facts st) k = Some e \<Longrightarrow> k \<notin> K \<Longrightarrow>
           \<exists>f. dict_get fs k = Some f \<and> fe_canonical_value e = tf_value f"
    and "dict_get (as_facts st') k = Some e" and "k \<notin> K"
  shows "\<exists>f. dict_get fs k = Some f \<and> fe_canonical_value e = tf_value f"
  using assms
  by (auto simp: record_fact_def bindr_eq_Inr py_index_Inr split: option.splits if_splits)

lemma apply_claim_pinned:
  assumes "apply_claim sha fs ms turn c st = Inr st'"
    and "\<And>k e. dict_get (as_facts st) k = Some e \<Longrightarrow> k \<notin> K \<Longrightarrow>
           \<exists>f. dict_get fs k = Some f \<and> fe_canonical_value e = tf_value f"
    and "dict_get (as_facts st') k = Some e" and "k \<notin> K"
  shows "\<exists>f. dict_get fs k = Some f \<and> fe_canonical_value e = tf_value f"
proof (cases c)
  case (FactClaim f)
  show ?thesis
  proof (cases "fc_verdict f = Correct")
    case True
    with assms(1) FactClaim obtain p x where
      r: "record_fact fs (fc_fact_id f) tf_value (FactVerification p) (note_claim (fc_claim_id f) x st) = Inr st'"
      by (auto simp: bindr_eq_Inr Let_def)
    show ?thesis by (rule record_fact_pinned [OF r _ assms(3,4)]) (use assms(2) in simp)
  next
    case False
    with assms FactClaim show ?thesis by (auto simp: bindr_eq_Inr)
  qed
next
  case (RelationClaim r)
  with assms show ?thesis
    by (auto simp: bindr_eq_Inr Let_def record_relation_effect(2) record_partial_effect(2)
        dest: record_relation_effect(2) record_partial_effect(2) split: if_splits)
next
  case (AuxiliaryClaim a)
  with assms show ?thesis by (auto simp: bindr_eq_Inr Let_def split: if_splits)
qed

lemma apply_guarded_pinned:
  assumes "apply_guarded_understanding H sha sn l g turn = Inr r"
    and "dict_get (verified_facts (ar_ledger r)) k = Some e" and "dict_get (verified_facts l) k = None"
  shows "\<exists>f \<in> set (pack_facts (sn_payload sn)). tf_id f = k \<and> fe_canonical_value e = tf_value f"
proof -
  from assms(1) obtain tp ms st where p: "resolve_pack H sn = Inr tp"
    "fold_res (apply_claim sha (dict_by tf_id (pack_facts tp)) ms turn) (claims (response g))
       (initial_state l) = Inr st"
    "finish_apply H sn l (completion_of tp l) st = Inr r"
    by (rule apply_guarded_Inr)
  let ?fs = "dict_by tf_id (pack_facts tp)" and ?K = "set (dict_keys (verified_facts l))"
  let ?P = "\<lambda>st. \<forall>k e. dict_get (as_facts st) k = Some e \<longrightarrow> k \<notin> ?K \<longrightarrow>
     (\<exists>f. dict_get ?fs k = Some f \<and> fe_canonical_value e = tf_value f)"
  have "?P st"
  proof (rule fold_res_preserves [OF p(2)])
    show "?P (initial_state l)" by (auto simp: initial_state_def dest: dict_get_Some_key)
    show "?P s'" if "?P s" "apply_claim sha ?fs ms turn c s = Inr s'" for c s s'
      using apply_claim_pinned [OF that(2), of ?K] that(1) by blast
  qed
  moreover have "dict_get (as_facts st) k = Some e" and "k \<notin> ?K"
    using assms(2,3) finish_apply_Inr(1) [OF p(3)] by (simp_all add: next_ledger_def map_of_eq_None_iff)
  ultimately obtain f where "dict_get ?fs k = Some f" "fe_canonical_value e = tf_value f" by blast
  with dict_by_get [of tf_id "pack_facts tp" k f] p(1) show ?thesis by (auto simp: resolve_pack_Inr)
qed

text \<open>The targets of the joint action, as the runtime passes them to the ledger.\<close>

definition joint_facts :: "joint_completion list \<Rightarrow> (string, canonical_value) dict" where
  "joint_facts cs = concat (map (\<lambda>c. case c of JointFact i v \<Rightarrow> [(i, v)] | JointRelation _ \<Rightarrow> []) cs)"

definition joint_relations :: "joint_completion list \<Rightarrow> string list" where
  "joint_relations cs = concat (map (\<lambda>c. case c of JointFact _ _ \<Rightarrow> [] | JointRelation i \<Rightarrow> [i]) cs)"

lemma joint_facts_mem: "(i, v) \<in> set (joint_facts cs) \<longleftrightarrow> JointFact i v \<in> set cs"
  by (force simp: joint_facts_def split: joint_completion.splits)

lemma joint_relations_mem: "i \<in> set (joint_relations cs) \<longleftrightarrow> JointRelation i \<in> set cs"
  by (force simp: joint_relations_def split: joint_completion.splits)

lemma joint_relations_distinct: "distinct (map joint_key cs) \<Longrightarrow> distinct (joint_relations cs)"
proof (induction cs)
  case (Cons c cs)
  then show ?case
    by (cases c) (force simp: joint_relations_def joint_relations_mem [unfolded joint_relations_def])+
qed (simp add: joint_relations_def)

lemma joint_covers:
  assumes "joint_key ` set cs = required_targets c"
  shows "set (required_fact_ids c) \<subseteq> fst ` set (joint_facts cs)"
    and "set (required_relation_ids c) \<subseteq> set (joint_relations cs)"
proof -
  have f: "i \<in> fst ` set (joint_facts cs)" if h: "(TK_Fact, i) \<in> joint_key ` set cs" for i
  proof -
    obtain x where "x \<in> set cs" "joint_key x = (TK_Fact, i)" using h by force
    then obtain v where "JointFact i v \<in> set cs" by (cases x rule: joint_completion.exhaust) auto
    then show ?thesis by (metis fst_conv image_eqI joint_facts_mem)
  qed
  have r: "i \<in> set (joint_relations cs)" if h: "(TK_Relation, i) \<in> joint_key ` set cs" for i
  proof -
    obtain x where "x \<in> set cs" "joint_key x = (TK_Relation, i)" using h by force
    then show ?thesis by (cases x rule: joint_completion.exhaust) (auto simp: joint_relations_mem)
  qed
  show "set (required_fact_ids c) \<subseteq> fst ` set (joint_facts cs)"
    using f assms by (auto simp: required_targets_def)
  show "set (required_relation_ids c) \<subseteq> set (joint_relations cs)"
    using r assms by (auto simp: required_targets_def)
qed

lemma joint_action_completes:
  assumes r: "resolve_pack H sn = Inr tp" and b: "validate_ledger_binding sn l tp = Inr ()"
    and wf: "ledger_wf tp l" and turn: "bounded 1 100 turn"
  defines "cs \<equiv> jp_completion (pack_joint tp)"
  shows "\<exists>r. apply_structured_progress H sha sn l (joint_facts cs) (joint_relations cs) turn Joint_Source = Inr r
           \<and> co_complete (ar_completion r) \<and> ledger_wf tp (ar_ledger r)"
proof -
  note j = validated_pack_joint [OF resolve_pack_valid [OF r], folded cs_def]
  have "\<forall>(i, v) \<in> set (joint_facts cs). \<exists>f \<in> set (pack_facts tp). tf_id f = i \<and> tf_accepts f v"
    using j(3) by (auto simp: joint_facts_mem)
  moreover have "set (joint_relations cs) \<subseteq> set (pack_relations tp)"
    using j(4) by (auto simp: joint_relations_mem)
  ultimately obtain r' where a: "apply_structured_progress H sha sn l (joint_facts cs) (joint_relations cs)
      turn Joint_Source = Inr r'" "ledger_wf tp (ar_ledger r')"
    using apply_structured_total [OF r b wf turn joint_relations_distinct [OF j(1)]] by blast
  from a(1) obtain tp' st1 st2 where p: "resolve_pack H sn = Inr tp'"
    "fold_res (apply_structured_fact sha (dict_by tf_id (pack_facts tp')) turn Joint_Source) (joint_facts cs)
       (initial_state l) = Inr st1"
    "fold_res (apply_structured_relation sha turn Joint_Source) (joint_relations cs) st1 = Inr st2"
    "finish_apply H sn l (completion_of tp' l) st2 = Inr r'"
    by (rule apply_structured_Inr)
  note f = finish_apply_Inr [OF p(4)]
  have "ar_completion r' = completion_of tp (ar_ledger r')"
    using f(4) r p(1) by (auto simp: reasoning_completion_Inr)
  moreover have "co_complete (completion_of tp (ar_ledger r'))"
    using apply_structured_effect(2,3) [OF p(2,3)] joint_covers [OF j(2)]
    by (auto simp: completion_of_complete f(1) next_ledger_def)
  ultimately show ?thesis using a by auto
qed

end
