(* ===== verification/Money_Price_Turn.thy ===== *)
theory Money_Price_Turn
  imports Money_Price Ledger_Laws
begin

text \<open>
  A concrete turn on the \<open>money_price\<close> pack: the pinned snapshot, the understanding request for
  the child's sentence ``adding 700 won, 1,200 won'', and a model response with one fact claim, one
  relation claim and one claim whose evidence the child never said. The properties of the
  dialogue components are instantiated on it.
\<close>

definition demo_hash :: "task_pack \<Rightarrow> string" where
  "demo_hash p = replicate 64 (CHR ''a'')"

fun demo_sha :: "evidence_key \<Rightarrow> string" where
  "demo_sha (UnderstandingKey turn i j k ck target v) = ''u'' @ turn @ ck @ target"
| "demo_sha (StructuredKey turn sk tk target v) = ''s'' @ turn @ target"

definition money_snapshot :: snapshot where
  "money_snapshot =
     \<lparr>sn_pack_id = ''home.money-price.v2'', sn_content_version = 1, sn_subject = ''money-price'',
      sn_content_hash = demo_hash (Home money_price_pack), sn_payload = Home money_price_pack\<rparr>"

definition demo_utterance :: ustr where
  "demo_utterance = [55, 48, 48, 50896, 51012, 32, 45908, 54644, 49436, 32, 49, 44, 50, 48, 48, 50896]"

definition demo_request :: understanding_request where
  "demo_request =
     \<lparr>req_task_id = ''home_teaching'', req_visible_facts = [], req_fact_contexts = [],
      req_targets = [],
      req_graph = \<lparr>cg_fact_ids = [''juice_price'', ''bread_price'', ''purchase_total''],
                   cg_relation_ids = [''add_item_prices''], cg_open_auxiliary_claims = True\<rparr>,
      req_turn = \<lparr>tc_mormi_question = [63], tc_asks = [Ask_Answer], tc_expression_level = L4,
                  tc_hint_level = H0, tc_help_scaffolded_relation_ids = []\<rparr>,
      req_ui_elements = [], req_history = [], req_child_utterance = demo_utterance,
      req_guard_feedback_codes = []\<rparr>"

definition demo_fact :: understanding_claim where
  "demo_fact = FactClaim
     \<lparr>fc_claim_id = ''c1'', fc_fact_id = ''purchase_total'', fc_claim_type = ''final_answer'',
      fc_evidence_span = [49, 44, 50, 48, 48, 50896], fc_interpreted_value = None,
      fc_verdict = Correct, fc_confidence = None\<rparr>"

definition demo_relation :: understanding_claim where
  "demo_relation = RelationClaim
     \<lparr>rc_claim_id = ''c2'', rc_relation_id = ''add_item_prices'', rc_claim_type = ''procedure_step'',
      rc_evidence_span = [45908, 54644, 49436], rc_verdict = Sufficient, rc_arithmetic = None,
      rc_confidence = None\<rparr>"

definition demo_bogus :: understanding_claim where
  "demo_bogus = RelationClaim
     \<lparr>rc_claim_id = ''c3'', rc_relation_id = ''add_item_prices'', rc_claim_type = ''explanation'',
      rc_evidence_span = [48764, 49436], rc_verdict = Correct, rc_arithmetic = None,
      rc_confidence = None\<rparr>"

definition demo_response :: understanding_response where
  "demo_response = (default_response UC_LEARNING_RESPONSE)
     \<lparr>contains_learning_evidence := True, claims := [demo_fact, demo_relation, demo_bogus]\<rparr>"

definition demo_guarded :: guarded_understanding where
  "demo_guarded = guarded (admit_understanding_response nfc_hangul demo_request demo_response)"

lemma money_resolves: "resolve_pack demo_hash money_snapshot = Inr (Home money_price_pack)"
  by (simp add: resolve_pack_def money_snapshot_def snapshot_matches_def money_price_valid demo_hash_def)
    (simp add: money_price_pack_def)

lemma money_pins: "pin_pack demo_hash (Home money_price_pack) = Inr money_snapshot"
proof -
  have "pack_identity (Home money_price_pack) = (''home.money-price.v2'', 1, ''money-price'')"
    by (simp add: money_price_pack_def)
  then show ?thesis
    by (simp add: pin_pack_def validate_pinned_pack_def money_price_valid snapshot_matches_def
        money_snapshot_def check_def Let_def)
qed

lemma money_empty_bound:
  "validate_ledger_binding money_snapshot (empty_reasoning_ledger money_snapshot) (Home money_price_pack) = Inr ()"
  by (simp add: validate_ledger_binding_def empty_reasoning_ledger_def Let_def)

lemma money_empty_wf: "ledger_wf (Home money_price_pack) (empty_reasoning_ledger money_snapshot)"
  by (simp add: ledger_wf_def state_wf_def initial_state_def empty_reasoning_ledger_def)

lemma demo_admission:
  "claims (response demo_guarded) = [demo_fact, demo_relation]"
  "map em_claim_id (evidence_matches demo_guarded) = [''c1'', ''c2'']"
  "list_all match_boundaries_ok (evidence_matches demo_guarded)"
  by code_simp+

end
