(* ===== verification/Dialogue_Properties.thy ===== *)
theory Dialogue_Properties
  imports Money_Price_Turn
begin

text \<open>
  Properties of the evidence guard, the content validators and the reasoning ledger, each with a
  witness on the \<open>money_price\<close> pack where it has hypotheses.
\<close>

section \<open>Evidence guard\<close>

text \<open>C18. Every claim that the admission boundary lets through is grounded: its graph identifier is
  claimable, its evidence match is a non-empty range of the child's utterance whose text is the
  claimed span up to Unicode normalisation, and a relation that the model calls correct or sufficient
  is not supported by a bare number.\<close>

theorem admitted_claims_are_literal:
  assumes "c \<in> set (claims (response (guarded (admit_understanding_response nfc request resp))))"
    and "evidence_span c \<noteq> []"
  shows "c \<in> set (claims resp) \<and> graph_violations (req_graph request) c = []
    \<and> \<not> bare_relation_evidence c
    \<and> (\<exists>m \<in> set (evidence_matches (guarded (admit_understanding_response nfc request resp))).
         em_claim_id m = claim_id c \<and> em_source_start m < em_source_end m
         \<and> em_source_end m \<le> length (req_child_utterance request)
         \<and> em_source_text m = slice (req_child_utterance request) (em_source_start m) (em_source_end m)
         \<and> nfc (em_source_text m) = nfc (evidence_span c)
         \<and> (em_match_kind m = EXACT \<longrightarrow> em_source_text m = evidence_span c))"
proof (intro conjI)
  from assms(1) have c: "c \<in> set (claims resp)" "claim_admissible nfc request c"
    by (auto simp: admitted_claims)
  then obtain m where "literal_evidence_match nfc (req_child_utterance request) (evidence_span c) = Some m"
    using admissible_has_match by blast
  then show "graph_violations (req_graph request) c = []" and "\<not> bare_relation_evidence c"
    using c(2) by (auto simp: claim_admissible_def claim_violations_def split: if_splits)
  have "match_for nfc request c \<in> set (evidence_matches (guarded (admit_understanding_response nfc request resp)))"
    using c by (simp add: admitted_matches)
  with match_for_sound [OF c(2) assms(2)] em_claim_id_match_for [of nfc request c]
  show "\<exists>m \<in> set (evidence_matches (guarded (admit_understanding_response nfc request resp))).
         em_claim_id m = claim_id c \<and> em_source_start m < em_source_end m
         \<and> em_source_end m \<le> length (req_child_utterance request)
         \<and> em_source_text m = slice (req_child_utterance request) (em_source_start m) (em_source_end m)
         \<and> nfc (em_source_text m) = nfc (evidence_span c)
         \<and> (em_match_kind m = EXACT \<longrightarrow> em_source_text m = evidence_span c)"
    by blast
qed (use assms(1) in \<open>simp add: admitted_claims\<close>)

theorem admitted_claims_are_literal_witness:
  "demo_relation \<in> set (claims demo_response) \<and> \<not> bare_relation_evidence demo_relation
   \<and> demo_bogus \<notin> set (claims (response (guarded
       (admit_understanding_response nfc_hangul demo_request demo_response))))"
proof -
  have a: "demo_relation \<in> set (claims (response (guarded
      (admit_understanding_response nfc_hangul demo_request demo_response))))"
    using demo_admission(1) by (simp add: demo_guarded_def)
  have b: "evidence_span demo_relation \<noteq> []" by (simp add: demo_relation_def)
  have "demo_bogus \<notin> set (claims (response demo_guarded))"
    unfolding demo_admission(1) by (simp add: demo_bogus_def demo_fact_def demo_relation_def)
  then show ?thesis using admitted_claims_are_literal [OF a b] by (simp add: demo_guarded_def)
qed

text \<open>The two guards agree: the strict guard accepts a response exactly when claim-level
  admission quarantines nothing, and then it keeps every claim with the same evidence matches; when it
  rejects, the violations it reports are the ones admission quarantines.\<close>

theorem strict_guard_is_total_admission:
  "guard_understanding_response nfc request resp =
     (let a = admit_understanding_response nfc request resp in
      if needs_repair a then Inl (quarantined_claims a)
      else Inr \<lparr>response = resp\<lparr>ui_reference := admitted_ui_reference nfc request resp\<rparr>,
                evidence_matches = evidence_matches (guarded a)\<rparr>)"
proof (cases "\<forall>c \<in> set (claims resp). claim_admissible nfc request c")
  case True
  then have "filter (claim_admissible nfc request) (claims resp) = claims resp" by simp
  moreover have "concat (map (claim_violations nfc request) (claims resp)) = []"
    using True by (simp add: claim_admissible_def)
  ultimately show ?thesis
    using guard_fold_violations [of nfc request "[]" "[]" "claims resp"]
      guard_fold_matches [OF True, of "[]" "[]"]
    by (simp add: guard_understanding_response_def needs_repair_def quarantined_eq admitted_matches
        Let_def case_prod_beta)
next
  case False
  then have "concat (map (claim_violations nfc request) (claims resp)) \<noteq> []"
    by (auto simp: claim_admissible_def)
  then show ?thesis
    using guard_fold_violations [of nfc request "[]" "[]" "claims resp"]
    by (simp add: guard_understanding_response_def needs_repair_def quarantined_eq Let_def case_prod_beta)
qed

section \<open>Reviewed content\<close>

text \<open>C25. The graph validator decides acyclicity: on a graph whose identifiers are unique, whose
  relations refer to its facts and pass the arithmetic and rubric checks, and whose completion
  contract is consistent, validation succeeds if and only if the dependency relation between facts
  has no cycle.\<close>

theorem graph_validation_decides_acyclicity:
  assumes "distinct (map fact_id (facts g))" and "distinct (map relation_id (relations g))"
    and "\<forall>r \<in> set (relations g). validate_relation_refs (map fact_id (facts g)) r = Inr ()
           \<and> validate_relation_math (dict_by fact_id (facts g)) r = Inr ()
           \<and> validate_relation_rubric (dict_by fact_id (facts g)) r = Inr ()"
    and "validate_completion g = Inr ()"
  shows "validate_graph g = Inr () \<longleftrightarrow> acyclic (fact_edges (relations g))"
proof
  assume "validate_graph g = Inr ()"
  then show "acyclic (fact_edges (relations g))" by (rule validate_graph_acyclic)
next
  assume a: "acyclic (fact_edges (relations g))"
  have refs: "\<forall>i \<in> set (map fact_id (facts g)). set (dependencies_of (relations g) i) \<subseteq> set (map fact_id (facts g))"
    using assms(3) by (auto simp: dependencies_of_def validate_relation_refs_Inr)
  obtain vd where "visit_all (dependencies (map fact_id (facts g)) (relations g)) [] [] (map fact_id (facts g)) = Inr vd"
    using visit_all_acyclic [OF a subset_refl refs, of "[]" "[]"] by auto
  then show "validate_graph g = Inr ()"
    using assms by (simp add: validate_graph_def Let_def bindr_eq_Inr for_each_Inr)
qed

lemma money_graph_valid: "validate_graph money_price_graph = Inr ()"
  using validate_home_pack_parts(1) [OF money_price_valid] by (simp add: money_price_pack_def)

theorem graph_validation_decides_acyclicity_witness:
  "acyclic (fact_edges (relations money_price_graph))"
proof -
  have v: "validate_graph money_price_graph = Inr ()" by (rule money_graph_valid)
  have r: "\<forall>r \<in> set (relations money_price_graph).
      validate_relation_refs (map fact_id (facts money_price_graph)) r = Inr ()
      \<and> validate_relation_math (dict_by fact_id (facts money_price_graph)) r = Inr ()
      \<and> validate_relation_rubric (dict_by fact_id (facts money_price_graph)) r = Inr ()"
    using v by (auto simp: validate_graph_def Let_def bindr_eq_Inr for_each_Inr)
  note p = validate_graph_parts [OF v]
  show ?thesis using graph_validation_decides_acyclicity [OF p(1,2) r p(5)] v by simp
qed





section \<open>Pinned content\<close>



section \<open>Reasoning ledger\<close>

text \<open>C19. Applying admitted claims grows the ledger and never shrinks it, and what it verifies is
  exactly what the verdicts accept: the verified facts become the old ones and those of the correct
  fact claims, the verified relations the old ones and those of the correct or sufficient relation
  claims. Partial, incorrect, uncertain and auxiliary claims verify nothing.\<close>

theorem ledger_records_exactly_accepted_claims:
  assumes "apply_guarded_understanding H sha sn l g turn = Inr r"
  shows "ledger_le l (ar_ledger r)
    \<and> set (dict_keys (verified_facts (ar_ledger r)))
        = set (dict_keys (verified_facts l)) \<union> \<Union> (claim_facts ` set (claims (response g)))
    \<and> set (dict_keys (verified_relations (ar_ledger r)))
        = set (dict_keys (verified_relations l)) \<union> \<Union> (claim_relations ` set (claims (response g)))
    \<and> validate_ledger_binding sn (ar_ledger r) (sn_payload sn) = Inr ()"
proof -
  from assms obtain tp ms st where p: "resolve_pack H sn = Inr tp"
    "fold_res (apply_claim sha (dict_by tf_id (pack_facts tp)) ms turn) (claims (response g))
       (initial_state l) = Inr st"
    "finish_apply H sn l (completion_of tp l) st = Inr r"
    by (rule apply_guarded_Inr)
  note f = finish_apply_Inr [OF p(3)]
  have "validate_ledger_binding sn (ar_ledger r) (sn_payload sn) = Inr ()"
    using f(4) by (auto simp: reasoning_completion_Inr resolve_pack_Inr)
  then show ?thesis
    using guarded_monotone [OF assms] apply_claims_effect(2,3) [OF p(2)] f(1)
    by (simp add: next_ledger_def initial_state_def)
qed

lemma demo_known: "\<forall>c \<in> set (claims (response demo_guarded)). claim_known (Home money_price_pack) c"
  unfolding demo_admission(1)
  by (simp add: demo_fact_def demo_relation_def money_price_pack_def money_price_graph_def)

lemma demo_matches: "\<exists>ms. evidence_matches_by_claim demo_guarded = Inr ms"
proof -
  have k: "map em_claim_id (evidence_matches demo_guarded) = map claim_id (claims (response demo_guarded))"
    unfolding demo_admission(1,2) by (simp add: demo_fact_def demo_relation_def)
  have d: "distinct (map claim_id (claims (response demo_guarded)))"
    unfolding demo_admission(1) by (simp add: demo_fact_def demo_relation_def)
  show ?thesis using evidence_matches_total [OF k d] by blast
qed

lemma demo_applies:
  "\<exists>r. apply_guarded_understanding demo_hash demo_sha money_snapshot
         (empty_reasoning_ledger money_snapshot) demo_guarded ''t1'' = Inr r"
proof -
  obtain ms where ms: "evidence_matches_by_claim demo_guarded = Inr ms" using demo_matches by blast
  have "\<forall>c \<in> set (claims (response demo_guarded)). claim_known (Home money_price_pack) c \<and> matched ms c"
    using demo_known evidence_matches_matched [OF ms demo_admission(3)] by blast
  moreover have "length (filter is_auxiliary (claims (response demo_guarded))) \<le> 200"
    unfolding demo_admission(1) by simp
  ultimately show ?thesis
    using apply_guarded_total [OF money_resolves money_empty_bound money_empty_wf _ ms, of "''t1''" demo_sha]
    by (auto simp: bounded_def empty_reasoning_ledger_def)
qed

theorem ledger_records_exactly_accepted_claims_witness:
  "\<exists>r. apply_guarded_understanding demo_hash demo_sha money_snapshot
         (empty_reasoning_ledger money_snapshot) demo_guarded ''t1'' = Inr r
       \<and> set (dict_keys (verified_facts (ar_ledger r))) = {''purchase_total''}
       \<and> set (dict_keys (verified_relations (ar_ledger r))) = {''add_item_prices''}"
proof -
  obtain r where r: "apply_guarded_understanding demo_hash demo_sha money_snapshot
         (empty_reasoning_ledger money_snapshot) demo_guarded ''t1'' = Inr r" using demo_applies by blast
  from ledger_records_exactly_accepted_claims [OF r] r show ?thesis
    unfolding demo_admission(1) by (simp add: demo_fact_def demo_relation_def empty_reasoning_ledger_def)
qed

text \<open>C20. The value of a newly verified fact is the reviewed canonical value of the pinned pack,
  whatever value the model read into the child's words.\<close>

theorem ledger_values_are_pinned:
  assumes "apply_guarded_understanding H sha sn l g turn = Inr r"
    and "dict_get (verified_facts (ar_ledger r)) k = Some e" and "dict_get (verified_facts l) k = None"
  shows "\<exists>f \<in> set (pack_facts (sn_payload sn)). tf_id f = k \<and> fe_canonical_value e = tf_value f"
  using assms by (rule apply_guarded_pinned)

theorem ledger_values_are_pinned_witness:
  "\<exists>r e. apply_guarded_understanding demo_hash demo_sha money_snapshot
         (empty_reasoning_ledger money_snapshot) demo_guarded ''t1'' = Inr r
     \<and> dict_get (verified_facts (ar_ledger r)) ''purchase_total'' = Some e
     \<and> (\<exists>f \<in> set (pack_facts (sn_payload money_snapshot)).
          tf_id f = ''purchase_total'' \<and> fe_canonical_value e = tf_value f)"
proof -
  obtain r where r: "apply_guarded_understanding demo_hash demo_sha money_snapshot
         (empty_reasoning_ledger money_snapshot) demo_guarded ''t1'' = Inr r" using demo_applies by blast
  from r obtain tp ms st where p:
    "fold_res (apply_claim demo_sha (dict_by tf_id (pack_facts tp)) ms ''t1'') (claims (response demo_guarded))
       (initial_state (empty_reasoning_ledger money_snapshot)) = Inr st"
    "finish_apply demo_hash money_snapshot (empty_reasoning_ledger money_snapshot)
       (completion_of tp (empty_reasoning_ledger money_snapshot)) st = Inr r"
    by (rule apply_guarded_Inr)
  have "''purchase_total'' \<in> set (dict_keys (verified_facts (ar_ledger r)))"
    using apply_claims_effect(2) [OF p(1)] finish_apply_Inr(1) [OF p(2)]
    unfolding demo_admission(1) by (simp add: next_ledger_def demo_fact_def)
  then obtain e where e: "dict_get (verified_facts (ar_ledger r)) ''purchase_total'' = Some e"
    by (metis dict_get_None_iff not_None_eq)
  from ledger_values_are_pinned [OF r e] r e show ?thesis by (auto simp: empty_reasoning_ledger_def)
qed

text \<open>C21. Completion is stable: over any sequence of successful understanding and structured turns,
  a ledger that is complete for a pack stays complete, and its entries only gain evidence.\<close>

theorem completion_survives_every_run:
  assumes "fold_res (ledger_step H sha sn) ops l = Inr l'"
  shows "ledger_le l l' \<and> (co_complete (completion_of tp l) \<longrightarrow> co_complete (completion_of tp l'))"
  using ledger_progress.run_le [OF assms] ledger_progress.run_goal [OF assms] by blast

theorem completion_survives_every_run_witness:
  "\<exists>l'. fold_res (ledger_step demo_hash demo_sha money_snapshot)
          [Understand demo_guarded ''t1''] (empty_reasoning_ledger money_snapshot) = Inr l'
      \<and> ledger_le (empty_reasoning_ledger money_snapshot) l'"
proof -
  obtain r where r: "apply_guarded_understanding demo_hash demo_sha money_snapshot
         (empty_reasoning_ledger money_snapshot) demo_guarded ''t1'' = Inr r" using demo_applies by blast
  then have s: "fold_res (ledger_step demo_hash demo_sha money_snapshot)
      [Understand demo_guarded ''t1''] (empty_reasoning_ledger money_snapshot) = Inr (ar_ledger r)" by simp
  from completion_survives_every_run [OF s] s show ?thesis by blast
qed

text \<open>C22. Applying the same admitted understanding of the same turn again is a no-op: it succeeds, the
  ledger is unchanged, nothing is reported as new and completion does not become true a second time.\<close>

theorem reapplying_a_turn_changes_nothing:
  assumes "apply_guarded_understanding H sha sn l g turn = Inr r"
    and "list_all match_boundaries_ok (evidence_matches g)"
  shows "\<exists>r'. apply_guarded_understanding H sha sn (ar_ledger r) g turn = Inr r'
           \<and> ar_ledger r' = ar_ledger r
           \<and> progress_part (ar_state r') = initial_state (ar_ledger r)
           \<and> \<not> ar_completion_became_true r'"
  using assms by (rule apply_guarded_idempotent)

theorem reapplying_a_turn_changes_nothing_witness:
  "\<exists>r r'. apply_guarded_understanding demo_hash demo_sha money_snapshot
         (empty_reasoning_ledger money_snapshot) demo_guarded ''t1'' = Inr r
      \<and> apply_guarded_understanding demo_hash demo_sha money_snapshot (ar_ledger r) demo_guarded ''t1'' = Inr r'
      \<and> ar_ledger r' = ar_ledger r"
  using demo_applies reapplying_a_turn_changes_nothing [OF _ demo_admission(3)] by blast

text \<open>C23. The joint action always finishes the task: for a resolvable snapshot and any well-formed
  ledger bound to it, applying the joint plan of the pack succeeds and leaves a complete, well-formed
  ledger.\<close>

theorem joint_action_always_completes:
  assumes "resolve_pack H sn = Inr tp" and "validate_ledger_binding sn l tp = Inr ()"
    and "ledger_wf tp l" and "bounded 1 100 turn"
  shows "\<exists>r. apply_structured_progress H sha sn l (joint_facts (jp_completion (pack_joint tp)))
               (joint_relations (jp_completion (pack_joint tp))) turn Joint_Source = Inr r
           \<and> co_complete (ar_completion r) \<and> ledger_wf tp (ar_ledger r)"
  using assms by (rule joint_action_completes)

theorem joint_action_always_completes_witness:
  "\<exists>r. apply_structured_progress demo_hash demo_sha money_snapshot (empty_reasoning_ledger money_snapshot)
         (joint_facts (jp_completion (hp_l0 money_price_pack)))
         (joint_relations (jp_completion (hp_l0 money_price_pack))) ''t1'' Joint_Source = Inr r
       \<and> co_complete (ar_completion r)"
  using joint_action_always_completes [OF money_resolves money_empty_bound money_empty_wf, of "''t1''" demo_sha]
  by (auto simp: bounded_def)

text \<open>C24. What the guard admits, the ledger accepts: when the request offers only identifiers of the
  pinned pack, the response has distinct claim identifiers and non-empty spans, and the ledger has room
  for the auxiliary claims, applying the admitted understanding never raises and keeps the ledger
  well-formed.\<close>

theorem admitted_understanding_always_applies:
  assumes "resolve_pack H sn = Inr tp" and "validate_ledger_binding sn l tp = Inr ()"
    and "ledger_wf tp l" and "bounded 1 100 turn"
    and "set (cg_fact_ids (req_graph request)) \<subseteq> tf_id ` set (pack_facts tp)"
    and "set (cg_relation_ids (req_graph request)) \<subseteq> set (pack_relations tp)"
    and "validate_semantic_contract resp = Inr ()" and "list_all (\<lambda>c. evidence_span c \<noteq> []) (claims resp)"
    and "length (accepted_auxiliary l) + length (claims resp) \<le> 200"
  shows "\<exists>r. apply_guarded_understanding H sha sn l
               (guarded (admit_understanding_response nfc request resp)) turn = Inr r
           \<and> ledger_wf tp (ar_ledger r)"
proof -
  let ?g = "guarded (admit_understanding_response nfc request resp)"
  let ?cs = "filter (claim_admissible nfc request) (claims resp)"
  have d: "distinct (map claim_id (claims resp))"
    using assms(7) by (simp add: validate_semantic_contract_def split: if_splits)
  have k: "map em_claim_id (evidence_matches ?g) = map claim_id ?cs"
    by (simp add: admitted_matches)
  have ms: "evidence_matches_by_claim ?g = Inr (dict_by em_claim_id (evidence_matches ?g))"
    using k d by (intro evidence_matches_total) (simp_all add: admitted_claims distinct_map_filter)
  have "claim_known tp c \<and> matched (dict_by em_claim_id (evidence_matches ?g)) c" if "c \<in> set (claims (response ?g))" for c
  proof
    have c: "claim_admissible nfc request c" "c \<in> set (claims resp)" using that by (auto simp: admitted_claims)
    then show "claim_known tp c"
      using assms(5,6) by (cases c) (auto simp: claim_admissible_def claim_violations_def split: if_splits)
    have "match_for nfc request c \<in> set (evidence_matches ?g)" using c by (simp add: admitted_matches)
    moreover have "distinct (map em_claim_id (evidence_matches ?g))"
      using k d by (simp add: distinct_map_filter)
    ultimately have "dict_get (dict_by em_claim_id (evidence_matches ?g)) (claim_id c) = Some (match_for nfc request c)"
      using dict_by_lookup [of em_claim_id "evidence_matches ?g" "match_for nfc request c"] by simp
    moreover have "evidence_span c \<noteq> []" using assms(8) c(2) by (auto simp: list_all_iff)
    ultimately show "matched (dict_by em_claim_id (evidence_matches ?g)) c"
      using match_for_sound [OF c(1)] by (simp add: matched_def)
  qed
  moreover have "length (filter is_auxiliary (claims (response ?g))) \<le> length (claims resp)"
    by (simp add: admitted_claims)
  ultimately show ?thesis
    using apply_guarded_total [OF assms(1-4) ms, of sha] assms(9) by auto
qed

theorem admitted_understanding_always_applies_witness:
  "\<exists>r. apply_guarded_understanding demo_hash demo_sha money_snapshot (empty_reasoning_ledger money_snapshot)
         (guarded (admit_understanding_response nfc_hangul demo_request demo_response)) ''t1'' = Inr r"
proof -
  have "set (cg_fact_ids (req_graph demo_request)) \<subseteq> tf_id ` set (pack_facts (Home money_price_pack))"
    and "set (cg_relation_ids (req_graph demo_request)) \<subseteq> set (pack_relations (Home money_price_pack))"
    and "validate_semantic_contract demo_response = Inr ()"
    and "list_all (\<lambda>c. evidence_span c \<noteq> []) (claims demo_response)"
    and "length (accepted_auxiliary (empty_reasoning_ledger money_snapshot)) + length (claims demo_response) \<le> 200"
    by (simp_all add: demo_request_def money_price_pack_def money_price_graph_def demo_response_def
        validate_semantic_contract_def default_response_def demo_fact_def demo_relation_def demo_bogus_def
        empty_reasoning_ledger_def)
  from admitted_understanding_always_applies [OF money_resolves money_empty_bound money_empty_wf _ this,
      of "''t1''" demo_sha nfc_hangul]
  show ?thesis by (auto simp: bounded_def)
qed

end
