(* ===== verification/Leases.thy ===== *)
theory Leases
  imports Schemas "HOL-Library.Product_Lexorder"
begin

text \<open>
  The contract shared by the three durable work queues of the service: the generated-copy cache
  (\<^verbatim>\<open>copy_cache.py\<close>), the observation outbox (\<^verbatim>\<open>outbox.py\<close>) and the ladder
  analysis jobs (\<^verbatim>\<open>ladder_analysis_repository.py\<close>). A worker claims a row, which makes it
  running and increments its attempt number; it may settle the row only while the row is running
  under that attempt number. Rows are changed by one locked transaction at a time, so a history of a
  row is a chain of row steps, whatever the interleaving of workers.
\<close>

section \<open>Fenced leases\<close>

locale fenced =
  fixes step :: "'r \<Rightarrow> 'r \<Rightarrow> bool"
    and running :: "'r \<Rightarrow> bool"
    and attempts :: "'r \<Rightarrow> nat"
  assumes step_attempts: "step r r' \<Longrightarrow> attempts r \<le> attempts r'"
    and step_claim: "step r r' \<Longrightarrow> running r' \<Longrightarrow>
          (running r \<and> attempts r' = attempts r) \<or> attempts r < attempts r'"
begin

lemma history_attempts: "step\<^sup>*\<^sup>* r r' \<Longrightarrow> attempts r \<le> attempts r'"
  by (induction rule: rtranclp_induct) (auto dest: step_attempts)

lemma lost_lease_stays_lost:
  assumes "step\<^sup>*\<^sup>* r r'" and "\<not> (running r \<and> attempts r = n)" and "n \<le> attempts r"
  shows "\<not> (running r' \<and> attempts r' = n)"
  using assms
proof (induction rule: rtranclp_induct)
  case (step s t)
  have "n \<le> attempts s" using history_attempts [OF step.hyps(1)] step.prems(2) by simp
  with step.IH [OF step.prems] step_claim [OF step.hyps(2)] step_attempts [OF step.hyps(2)]
  show ?case by force
qed simp

end

text \<open>Settling: \<open>settle x n r\<close> is the row after outcome \<open>x\<close> under attempt \<open>n\<close>, if accepted.\<close>

locale fenced_settle = fenced +
  fixes settle :: "'x \<Rightarrow> nat \<Rightarrow> 'r \<Rightarrow> 'r option"
  assumes settle_needs: "settle x n r = Some r' \<Longrightarrow> running r \<and> attempts r = n"
    and settle_step: "settle x n r = Some r' \<Longrightarrow> step r r'"
    and settle_stops: "settle x n r = Some r' \<Longrightarrow> \<not> running r'"
begin

lemma settle_once:
  assumes "settle x n r = Some r1" and "step\<^sup>*\<^sup>* r1 r2"
  shows "settle y n r2 = None"
proof (rule ccontr)
  assume "settle y n r2 \<noteq> None"
  then have v: "running r2 \<and> attempts r2 = n" using settle_needs by fastforce
  have "n \<le> attempts r1" using settle_needs [OF assms(1)] step_attempts [OF settle_step [OF assms(1)]] by simp
  with lost_lease_stays_lost [OF assms(2)] settle_stops [OF assms(1)] v show False by blast
qed

lemma superseded_cannot_settle:
  assumes "n < attempts r" and "step\<^sup>*\<^sup>* r r'"
  shows "settle x n r' = None"
  using assms history_attempts [OF assms(2)] settle_needs by (cases "settle x n r'") fastforce+

end

text \<open>Queues in which a closed row is final: no step changes the part \<open>content\<close> of it.\<close>

locale fenced_final = fenced +
  fixes closed :: "'r \<Rightarrow> bool" and content :: "'r \<Rightarrow> 'c"
  assumes step_closed: "step r r' \<Longrightarrow> closed r \<Longrightarrow> closed r' \<and> content r' = content r"
begin

lemma closed_forever:
  "step\<^sup>*\<^sup>* r r' \<Longrightarrow> closed r \<Longrightarrow> closed r' \<and> content r' = content r"
  by (induction rule: rtranclp_induct) (auto dest: step_closed)

end

section \<open>Tables of rows\<close>

text \<open>A table operation acts on every row by a history of row steps, and never drops a row.\<close>

definition table_steps :: "('r \<Rightarrow> 'r \<Rightarrow> bool) \<Rightarrow> (string, 'r) dict \<Rightarrow> (string, 'r) dict \<Rightarrow> bool" where
  "table_steps step t t' \<longleftrightarrow> dict_le step\<^sup>*\<^sup>* t t'"

lemma table_steps_refl [simp]: "table_steps step t t"
  by (simp add: table_steps_def)

lemma table_steps_trans: "table_steps step a b \<Longrightarrow> table_steps step b c \<Longrightarrow> table_steps step a c"
  unfolding table_steps_def by (rule dict_le_trans) auto

lemma table_steps_update:
  "(\<And>r. dict_get t k = Some r \<Longrightarrow> step r r') \<Longrightarrow> table_steps step t (AList.update k r' t)"
  unfolding table_steps_def by (rule dict_le_update) auto

lemma table_steps_history:
  assumes "table_steps step t t'" and "dict_get t k = Some r"
  obtains r' where "dict_get t' k = Some r'" and "step\<^sup>*\<^sup>* r r'"
  using assms unfolding table_steps_def dict_le_def by blast

text \<open>
  \<open>claim_batch\<close> is the claim query of the queues: the due rows that no other transaction has
  locked (\<^verbatim>\<open>SKIP LOCKED\<close>), in the given order, at most \<open>limit\<close> of them, each rewritten.
\<close>

definition claim_batch ::
    "('r \<Rightarrow> bool) \<Rightarrow> ('r \<Rightarrow> 'k::linorder) \<Rightarrow> ('r \<Rightarrow> string) \<Rightarrow> ('r \<Rightarrow> 'r) \<Rightarrow> string set \<Rightarrow> nat
     \<Rightarrow> (string, 'r) dict \<Rightarrow> 'r list \<times> (string, 'r) dict" where
  "claim_batch due order rid claim locked limit t =
    (let picked = take limit (sort_key order (filter (\<lambda>r. due r \<and> rid r \<notin> locked) (map snd t)));
         claimed = map claim picked
     in (claimed, foldl (\<lambda>d r. AList.update (rid r) r d) t claimed))"

definition table_ok :: "('r \<Rightarrow> string) \<Rightarrow> (string, 'r) dict \<Rightarrow> bool" where
  "table_ok rid t \<longleftrightarrow> dict_ok t \<and> dict_all (\<lambda>k r. rid r = k) t"

lemma table_ok_update: "table_ok rid t \<Longrightarrow> rid r = k \<Longrightarrow> table_ok rid (AList.update k r t)"
  by (simp add: table_ok_def dict_all_update)

lemma table_ok_get: "table_ok rid t \<Longrightarrow> r \<in> set (map snd t) \<Longrightarrow> dict_get t (rid r) = Some r"
  by (force simp: table_ok_def dict_all_def intro: dict_in_get)

lemma table_ok_rid: "table_ok rid t \<Longrightarrow> dict_get t k = Some r \<Longrightarrow> rid r = k"
  by (auto simp: table_ok_def dest: dict_all_get)

lemma foldl_update_rows:
  assumes "distinct (map rid rs)"
  shows "dict_get (foldl (\<lambda>d r. AList.update (rid r) r d) t rs) k =
           (case List.find (\<lambda>r. rid r = k) rs of None \<Rightarrow> dict_get t k | Some r \<Rightarrow> Some r)"
  using assms
proof (induction rs arbitrary: t)
  case (Cons r rs)
  have "rid r = k \<Longrightarrow> List.find (\<lambda>r. rid r = k) rs = None"
    using Cons.prems by (auto simp: find_None_iff image_iff)
  with Cons show ?case by (auto split: option.splits)
qed simp

lemma claim_batch_picked:
  assumes "claim_batch due order rid claim locked limit t = (claimed, t')"
  obtains picked where "claimed = map claim picked" and "length picked \<le> limit"
    and "\<And>r. r \<in> set picked \<Longrightarrow> r \<in> set (map snd t) \<and> due r \<and> rid r \<notin> locked"
    and "t' = foldl (\<lambda>d r. AList.update (rid r) r d) t (map claim picked)"
    and "picked = take limit (sort_key order (filter (\<lambda>r. due r \<and> rid r \<notin> locked) (map snd t)))"
proof -
  let ?p = "take limit (sort_key order (filter (\<lambda>r. due r \<and> rid r \<notin> locked) (map snd t)))"
  show thesis
    by (rule that [of ?p]) (use assms in \<open>auto simp: claim_batch_def Let_def dest!: in_set_takeD\<close>)
qed

lemma claim_batch_distinct:
  assumes "table_ok rid t"
  shows "distinct (map rid (take limit (sort_key order (filter (\<lambda>r. due r \<and> rid r \<notin> locked) (map snd t)))))"
proof -
  have k: "map rid (map snd t) = map fst t"
    using assms by (induction t) (auto simp: table_ok_def dict_all_def dict_ok_def)
  have "distinct (map rid (map snd t))" unfolding k using assms by (simp add: table_ok_def dict_ok_def)
  then have "distinct (map rid (filter (\<lambda>r. due r \<and> rid r \<notin> locked) (map snd t)))"
    by (rule distinct_map_filter)
  then have "distinct (map rid (sort_key order (filter (\<lambda>r. due r \<and> rid r \<notin> locked) (map snd t))))"
    by (simp add: distinct_map)
  then show ?thesis by (simp add: take_map [symmetric])
qed

lemma claim_batch_steps:
  assumes "claim_batch due order rid claim locked limit t = (claimed, t')" and "table_ok rid t"
    and "\<And>r. rid (claim r) = rid r" and "\<And>r. due r \<Longrightarrow> step r (claim r)"
  shows "table_steps step t t'" and "table_ok rid t'"
    and "\<And>r. r \<in> set claimed \<Longrightarrow> dict_get t' (rid r) = Some r"
    and "distinct (map rid claimed)"
proof -
  from assms(1) obtain picked where p: "claimed = map claim picked"
    "\<And>r. r \<in> set picked \<Longrightarrow> r \<in> set (map snd t) \<and> due r \<and> rid r \<notin> locked"
    "t' = foldl (\<lambda>d r. AList.update (rid r) r d) t (map claim picked)"
    "picked = take limit (sort_key order (filter (\<lambda>r. due r \<and> rid r \<notin> locked) (map snd t)))"
    by (rule claim_batch_picked) blast
  have "map rid claimed = map rid picked" by (simp add: p(1) assms(3))
  then show d: "distinct (map rid claimed)"
    using claim_batch_distinct [OF assms(2), of limit order due locked] unfolding p(4) by metis
  note get = foldl_update_rows [OF d [unfolded p(1)], of t, folded p(3)]
  show "dict_get t' (rid r) = Some r" if h: "r \<in> set claimed" for r
  proof -
    obtain r1 where f: "List.find (\<lambda>x. rid x = rid r) (map claim picked) = Some r1"
      using h p(1) find_exists [of "map claim picked" "\<lambda>x. rid x = rid r"] by auto
    then have "r1 \<in> set claimed" "rid r1 = rid r" using p(1) by (auto dest: find_Some_mem)
    then have "r1 = r" using d h by (metis distinct_map inj_onD)
    then show ?thesis using get f by simp
  qed
  show "table_steps step t t'"
    unfolding table_steps_def dict_le_def
  proof (intro allI impI)
    fix k r
    assume r: "dict_get t k = Some r"
    show "\<exists>r'. dict_get t' k = Some r' \<and> step\<^sup>*\<^sup>* r r'"
    proof (cases "List.find (\<lambda>x. rid x = k) (map claim picked)")
      case None
      then show ?thesis using get r by auto
    next
      case (Some c)
      then obtain q where q: "q \<in> set picked" "c = claim q" "rid q = k"
        using assms(3) by (auto dest!: find_Some_mem)
      then have "dict_get t k = Some q" using p(2) table_ok_get [OF assms(2)] by blast
      then show ?thesis using get Some r q assms(4) p(2) by auto
    qed
  qed
  show "table_ok rid t'"
  proof -
    have "table_ok rid (foldl (\<lambda>d r. AList.update (rid r) r d) t rs)" for rs
      using assms(2) by (induction rs arbitrary: t) (auto intro: table_ok_update)
    then show ?thesis using p(3) by simp
  qed
qed

section \<open>Time\<close>

text \<open>
  Instants are integers in microseconds. \<open>micros\<close> is
  \<^verbatim>\<open>timedelta(seconds=x)\<close>: a duration in seconds, rounded half to even.
\<close>

definition micros :: "rat \<Rightarrow> int" where
  "micros x =
    (let us = x * 1000000; f = \<lfloor>us\<rfloor>; r = us - of_int f in
     if r < 1 / 2 then f else if r > 1 / 2 then f + 1 else if even f then f else f + 1)"

lemma micros_bounds: "\<bar>of_int (micros x) - x * 1000000\<bar> \<le> 1 / 2"
  unfolding micros_def Let_def
  using of_int_floor_le [of "x * 1000000"] floor_correct [of "x * 1000000"]
  by (auto simp: abs_le_iff field_simps)

lemma micros_mono: "x \<le> y \<Longrightarrow> micros x \<le> micros y"
proof (rule ccontr)
  assume xy: "x \<le> y" and "\<not> micros x \<le> micros y"
  then have lt: "micros y + 1 \<le> micros x" by simp
  have "of_int (micros x) \<le> x * 1000000 + 1 / 2" "y * 1000000 - 1 / 2 \<le> of_int (micros y)"
    using micros_bounds [of x] micros_bounds [of y] by linarith+
  moreover have "of_int (micros y) + 1 \<le> (of_int (micros x) :: rat)"
    using lt by (metis of_int_1 of_int_add of_int_le_iff)
  moreover have "x * 1000000 \<le> y * (1000000 :: rat)" using xy by simp
  ultimately have "x * 1000000 = y * (1000000 :: rat)" by linarith
  then have "x = y" by simp
  with lt show False by simp
qed

section \<open>Exponential backoff\<close>

text \<open>
  The capped doubling that the queues use between attempts, in its closed form. The copy cache
  computes it with a loop, the outbox with a power.
\<close>

definition capped_backoff :: "rat \<Rightarrow> rat \<Rightarrow> nat \<Rightarrow> rat" where
  "capped_backoff base mx k = min (base * 2 ^ k) mx"

lemma capped_backoff_mono:
  assumes "0 \<le> base" and "j \<le> k"
  shows "capped_backoff base mx j \<le> capped_backoff base mx k"
proof -
  have "base * 2 ^ j \<le> base * (2 ^ k :: rat)"
    using assms by (intro mult_left_mono power_increasing) auto
  then show ?thesis by (simp add: capped_backoff_def min_le_iff_disj)
qed

lemma capped_backoff_bounds:
  assumes "0 < base" and "base \<le> mx"
  shows "base \<le> capped_backoff base mx k" and "capped_backoff base mx k \<le> mx"
proof -
  have "base * 1 \<le> base * (2 ^ k :: rat)" using assms(1) by (intro mult_left_mono) auto
  then show "base \<le> capped_backoff base mx k" using assms(2) by (simp add: capped_backoff_def)
qed (simp add: capped_backoff_def)

end
