(* ===== verification/Copy_Cache.thy ===== *)
theory Copy_Cache
  imports Leases
begin

text \<open>
  The durable cache of generated stable copy (\<^verbatim>\<open>copy_cache.py\<close>). A table of rows keyed by
  a content digest; a row is generating under a lease, waiting to retry, or ready with an artifact.
  Each repository method is one locked transaction per row, except \<^verbatim>\<open>acquire\<close>, which
  first tries to insert and then, when the row exists, runs \<^verbatim>\<open>_acquire_existing\<close> in a second
  transaction. The random lease token of \<^verbatim>\<open>secrets.token_hex\<close> is an argument, and
  the SHA-256 digest of an artifact's canonical JSON is the parameter \<open>digest\<close>.
\<close>

section \<open>Rows\<close>

datatype cache_status = Generating | Retry_Wait | Ready

record cache_row =
  cr_key :: string
  cr_key_version :: string
  cr_status :: cache_status
  cr_attempts :: nat
  cr_available_at :: int
  cr_lease_token :: "string option"
  cr_artifact :: "json option"
  cr_artifact_sha :: "string option"
  cr_last_error :: "string option"
  cr_ready_at :: "int option"
  cr_created_at :: int
  cr_updated_at :: int

type_synonym cache_table = "(string, cache_row) dict"

record cached_artifact =
  ca_key :: string
  ca_artifact :: json
  ca_sha :: string
  ca_ready_at :: int

record copy_lease =
  cl_key :: string
  cl_token :: string
  cl_attempt :: nat
  cl_expires_at :: int

datatype acquire_result =
    READY cached_artifact
  | LEASED copy_lease
  | BUSY int
  | BACKOFF int

record cache_config =
  lease_seconds :: rat
  retry_base_seconds :: rat
  retry_max_seconds :: rat

definition validate_cache_config :: "cache_config \<Rightarrow> unit res" where
  "validate_cache_config c = check_all
     [(lease_seconds c \<le> 0, ValueError ''lease_seconds must be positive''),
      (retry_base_seconds c \<le> 0, ValueError ''retry_base_seconds must be positive''),
      (retry_max_seconds c < retry_base_seconds c,
         ValueError ''retry_max_seconds must be at least retry_base_seconds'')]"

definition key_version_v1 :: string where
  "key_version_v1 = ''stable-copy-key-v1''"

definition validate_sha256_hex :: "string \<Rightarrow> unit res" where
  "validate_sha256_hex s =
     check (length s = 64 \<and> list_all (\<lambda>c. c \<in> set ''0123456789abcdef'') s)
       ''value must be a lowercase SHA-256 hex digest''"

definition validate_error_code :: "string \<Rightarrow> unit res" where
  "validate_error_code s =
     check (bounded 1 80 s \<and> list_all (\<lambda>c. c \<in> set ''ABCDEFGHIJKLMNOPQRSTUVWXYZ0123456789_'') s)
       ''error_code must contain only uppercase ASCII letters, digits, or underscore''"

definition assert_key_version :: "cache_row \<Rightarrow> unit res" where
  "assert_key_version r =
     (if cr_key_version r \<noteq> key_version_v1
      then Inl (CopyCacheCorruptionError ''unsupported generated-copy cache key version'') else Inr ())"

definition row_lease :: "cache_row \<Rightarrow> copy_lease res" where
  "row_lease r =
     bindr (assert_key_version r) (\<lambda>_.
     case cr_lease_token r of
       None \<Rightarrow> Inl (CopyCacheCorruptionError ''generating cache record has no lease token'')
     | Some t \<Rightarrow> Inr \<lparr>cl_key = cr_key r, cl_token = t, cl_attempt = cr_attempts r,
                      cl_expires_at = cr_available_at r\<rparr>)"

definition ready_artifact :: "(json \<Rightarrow> string) \<Rightarrow> cache_row \<Rightarrow> cached_artifact res" where
  "ready_artifact digest r =
     bindr (assert_key_version r) (\<lambda>_.
     case (cr_artifact_sha r, cr_ready_at r) of
       (Some sha, Some ready_at) \<Rightarrow>
         let artifact = (case cr_artifact r of None \<Rightarrow> JNull | Some a \<Rightarrow> a) in
         if digest artifact \<noteq> sha
         then Inl (CopyCacheCorruptionError ''ready cache artifact digest mismatch'')
         else Inr \<lparr>ca_key = cr_key r, ca_artifact = artifact, ca_sha = sha, ca_ready_at = ready_at\<rparr>
     | _ \<Rightarrow> Inl (CopyCacheCorruptionError ''ready cache record is missing artifact metadata''))"

section \<open>Repository methods\<close>

definition get_ready :: "(json \<Rightarrow> string) \<Rightarrow> cache_table \<Rightarrow> string \<Rightarrow> cached_artifact option res" where
  "get_ready digest t key =
     bindr (validate_sha256_hex key) (\<lambda>_.
     case dict_get t key of
       None \<Rightarrow> Inr None
     | Some r \<Rightarrow> if cr_status r \<noteq> Ready then Inr None
                 else bindr (ready_artifact digest r) (\<lambda>a. Inr (Some a)))"

definition new_row :: "cache_config \<Rightarrow> string \<Rightarrow> string \<Rightarrow> int \<Rightarrow> cache_row" where
  "new_row cfg key token now =
     \<lparr>cr_key = key, cr_key_version = key_version_v1, cr_status = Generating, cr_attempts = 1,
      cr_available_at = now + micros (lease_seconds cfg), cr_lease_token = Some token,
      cr_artifact = None, cr_artifact_sha = None, cr_last_error = None, cr_ready_at = None,
      cr_created_at = now, cr_updated_at = now\<rparr>"

definition lease_row :: "cache_config \<Rightarrow> string \<Rightarrow> int \<Rightarrow> cache_row \<Rightarrow> cache_row" where
  "lease_row cfg token now r =
     r\<lparr>cr_status := Generating, cr_attempts := cr_attempts r + 1,
       cr_available_at := now + micros (lease_seconds cfg), cr_lease_token := Some token,
       cr_last_error := None, cr_updated_at := now\<rparr>"

definition acquire_existing ::
    "(json \<Rightarrow> string) \<Rightarrow> cache_config \<Rightarrow> cache_table \<Rightarrow> string \<Rightarrow> string \<Rightarrow> int
     \<Rightarrow> (acquire_result \<times> cache_table) res" where
  "acquire_existing digest cfg t key token now =
     (case dict_get t key of
        None \<Rightarrow> Inr (BUSY now, t)
      | Some r \<Rightarrow>
          bindr (assert_key_version r) (\<lambda>_.
          if cr_status r = Ready then
            bindr (ready_artifact digest r) (\<lambda>a. Inr (READY a, t))
          else if cr_available_at r > now then
            Inr (if cr_status r = Generating then BUSY (cr_available_at r) else BACKOFF (cr_available_at r), t)
          else
            let r' = lease_row cfg token now r in
            bindr (row_lease r') (\<lambda>l. Inr (LEASED l, AList.update key r' t))))"

definition acquire ::
    "(json \<Rightarrow> string) \<Rightarrow> cache_config \<Rightarrow> cache_table \<Rightarrow> string \<Rightarrow> string \<Rightarrow> string \<Rightarrow> int
     \<Rightarrow> (acquire_result \<times> cache_table) res" where
  "acquire digest cfg t key token token' now =
     bindr (validate_sha256_hex key) (\<lambda>_.
     case dict_get t key of
       None \<Rightarrow>
         let r = new_row cfg key token now in
         bindr (row_lease r) (\<lambda>l. Inr (LEASED l, AList.update key r t))
     | Some _ \<Rightarrow> acquire_existing digest cfg t key token' now)"

definition lease_current :: "copy_lease \<Rightarrow> cache_row \<Rightarrow> bool" where
  "lease_current l r \<longleftrightarrow>
     cr_status r = Generating \<and> cr_attempts r = cl_attempt l \<and> cr_lease_token r = Some (cl_token l)"

definition ready_row :: "(json \<Rightarrow> string) \<Rightarrow> json \<Rightarrow> int \<Rightarrow> cache_row \<Rightarrow> cache_row" where
  "ready_row digest artifact now r =
     r\<lparr>cr_status := Ready, cr_artifact := Some artifact, cr_artifact_sha := Some (digest artifact),
       cr_available_at := now, cr_lease_token := None, cr_last_error := None,
       cr_ready_at := Some now, cr_updated_at := now\<rparr>"

definition complete_copy ::
    "(json \<Rightarrow> string) \<Rightarrow> cache_table \<Rightarrow> copy_lease \<Rightarrow> json \<Rightarrow> int
     \<Rightarrow> (cached_artifact option \<times> cache_table) res" where
  "complete_copy digest t l artifact now =
     bindr (validate_sha256_hex (cl_key l)) (\<lambda>_.
     case dict_get t (cl_key l) of
       None \<Rightarrow> Inr (None, t)
     | Some r \<Rightarrow>
         if \<not> lease_current l r then Inr (None, t)
         else bindr (assert_key_version r) (\<lambda>_.
           let r' = ready_row digest artifact now r in
           bindr (ready_artifact digest r') (\<lambda>a. Inr (Some a, AList.update (cl_key l) r' t))))"

fun retry_loop :: "rat \<Rightarrow> rat \<Rightarrow> nat \<Rightarrow> rat" where
  "retry_loop mx delay 0 = delay"
| "retry_loop mx delay (Suc k) = (if delay \<ge> mx then mx else retry_loop mx (min (delay * 2) mx) k)"

definition copy_retry_delay :: "cache_config \<Rightarrow> nat \<Rightarrow> rat" where
  "copy_retry_delay cfg attempt =
     retry_loop (retry_max_seconds cfg) (retry_base_seconds cfg) (attempt - 1)"

definition retry_row :: "cache_config \<Rightarrow> string \<Rightarrow> int \<Rightarrow> cache_row \<Rightarrow> cache_row" where
  "retry_row cfg err now r =
     r\<lparr>cr_status := Retry_Wait, cr_available_at := now + micros (copy_retry_delay cfg (cr_attempts r)),
       cr_lease_token := None, cr_last_error := Some err, cr_updated_at := now\<rparr>"

definition fail_copy ::
    "cache_config \<Rightarrow> cache_table \<Rightarrow> copy_lease \<Rightarrow> string \<Rightarrow> int \<Rightarrow> (int option \<times> cache_table) res" where
  "fail_copy cfg t l err now =
     bindr (validate_sha256_hex (cl_key l)) (\<lambda>_.
     bindr (validate_error_code err) (\<lambda>_.
     case dict_get t (cl_key l) of
       None \<Rightarrow> Inr (None, t)
     | Some r \<Rightarrow>
         if \<not> lease_current l r then Inr (None, t)
         else bindr (assert_key_version r) (\<lambda>_.
           let r' = retry_row cfg err now r in
           Inr (Some (cr_available_at r'), AList.update (cl_key l) r' t))))"

section \<open>Rows as a fenced queue\<close>

datatype copy_outcome = Complete_Copy json | Fail_Copy string

inductive cache_step :: "(json \<Rightarrow> string) \<Rightarrow> cache_config \<Rightarrow> cache_row \<Rightarrow> cache_row \<Rightarrow> bool"
  for digest cfg where
  lease: "cr_status r \<noteq> Ready \<Longrightarrow> cr_available_at r \<le> now \<Longrightarrow>
            cache_step digest cfg r (lease_row cfg token now r)"
| complete: "cr_status r = Generating \<Longrightarrow> cache_step digest cfg r (ready_row digest artifact now r)"
| fail: "cr_status r = Generating \<Longrightarrow> cache_step digest cfg r (retry_row cfg err now r)"

inductive_cases cache_stepE: "cache_step digest cfg r r'"

fun settle_copy ::
    "(json \<Rightarrow> string) \<Rightarrow> cache_config \<Rightarrow> copy_outcome \<times> string \<times> int \<Rightarrow> nat \<Rightarrow> cache_row \<Rightarrow> cache_row option" where
  "settle_copy digest cfg (Complete_Copy a, token, now) n r =
     (if lease_current \<lparr>cl_key = cr_key r, cl_token = token, cl_attempt = n, cl_expires_at = 0\<rparr> r
      then Some (ready_row digest a now r) else None)"
| "settle_copy digest cfg (Fail_Copy err, token, now) n r =
     (if lease_current \<lparr>cl_key = cr_key r, cl_token = token, cl_attempt = n, cl_expires_at = 0\<rparr> r
      then Some (retry_row cfg err now r) else None)"

lemmas cache_row_simps = lease_row_def ready_row_def retry_row_def lease_current_def

interpretation cache_queue:
  fenced_settle "cache_step digest cfg" "\<lambda>r. cr_status r = Generating" cr_attempts "settle_copy digest cfg"
  for digest cfg
proof
  show "settle_copy digest cfg x n r = Some r' \<Longrightarrow> cr_status r = Generating \<and> cr_attempts r = n" for x n r r'
    by (cases "(digest, cfg, x, n, r)" rule: settle_copy.cases) (auto simp: lease_current_def split: if_splits)
  show "settle_copy digest cfg x n r = Some r' \<Longrightarrow> cache_step digest cfg r r'" for x n r r'
    by (cases "(digest, cfg, x, n, r)" rule: settle_copy.cases)
      (auto simp: lease_current_def split: if_splits intro: cache_step.intros)
  show "settle_copy digest cfg x n r = Some r' \<Longrightarrow> \<not> cr_status r' = Generating" for x n r r'
    by (cases "(digest, cfg, x, n, r)" rule: settle_copy.cases) (auto simp: cache_row_simps split: if_splits)
qed (auto simp: cache_row_simps elim!: cache_stepE)

interpretation cache_ready:
  fenced_final "cache_step digest cfg" "\<lambda>r. cr_status r = Generating" cr_attempts
    "\<lambda>r. cr_status r = Ready" "\<lambda>r. r"
  for digest cfg
  by unfold_locales (auto simp: cache_row_simps elim!: cache_stepE)

text \<open>Every repository method acts on every row by row steps.\<close>

lemma acquire_existing_steps:
  "acquire_existing digest cfg t key token now = Inr (res, t') \<Longrightarrow> table_steps (cache_step digest cfg) t t'"
  by (auto simp: acquire_existing_def bindr_eq_Inr Let_def split: option.splits if_splits
      intro!: table_steps_update cache_step.intros)

lemma acquire_steps:
  "acquire digest cfg t key token token' now = Inr (res, t') \<Longrightarrow> table_steps (cache_step digest cfg) t t'"
  by (auto simp: acquire_def bindr_eq_Inr Let_def split: option.splits
      intro: table_steps_update acquire_existing_steps)

lemma complete_copy_steps:
  "complete_copy digest t l artifact now = Inr (res, t') \<Longrightarrow> table_steps (cache_step digest cfg) t t'"
  by (auto simp: complete_copy_def bindr_eq_Inr Let_def lease_current_def split: option.splits if_splits
      intro!: table_steps_update cache_step.intros)

lemma fail_copy_steps:
  "fail_copy cfg t l err now = Inr (res, t') \<Longrightarrow> table_steps (cache_step digest cfg) t t'"
  by (auto simp: fail_copy_def bindr_eq_Inr Let_def lease_current_def split: option.splits if_splits
      intro!: table_steps_update cache_step.intros)

section \<open>Histories of the cache\<close>

datatype cache_op =
    Op_Acquire string string string int
  | Op_Complete copy_lease json int
  | Op_Fail copy_lease string int

fun cache_exec :: "(json \<Rightarrow> string) \<Rightarrow> cache_config \<Rightarrow> cache_op \<Rightarrow> cache_table \<Rightarrow> cache_table res" where
  "cache_exec digest cfg (Op_Acquire key token token' now) t =
     bindr (acquire digest cfg t key token token' now) (\<lambda>(_, t'). Inr t')"
| "cache_exec digest cfg (Op_Complete l a now) t =
     bindr (complete_copy digest t l a now) (\<lambda>(_, t'). Inr t')"
| "cache_exec digest cfg (Op_Fail l err now) t =
     bindr (fail_copy cfg t l err now) (\<lambda>(_, t'). Inr t')"

lemma cache_exec_steps: "cache_exec digest cfg x t = Inr t' \<Longrightarrow> table_steps (cache_step digest cfg) t t'"
  by (cases x) (auto simp: bindr_eq_Inr intro: acquire_steps complete_copy_steps fail_copy_steps)

lemma cache_run_steps:
  "fold_res (cache_exec digest cfg) xs t = Inr t' \<Longrightarrow> table_steps (cache_step digest cfg) t t'"
  by (induction xs arbitrary: t) (auto simp: bindr_eq_Inr intro: table_steps_trans cache_exec_steps)

lemma retry_loop_capped:
  assumes "0 < d" and "d \<le> mx"
  shows "retry_loop mx d k = capped_backoff d mx k"
  using assms
proof (induction k arbitrary: d)
  case (Suc k)
  show ?case
  proof (cases "mx \<le> d")
    case True
    then have "d = mx" using Suc.prems by simp
    moreover have "mx * 1 \<le> mx * (2 ^ Suc k)"
      using Suc.prems one_le_power [of "2 :: rat" "Suc k"] by (intro mult_left_mono) auto
    ultimately show ?thesis by (simp add: capped_backoff_def)
  next
    case False
    have "retry_loop mx (min (d * 2) mx) k = capped_backoff (min (d * 2) mx) mx k"
      using Suc.prems False by (intro Suc.IH) auto
    also have "\<dots> = capped_backoff d mx (Suc k)"
    proof (cases "d * 2 \<le> mx")
      case True
      then show ?thesis by (simp add: capped_backoff_def mult_ac)
    next
      case False
      have "mx * 1 \<le> mx * 2 ^ k" using Suc.prems by (intro mult_left_mono) auto
      moreover have "(d * 2) * 1 \<le> (d * 2) * 2 ^ k" using Suc.prems by (intro mult_left_mono) auto
      ultimately show ?thesis using False by (simp add: capped_backoff_def mult_ac min_def)
    qed
    finally show ?thesis using False by simp
  qed
qed (simp add: capped_backoff_def)

section \<open>Key material\<close>

text \<open>
  \<^verbatim>\<open>_json_value\<close> on key material, where Unicode normalisation \<open>nfc\<close> and
  \<^verbatim>\<open>_compact_field_name\<close> (case folding, alphanumerics only) are tables of the Unicode
  database and so parameters. \<open>norm_text = False\<close> is the artifact variant.
\<close>

definition forbidden_fields :: "string list" where
  "forbidden_fields =
     [''address'', ''birthdate'', ''childid'', ''childname'', ''childresponse'', ''childutterance'',
      ''conversationid'', ''dialoguehistory'', ''email'', ''evidencespan'', ''learnerid'',
      ''learnername'', ''learnerprofile'', ''phonenumber'', ''rawtext'', ''recenthistory'',
      ''responseid'', ''turnid'', ''userid'']"

fun json_value :: "(string \<Rightarrow> string) \<Rightarrow> (string \<Rightarrow> string) \<Rightarrow> bool \<Rightarrow> bool \<Rightarrow> json \<Rightarrow> json res"
  and json_items :: "(string \<Rightarrow> string) \<Rightarrow> (string \<Rightarrow> string) \<Rightarrow> bool \<Rightarrow> bool \<Rightarrow> json list \<Rightarrow> json list res"
  and json_members :: "(string \<Rightarrow> string) \<Rightarrow> (string \<Rightarrow> string) \<Rightarrow> bool \<Rightarrow> bool \<Rightarrow> (string \<times> json) list
        \<Rightarrow> (string \<times> json) list \<Rightarrow> (string \<times> json) list res" where
  "json_value nfc fold_name norm_text reject (JStr s) = Inr (JStr (if norm_text then nfc s else s))"
| "json_value nfc fold_name norm_text reject (JList xs) =
     bindr (json_items nfc fold_name norm_text reject xs) (\<lambda>ys. Inr (JList ys))"
| "json_value nfc fold_name norm_text reject (JObj d) =
     bindr (json_members nfc fold_name norm_text reject [] d) (\<lambda>e. Inr (JObj e))"
| "json_value nfc fold_name norm_text reject JNull = Inr JNull"
| "json_value nfc fold_name norm_text reject (JBool b) = Inr (JBool b)"
| "json_value nfc fold_name norm_text reject (JInt i) = Inr (JInt i)"
| "json_value nfc fold_name norm_text reject (JFloat q) = Inr (JFloat q)"
| "json_items nfc fold_name norm_text reject [] = Inr []"
| "json_items nfc fold_name norm_text reject (x # xs) =
     bindr (json_value nfc fold_name norm_text reject x) (\<lambda>y.
     bindr (json_items nfc fold_name norm_text reject xs) (\<lambda>ys. Inr (y # ys)))"
| "json_members nfc fold_name norm_text reject acc [] = Inr acc"
| "json_members nfc fold_name norm_text reject acc ((raw, v) # d) =
     (if reject \<and> fold_name raw \<in> set forbidden_fields
      then Inl (StableCopyCacheKeyError ''per-child field is forbidden in stable-copy key material'')
      else
        let key = (if norm_text then nfc raw else raw) in
        if key \<in> set (map fst acc)
        then Inl (ValueError ''duplicate JSON key after normalization'')
        else bindr (json_value nfc fold_name norm_text reject v) (\<lambda>w.
               json_members nfc fold_name norm_text reject (acc @ [(key, w)]) d))"

text \<open>No object anywhere inside the value has a forbidden field name.\<close>

fun pii_free :: "(string \<Rightarrow> string) \<Rightarrow> json \<Rightarrow> bool" where
  "pii_free fold_name (JList xs) \<longleftrightarrow> (\<forall>x \<in> set xs. pii_free fold_name x)"
| "pii_free fold_name (JObj d) \<longleftrightarrow>
     (\<forall>kv \<in> set d. fold_name (fst kv) \<notin> set forbidden_fields \<and> pii_free fold_name (snd kv))"
| "pii_free fold_name _ \<longleftrightarrow> True"

lemma json_value_pii_free_aux:
  "json_value nfc fold_name norm_text reject v = Inr w \<Longrightarrow> reject \<Longrightarrow> pii_free fold_name v"
  "json_items nfc fold_name norm_text reject xs = Inr ys \<Longrightarrow> reject \<Longrightarrow> \<forall>x \<in> set xs. pii_free fold_name x"
  "json_members nfc fold_name norm_text reject acc d = Inr e \<Longrightarrow> reject \<Longrightarrow>
     \<forall>kv \<in> set d. fold_name (fst kv) \<notin> set forbidden_fields \<and> pii_free fold_name (snd kv)"
proof (induction nfc fold_name norm_text reject v and nfc fold_name norm_text reject xs
    and nfc fold_name norm_text reject acc d
    arbitrary: w and ys and e rule: json_value_json_items_json_members.induct)
qed (auto simp: bindr_eq_Inr Let_def split: if_splits)

lemma json_value_pii_free: "json_value nfc fold_name norm_text True v = Inr w \<Longrightarrow> pii_free fold_name v"
  using json_value_pii_free_aux(1) by blast

definition key_component :: "(string \<Rightarrow> string) \<Rightarrow> (string \<Rightarrow> bool) \<Rightarrow> string \<Rightarrow> string res" where
  "key_component nfc trimmed s =
    (let n = nfc s in
     if n = [] \<or> \<not> trimmed n
     then Inl (StableCopyCacheKeyError ''component must be non-empty without edge whitespace'')
     else if length n > 200 then Inl (StableCopyCacheKeyError ''component exceeds 200 characters'')
     else Inr n)"

record key_inputs =
  ki_content_revision :: string
  ki_content_hash :: string
  ki_copy_slot_id :: string
  ki_locale :: string
  ki_prompt_version :: string
  ki_schema_version :: string
  ki_validator_version :: string
  ki_model_id :: string
  ki_generation_config :: json
  ki_generation_plan :: json

definition build_stable_copy_cache_key ::
    "(string \<Rightarrow> string) \<Rightarrow> (string \<Rightarrow> string) \<Rightarrow> (string \<Rightarrow> bool) \<Rightarrow> (json \<Rightarrow> string) \<Rightarrow> key_inputs \<Rightarrow> string res" where
  "build_stable_copy_cache_key nfc fold_name trimmed digest k =
     bindr (json_value nfc fold_name True True (ki_generation_plan k)) (\<lambda>plan.
     bindr (json_value nfc fold_name True True (ki_generation_config k)) (\<lambda>conf.
     bindr (validate_sha256_hex (ki_content_hash k)) (\<lambda>_.
     bindr (mapr (key_component nfc trimmed)
       [ki_content_revision k, ki_copy_slot_id k, ki_locale k, ki_prompt_version k, ki_schema_version k,
        ki_validator_version k, ki_model_id k]) (\<lambda>cs.
     Inr (digest (JObj
       [(''namespace'', JStr ''mormi-dialogue-stable-copy''), (''key_version'', JStr key_version_v1),
        (''content_revision'', JStr (cs ! 0)), (''content_hash'', JStr (ki_content_hash k)),
        (''copy_slot_id'', JStr (cs ! 1)), (''locale'', JStr (cs ! 2)), (''prompt_version'', JStr (cs ! 3)),
        (''schema_version'', JStr (cs ! 4)), (''validator_version'', JStr (cs ! 5)),
        (''model_id'', JStr (cs ! 6)), (''generation_config'', conf), (''generation_plan'', plan)]))))))"

end
