(* ===== verification/Outbox.thy ===== *)
theory Outbox
  imports Leases
begin

text \<open>
  The transactional outbox (\<^verbatim>\<open>outbox.py\<close>): events wait in a table, a dispatcher claims
  them one at a time under a lease, posts them, and settles each as sent, to be retried, or failed.
  \<^verbatim>\<open>available_at\<close> is both the due time and the lease deadline; the attempt number fences a
  stale worker. The HTTP exchange is an input of the dispatcher: what the client call gave for the
  delivery.
\<close>

section \<open>Events\<close>

datatype outbox_status = Pending | Processing | Retry | Sent | Failed

record outbox_event =
  ev_id :: string
  ev_type :: string
  ev_schema_version :: nat
  ev_payload :: "(string \<times> json) list"
  ev_status :: outbox_status
  ev_attempts :: nat
  ev_available_at :: int
  ev_delivered_at :: "int option"
  ev_last_error :: "string option"
  ev_created_at :: int

type_synonym outbox_table = "(string, outbox_event) dict"

record outbox_delivery =
  dl_event_id :: string
  dl_event_type :: string
  dl_schema_version :: nat
  dl_payload :: "(string \<times> json) list"
  dl_attempt :: nat

definition observation_event_type :: string where
  "observation_event_type = ''mormi.dialogue.observation.recorded''"

definition star_note_event_type :: string where
  "star_note_event_type = ''mormi.star_note.created''"

section \<open>The store\<close>

definition event_due :: "int \<Rightarrow> string list \<Rightarrow> outbox_event \<Rightarrow> bool" where
  "event_due now blocked e \<longleftrightarrow>
     ev_status e \<in> {Pending, Retry, Processing} \<and> ev_available_at e \<le> now \<and> ev_type e \<notin> set blocked"

definition claim_event :: "rat \<Rightarrow> int \<Rightarrow> outbox_event \<Rightarrow> outbox_event" where
  "claim_event lease_secs now e =
     e\<lparr>ev_status := Processing, ev_attempts := ev_attempts e + 1,
       ev_available_at := now + micros lease_secs, ev_last_error := None\<rparr>"

definition event_delivery :: "outbox_event \<Rightarrow> outbox_delivery" where
  "event_delivery e = \<lparr>dl_event_id = ev_id e, dl_event_type = ev_type e,
     dl_schema_version = ev_schema_version e, dl_payload = ev_payload e, dl_attempt = ev_attempts e\<rparr>"

definition event_order :: "outbox_event \<Rightarrow> int \<times> int \<times> string" where
  "event_order e = (ev_available_at e, ev_created_at e, ev_id e)"

definition claim_due ::
    "rat \<Rightarrow> outbox_table \<Rightarrow> nat \<Rightarrow> int \<Rightarrow> string list \<Rightarrow> string set \<Rightarrow> outbox_delivery list \<times> outbox_table" where
  "claim_due lease_secs t limit now blocked locked =
     (case claim_batch (event_due now blocked) event_order ev_id (claim_event lease_secs now) locked limit t of
        (claimed, t') \<Rightarrow> (map event_delivery claimed, t'))"

definition transition_event ::
    "outbox_status \<Rightarrow> int \<Rightarrow> int option \<Rightarrow> string option \<Rightarrow> outbox_event \<Rightarrow> outbox_event" where
  "transition_event status available delivered err e =
     e\<lparr>ev_status := status, ev_available_at := available, ev_delivered_at := delivered,
       ev_last_error := (case err of None \<Rightarrow> None | Some s \<Rightarrow> if s = [] then None else Some (take 300 s))\<rparr>"

definition transition ::
    "outbox_table \<Rightarrow> outbox_delivery \<Rightarrow> outbox_status \<Rightarrow> int \<Rightarrow> int option \<Rightarrow> string option
     \<Rightarrow> bool \<times> outbox_table" where
  "transition t d status available delivered err =
     (case dict_get t (dl_event_id d) of
        None \<Rightarrow> (False, t)
      | Some e \<Rightarrow>
          if ev_status e \<noteq> Processing \<or> ev_attempts e \<noteq> dl_attempt d then (False, t)
          else (True, AList.update (dl_event_id d) (transition_event status available delivered err e) t))"

definition mark_sent :: "outbox_table \<Rightarrow> outbox_delivery \<Rightarrow> int \<Rightarrow> bool \<times> outbox_table" where
  "mark_sent t d now = transition t d Sent now (Some now) None"

definition mark_retry :: "outbox_table \<Rightarrow> outbox_delivery \<Rightarrow> rat \<Rightarrow> string \<Rightarrow> int \<Rightarrow> bool \<times> outbox_table" where
  "mark_retry t d delay err now = transition t d Retry (now + micros delay) None (Some err)"

definition mark_failed :: "outbox_table \<Rightarrow> outbox_delivery \<Rightarrow> string \<Rightarrow> int \<Rightarrow> bool \<times> outbox_table" where
  "mark_failed t d err now = transition t d Failed now None (Some err)"

section \<open>The dispatcher\<close>

datatype http_result =
    Network_Error string
  | Http_Error string
  | Http_Response int "string option"

datatype outbox_action = Act_Sent | Act_Retry | Act_Failed | Act_Auth_Failed

record delivery_decision =
  dd_action :: outbox_action
  dd_reason :: string

definition retriable_conflicts :: "string list" where
  "retriable_conflicts =
     [''unknown_conversation'', ''unknown_learner'', ''unknown_observation'', ''missing_evidence_observation'']"

text \<open>
  \<^verbatim>\<open>_deliver\<close> after the call: \<open>show_code\<close> renders a status code in a reason. The code
  of a JSON error body is the second component of the response.
\<close>

definition deliver :: "(int \<Rightarrow> string) \<Rightarrow> outbox_delivery \<Rightarrow> http_result \<Rightarrow> delivery_decision" where
  "deliver show_code d result =
     (if dl_event_type d \<notin> {observation_event_type, star_note_event_type}
      then \<lparr>dd_action = Act_Failed, dd_reason = ''unsupported_outbox_event_type:'' @ dl_event_type d\<rparr>
      else case result of
        Network_Error n \<Rightarrow> \<lparr>dd_action = Act_Retry, dd_reason = ''network_'' @ n\<rparr>
      | Http_Error n \<Rightarrow> \<lparr>dd_action = Act_Retry, dd_reason = ''http_'' @ n\<rparr>
      | Http_Response status code \<Rightarrow>
          if 200 \<le> status \<and> status < 300 then \<lparr>dd_action = Act_Sent, dd_reason = ''accepted''\<rparr>
          else if status \<in> {401, 403}
            then \<lparr>dd_action = Act_Auth_Failed, dd_reason = ''http_'' @ show_code status\<rparr>
          else if status = 409 \<and> (\<exists>c \<in> set retriable_conflicts. code = Some c)
            then \<lparr>dd_action = Act_Retry, dd_reason = the code\<rparr>
          else if status = 429 \<or> status \<ge> 500
            then \<lparr>dd_action = Act_Retry, dd_reason = ''http_'' @ show_code status\<rparr>
          else \<lparr>dd_action = Act_Failed,
                dd_reason = (case code of
                   Some c \<Rightarrow> if c \<noteq> [] then c else ''http_'' @ show_code status
                 | None \<Rightarrow> ''http_'' @ show_code status)\<rparr>)"

text \<open>
  \<^verbatim>\<open>float(min(base * (2 ** max(attempt - 1, 0)), max))\<close> with a float base: the power is
  an unbounded integer, and multiplying converts it to a float, which raises
  \<^verbatim>\<open>OverflowError\<close> from \<open>2 ^ 1024\<close> on. A product that overflows is infinite, and the
  minimum is then the cap, as in exact arithmetic.
\<close>

definition outbox_retry_delay :: "rat \<Rightarrow> rat \<Rightarrow> nat \<Rightarrow> rat res" where
  "outbox_retry_delay base mx attempt =
     (if attempt - 1 \<ge> 1024 then Inl OverflowError else Inr (min (base * 2 ^ (attempt - 1)) mx))"

record outbox_config =
  oc_lease_seconds :: rat
  oc_batch_size :: nat
  oc_retry_base :: rat
  oc_retry_max :: rat
  oc_star_note_events :: bool

definition blocked_event_types :: "outbox_config \<Rightarrow> string list" where
  "blocked_event_types c = (if oc_star_note_events c then [] else [star_note_event_type])"

record cycle_result =
  cy_claimed :: nat
  cy_sent :: nat
  cy_retried :: nat
  cy_failed :: nat
  cy_auth_failed :: bool

text \<open>
  What the environment gives one iteration of the loop: the claim time, the rows other transactions
  hold locked, the outcome of the post, and the settle time.
\<close>

record cycle_input =
  in_now :: int
  in_locked :: "string set"
  in_result :: http_result
  in_settled :: int

fun dispatch_loop ::
    "(int \<Rightarrow> string) \<Rightarrow> outbox_config \<Rightarrow> (nat \<Rightarrow> cycle_input) \<Rightarrow> nat \<Rightarrow> nat \<Rightarrow> cycle_result \<Rightarrow> outbox_table
     \<Rightarrow> (cycle_result \<times> outbox_table) res" where
  "dispatch_loop show_code cfg env i 0 acc t = Inr (acc, t)"
| "dispatch_loop show_code cfg env i (Suc k) acc t =
     (case claim_due (oc_lease_seconds cfg) t 1 (in_now (env i)) (blocked_event_types cfg) (in_locked (env i)) of
        ([], t1) \<Rightarrow> Inr (acc, t1)
      | (d # _, t1) \<Rightarrow>
          let acc1 = acc\<lparr>cy_claimed := cy_claimed acc + 1\<rparr>;
              decision = deliver show_code d (in_result (env i)); now = in_settled (env i) in
          case dd_action decision of
            Act_Sent \<Rightarrow>
              dispatch_loop show_code cfg env (i + 1) k (acc1\<lparr>cy_sent := cy_sent acc1 + 1\<rparr>)
                (snd (mark_sent t1 d now))
          | Act_Retry \<Rightarrow>
              bindr (outbox_retry_delay (oc_retry_base cfg) (oc_retry_max cfg) (dl_attempt d)) (\<lambda>delay.
              dispatch_loop show_code cfg env (i + 1) k (acc1\<lparr>cy_retried := cy_retried acc1 + 1\<rparr>)
                (snd (mark_retry t1 d delay (dd_reason decision) now)))
          | Act_Auth_Failed \<Rightarrow>
              bindr (outbox_retry_delay (oc_retry_base cfg) (oc_retry_max cfg) (dl_attempt d)) (\<lambda>delay.
              Inr (acc1\<lparr>cy_retried := cy_retried acc1 + 1, cy_auth_failed := True\<rparr>,
                   snd (mark_retry t1 d delay (dd_reason decision) now)))
          | Act_Failed \<Rightarrow>
              dispatch_loop show_code cfg env (i + 1) k (acc1\<lparr>cy_failed := cy_failed acc1 + 1\<rparr>)
                (snd (mark_failed t1 d (dd_reason decision) now)))"

definition outbox_run_once ::
    "(int \<Rightarrow> string) \<Rightarrow> outbox_config \<Rightarrow> (nat \<Rightarrow> cycle_input) \<Rightarrow> outbox_table \<Rightarrow> (cycle_result \<times> outbox_table) res" where
  "outbox_run_once show_code cfg env t =
     dispatch_loop show_code cfg env 0 (oc_batch_size cfg)
       \<lparr>cy_claimed = 0, cy_sent = 0, cy_retried = 0, cy_failed = 0, cy_auth_failed = False\<rparr> t"

section \<open>Events as a fenced queue\<close>

inductive outbox_step :: "outbox_event \<Rightarrow> outbox_event \<Rightarrow> bool" where
  claim: "event_due now blocked e \<Longrightarrow> outbox_step e (claim_event lease_secs now e)"
| settle: "ev_status e = Processing \<Longrightarrow> status \<in> {Sent, Retry, Failed} \<Longrightarrow>
             outbox_step e (transition_event status available delivered err e)"

inductive_cases outbox_stepE: "outbox_step e e'"

fun settle_event ::
    "outbox_status \<times> int \<times> int option \<times> string option \<Rightarrow> nat \<Rightarrow> outbox_event \<Rightarrow> outbox_event option" where
  "settle_event (status, available, delivered, err) n e =
     (if ev_status e = Processing \<and> ev_attempts e = n \<and> status \<in> {Sent, Retry, Failed}
      then Some (transition_event status available delivered err e) else None)"

lemmas event_simps = claim_event_def transition_event_def event_due_def

interpretation outbox_queue:
  fenced_settle outbox_step "\<lambda>e. ev_status e = Processing" ev_attempts settle_event
proof
  show "settle_event x n r = Some r' \<Longrightarrow> ev_status r = Processing \<and> ev_attempts r = n" for x n r r'
    by (cases "(x, n, r)" rule: settle_event.cases) (auto split: if_splits)
  show "settle_event x n r = Some r' \<Longrightarrow> outbox_step r r'" for x n r r'
    by (cases "(x, n, r)" rule: settle_event.cases) (auto split: if_splits intro: outbox_step.intros)
  show "settle_event x n r = Some r' \<Longrightarrow> ev_status r' \<noteq> Processing" for x n r r'
    by (cases "(x, n, r)" rule: settle_event.cases) (auto simp: event_simps split: if_splits)
qed (auto simp: event_simps elim!: outbox_stepE)

interpretation outbox_final:
  fenced_final outbox_step "\<lambda>e. ev_status e = Processing" ev_attempts
    "\<lambda>e. ev_status e \<in> {Sent, Failed}" "\<lambda>e. e"
  by unfold_locales (auto simp: event_simps elim!: outbox_stepE)

lemma claim_due_steps:
  assumes "claim_due lease_secs t limit now blocked locked = (ds, t')" and "table_ok ev_id t"
  shows "table_steps outbox_step t t'" and "table_ok ev_id t'"
proof -
  obtain claimed where c: "claim_batch (event_due now blocked) event_order ev_id (claim_event lease_secs now)
      locked limit t = (claimed, t')"
    using assms(1) by (auto simp: claim_due_def split: prod.splits)
  have "ev_id (claim_event lease_secs now e) = ev_id e"
    "event_due now blocked e \<Longrightarrow> outbox_step e (claim_event lease_secs now e)" for e
    by (simp add: claim_event_def, rule outbox_step.claim)
  note b = claim_batch_steps [where step = outbox_step, OF c assms(2) this]
  show "table_steps outbox_step t t'" and "table_ok ev_id t'" using b(1,2) by auto
qed

lemma transition_steps:
  assumes "table_ok ev_id t" and "status \<in> {Sent, Retry, Failed}"
  shows "table_steps outbox_step t (snd (transition t d status available delivered err))"
    and "table_ok ev_id (snd (transition t d status available delivered err))"
proof -
  show "table_steps outbox_step t (snd (transition t d status available delivered err))"
    using assms(2) by (auto simp: transition_def split: option.splits intro!: table_steps_update outbox_step.settle)
  show "table_ok ev_id (snd (transition t d status available delivered err))"
    using assms(1) by (auto simp: transition_def transition_event_def split: option.splits
        intro!: table_ok_update dest: table_ok_rid)
qed

lemma mark_steps:
  assumes "table_ok ev_id t"
  shows "table_steps outbox_step t (snd (mark_sent t d now))" "table_ok ev_id (snd (mark_sent t d now))"
    "table_steps outbox_step t (snd (mark_retry t d delay err now))" "table_ok ev_id (snd (mark_retry t d delay err now))"
    "table_steps outbox_step t (snd (mark_failed t d err now))" "table_ok ev_id (snd (mark_failed t d err now))"
  using transition_steps [OF assms] by (simp_all add: mark_sent_def mark_retry_def mark_failed_def)

lemma dispatch_loop_steps:
  assumes "dispatch_loop show_code cfg env i k acc t = Inr (r, t')" and "table_ok ev_id t"
  shows "table_steps outbox_step t t' \<and> table_ok ev_id t'"
  using assms
proof (induction k arbitrary: i acc t)
  case (Suc k)
  obtain ds t1 where c: "claim_due (oc_lease_seconds cfg) t 1 (in_now (env i)) (blocked_event_types cfg)
      (in_locked (env i)) = (ds, t1)" by fastforce
  note s = claim_due_steps [OF c Suc.prems(2)]
  show ?case
  proof (cases ds)
    case Nil
    with Suc.prems(1) c s show ?thesis by simp
  next
    case (Cons d ds')
    note c' = c [unfolded Cons]
    let ?dec = "deliver show_code d (in_result (env i))"
    have cont: ?thesis
      if "dispatch_loop show_code cfg env j k acc' t2 = Inr (r, t')" "table_steps outbox_step t1 t2"
        "table_ok ev_id t2" for j acc' t2
      using Suc.IH [OF that(1,3)] table_steps_trans [OF s(1) table_steps_trans [OF that(2)]] by blast
    show ?thesis
    proof (cases "dd_action ?dec")
      case Act_Sent
      with Suc.prems(1) c' show ?thesis
        by (auto simp: Let_def dest: cont [OF _ mark_steps(1,2) [OF s(2)]])
    next
      case Act_Retry
      with Suc.prems(1) c' show ?thesis
        by (auto simp: Let_def bindr_eq_Inr dest: cont [OF _ mark_steps(3,4) [OF s(2)]])
    next
      case Act_Failed
      with Suc.prems(1) c' show ?thesis
        by (auto simp: Let_def dest: cont [OF _ mark_steps(5,6) [OF s(2)]])
    next
      case Act_Auth_Failed
      with Suc.prems(1) c' mark_steps(3,4) [OF s(2)] s(1) show ?thesis
        by (auto simp: Let_def bindr_eq_Inr intro: table_steps_trans)
    qed
  qed
qed simp

end
