(* ===== verification/Ladder.thy ===== *)
theory Ladder
  imports Leases
begin

text \<open>
  The ladder analysis: the decision policy (\<^verbatim>\<open>ladder_model/policy.py\<close>,
  \<^verbatim>\<open>ladder_analysis.py\<close>), the durable analysis jobs and their approval
  (\<^verbatim>\<open>ladder_analysis_repository.py\<close>), the worker (\<^verbatim>\<open>ladder_analysis_worker.py\<close>)
  and the learner's skill profile (\<^verbatim>\<open>engine.py\<close>). Speech loading and the
  classifier are inputs. Accuracies are exact rationals; for fewer than \<open>2 ^ 49\<close> attempts the
  comparisons with 0.70 and 0.90 give the same result on Python's floats.
\<close>

section \<open>Policy\<close>

datatype ladder_level = LvL0 | LvL2 | LvL3 | LvL4

datatype response_mode = FREE_TEXT | SHORT_ANSWER | CHOICE_MODE | NO_RESPONSE_MODE | SOLVE_TOGETHER

fun one_step_lower :: "ladder_level \<Rightarrow> ladder_level" where
  "one_step_lower LvL4 = LvL3" | "one_step_lower LvL3 = LvL2"
| "one_step_lower LvL2 = LvL0" | "one_step_lower LvL0 = LvL0"

fun one_step_higher :: "ladder_level \<Rightarrow> ladder_level" where
  "one_step_higher LvL0 = LvL2" | "one_step_higher LvL2 = LvL3"
| "one_step_higher LvL3 = LvL4" | "one_step_higher LvL4 = LvL4"

fun ladder_rank :: "ladder_level \<Rightarrow> nat" where
  "ladder_rank LvL0 = 0" | "ladder_rank LvL2 = 1" | "ladder_rank LvL3 = 2" | "ladder_rank LvL4 = 3"

fun level_value :: "ladder_level \<Rightarrow> string" where
  "level_value LvL0 = ''L0''" | "level_value LvL2 = ''L2''"
| "level_value LvL3 = ''L3''" | "level_value LvL4 = ''L4''"

definition to_upper :: "char \<Rightarrow> char" where
  "to_upper c = (if 97 \<le> (of_char c :: nat) \<and> (of_char c :: nat) \<le> 122 then char_of (of_char c - 32 :: nat) else c)"

definition canonical_level :: "string \<Rightarrow> ladder_level res" where
  "canonical_level value =
    (let normalized = map to_upper value;
         normalized = (if normalized = ''L1'' then ''L2'' else normalized) in
     case List.find (\<lambda>l. level_value l = normalized) [LvL0, LvL2, LvL3, LvL4] of
       None \<Rightarrow> Inl (ValueError ''not a valid LadderLevel'')
     | Some l \<Rightarrow> Inr l)"

fun expression_of :: "ladder_level \<Rightarrow> expression_level" where
  "expression_of LvL0 = L0" | "expression_of LvL2 = L2" | "expression_of LvL3 = L3" | "expression_of LvL4 = L4"

definition rule_recommendation :: "ladder_level \<Rightarrow> response_mode \<Rightarrow> ladder_level option" where
  "rule_recommendation current mode =
     (if mode = NO_RESPONSE_MODE then Some (one_step_lower current)
      else if mode = CHOICE_MODE then Some LvL2
      else if mode = SOLVE_TOGETHER then Some LvL0
      else None)"

section \<open>The adjustment decision\<close>

datatype ladder_action = UPGRADE | MAINTAIN | ADJUST_DOWN | INSUFFICIENT_EVIDENCE

record level_performance =
  lp_correct :: int
  lp_attempts :: int

definition validate_performance :: "level_performance \<Rightarrow> unit res" where
  "validate_performance p =
     (if lp_attempts p < 0 \<or> lp_correct p < 0 \<or> lp_correct p > lp_attempts p
      then Inl (ValueError ''invalid level performance'') else Inr ())"

definition accuracy :: "level_performance \<Rightarrow> rat option" where
  "accuracy p = (if lp_attempts p \<noteq> 0 then Some (of_int (lp_correct p) / of_int (lp_attempts p)) else None)"

record ladder_evidence =
  le_current_level :: ladder_level
  le_performance :: "(ladder_level, level_performance) dict"
  le_predictions :: "ladder_level list"
  le_valid_speech :: int
  le_lower_rule :: int
  le_completed_sessions :: int

definition validate_evidence :: "ladder_evidence \<Rightarrow> unit res" where
  "validate_evidence e = check_all
     [(le_valid_speech e < 0 \<or> le_lower_rule e < 0, ValueError ''evidence counts must not be negative''),
      (le_completed_sessions e < 0, ValueError ''completed_session_count must not be negative'')]"

record ladder_decision =
  ld_action :: ladder_action
  ld_current_level :: ladder_level
  ld_recommended_level :: ladder_level
  ld_current_accuracy :: "rat option"
  ld_evidence_count :: int
  ld_reason_code :: string

definition last_two :: "'a list \<Rightarrow> 'a list" where
  "last_two xs = drop (length xs - 2) xs"

definition current_performance :: "ladder_evidence \<Rightarrow> level_performance" where
  "current_performance e =
     (case dict_get (le_performance e) (le_current_level e) of
        None \<Rightarrow> \<lparr>lp_correct = 0, lp_attempts = 0\<rparr> | Some p \<Rightarrow> p)"

definition descends_to :: "ladder_evidence \<Rightarrow> string option" where
  "descends_to e =
    (let current = le_current_level e; ps = le_predictions e; acc = accuracy (current_performance e);
         lower = (\<lambda>l. ladder_rank l < ladder_rank current);
         two_recent_lower = (length ps \<ge> 2 \<and> list_all lower (last_two ps));
         has_lower = (list_ex lower ps \<or> le_lower_rule e > 0);
         can_descend = (current \<noteq> LvL2 \<or> le_lower_rule e > 0);
         low_accuracy = ((case acc of None \<Rightarrow> False | Some a \<Rightarrow> a < 7 / 10) \<and> has_lower \<and> can_descend);
         consecutive = (two_recent_lower \<and> can_descend);
         rule_descent = (current = LvL2 \<and> le_lower_rule e \<ge> 2) in
     if current = LvL0 then None
     else if consecutive then Some ''TWO_LOWER_PREDICTIONS''
     else if low_accuracy then Some ''LOW_ACCURACY_WITH_LOWER_EVIDENCE''
     else if rule_descent then Some ''REPEATED_RULE_DESCENT''
     else None)"

definition enough_for_upgrade :: "ladder_evidence \<Rightarrow> bool" where
  "enough_for_upgrade e \<longleftrightarrow>
     (let current = le_current_level e; ps = le_predictions e; perf = current_performance e in
      current \<noteq> LvL4 \<and> current \<noteq> LvL0 \<and> le_completed_sessions e \<ge> 2 \<and> lp_attempts perf \<ge> 4
      \<and> (case accuracy perf of None \<Rightarrow> False | Some a \<Rightarrow> a \<ge> 9 / 10)
      \<and> le_valid_speech e \<ge> 2 \<and> length ps \<ge> 2
      \<and> list_all (\<lambda>l. ladder_rank l \<ge> ladder_rank (one_step_higher current)) (last_two ps))"

definition decide_ladder_adjustment :: "ladder_evidence \<Rightarrow> ladder_decision" where
  "decide_ladder_adjustment e =
    (let current = le_current_level e; perf = current_performance e;
         insufficient = (le_completed_sessions e < 2 \<or> lp_attempts perf < 4);
         mk = (\<lambda>action level reason. \<lparr>ld_action = action, ld_current_level = current,
                 ld_recommended_level = level, ld_current_accuracy = accuracy perf,
                 ld_evidence_count = lp_attempts perf, ld_reason_code = reason\<rparr>) in
     case descends_to e of
       Some reason \<Rightarrow> mk ADJUST_DOWN (one_step_lower current) reason
     | None \<Rightarrow>
         if enough_for_upgrade e then mk UPGRADE (one_step_higher current) ''MASTERY_AND_HIGHER_PREDICTIONS''
         else if insufficient then mk INSUFFICIENT_EVIDENCE current ''INSUFFICIENT_EVIDENCE''
         else mk MAINTAIN current ''MAINTAIN_CURRENT_LEVEL'')"

lemma decide_cases:
  obtains (down) reason where "descends_to e = Some reason"
      "ld_action (decide_ladder_adjustment e) = ADJUST_DOWN"
      "ld_recommended_level (decide_ladder_adjustment e) = one_step_lower (le_current_level e)"
  | (up) "descends_to e = None" "enough_for_upgrade e"
      "ld_action (decide_ladder_adjustment e) = UPGRADE"
      "ld_recommended_level (decide_ladder_adjustment e) = one_step_higher (le_current_level e)"
  | (stay) "ld_action (decide_ladder_adjustment e) \<in> {MAINTAIN, INSUFFICIENT_EVIDENCE}"
      "ld_recommended_level (decide_ladder_adjustment e) = le_current_level e"
  by (cases "descends_to e"; cases "enough_for_upgrade e";
      cases "le_completed_sessions e < 2 \<or> lp_attempts (current_performance e) < 4")
    (simp_all add: decide_ladder_adjustment_def Let_def)

section \<open>Analysis jobs\<close>

datatype job_status = Job_Pending | Job_Running | Job_Completed | Job_Failed

record analysis_row =
  an_id :: string
  an_idempotency_key :: string
  an_learner_id :: int
  an_skill_id :: string
  an_trigger_session_id :: string
  an_session_ids :: "string list"
  an_current_level :: string
  an_performance :: "(string, level_performance) dict"
  an_lower_rule :: int
  an_status :: job_status
  an_attempts :: nat
  an_available_at :: int
  an_decision :: "(string \<times> json) list option"
  an_model_version :: "string option"
  an_recommendation_version :: nat
  an_error_code :: "string option"
  an_approved_at :: "int option"
  an_completed_at :: "int option"
  an_created_at :: int
  an_updated_at :: int

type_synonym analysis_table = "(string, analysis_row) dict"

record analysis_request =
  ar_idempotency_key :: string
  ar_learner_id :: int
  ar_skill_id :: string
  ar_trigger_session_id :: string
  ar_session_ids :: "string list"
  ar_current_level :: ladder_level
  ar_performance :: "(ladder_level, level_performance) dict"
  ar_lower_rule :: int

record ladder_job =
  jb_analysis_id :: string
  jb_learner_id :: int
  jb_skill_id :: string
  jb_trigger_session_id :: string
  jb_session_ids :: "string list"
  jb_current_level :: ladder_level
  jb_performance :: "(ladder_level, level_performance) dict"
  jb_lower_rule :: int
  jb_status :: job_status
  jb_attempt :: nat
  jb_available_at :: int
  jb_decision :: "(string \<times> json) list"
  jb_model_version :: "string option"
  jb_recommendation_version :: nat
  jb_error_code :: "string option"
  jb_approved_at :: "int option"
  jb_created_at :: int

text \<open>
  \<^verbatim>\<open>_job\<close>: a stored level outside the ladder raises, and two spellings of one level
  (\<^verbatim>\<open>L1\<close> is \<^verbatim>\<open>L2\<close>) leave the performance stored last.
\<close>

definition job_performance ::
    "(string, level_performance) dict \<Rightarrow> (ladder_level, level_performance) dict res" where
  "job_performance perf =
     fold_res (\<lambda>(l, p) d. bindr (canonical_level l) (\<lambda>lv. Inr (AList.update lv p d))) perf []"

definition job_of :: "analysis_row \<Rightarrow> ladder_job res" where
  "job_of r =
     bindr (canonical_level (an_current_level r)) (\<lambda>current.
     bindr (job_performance (an_performance r)) (\<lambda>perf.
     Inr \<lparr>jb_analysis_id = an_id r, jb_learner_id = an_learner_id r, jb_skill_id = an_skill_id r,
          jb_trigger_session_id = an_trigger_session_id r, jb_session_ids = an_session_ids r,
          jb_current_level = current, jb_performance = perf, jb_lower_rule = an_lower_rule r,
          jb_status = an_status r, jb_attempt = an_attempts r, jb_available_at = an_available_at r,
          jb_decision = (case an_decision r of None \<Rightarrow> [] | Some d \<Rightarrow> d),
          jb_model_version = an_model_version r, jb_recommendation_version = an_recommendation_version r,
          jb_error_code = an_error_code r, jb_approved_at = an_approved_at r,
          jb_created_at = an_created_at r\<rparr>))"

text \<open>The identifier is a digest of the idempotency key; \<open>digest24\<close> is its first 24 hex digits.\<close>

definition analysis_id :: "(string \<Rightarrow> string) \<Rightarrow> string \<Rightarrow> string" where
  "analysis_id digest24 key = ''ladder_'' @ digest24 key"

definition enqueue ::
    "(string \<Rightarrow> string) \<Rightarrow> analysis_table \<Rightarrow> analysis_request \<Rightarrow> int \<Rightarrow> ladder_job res \<times> analysis_table" where
  "enqueue digest24 t q now =
    (let i = analysis_id digest24 (ar_idempotency_key q) in
     case dict_get t i of
       Some r \<Rightarrow> (job_of r, t)
     | None \<Rightarrow>
         let r = \<lparr>an_id = i, an_idempotency_key = ar_idempotency_key q, an_learner_id = ar_learner_id q,
               an_skill_id = ar_skill_id q, an_trigger_session_id = ar_trigger_session_id q,
               an_session_ids = ar_session_ids q, an_current_level = level_value (ar_current_level q),
               an_performance = map (\<lambda>(l, p). (level_value l, p)) (ar_performance q),
               an_lower_rule = ar_lower_rule q, an_status = Job_Pending, an_attempts = 0,
               an_available_at = now, an_decision = None, an_model_version = None,
               an_recommendation_version = 1, an_error_code = None, an_approved_at = None,
               an_completed_at = None, an_created_at = now, an_updated_at = now\<rparr>
         in (job_of r, AList.update i r t))"

definition job_due :: "int \<Rightarrow> analysis_row \<Rightarrow> bool" where
  "job_due now r \<longleftrightarrow> an_status r \<in> {Job_Pending, Job_Running} \<and> an_available_at r \<le> now"

definition claim_job :: "rat \<Rightarrow> int \<Rightarrow> analysis_row \<Rightarrow> analysis_row" where
  "claim_job lease_secs now r =
     r\<lparr>an_status := Job_Running, an_attempts := an_attempts r + 1,
       an_available_at := now + micros lease_secs, an_error_code := None, an_updated_at := now\<rparr>"

definition claim_pending ::
    "rat \<Rightarrow> analysis_table \<Rightarrow> nat \<Rightarrow> int \<Rightarrow> string set \<Rightarrow> ladder_job list res \<times> analysis_table" where
  "claim_pending lease_secs t limit now locked =
     (case claim_batch (job_due now) (\<lambda>r. (an_available_at r, an_created_at r)) an_id
             (claim_job lease_secs now) locked limit t of
        (claimed, t') \<Rightarrow> (mapr job_of claimed, t'))"

definition complete_row :: "(string \<times> json) list \<Rightarrow> string \<Rightarrow> int \<Rightarrow> analysis_row \<Rightarrow> analysis_row" where
  "complete_row decision version now r =
     r\<lparr>an_status := Job_Completed, an_decision := Some decision, an_model_version := Some version,
       an_completed_at := Some now, an_available_at := now, an_updated_at := now\<rparr>"

definition complete_job ::
    "analysis_table \<Rightarrow> ladder_job \<Rightarrow> (string \<times> json) list \<Rightarrow> string \<Rightarrow> int \<Rightarrow> bool \<times> analysis_table" where
  "complete_job t job decision version now =
     (case dict_get t (jb_analysis_id job) of
        None \<Rightarrow> (False, t)
      | Some r \<Rightarrow>
          if an_status r \<noteq> Job_Running \<or> an_attempts r \<noteq> jb_attempt job then (False, t)
          else (True, AList.update (jb_analysis_id job) (complete_row decision version now r) t))"

definition allowed_errors :: "string list" where
  "allowed_errors =
     [''MODEL_NOT_FOUND'', ''MODEL_DEPENDENCY_MISSING'', ''MODEL_LOAD_FAILED'', ''MODEL_INFERENCE_FAILED'',
      ''SPEECH_LOAD_FAILED'', ''UNEXPECTED_ANALYSIS_ERROR'']"

definition fail_row :: "string \<Rightarrow> int \<Rightarrow> analysis_row \<Rightarrow> analysis_row" where
  "fail_row err now r =
     r\<lparr>an_status := Job_Failed,
       an_error_code := Some (if err \<in> set allowed_errors then err else ''UNEXPECTED_ANALYSIS_ERROR''),
       an_available_at := now, an_updated_at := now\<rparr>"

definition fail_job :: "analysis_table \<Rightarrow> ladder_job \<Rightarrow> string \<Rightarrow> int \<Rightarrow> bool \<times> analysis_table" where
  "fail_job t job err now =
     (case dict_get t (jb_analysis_id job) of
        None \<Rightarrow> (False, t)
      | Some r \<Rightarrow>
          if an_status r \<noteq> Job_Running \<or> an_attempts r \<noteq> jb_attempt job then (False, t)
          else (True, AList.update (jb_analysis_id job) (fail_row err now r) t))"

definition requeueable_errors :: "string list" where
  "requeueable_errors = [''MODEL_NOT_FOUND'', ''MODEL_DEPENDENCY_MISSING'', ''MODEL_LOAD_FAILED'']"

definition requeueable :: "analysis_row \<Rightarrow> bool" where
  "requeueable r \<longleftrightarrow> an_status r = Job_Failed \<and> (\<exists>e \<in> set requeueable_errors. an_error_code r = Some e)"

definition requeue_row :: "int \<Rightarrow> analysis_row \<Rightarrow> analysis_row" where
  "requeue_row now r =
     r\<lparr>an_status := Job_Pending, an_error_code := None, an_available_at := now, an_updated_at := now\<rparr>"

definition requeue_model_failures :: "analysis_table \<Rightarrow> int \<Rightarrow> string set \<Rightarrow> nat \<times> analysis_table" where
  "requeue_model_failures t now locked =
    (let hit = (\<lambda>r. requeueable r \<and> an_id r \<notin> locked) in
     (length (filter hit (map snd t)), map (\<lambda>(k, r). (k, if hit r then requeue_row now r else r)) t))"

definition latest_for_learner :: "analysis_table \<Rightarrow> int \<Rightarrow> ladder_job list res" where
  "latest_for_learner t learner =
     mapr job_of (rev (sort_key an_created_at (filter (\<lambda>r. an_learner_id r = learner) (map snd t))))"

section \<open>Approval\<close>

record skill_profile =
  sk_skill_id :: string
  sk_stable_level :: expression_level
  sk_h0_streak :: nat
  sk_recent_max_hint :: hint_level
  sk_hint_types :: "string list"
  sk_concept_mastery :: rat
  sk_independence :: rat
  sk_last_bottleneck :: string

record learner_profile =
  lp_learner_id :: int
  lp_skills :: "(string, skill_profile) dict"
  lp_updated_at :: int

definition default_skill :: "string \<Rightarrow> skill_profile" where
  "default_skill i = \<lparr>sk_skill_id = i, sk_stable_level = L2, sk_h0_streak = 0, sk_recent_max_hint = H0,
     sk_hint_types = [], sk_concept_mastery = 1 / 2, sk_independence = 1 / 2, sk_last_bottleneck = ''unknown''\<rparr>"

text \<open>
  \<^verbatim>\<open>str\<close> of a decision member. The members read here are written by the worker as strings;
  any other value renders as a text that is neither an action nor a level, like \<^verbatim>\<open>None\<close>.
\<close>

definition decision_text :: "(string \<times> json) list \<Rightarrow> string \<Rightarrow> string" where
  "decision_text d k = (case map_of d k of Some (JStr s) \<Rightarrow> s | _ \<Rightarrow> ''None'')"

definition one_rank_apart :: "ladder_level \<Rightarrow> ladder_level \<Rightarrow> bool" where
  "one_rank_apart a b \<longleftrightarrow> \<bar>int (ladder_rank a) - int (ladder_rank b)\<bar> = 1"

type_synonym approval_state = "analysis_table \<times> (int, learner_profile) dict"

definition approve_row :: "int \<Rightarrow> analysis_row \<Rightarrow> analysis_row" where
  "approve_row now r = r\<lparr>an_approved_at := Some now, an_updated_at := now\<rparr>"

definition apply_approval ::
    "approval_state \<Rightarrow> analysis_row \<Rightarrow> ladder_level \<Rightarrow> ladder_level \<Rightarrow> int \<Rightarrow> (ladder_job res \<times> approval_state) res" where
  "apply_approval s r current recommended now =
    (let t = fst s; ps = snd s;
         profile = (case dict_get ps (an_learner_id r) of
                      Some p \<Rightarrow> p
                    | None \<Rightarrow> \<lparr>lp_learner_id = an_learner_id r, lp_skills = [], lp_updated_at = now\<rparr>);
         skill = (case dict_get (lp_skills profile) (an_skill_id r) of
                    Some sk \<Rightarrow> sk | None \<Rightarrow> default_skill (an_skill_id r));
         stable = canonical (sk_stable_level skill);
         r' = approve_row now r; t' = AList.update (an_id r) r' t in
     if stable = canonical (expression_of recommended) then Inr (job_of r', (t', ps))
     else if stable \<noteq> canonical (expression_of current)
     then Inl (LadderAnalysisStaleError ''learner stable level has changed'')
     else
       let skill' = skill\<lparr>sk_stable_level := canonical (expression_of recommended)\<rparr>;
           profile' = profile\<lparr>lp_skills := AList.update (an_skill_id r) skill' (lp_skills profile),
                              lp_updated_at := now\<rparr>
       in Inr (job_of r', (t', AList.update (an_learner_id r) profile' ps)))"

definition approve ::
    "approval_state \<Rightarrow> string \<Rightarrow> int \<Rightarrow> nat \<Rightarrow> int \<Rightarrow> (ladder_job res \<times> approval_state) res" where
  "approve s i learner version now =
     (case dict_get (fst s) i of
        None \<Rightarrow> Inl (LadderAnalysisNotFoundError i)
      | Some r \<Rightarrow>
          if an_learner_id r \<noteq> learner then Inl (LadderAnalysisNotFoundError i)
          else case an_decision r of
            None \<Rightarrow> Inl (LadderAnalysisNotApplicableError ''analysis is not completed'')
          | Some d \<Rightarrow>
              if an_status r \<noteq> Job_Completed \<or> d = []
              then Inl (LadderAnalysisNotApplicableError ''analysis is not completed'')
              else if an_recommendation_version r \<noteq> version
              then Inl (LadderAnalysisStaleError ''recommendation version is stale'')
              else if an_approved_at r \<noteq> None then Inr (job_of r, s)
              else if decision_text d ''action'' \<notin> {''UPGRADE'', ''ADJUST_DOWN''}
              then Inl (LadderAnalysisNotApplicableError ''recommendation does not change level'')
              else
                bindr (canonical_level (decision_text d ''current_level'')) (\<lambda>current.
                bindr (canonical_level (decision_text d ''recommended_level'')) (\<lambda>recommended.
                if \<not> one_rank_apart recommended current
                then Inl (LadderAnalysisNotApplicableError ''recommendation must move one step'')
                else apply_approval s r current recommended now)))"

section \<open>The worker\<close>

datatype speech_result = Speech_Failed | Speech "string list"

record prediction =
  pr_level :: ladder_level
  pr_confidence :: rat

datatype predict_result = Unavailable "string option" | Predictions "prediction list"

definition action_value :: "ladder_action \<Rightarrow> string" where
  "action_value a = (case a of UPGRADE \<Rightarrow> ''UPGRADE'' | MAINTAIN \<Rightarrow> ''MAINTAIN''
     | ADJUST_DOWN \<Rightarrow> ''ADJUST_DOWN'' | INSUFFICIENT_EVIDENCE \<Rightarrow> ''INSUFFICIENT_EVIDENCE'')"

definition decision_payload :: "ladder_decision \<Rightarrow> prediction list \<Rightarrow> (string \<times> json) list" where
  "decision_payload d ps =
     [(''action'', JStr (action_value (ld_action d))),
      (''current_level'', JStr (level_value (ld_current_level d))),
      (''recommended_level'', JStr (level_value (ld_recommended_level d))),
      (''current_accuracy'', (case ld_current_accuracy d of None \<Rightarrow> JNull | Some a \<Rightarrow> JFloat a)),
      (''evidence_count'', JInt (ld_evidence_count d)),
      (''reason_code'', JStr (ld_reason_code d)),
      (''recent_predictions'', JList (map (\<lambda>p. JObj [(''level'', JStr (level_value (pr_level p))),
          (''confidence'', JFloat (pr_confidence p))]) (last_two ps)))]"

definition job_evidence :: "ladder_job \<Rightarrow> prediction list \<Rightarrow> ladder_evidence res" where
  "job_evidence job ps =
     bindr (for_each (\<lambda>(l, p). validate_performance p) (jb_performance job)) (\<lambda>_.
     let e = \<lparr>le_current_level = jb_current_level job, le_performance = jb_performance job,
              le_predictions = map pr_level (last_two ps), le_valid_speech = int (length ps),
              le_lower_rule = jb_lower_rule job, le_completed_sessions = int (length (jb_session_ids job))\<rparr>
     in bindr (validate_evidence e) (\<lambda>_. Inr e))"

record worker_input =
  wi_speech :: speech_result
  wi_predict :: "string list \<Rightarrow> predict_result"
  wi_now :: int

definition worker_job ::
    "string \<Rightarrow> ladder_job \<times> worker_input \<Rightarrow> nat \<times> nat \<times> analysis_table
     \<Rightarrow> nat \<times> nat \<times> analysis_table \<times> unit res" where
  "worker_job version ji s =
    (case (ji, s) of ((job, w), (completed, failed, t)) \<Rightarrow>
      (case wi_speech w of
         Speech_Failed \<Rightarrow>
           (completed, failed + 1, snd (fail_job t job ''SPEECH_LOAD_FAILED'' (wi_now w)), Inr ())
       | Speech texts \<Rightarrow>
          (case wi_predict w texts of
             Unavailable err \<Rightarrow>
               let code = (case err of Some e \<Rightarrow> if e = [] then ''MODEL_INFERENCE_FAILED'' else e
                           | None \<Rightarrow> ''MODEL_INFERENCE_FAILED'') in
               (completed, failed + 1, snd (fail_job t job code (wi_now w)), Inr ())
           | Predictions ps \<Rightarrow>
              (case job_evidence job ps of
                 Inl err \<Rightarrow> (completed, failed, t, Inl err)
               | Inr e \<Rightarrow>
                   let payload = decision_payload (decide_ladder_adjustment e) ps;
                       res = complete_job t job payload version (wi_now w) in
                   (if fst res then completed + 1 else completed, failed, snd res, Inr ())))))"

text \<open>The loop over the claimed jobs: an exception ends it, and what was committed stays.\<close>

fun worker_loop ::
    "string \<Rightarrow> (ladder_job \<times> worker_input) list \<Rightarrow> nat \<times> nat \<times> analysis_table
     \<Rightarrow> analysis_table \<times> (nat \<times> nat) res" where
  "worker_loop version [] (c, f, t) = (t, Inr (c, f))"
| "worker_loop version (ji # jis) s =
     (case worker_job version ji s of
        (c, f, t, Inl err) \<Rightarrow> (t, Inl err)
      | (c, f, t, Inr _) \<Rightarrow> worker_loop version jis (c, f, t))"

record ladder_cycle =
  lc_claimed :: nat
  lc_completed :: nat
  lc_failed :: nat

definition ladder_run_once ::
    "rat \<Rightarrow> nat \<Rightarrow> string \<Rightarrow> (ladder_job \<Rightarrow> worker_input) \<Rightarrow> analysis_table \<Rightarrow> int \<Rightarrow> string set
     \<Rightarrow> analysis_table \<times> ladder_cycle res" where
  "ladder_run_once lease_secs batch version env t now locked =
    (case claim_pending lease_secs t batch now locked of
       (Inl err, t1) \<Rightarrow> (t1, Inl err)
     | (Inr jobs, t1) \<Rightarrow>
         (case worker_loop version (map (\<lambda>j. (j, env j)) jobs) (0, 0, t1) of
            (t2, Inl err) \<Rightarrow> (t2, Inl err)
          | (t2, Inr (c, f)) \<Rightarrow>
              (t2, Inr \<lparr>lc_claimed = length jobs, lc_completed = c, lc_failed = f\<rparr>)))"

section \<open>The skill profile\<close>

definition select_start_level :: "learner_profile \<Rightarrow> string \<Rightarrow> expression_level" where
  "select_start_level profile i =
     (case dict_get (lp_skills profile) i of Some sk \<Rightarrow> canonical (sk_stable_level sk) | None \<Rightarrow> L4)"

text \<open>
  \<^verbatim>\<open>update_skill_profile\<close> after a finished task, with the two fields of the session state
  it reads. Mastery and independence are exact here and floats in the code.
\<close>

definition update_skill_profile ::
    "learner_profile \<Rightarrow> hint_level \<Rightarrow> expression_level \<Rightarrow> string \<Rightarrow> learner_profile" where
  "update_skill_profile profile task_max_hint level skill_id =
    (let current = (case dict_get (lp_skills profile) skill_id of
                      Some sk \<Rightarrow> sk | None \<Rightarrow> default_skill skill_id);
         current = current\<lparr>sk_stable_level := canonical (sk_stable_level current)\<rparr>;
         independent = (task_max_hint = H0);
         current = (if independent
           then current\<lparr>sk_h0_streak := sk_h0_streak current + 1,
                        sk_concept_mastery := min 1 (sk_concept_mastery current + 8 / 100)\<rparr>
           else current\<lparr>sk_h0_streak := 0,
                        sk_concept_mastery := min 1 (sk_concept_mastery current + 2 / 100)\<rparr>);
         current = current\<lparr>sk_recent_max_hint := task_max_hint, sk_last_bottleneck := ''unknown''\<rparr>;
         current = (if independent \<and> rank (sk_stable_level current) \<le> rank level
           then current\<lparr>sk_independence := min 1 (sk_independence current + 6 / 100)\<rparr> else current)
     in profile\<lparr>lp_skills := AList.update skill_id current (lp_skills profile)\<rparr>)"

section \<open>Jobs as a fenced queue\<close>

inductive job_step :: "analysis_row \<Rightarrow> analysis_row \<Rightarrow> bool" where
  claim: "job_due now r \<Longrightarrow> job_step r (claim_job lease_secs now r)"
| complete: "an_status r = Job_Running \<Longrightarrow> job_step r (complete_row decision version now r)"
| fail: "an_status r = Job_Running \<Longrightarrow> job_step r (fail_row err now r)"
| requeue: "requeueable r \<Longrightarrow> job_step r (requeue_row now r)"
| approve: "an_status r = Job_Completed \<Longrightarrow> job_step r (approve_row now r)"

inductive_cases job_stepE: "job_step r r'"

datatype job_outcome = Job_Complete "(string \<times> json) list" string | Job_Fail string

fun settle_job :: "job_outcome \<times> int \<Rightarrow> nat \<Rightarrow> analysis_row \<Rightarrow> analysis_row option" where
  "settle_job (Job_Complete decision version, now) n r =
     (if an_status r = Job_Running \<and> an_attempts r = n then Some (complete_row decision version now r) else None)"
| "settle_job (Job_Fail err, now) n r =
     (if an_status r = Job_Running \<and> an_attempts r = n then Some (fail_row err now r) else None)"

lemmas job_simps = claim_job_def complete_row_def fail_row_def requeue_row_def approve_row_def job_due_def
  requeueable_def

interpretation job_queue:
  fenced_settle job_step "\<lambda>r. an_status r = Job_Running" an_attempts settle_job
proof
  show "settle_job x n r = Some r' \<Longrightarrow> an_status r = Job_Running \<and> an_attempts r = n" for x n r r'
    by (cases "(x, n, r)" rule: settle_job.cases) (auto split: if_splits)
  show "settle_job x n r = Some r' \<Longrightarrow> job_step r r'" for x n r r'
    by (cases "(x, n, r)" rule: settle_job.cases) (auto split: if_splits intro: job_step.intros)
  show "settle_job x n r = Some r' \<Longrightarrow> an_status r' \<noteq> Job_Running" for x n r r'
    by (cases "(x, n, r)" rule: settle_job.cases) (auto simp: job_simps split: if_splits)
qed (auto simp: job_simps elim!: job_stepE)

interpretation job_final:
  fenced_final job_step "\<lambda>r. an_status r = Job_Running" an_attempts
    "\<lambda>r. an_status r = Job_Completed" "\<lambda>r. (an_decision r, an_model_version r, an_completed_at r)"
  by unfold_locales (auto simp: job_simps elim!: job_stepE)

text \<open>Every repository method acts on every job by job steps, and keeps the table well formed.\<close>

abbreviation job_moves :: "analysis_table \<Rightarrow> analysis_table \<Rightarrow> bool" where
  "job_moves t t' \<equiv> table_steps job_step t t' \<and> table_ok an_id t'"

lemma job_moves_trans: "job_moves a b \<Longrightarrow> job_moves b c \<Longrightarrow> job_moves a c"
  by (auto intro: table_steps_trans)

lemma job_row_ids [simp]:
  "an_id (complete_row decision version now r) = an_id r" "an_id (fail_row err now r) = an_id r"
  "an_id (requeue_row now r) = an_id r" "an_id (approve_row now r) = an_id r"
  by (simp_all add: job_simps)

lemma job_moves_update:
  assumes "table_ok an_id t" and "dict_get t k = Some r" and "job_step r r'" and "an_id r' = an_id r"
  shows "job_moves t (AList.update k r' t)"
  using assms table_ok_rid [OF assms(1,2)] by (auto intro: table_steps_update table_ok_update)

lemma enqueue_moves: "table_ok an_id t \<Longrightarrow> job_moves t (snd (enqueue digest24 t q now))"
  by (auto simp: enqueue_def Let_def split: option.splits intro: table_steps_update table_ok_update)

lemma claim_pending_moves:
  assumes "claim_pending lease_secs t limit now locked = (jobs, t')" and "table_ok an_id t"
  shows "job_moves t t'"
proof -
  obtain claimed where c: "claim_batch (job_due now) (\<lambda>r. (an_available_at r, an_created_at r)) an_id
      (claim_job lease_secs now) locked limit t = (claimed, t')"
    using assms(1) by (auto simp: claim_pending_def split: prod.splits)
  have "an_id (claim_job lease_secs now r) = an_id r"
    "job_due now r \<Longrightarrow> job_step r (claim_job lease_secs now r)" for r
    by (simp add: claim_job_def, rule job_step.claim)
  note b = claim_batch_steps [where step = job_step, OF c assms(2) this]
  show ?thesis using b(1,2) by auto
qed

lemma complete_job_moves:
  "table_ok an_id t \<Longrightarrow> job_moves t (snd (complete_job t job decision version now))"
  using job_moves_update [OF _ _ job_step.complete] by (simp add: complete_job_def split: option.split)

lemma fail_job_moves: "table_ok an_id t \<Longrightarrow> job_moves t (snd (fail_job t job err now))"
  using job_moves_update [OF _ _ job_step.fail] by (simp add: fail_job_def split: option.split)

lemma approve_moves:
  assumes "approve s i learner version now = Inr (j, s')" and "table_ok an_id (fst s)"
  shows "job_moves (fst s) (fst s')"
proof -
  have step: "job_moves (fst s) (AList.update i (approve_row now r) (fst s))"
    if "dict_get (fst s) i = Some r" "an_status r = Job_Completed" for r
    using job_moves_update [OF assms(2) that(1) job_step.approve [OF that(2)]] by simp
  show ?thesis
    using assms step table_ok_rid [OF assms(2)]
    by (auto simp: approve_def apply_approval_def bindr_eq_Inr Let_def split: option.splits if_splits)
qed

lemma worker_job_moves:
  assumes "table_ok an_id t" and "worker_job version ji (c, f, t) = (c', f', t', r)"
  shows "job_moves t t'"
  using assms fail_job_moves [OF assms(1)] complete_job_moves [OF assms(1)]
  by (auto simp: worker_job_def Let_def split: prod.splits speech_result.splits predict_result.splits
      sum.splits option.splits if_splits)

lemma worker_loop_moves:
  "table_ok an_id t \<Longrightarrow> worker_loop version jis (c, f, t) = (t', r) \<Longrightarrow> job_moves t t'"
proof (induction jis arbitrary: c f t)
  case (Cons ji jis)
  obtain c1 f1 t1 r1 where w: "worker_job version ji (c, f, t) = (c1, f1, t1, r1)" by (metis prod_cases4)
  note m = worker_job_moves [OF Cons.prems(1) w]
  show ?case
  proof (cases r1)
    case (Inl e)
    with Cons.prems(2) w m show ?thesis by simp
  next
    case (Inr u)
    with Cons.prems(2) w have "worker_loop version jis (c1, f1, t1) = (t', r)" by simp
    from Cons.IH [OF conjunct2 [OF m] this] m show ?thesis by (blast intro: table_steps_trans)
  qed
qed simp

lemma ladder_run_once_moves:
  assumes "table_ok an_id t" and "ladder_run_once lease_secs batch version env t now locked = (t', r)"
  shows "job_moves t t'"
proof -
  obtain jobs t1 where c: "claim_pending lease_secs t batch now locked = (jobs, t1)" by fastforce
  note m = claim_pending_moves [OF c assms(1)]
  show ?thesis
  proof (cases jobs)
    case (Inl e)
    with assms(2) c m show ?thesis by (simp add: ladder_run_once_def)
  next
    case (Inr js)
    obtain t2 r2 where w: "worker_loop version (map (\<lambda>j. (j, env j)) js) (0, 0, t1) = (t2, r2)" by fastforce
    with assms(2) c Inr have "t' = t2"
      by (auto simp: ladder_run_once_def split: sum.splits prod.splits)
    with worker_loop_moves [OF conjunct2 [OF m] w] m show ?thesis by (blast intro: table_steps_trans)
  qed
qed

end
