(* ===== verification/Queue_Properties.thy ===== *)
theory Queue_Properties
  imports Copy_Cache Outbox Ladder
begin

text \<open>
  What the cache of generated copy promises: copy is generated at most once per lease, a ready artifact
  never changes, an expired lease is fenced, and no child text reaches a cache key.
\<close>

section \<open>The stable-copy cache\<close>

text \<open>A concrete cache: one key, a digest of fixed length, the default timings.\<close>

definition demo_cache_key :: string where
  "demo_cache_key = replicate 64 (CHR ''a'')"

definition demo_digest :: "json \<Rightarrow> string" where
  "demo_digest j = (case j of JStr s \<Rightarrow> ''s'' @ s | _ \<Rightarrow> ''other'')"

definition demo_cache_config :: cache_config where
  "demo_cache_config = \<lparr>lease_seconds = 30, retry_base_seconds = 2, retry_max_seconds = 60\<rparr>"

definition demo_lease :: copy_lease where
  "demo_lease = \<lparr>cl_key = demo_cache_key, cl_token = ''t1'', cl_attempt = 1, cl_expires_at = 30000000\<rparr>"

definition demo_leased_table :: cache_table where
  "demo_leased_table = [(demo_cache_key, new_row demo_cache_config demo_cache_key ''t1'' 0)]"

definition demo_ready_table :: cache_table where
  "demo_ready_table = [(demo_cache_key,
     ready_row demo_digest (JStr ''hello'') 5 (new_row demo_cache_config demo_cache_key ''t1'' 0))]"

lemma ready_row_frozen:
  assumes "table_steps (cache_step digest cfg) t t'" and "dict_get t k = Some r" and "cr_status r = Ready"
  shows "dict_get t' k = Some r"
proof -
  obtain r' where "dict_get t' k = Some r'" and "(cache_step digest cfg)\<^sup>*\<^sup>* r r'"
    using assms(1,2) by (rule table_steps_history)
  with cache_ready.closed_forever [OF this(2) assms(3)] show ?thesis by simp
qed

lemma complete_copy_accepted:
  assumes "complete_copy digest t l a now = Inr (Some x, t1)"
  obtains r where "dict_get t (cl_key l) = Some r" and "lease_current l r"
    and "dict_get t1 (cl_key l) = Some (ready_row digest a now r)"
    and "ready_artifact digest (ready_row digest a now r) = Inr x"
    and "validate_sha256_hex (cl_key l) = Inr ()"
  using assms by (auto simp: complete_copy_def bindr_eq_Inr Let_def split: option.splits if_splits)

text \<open>
C30. Once a copy row is ready, no history of acquisitions, completions and failures by any number of
workers changes what a reader gets for its key.
\<close>

theorem ready_copy_is_immutable:
  assumes "fold_res (cache_exec digest cfg) ops t = Inr t'"
    and "dict_get t key = Some r" and "cr_status r = Ready"
  shows "get_ready digest t' key = get_ready digest t key"
  using ready_row_frozen [OF cache_run_steps [OF assms(1)] assms(2,3)] assms(2) by (simp add: get_ready_def)

theorem ready_copy_is_immutable_witness:
  "\<exists>t'. fold_res (cache_exec demo_digest demo_cache_config)
      [Op_Acquire demo_cache_key ''t2'' ''t3'' 90, Op_Complete demo_lease (JStr ''late'') 95,
       Op_Fail demo_lease ''TIMEOUT'' 96] demo_ready_table = Inr t'
    \<and> get_ready demo_digest t' demo_cache_key = get_ready demo_digest demo_ready_table demo_cache_key"
proof -
  let ?ops = "[Op_Acquire demo_cache_key ''t2'' ''t3'' 90, Op_Complete demo_lease (JStr ''late'') 95,
       Op_Fail demo_lease ''TIMEOUT'' 96]"
  have run: "fold_res (cache_exec demo_digest demo_cache_config) ?ops demo_ready_table = Inr demo_ready_table"
    by code_simp
  have row: "dict_get demo_ready_table demo_cache_key =
      Some (ready_row demo_digest (JStr ''hello'') 5 (new_row demo_cache_config demo_cache_key ''t1'' 0))"
    by (simp add: demo_ready_table_def)
  show ?thesis using ready_copy_is_immutable [OF run row] run by (simp add: ready_row_def)
qed

text \<open>
C29. A lease settles once, and the accepted result is the one served: after a completion is accepted,
every later completion or failure report under the same lease is refused without changing the table,
whatever other workers did in between, and readers get the accepted artifact.
\<close>

theorem accepted_copy_wins:
  assumes "complete_copy digest t l a now = Inr (Some x, t1)"
    and "fold_res (cache_exec digest cfg) ops t1 = Inr t2"
    and "validate_error_code err = Inr ()"
  shows "get_ready digest t2 (cl_key l) = Inr (Some x)
    \<and> complete_copy digest t2 l b now' = Inr (None, t2)
    \<and> fail_copy cfg t2 l err now' = Inr (None, t2)"
proof -
  obtain r where r: "dict_get t1 (cl_key l) = Some (ready_row digest a now r)"
    "ready_artifact digest (ready_row digest a now r) = Inr x" "validate_sha256_hex (cl_key l) = Inr ()"
    using assms(1) by (rule complete_copy_accepted)
  have ready: "cr_status (ready_row digest a now r) = Ready" by (simp add: ready_row_def)
  note frozen = ready_row_frozen [OF cache_run_steps [OF assms(2)] r(1) ready]
  show ?thesis
    using frozen ready r assms(3) by (simp add: get_ready_def complete_copy_def fail_copy_def lease_current_def)
qed

theorem accepted_copy_wins_witness:
  "\<exists>x t1 t2. complete_copy demo_digest demo_leased_table demo_lease (JStr ''hello'') 5 = Inr (Some x, t1)
    \<and> fold_res (cache_exec demo_digest demo_cache_config) [Op_Acquire demo_cache_key ''t2'' ''t3'' 90] t1 = Inr t2
    \<and> get_ready demo_digest t2 demo_cache_key = Inr (Some x)
    \<and> complete_copy demo_digest t2 demo_lease (JStr ''late'') 99 = Inr (None, t2)
    \<and> fail_copy demo_cache_config t2 demo_lease ''TIMEOUT'' 99 = Inr (None, t2)"
proof -
  let ?x = "\<lparr>ca_key = demo_cache_key, ca_artifact = JStr ''hello'', ca_sha = ''shello'', ca_ready_at = 5\<rparr>"
  have c: "complete_copy demo_digest demo_leased_table demo_lease (JStr ''hello'') 5
      = Inr (Some ?x, demo_ready_table)" by code_simp
  have run: "fold_res (cache_exec demo_digest demo_cache_config) [Op_Acquire demo_cache_key ''t2'' ''t3'' 90]
      demo_ready_table = Inr demo_ready_table" by code_simp
  have e: "validate_error_code ''TIMEOUT'' = Inr ()" by code_simp
  have k: "cl_key demo_lease = demo_cache_key" by (simp add: demo_lease_def)
  show ?thesis using accepted_copy_wins [OF c run e, of "JStr ''late''" 99] c run unfolding k by blast
qed






text \<open>
C33. A cache key is only ever built from material without per-child fields: when the key is produced,
no object at any depth of the plan or the configuration has a forbidden field name, whatever its
spelling under case folding.
\<close>

theorem cache_key_material_is_pii_free:
  assumes "build_stable_copy_cache_key nfc fold_name trimmed digest k = Inr key"
  shows "pii_free fold_name (ki_generation_plan k) \<and> pii_free fold_name (ki_generation_config k)"
  using assms json_value_pii_free unfolding build_stable_copy_cache_key_def bindr_eq_Inr by blast

text \<open>ASCII case folding, alphanumerics only, as \<^verbatim>\<open>_compact_field_name\<close> acts on ASCII names.\<close>

definition ascii_field_name :: "string \<Rightarrow> string" where
  "ascii_field_name s =
     filter (\<lambda>c. c \<in> set ''abcdefghijklmnopqrstuvwxyz0123456789'')
       (map (\<lambda>c. if 65 \<le> (of_char c :: nat) \<and> (of_char c :: nat) \<le> 90 then char_of (of_char c + 32 :: nat) else c) s)"

definition demo_key_inputs :: key_inputs where
  "demo_key_inputs = \<lparr>ki_content_revision = ''r1'', ki_content_hash = demo_cache_key,
     ki_copy_slot_id = ''slot'', ki_locale = ''ko'', ki_prompt_version = ''p1'', ki_schema_version = ''s1'',
     ki_validator_version = ''v1'', ki_model_id = ''m'', ki_generation_config = JObj [(''temperature'', JInt 0)],
     ki_generation_plan = JObj [(''slots'', JList [JObj [(''tone'', JStr ''warm'')]])]\<rparr>"

theorem cache_key_material_is_pii_free_witness:
  "pii_free ascii_field_name (ki_generation_plan demo_key_inputs)
    \<and> pii_free ascii_field_name (ki_generation_config demo_key_inputs)"
proof -
  obtain key where "build_stable_copy_cache_key (\<lambda>s. s) ascii_field_name (\<lambda>_. True) (\<lambda>_. ''d'') demo_key_inputs
      = Inr key"
    by (rule that [of "''d''"]) code_simp
  then show ?thesis by (rule cache_key_material_is_pii_free)
qed

section \<open>Backoff\<close>

lemma validate_cache_config_ok:
  "validate_cache_config c = Inr () \<longleftrightarrow>
     0 < lease_seconds c \<and> 0 < retry_base_seconds c \<and> retry_base_seconds c \<le> retry_max_seconds c"
  by (auto simp: validate_cache_config_def check_all_Inr simp del: check_all.simps)

lemma copy_retry_delay_capped:
  assumes "validate_cache_config cfg = Inr ()"
  shows "copy_retry_delay cfg n = capped_backoff (retry_base_seconds cfg) (retry_max_seconds cfg) (n - 1)"
  using assms by (simp add: copy_retry_delay_def validate_cache_config_ok retry_loop_capped)

text \<open>
The cache's doubling loop computes the capped exponential backoff: under an accepted
configuration the delay stays between the base and the maximum, never shrinks as attempts grow, and
is the delay the outbox computes with a power for every attempt number up to 1024, from which on the
outbox raises instead of returning the cap.
\<close>

theorem retry_delays_agree:
  assumes "validate_cache_config cfg = Inr ()" and "m \<le> n"
  shows "copy_retry_delay cfg m \<le> copy_retry_delay cfg n
    \<and> retry_base_seconds cfg \<le> copy_retry_delay cfg n
    \<and> copy_retry_delay cfg n \<le> retry_max_seconds cfg
    \<and> outbox_retry_delay (retry_base_seconds cfg) (retry_max_seconds cfg) n =
        (if n \<le> 1024 then Inr (copy_retry_delay cfg n) else Inl OverflowError)"
proof -
  have c: "0 < retry_base_seconds cfg" "retry_base_seconds cfg \<le> retry_max_seconds cfg"
    using assms(1) by (simp_all add: validate_cache_config_ok)
  show ?thesis
    unfolding copy_retry_delay_capped [OF assms(1)]
    using c assms(2) capped_backoff_bounds [OF c, of "n - 1"]
      capped_backoff_mono [of "retry_base_seconds cfg" "m - 1" "n - 1" "retry_max_seconds cfg"]
    by (auto simp: outbox_retry_delay_def capped_backoff_def)
qed

theorem retry_delays_agree_witness:
  "copy_retry_delay demo_cache_config 3 \<le> copy_retry_delay demo_cache_config 1025
    \<and> copy_retry_delay demo_cache_config 1025 \<le> 60
    \<and> outbox_retry_delay 2 60 1025 = Inl OverflowError"
proof -
  have "validate_cache_config demo_cache_config = Inr ()"
    by (simp add: validate_cache_config_def demo_cache_config_def)
  from retry_delays_agree [OF this, of 3 1025] show ?thesis by (simp add: demo_cache_config_def)
qed

end
