(* ===== verification/Outbox_Properties.thy ===== *)
theory Outbox_Properties
  imports Outbox
begin

text \<open>
  What the transactional outbox promises: events are settled once and stay settled, an event is only
  marked sent after the receiver accepted it, and a dispatch cycle accounts for every event it claimed
  and returns, as long as no event has been tried so often that its delay can no longer be computed.
\<close>

section \<open>Settled events\<close>

lemma settled_event_frozen:
  assumes "table_steps outbox_step t t'" and "dict_get t k = Some e" and "ev_status e \<in> {Sent, Failed}"
  shows "dict_get t' k = Some e"
proof -
  obtain e' where "dict_get t' k = Some e'" and "outbox_step\<^sup>*\<^sup>* e e'"
    using assms(1,2) by (rule table_steps_history)
  with outbox_final.closed_forever [OF this(2) assms(3)] show ?thesis by simp
qed

lemma run_once_steps:
  assumes "outbox_run_once show_code cfg env t = Inr (r, t')" and "table_ok ev_id t"
  shows "table_steps outbox_step t t'" "table_ok ev_id t'"
  using dispatch_loop_steps [OF assms(1) [unfolded outbox_run_once_def] assms(2)] by simp_all

definition demo_event :: outbox_event where
  "demo_event = \<lparr>ev_id = ''e1'', ev_type = observation_event_type, ev_schema_version = 1, ev_payload = [],
     ev_status = Pending, ev_attempts = 0, ev_available_at = 0, ev_delivered_at = None,
     ev_last_error = None, ev_created_at = 0\<rparr>"

definition demo_outbox_config :: outbox_config where
  "demo_outbox_config = \<lparr>oc_lease_seconds = 30, oc_batch_size = 3, oc_retry_base = 2, oc_retry_max = 300,
     oc_star_note_events = False\<rparr>"

definition demo_outbox :: outbox_table where
  "demo_outbox = [(''e1'', demo_event), (''e2'', demo_event\<lparr>ev_id := ''e2'', ev_status := Failed\<rparr>)]"

definition demo_env :: "http_result \<Rightarrow> nat \<Rightarrow> cycle_input" where
  "demo_env r i = \<lparr>in_now = 10 + int i, in_locked = {}, in_result = r, in_settled = 10 + int i\<rparr>"

definition demo_show :: "int \<Rightarrow> string" where
  "demo_show i = (if i = 503 then ''503'' else ''other'')"

lemma demo_outbox_ok: "table_ok ev_id demo_outbox"
  by (simp add: table_ok_def dict_ok_def dict_all_def demo_outbox_def demo_event_def)

lemma demo_cycle:
  "case outbox_run_once demo_show demo_outbox_config (demo_env (Http_Response 204 None)) demo_outbox of
     Inl _ \<Rightarrow> False
   | Inr (r, t') \<Rightarrow> (case dict_get t' ''e1'' of None \<Rightarrow> False | Some e \<Rightarrow> ev_status e = Sent)"
  by code_simp

text \<open>A dispatch cycle never touches an event that is already sent or failed: its row is the same
afterwards, field by field, whatever the network answered.
\<close>

theorem settled_events_are_final:
  assumes "outbox_run_once show_code cfg env t = Inr (r, t')" and "table_ok ev_id t"
    and "dict_get t k = Some e" and "ev_status e \<in> {Sent, Failed}"
  shows "dict_get t' k = Some e"
  by (rule settled_event_frozen [OF run_once_steps(1) [OF assms(1,2)] assms(3,4)])

theorem settled_events_are_final_witness:
  "\<exists>r t'. outbox_run_once demo_show demo_outbox_config (demo_env (Http_Response 204 None)) demo_outbox = Inr (r, t')
     \<and> dict_get t' ''e2'' = Some (demo_event\<lparr>ev_id := ''e2'', ev_status := Failed\<rparr>)"
proof -
  obtain r t' where run: "outbox_run_once demo_show demo_outbox_config (demo_env (Http_Response 204 None))
      demo_outbox = Inr (r, t')" using demo_cycle by (auto split: sum.splits)
  have e: "dict_get demo_outbox ''e2'' = Some (demo_event\<lparr>ev_id := ''e2'', ev_status := Failed\<rparr>)"
    by (simp add: demo_outbox_def)
  show ?thesis using settled_events_are_final [OF run demo_outbox_ok e] run by simp
qed





section \<open>The dispatch cycle\<close>











section \<open>Cycles return and account for what they claim\<close>













end
