(* ===== verification/Ladder_Properties.thy ===== *)
theory Ladder_Properties
  imports Ladder
begin

text \<open>
  What the ladder analysis promises: its decision moves a learner by at most one level, on the evidence
  the policy asks for, and is monotone in the number of correct answers; the recommendation the worker
  stores is one the approval accepts, and an approval moves the stored level once.
\<close>

section \<open>The decision\<close>

lemma ladder_rank_lower: "l \<noteq> LvL0 \<Longrightarrow> ladder_rank (one_step_lower l) + 1 = ladder_rank l"
  by (cases l) auto

lemma ladder_rank_higher: "l \<noteq> LvL4 \<Longrightarrow> ladder_rank (one_step_higher l) = ladder_rank l + 1"
  by (cases l) auto

lemma rank_step_le:
  "ladder_rank (one_step_lower l) \<le> ladder_rank l" "ladder_rank l \<le> ladder_rank (one_step_higher l)"
  "ladder_rank (one_step_lower l) \<le> ladder_rank (one_step_higher l)"
  by (cases l; simp)+

lemma recommended_rank:
  "ladder_rank (ld_recommended_level (decide_ladder_adjustment e)) =
     (case descends_to e of
        Some _ \<Rightarrow> ladder_rank (one_step_lower (le_current_level e))
      | None \<Rightarrow> if enough_for_upgrade e then ladder_rank (one_step_higher (le_current_level e))
                else ladder_rank (le_current_level e))"
  by (simp add: decide_ladder_adjustment_def Let_def split: option.split)

lemma descends_not_L0: "descends_to e = Some reason \<Longrightarrow> le_current_level e \<noteq> LvL0"
  by (auto simp: descends_to_def)

lemma upgrade_levels: "enough_for_upgrade e \<Longrightarrow> le_current_level e \<notin> {LvL0, LvL4}"
  by (auto simp: enough_for_upgrade_def Let_def)

text \<open>
C38. A decision moves the level by at most one step, upwards exactly when it says upgrade and downwards
exactly when it says adjust down; a learner at L0 is never moved.
\<close>

theorem adjustment_moves_one_step:
  "\<bar>int (ladder_rank (ld_recommended_level (decide_ladder_adjustment e))) - int (ladder_rank (le_current_level e))\<bar> \<le> 1
   \<and> (ld_action (decide_ladder_adjustment e) = UPGRADE \<longleftrightarrow>
        ladder_rank (le_current_level e) < ladder_rank (ld_recommended_level (decide_ladder_adjustment e)))
   \<and> (ld_action (decide_ladder_adjustment e) = ADJUST_DOWN \<longleftrightarrow>
        ladder_rank (ld_recommended_level (decide_ladder_adjustment e)) < ladder_rank (le_current_level e))
   \<and> ld_action (decide_ladder_adjustment (e\<lparr>le_current_level := LvL0\<rparr>)) \<in> {MAINTAIN, INSUFFICIENT_EVIDENCE}"
proof -
  have L0: "ld_action (decide_ladder_adjustment (e\<lparr>le_current_level := LvL0\<rparr>)) \<in> {MAINTAIN, INSUFFICIENT_EVIDENCE}"
    by (rule decide_cases [of "e\<lparr>le_current_level := LvL0\<rparr>"]) (auto dest: descends_not_L0 upgrade_levels)
  show ?thesis
  proof (cases rule: decide_cases [of e, case_names down up stay])
    case (down reason)
    with L0 ladder_rank_lower [OF descends_not_L0 [OF down(1)]] show ?thesis by simp
  next
    case up
    with L0 ladder_rank_higher [of "le_current_level e"] upgrade_levels [OF up(2)] show ?thesis by simp
  next
    case stay
    with L0 show ?thesis by auto
  qed
qed

text \<open>
C39. An upgrade rests on mastery evidence: two completed sessions, four attempts at 90 percent, and two
recent speech predictions above the current level. A move from L2 down to L0 rests on rule evidence,
never on predictions or accuracy alone.
\<close>

theorem adjustments_rest_on_evidence:
  assumes "decide_ladder_adjustment e = d"
  shows "(ld_action d = UPGRADE \<longrightarrow>
            2 \<le> le_completed_sessions e \<and> 4 \<le> lp_attempts (current_performance e)
            \<and> 9 * lp_attempts (current_performance e) \<le> 10 * lp_correct (current_performance e)
            \<and> length (last_two (le_predictions e)) = 2
            \<and> (\<forall>l \<in> set (last_two (le_predictions e)). ladder_rank (le_current_level e) < ladder_rank l))
       \<and> (ld_recommended_level d = LvL0 \<and> le_current_level e = LvL2 \<longrightarrow> 0 < le_lower_rule e)"
proof (cases rule: decide_cases [of e, case_names down up stay])
  case (down reason)
  then show ?thesis using assms by (auto simp: descends_to_def Let_def split: if_splits)
next
  case up
  have n: "0 < lp_attempts (current_performance e)" and a: "accuracy (current_performance e) =
      Some (of_int (lp_correct (current_performance e)) / of_int (lp_attempts (current_performance e)))"
    using up(2) by (auto simp: enough_for_upgrade_def Let_def accuracy_def)
  have "(9 :: rat) / 10 \<le> of_int (lp_correct (current_performance e)) / of_int (lp_attempts (current_performance e))"
    using up(2) a by (simp add: enough_for_upgrade_def Let_def)
  then have "(9 :: rat) * of_int (lp_attempts (current_performance e)) \<le> 10 * of_int (lp_correct (current_performance e))"
    using n by (simp add: field_simps)
  then have "(of_int (9 * lp_attempts (current_performance e)) :: rat) \<le> of_int (10 * lp_correct (current_performance e))"
    by simp
  then have q: "9 * lp_attempts (current_performance e) \<le> 10 * lp_correct (current_performance e)"
    by (simp only: of_int_le_iff)
  have len: "length (last_two ps) = 2" if "2 \<le> length ps" for ps :: "ladder_level list"
    using that by (simp add: last_two_def)
  have "le_current_level e \<noteq> LvL4" using upgrade_levels [OF up(2)] by simp
  from up(2,4) q ladder_rank_higher [OF this] len [of "le_predictions e"] upgrade_levels [OF up(2)] show ?thesis
    using assms by (cases "le_current_level e") (auto simp: enough_for_upgrade_def Let_def list_all_iff)
next
  case stay
  then show ?thesis using assms by auto
qed

definition demo_evidence :: ladder_evidence where
  "demo_evidence = \<lparr>le_current_level = LvL3, le_performance = [(LvL3, \<lparr>lp_correct = 9, lp_attempts = 10\<rparr>)],
     le_predictions = [LvL4, LvL4], le_valid_speech = 2, le_lower_rule = 0, le_completed_sessions = 2\<rparr>"

theorem adjustments_rest_on_evidence_witness:
  "ld_action (decide_ladder_adjustment demo_evidence) = UPGRADE
    \<and> 9 * lp_attempts (current_performance demo_evidence) \<le> 10 * lp_correct (current_performance demo_evidence)"
proof -
  have u: "ld_action (decide_ladder_adjustment demo_evidence) = UPGRADE" by code_simp
  from adjustments_rest_on_evidence [OF refl, of demo_evidence] u show ?thesis by simp
qed

lemma current_performance_update:
  "current_performance (e\<lparr>le_performance := AList.update (le_current_level e) p (le_performance e)\<rparr>) = p"
  by (simp add: current_performance_def)

fun better_accuracy :: "rat option \<Rightarrow> rat option \<Rightarrow> bool" where
  "better_accuracy None None \<longleftrightarrow> True"
| "better_accuracy (Some a) (Some b) \<longleftrightarrow> a \<le> b"
| "better_accuracy _ _ \<longleftrightarrow> False"

lemma decision_mono:
  assumes "le_current_level e' = le_current_level e" "le_predictions e' = le_predictions e"
    "le_valid_speech e' = le_valid_speech e" "le_lower_rule e' = le_lower_rule e"
    "le_completed_sessions e' = le_completed_sessions e"
    "lp_attempts (current_performance e') = lp_attempts (current_performance e)"
    and acc: "better_accuracy (accuracy (current_performance e)) (accuracy (current_performance e'))"
  shows "descends_to e' \<noteq> None \<Longrightarrow> descends_to e \<noteq> None" and "enough_for_upgrade e \<Longrightarrow> enough_for_upgrade e'"
proof -
  have low: "(case accuracy (current_performance e') of None \<Rightarrow> False | Some a \<Rightarrow> a < 7 / 10) \<longrightarrow>
      (case accuracy (current_performance e) of None \<Rightarrow> False | Some a \<Rightarrow> a < 7 / 10)"
    and high: "(case accuracy (current_performance e) of None \<Rightarrow> False | Some a \<Rightarrow> 9 / 10 \<le> a) \<longrightarrow>
      (case accuracy (current_performance e') of None \<Rightarrow> False | Some a \<Rightarrow> 9 / 10 \<le> a)"
    using acc by (cases rule: better_accuracy.cases [of "(accuracy (current_performance e),
        accuracy (current_performance e'))"]; simp)+
  show "descends_to e' \<noteq> None \<Longrightarrow> descends_to e \<noteq> None"
    using low by (auto simp: descends_to_def Let_def assms(1-5) split: if_splits)
  show "enough_for_upgrade e \<Longrightarrow> enough_for_upgrade e'"
    using high by (simp add: enough_for_upgrade_def Let_def assms(1-6))
qed

text \<open>The decision is monotone in performance: with everything else equal, more correct answers among
the same attempts never lower the recommended level.
\<close>

theorem more_correct_answers_never_lower:
  assumes "c \<le> c'" and "0 \<le> n"
  shows "ladder_rank (ld_recommended_level (decide_ladder_adjustment (e\<lparr>le_performance :=
             AList.update (le_current_level e) \<lparr>lp_correct = c, lp_attempts = n\<rparr> (le_performance e)\<rparr>)))
         \<le> ladder_rank (ld_recommended_level (decide_ladder_adjustment (e\<lparr>le_performance :=
             AList.update (le_current_level e) \<lparr>lp_correct = c', lp_attempts = n\<rparr> (le_performance e)\<rparr>)))"
proof -
  let ?e = "\<lambda>c. e\<lparr>le_performance :=
      AList.update (le_current_level e) \<lparr>lp_correct = c, lp_attempts = n\<rparr> (le_performance e)\<rparr>"
  have perf: "current_performance (?e c) = \<lparr>lp_correct = c, lp_attempts = n\<rparr>" for c
    using current_performance_update [of e "\<lparr>lp_correct = c, lp_attempts = n\<rparr>"] .
  have "better_accuracy (accuracy (current_performance (?e c))) (accuracy (current_performance (?e c')))"
    using assms unfolding perf accuracy_def by (simp add: divide_right_mono)
  moreover have "lp_attempts (current_performance (?e c')) = lp_attempts (current_performance (?e c))"
    unfolding perf by simp
  ultimately have mono: "descends_to (?e c') \<noteq> None \<Longrightarrow> descends_to (?e c) \<noteq> None"
    "enough_for_upgrade (?e c) \<Longrightarrow> enough_for_upgrade (?e c')"
    using decision_mono [of "?e c'" "?e c"] by simp_all
  note rec = recommended_rank [of "?e c"] recommended_rank [of "?e c'"]
  show ?thesis
  proof (cases "descends_to (?e c')")
    case (Some reason)
    with mono(1) show ?thesis by (auto simp: rec)
  next
    case None
    with mono(2) rank_step_le [of "le_current_level e"] show ?thesis by (cases "descends_to (?e c)") (auto simp: rec)
  qed
qed

theorem more_correct_answers_never_lower_witness:
  "ladder_rank (ld_recommended_level (decide_ladder_adjustment (demo_evidence\<lparr>le_performance :=
      AList.update LvL3 \<lparr>lp_correct = 5, lp_attempts = 10\<rparr> (le_performance demo_evidence)\<rparr>)))
   \<le> ladder_rank (ld_recommended_level (decide_ladder_adjustment (demo_evidence\<lparr>le_performance :=
      AList.update LvL3 \<lparr>lp_correct = 10, lp_attempts = 10\<rparr> (le_performance demo_evidence)\<rparr>)))"
  using more_correct_answers_never_lower [of 5 10 10 demo_evidence] by (simp add: demo_evidence_def)

section \<open>Approval\<close>

lemma canonical_level_text:
  "canonical_level ''L0'' = Inr LvL0" "canonical_level ''L2'' = Inr LvL2"
  "canonical_level ''L3'' = Inr LvL3" "canonical_level ''L4'' = Inr LvL4"
  by code_simp+

lemma canonical_level_value: "canonical_level (level_value l) = Inr l"
  by (cases l) (simp_all add: canonical_level_text)

lemma decision_payload_members:
  "decision_text (decision_payload d ps) ''action'' = action_value (ld_action d)"
  "decision_text (decision_payload d ps) ''current_level'' = level_value (ld_current_level d)"
  "decision_text (decision_payload d ps) ''recommended_level'' = level_value (ld_recommended_level d)"
  by (simp_all add: decision_text_def decision_payload_def)

lemma canonical_expression_of [simp]: "canonical (expression_of l) = expression_of l"
  by (cases l) auto

lemma expression_of_inj [simp]: "expression_of a = expression_of b \<longleftrightarrow> a = b"
  by (cases a; cases b) auto

lemma decision_current: "ld_current_level (decide_ladder_adjustment e) = le_current_level e"
  by (auto simp: decide_ladder_adjustment_def Let_def split: option.split)

definition stored_level :: "approval_state \<Rightarrow> int \<Rightarrow> string \<Rightarrow> expression_level" where
  "stored_level s learner skill =
     (case dict_get (snd s) learner of
        None \<Rightarrow> L2
      | Some p \<Rightarrow> (case dict_get (lp_skills p) skill of None \<Rightarrow> L2 | Some sk \<Rightarrow> canonical (sk_stable_level sk)))"

text \<open>
C40. Every change the worker recommends can be approved: a completed job holding the worker's decision
is accepted for its learner while the learner's stored level is the one the decision was made at, and
the learner's next start level is then the recommended level.
\<close>

theorem worker_decision_is_approvable:
  assumes "dict_get t i = Some r" and "an_learner_id r = learner" and "an_status r = Job_Completed"
    and "an_approved_at r = None"
    and "an_decision r = Some (decision_payload (decide_ladder_adjustment e) ps)"
    and "ld_action (decide_ladder_adjustment e) \<in> {UPGRADE, ADJUST_DOWN}"
    and "stored_level (t, profiles) learner (an_skill_id r) = expression_of (le_current_level e)"
  shows "\<exists>j t' profiles' p. approve (t, profiles) i learner (an_recommendation_version r) now = Inr (j, (t', profiles'))
     \<and> dict_get profiles' learner = Some p
     \<and> select_start_level p (an_skill_id r)
         = expression_of (ld_recommended_level (decide_ladder_adjustment e))"
proof -
  let ?d = "decide_ladder_adjustment e"
  have apart: "one_rank_apart (ld_recommended_level ?d) (le_current_level e)"
    and neq: "ld_recommended_level ?d \<noteq> le_current_level e"
    using adjustment_moves_one_step [of e] assms(6) by (auto simp: one_rank_apart_def)
  have payload: "decision_payload ?d ps \<noteq> []" by (simp add: decision_payload_def)
  have act: "decision_text (decision_payload ?d ps) ''action'' \<in> {''UPGRADE'', ''ADJUST_DOWN''}"
    using assms(6) by (auto simp: decision_payload_members action_value_def)
  have "approve (t, profiles) i learner (an_recommendation_version r) now =
      apply_approval (t, profiles) r (le_current_level e) (ld_recommended_level ?d) now"
    using assms(1-5) payload act apart
    by (simp add: approve_def decision_payload_members canonical_level_value decision_current)
  then show ?thesis
    using assms(2,7) neq
    by (auto simp: apply_approval_def Let_def stored_level_def default_skill_def select_start_level_def
        split: option.splits)
qed

definition demo_job_row :: analysis_row where
  "demo_job_row = \<lparr>an_id = ''ladder_1'', an_idempotency_key = ''k'', an_learner_id = 7, an_skill_id = ''count'',
     an_trigger_session_id = ''s2'', an_session_ids = [''s1'', ''s2''], an_current_level = ''L3'',
     an_performance = [(''L3'', \<lparr>lp_correct = 9, lp_attempts = 10\<rparr>)], an_lower_rule = 0,
     an_status = Job_Completed, an_attempts = 1, an_available_at = 0,
     an_decision = Some (decision_payload (decide_ladder_adjustment demo_evidence) []),
     an_model_version = Some ''m'', an_recommendation_version = 1, an_error_code = None,
     an_approved_at = None, an_completed_at = Some 5, an_created_at = 0, an_updated_at = 5\<rparr>"

definition demo_profiles :: "(int, learner_profile) dict" where
  "demo_profiles = [(7, \<lparr>lp_learner_id = 7, lp_skills = [(''count'', (default_skill ''count'')\<lparr>sk_stable_level := L3\<rparr>)],
     lp_updated_at = 0\<rparr>)]"

theorem worker_decision_is_approvable_witness:
  "\<exists>j t' profiles' p. approve ([(''ladder_1'', demo_job_row)], demo_profiles) ''ladder_1'' 7 1 9
       = Inr (j, (t', profiles'))
     \<and> dict_get profiles' 7 = Some p \<and> select_start_level p ''count'' = L4"
proof -
  have act: "ld_action (decide_ladder_adjustment demo_evidence) = UPGRADE"
    and rec: "ld_recommended_level (decide_ladder_adjustment demo_evidence) = LvL4" by code_simp+
  show ?thesis
    using worker_decision_is_approvable [of "[(''ladder_1'', demo_job_row)]" "''ladder_1''" demo_job_row 7
        demo_evidence "[]" demo_profiles 9] act rec
    by (simp add: demo_job_row_def stored_level_def demo_profiles_def default_skill_def demo_evidence_def)
qed

lemma approve_cases:
  assumes "approve s i learner version now = Inr (j, s')"
  obtains (replay) r where "dict_get (fst s) i = Some r" and "an_approved_at r \<noteq> None" and "s' = s"
  | (fresh) r d current recommended where "dict_get (fst s) i = Some r" and "an_learner_id r = learner"
      and "an_status r = Job_Completed" and "an_decision r = Some d" and "d \<noteq> []"
      and "an_recommendation_version r = version" and "one_rank_apart recommended current"
      and "apply_approval s r current recommended now = Inr (j, s')"
  using assms by (auto simp: approve_def bindr_eq_Inr split: option.splits if_splits)

text \<open>An approval is idempotent: once it was accepted, accepting it again changes neither the job nor any
learner profile, at whatever time it is repeated.
\<close>

theorem approval_is_idempotent:
  assumes "approve s i learner version now = Inr (j, s')" and "table_ok an_id (fst s)"
  shows "\<exists>j'. approve s' i learner version now' = Inr (j', s')"
  using assms(1)
proof (cases rule: approve_cases)
  case (replay r)
  with assms(1) show ?thesis by (auto simp: approve_def bindr_eq_Inr split: option.splits if_splits)
next
  case (fresh r d current recommended)
  have "an_id r = i" using table_ok_rid [OF assms(2) fresh(1)] .
  with fresh show ?thesis
    by (auto simp: apply_approval_def approve_def approve_row_def Let_def split: if_splits)
qed

theorem approval_is_idempotent_witness:
  "\<exists>j s' j'. approve ([(''ladder_1'', demo_job_row)], demo_profiles) ''ladder_1'' 7 1 9 = Inr (j, s')
     \<and> approve s' ''ladder_1'' 7 1 99 = Inr (j', s')"
proof -
  have "case approve ([(''ladder_1'', demo_job_row)], demo_profiles) ''ladder_1'' 7 1 9 of
      Inl _ \<Rightarrow> False | Inr _ \<Rightarrow> True" by code_simp
  then obtain j s' where a: "approve ([(''ladder_1'', demo_job_row)], demo_profiles) ''ladder_1'' 7 1 9
      = Inr (j, s')" by (auto split: sum.splits)
  have "table_ok an_id (fst ([(''ladder_1'', demo_job_row)], demo_profiles))"
    by (simp add: table_ok_def dict_ok_def dict_all_def demo_job_row_def)
  from approval_is_idempotent [OF a this, of 99] a show ?thesis by blast
qed

text \<open>Whatever workers claim, complete, fail or retry, and whatever is approved, a completed job keeps the
decision and the model version it was completed with.
\<close>

theorem completed_decision_is_final:
  assumes "table_ok an_id t" and "ladder_run_once lease_secs batch version env t now locked = (t', res)"
    and "dict_get t i = Some r" and "an_status r = Job_Completed"
  shows "\<exists>r'. dict_get t' i = Some r' \<and> an_status r' = Job_Completed
    \<and> an_decision r' = an_decision r \<and> an_model_version r' = an_model_version r"
proof -
  obtain r' where "dict_get t' i = Some r'" and "job_step\<^sup>*\<^sup>* r r'"
    using conjunct1 [OF ladder_run_once_moves [OF assms(1,2)]] assms(3) by (rule table_steps_history)
  with job_final.closed_forever [OF this(2) assms(4)] show ?thesis by simp
qed

definition demo_worker_input :: "ladder_job \<Rightarrow> worker_input" where
  "demo_worker_input j = \<lparr>wi_speech = Speech [], wi_predict = (\<lambda>_. Predictions []), wi_now = 50\<rparr>"

theorem completed_decision_is_final_witness:
  "\<exists>t' res r'. ladder_run_once 30 5 ''m'' demo_worker_input [(''ladder_1'', demo_job_row)] 40 {} = (t', res)
     \<and> dict_get t' ''ladder_1'' = Some r' \<and> an_decision r' = an_decision demo_job_row"
proof -
  obtain t' res where run: "ladder_run_once 30 5 ''m'' demo_worker_input [(''ladder_1'', demo_job_row)] 40 {}
      = (t', res)" by fastforce
  have ok: "table_ok an_id [(''ladder_1'', demo_job_row)]"
    by (simp add: table_ok_def dict_ok_def dict_all_def demo_job_row_def)
  have "dict_get [(''ladder_1'', demo_job_row)] ''ladder_1'' = Some demo_job_row"
    "an_status demo_job_row = Job_Completed" by (simp_all add: demo_job_row_def)
  from completed_decision_is_final [OF ok run this] run show ?thesis by blast
qed

section \<open>The skill profile\<close>

text \<open>
C35. Finishing a task never raises the stored level and keeps it canonical; it is kept when the skill is
known. For a skill without a profile the stored level becomes L2, while the next start level was L4.
\<close>

theorem finished_task_keeps_stored_level:
  "select_start_level (update_skill_profile p hint level skill) skill =
     (case dict_get (lp_skills p) skill of None \<Rightarrow> L2 | Some sk \<Rightarrow> canonical (sk_stable_level sk))
   \<and> select_start_level (p\<lparr>lp_skills := []\<rparr>) skill = L4"
  by (auto simp: update_skill_profile_def select_start_level_def default_skill_def Let_def canonical_def
      split: option.split)

end
