(* ===== verification/Home_Questions.thy ===== *)
theory Home_Questions
  imports Ledger_Laws
begin

text \<open>
  The conversation state of a home teaching session and what it asks next
  (\<^verbatim>\<open>SessionState\<close> in \<^verbatim>\<open>schemas.py\<close>, the question half of
  \<^verbatim>\<open>dialogue_v2_runtime.py\<close>): the targets that are still open, how the expression level
  narrows them, the question contract of each level, and the understanding request that is built
  for a free-text answer. The conversation state is a record that every step returns updated;
  \<^verbatim>\<open>next\<close> over an authored list raises \<^verbatim>\<open>StopIteration\<close> when
  nothing matches.
\<close>

section \<open>Session state\<close>

record stable_plan =
  st_from_expression :: expression_level
  st_from_hint :: hint_level
  st_to_expression :: expression_level
  st_to_hint :: hint_level
  st_act :: string

record pinned_runtime =
  pr_snapshot :: snapshot
  pr_ledger :: reasoning_ledger
  pr_plans :: "(string, stable_plan) dict"

record session =
  ss_scenario_id :: string
  ss_task_ids :: "string list"
  ss_task_index :: nat
  ss_expression :: expression_level
  ss_hint :: hint_level
  ss_subgoal :: string
  ss_runtime :: runtime_contract_version
  ss_pinned :: "pinned_runtime option"
  ss_verified_slots :: "(string, wire_value) dict"
  ss_completed_slots :: "(string, (string, wire_value) dict) dict"
  ss_status :: session_status
  ss_turn_id :: "string option"
  ss_version :: int
  ss_expression_failures :: nat
  ss_concept_failures :: nat
  ss_vague :: nat
  ss_unrelated :: nat
  ss_max_hint :: hint_level
  ss_child_notes :: "(string, string) dict"
  ss_supported_notes :: "string list"
  ss_all_direct :: bool
  ss_joint_used :: bool
  ss_outcome :: "completion_outcome option"
  ss_reward :: bool

text \<open>\<^verbatim>\<open>current_task_id\<close> indexes the task list, which raises past its end.\<close>

definition current_task_id :: "session \<Rightarrow> string res" where
  "current_task_id s =
     (if ss_task_index s < length (ss_task_ids s) then Inr (ss_task_ids s ! ss_task_index s)
      else Inl IndexError)"

section \<open>Open targets\<close>

definition target_slot_key :: "target_ref \<Rightarrow> string" where
  "target_slot_key t = (case tr_kind t of TK_Fact \<Rightarrow> ''fact:'' | TK_Relation \<Rightarrow> ''relation:'') @ tr_id t"

fun joint_slot_key :: "joint_completion \<Rightarrow> string" where
  "joint_slot_key (JointFact i _) = ''fact:'' @ i"
| "joint_slot_key (JointRelation i) = ''relation:'' @ i"

definition remaining_keys :: "reasoning_completion \<Rightarrow> tkey set" where
  "remaining_keys c = Pair TK_Fact ` set (co_remaining_fact_ids c)
     \<union> Pair TK_Relation ` set (co_remaining_relation_ids c)"

definition ordered_targets :: "home_pack \<Rightarrow> reasoning_completion \<Rightarrow> target_ref list" where
  "ordered_targets p c = filter (\<lambda>t. plan_key t \<in> remaining_keys c) (qp_targets (hp_initial p))"

definition open_partial :: "reasoning_ledger \<Rightarrow> target_ref \<Rightarrow> bool" where
  "open_partial l t \<longleftrightarrow> tr_kind t = TK_Relation \<and> tr_id t \<in> set (dict_keys (partial_relations l))
     \<and> tr_id t \<notin> set (dict_keys (verified_relations l))"

text \<open>
  Below L4 and above L0 the conversation asks one target: a relation that is only partly
  explained first, then the first open target that an authored plan covers.
\<close>

definition narrowed_targets ::
    "expression_level \<Rightarrow> home_pack \<Rightarrow> reasoning_ledger \<Rightarrow> target_ref list \<Rightarrow> target_ref list" where
  "narrowed_targets level p l ordered =
     (if ordered = [] then []
      else if level \<in> {L4, L0} then ordered
      else case List.find (open_partial l) ordered of
          Some t \<Rightarrow> [t]
        | None \<Rightarrow>
          (case List.find (\<lambda>q. qp_targets q ! 0 \<in> set ordered)
                  (if level = L3 then hp_l3_plans p else []) of
             Some q \<Rightarrow> [qp_targets q ! 0]
           | None \<Rightarrow>
             (case List.find (\<lambda>q. lp_target q \<in> set ordered) (hp_l2_plans p) of
                Some q \<Rightarrow> [lp_target q]
              | None \<Rightarrow> [ordered ! 0])))"

definition targets_from_active_state ::
    "(task_pack \<Rightarrow> string) \<Rightarrow> expression_level \<Rightarrow> home_pack \<Rightarrow> reasoning_ledger \<Rightarrow> target_ref list res" where
  "targets_from_active_state H level p l =
     bindr (pin_pack H (Home p)) (\<lambda>sn.
     bindr (reasoning_completion H sn l) (\<lambda>c.
     Inr (narrowed_targets level p l (ordered_targets p c))))"

section \<open>Question contracts\<close>

record question_contract =
  qc_targets :: "target_ref list"
  qc_fallback :: ustr
  qc_input :: input_contract
  qc_slot :: "copy_slot option"

text \<open>Code points of the three fixed Korean labels of an input contract.\<close>

definition label_teach :: ustr where
  "label_teach = [50508, 47140, 51452, 44592]"

definition label_short :: ustr where
  "label_short = [51687, 44172, 32, 50508, 47140, 51480]"

definition label_answer_and_method :: ustr where
  "label_answer_and_method =
     [45813, 44284, 32, 48169, 48277, 51012, 32, 45348, 32, 47568, 47196, 32, 50508, 47140, 51480]"

definition l2_plan_for_targets :: "home_pack \<Rightarrow> target_ref list \<Rightarrow> l2_plan res" where
  "l2_plan_for_targets p ts =
     (case List.find (\<lambda>q. plan_key (lp_target q) \<in> set (map plan_key ts)) (hp_l2_plans p) of
        None \<Rightarrow> Inl (ValueError ''V2 pack has no L2 plan for the remaining target'')
      | Some q \<Rightarrow> Inr q)"

definition active_l2_plan ::
    "(task_pack \<Rightarrow> string) \<Rightarrow> session \<Rightarrow> home_pack \<Rightarrow> reasoning_ledger \<Rightarrow> l2_plan res" where
  "active_l2_plan H s p l =
     (case List.find (\<lambda>q. lp_plan_id q = ss_subgoal s) (hp_l2_plans p) of
        Some q \<Rightarrow> Inr q
      | None \<Rightarrow> bindr (targets_from_active_state H (ss_expression s) p l) (l2_plan_for_targets p))"

fun joint_value :: "joint_completion \<Rightarrow> json" where
  "joint_value (JointFact _ v) = primitive v"
| "joint_value (JointRelation _) = JBool True"

definition joint_expected_values :: "home_pack \<Rightarrow> (string, json) dict" where
  "joint_expected_values p =
     foldl (\<lambda>d c. AList.update (joint_slot_key c) (joint_value c) d) [] (jp_completion (hp_l0 p))"

definition joint_question :: "home_pack \<Rightarrow> target_ref list \<Rightarrow> question_contract res" where
  "joint_question p ts =
     bindr (py_next (\<lambda>c. cs_purpose c = L0_Intro) (hp_copy_slots p)) (\<lambda>intro.
     bindr (py_next (\<lambda>c. cs_purpose c = L0_Action) (hp_copy_slots p)) (\<lambda>action.
     Inr \<lparr>qc_targets = ts, qc_fallback = cs_fallback intro,
          qc_input = \<lparr>kind = IK_JOINT, placeholder = None, choices = [],
            target_slots = map target_slot_key ts, submit_label = Some (jp_button (hp_l0 p)),
            config = [(''text'', WText (cs_fallback action)),
                      (''action_id'', WJson (JStr (jp_action_id (hp_l0 p)))),
                      (''completion_values'', WJson (JObj (joint_expected_values p)))]\<rparr>,
          qc_slot = Some intro\<rparr>))"

definition choice_question :: "home_pack \<Rightarrow> l2_plan \<Rightarrow> question_contract res" where
  "choice_question p q =
     bindr (py_next (\<lambda>c. cs_slot c = lp_copy_slot q) (hp_copy_slots p)) (\<lambda>slot.
     Inr \<lparr>qc_targets = [lp_target q], qc_fallback = cs_fallback slot,
          qc_input = \<lparr>kind = IK_CHOICES, placeholder = None,
            choices = map (\<lambda>c. \<lparr>opt_id = ch_id c, opt_label = ch_label c, opt_disabled = None\<rparr>) (lp_choices q),
            target_slots = [target_slot_key (lp_target q)], submit_label = Some label_teach,
            config = [(''plan_id'', WJson (JStr (lp_plan_id q)))]\<rparr>,
          qc_slot = Some slot\<rparr>)"

definition text_question :: "target_ref list \<Rightarrow> target_ref list \<Rightarrow> ustr \<Rightarrow> ustr \<Rightarrow> question_contract" where
  "text_question ts slots fallback hint =
     \<lparr>qc_targets = ts, qc_fallback = fallback,
      qc_input = \<lparr>kind = IK_TEXT, placeholder = Some hint, choices = [],
        target_slots = map target_slot_key slots, submit_label = Some label_teach, config = []\<rparr>,
      qc_slot = None\<rparr>"

definition empty_question :: question_contract where
  "empty_question =
     \<lparr>qc_targets = [], qc_fallback = [],
      qc_input = \<lparr>kind = IK_NONE, placeholder = None, choices = [], target_slots = [],
        submit_label = None, config = []\<rparr>,
      qc_slot = None\<rparr>"

text \<open>
  \<^verbatim>\<open>_question_contract\<close> also writes the state: it moves the hint to H3 at L0 and records
  the subgoal that is being asked.
\<close>

definition l3_question :: "session \<Rightarrow> home_pack \<Rightarrow> target_ref list \<Rightarrow> (question_contract \<times> session) res" where
  "l3_question s p ts =
     bindr (py_next (\<lambda>q. target_slot_key (qp_targets q ! 0) \<in> set (map target_slot_key ts)) (hp_l3_plans p))
       (\<lambda>q. Inr (text_question (qp_targets q) [qp_targets q ! 0] (qp_fallback q) label_short,
                 s\<lparr>ss_subgoal := qp_plan_id q\<rparr>))"

definition l4_question :: "session \<Rightarrow> home_pack \<Rightarrow> target_ref list \<Rightarrow> (question_contract \<times> session) res" where
  "l4_question s p ts =
     (if 1 < length ts then
        Inr (text_question ts ts (qp_fallback (hp_initial p)) label_answer_and_method,
             s\<lparr>ss_subgoal := qp_plan_id (hp_initial p)\<rparr>)
      else if ts = [] then Inl IndexError
      else bindr (py_next (\<lambda>q. qp_targets q ! 0 = ts ! 0) (hp_l3_plans p))
        (\<lambda>q. Inr (text_question ts ts (qp_fallback q) label_short, s\<lparr>ss_subgoal := qp_plan_id q\<rparr>)))"

definition question_contract_of ::
    "(task_pack \<Rightarrow> string) \<Rightarrow> session \<Rightarrow> home_pack \<Rightarrow> reasoning_ledger
     \<Rightarrow> (question_contract \<times> session) res" where
  "question_contract_of H s p l =
     (if ss_status s = COMPLETED then Inr (empty_question, s)
      else bindr (targets_from_active_state H (ss_expression s) p l) (\<lambda>ts.
        if ss_expression s = L0 then
          bindr (joint_question p ts) (\<lambda>q. Inr (q, s\<lparr>ss_hint := H3, ss_subgoal := ''l0.joint''\<rparr>))
        else if ss_expression s = L2 then
          bindr (l2_plan_for_targets p ts) (\<lambda>pl.
          bindr (choice_question p pl) (\<lambda>q. Inr (q, s\<lparr>ss_subgoal := lp_plan_id pl\<rparr>)))
        else if ss_expression s = L3 then l3_question s p ts
        else l4_question s p ts))"

definition initial_help_question_contract ::
    "home_pack \<Rightarrow> question_contract \<Rightarrow> question_contract res" where
  "initial_help_question_contract p q =
     bindr (py_next (\<lambda>c. cs_purpose c = Initial_Help) (hp_copy_slots p)) (\<lambda>slot.
     Inr \<lparr>qc_targets = cs_targets slot, qc_fallback = cs_fallback slot,
          qc_input = (qc_input q)\<lparr>target_slots := map target_slot_key (cs_targets slot)\<rparr>,
          qc_slot = Some slot\<rparr>)"

end
