(* ===== verification/Home_Request.thy ===== *)
theory Home_Request
  imports Home_Questions
begin

text \<open>
  The understanding request that \<^verbatim>\<open>_understand_text\<close> builds for one free-text turn:
  the facts on the screen, the vocabulary of every fact, the open targets with their rubric and
  truth, the claimable graph, the question context and the help card that is open. Its validation
  is the one of \<^verbatim>\<open>UnderstandingRequestV2\<close> in \<open>Schemas\<close>.
\<close>

section \<open>Targets of the request\<close>

definition suffix_true_claim :: ustr where
  "suffix_true_claim =
     [50640, 32, 45824, 54620, 32, 49688, 54617, 51201, 51004, 47196, 32, 47582, 45716, 32,
     51452, 51109]"

definition text_incomplete_claim :: ustr where
  "text_incomplete_claim =
     [50669, 54624, 51008, 32, 47582, 51648, 47564, 32, 54364, 54788, 51060, 32, 48520, 50756,
     51204, 54620, 32, 51452, 51109]"

definition bar_join :: "ustr list \<Rightarrow> ustr" where
  "bar_join ss = (case ss of [] \<Rightarrow> [] | s # r \<Rightarrow> s @ concat (map (\<lambda>t. [32, 124, 32] @ t) r))"

definition operation_name :: "operation \<Rightarrow> string" where
  "operation_name q =
     (case q of Counting \<Rightarrow> ''counting'' | Comparison \<Rightarrow> ''comparison'' | Addition \<Rightarrow> ''addition''
      | Subtraction \<Rightarrow> ''subtraction'' | Multiplication \<Rightarrow> ''multiplication''
      | Division \<Rightarrow> ''division'' | Selection \<Rightarrow> ''selection'')"

definition find_fact :: "home_pack \<Rightarrow> string \<Rightarrow> content_fact res" where
  "find_fact p i = py_next (\<lambda>f. fact_id f = i) (facts (hp_graph p))"

definition find_relation :: "home_pack \<Rightarrow> string \<Rightarrow> content_relation res" where
  "find_relation p i = py_next (\<lambda>r. relation_id r = i) (relations (hp_graph p))"

definition target_truth :: "home_pack \<Rightarrow> target_ref \<Rightarrow> canonical_value option res" where
  "target_truth p t =
     (if tr_kind t = TK_Relation then Inr None
      else bindr (find_fact p (tr_id t)) (\<lambda>f. Inr (Some (fact_value f))))"

definition target_rubric :: "home_pack \<Rightarrow> target_ref \<Rightarrow> (string \<times> ustr) list res" where
  "target_rubric p t =
     (case tr_kind t of
        TK_Fact \<Rightarrow> bindr (find_fact p (tr_id t)) (\<lambda>f.
          Inr [(''correct'', fact_label f @ suffix_true_claim), (''partial'', text_incomplete_claim)])
      | TK_Relation \<Rightarrow> bindr (find_relation p (tr_id t)) (\<lambda>r.
          Inr [(''sufficient'', bar_join (rb_sufficient (rel_rubric r))),
               (''partial'', bar_join (rb_partial (rel_rubric r))),
               (''incorrect'', bar_join (rb_incorrect (rel_rubric r)))]))"

definition target_semantic_contract :: "home_pack \<Rightarrow> target_ref \<Rightarrow> relation_contract option res" where
  "target_semantic_contract p t =
     (case tr_kind t of
        TK_Fact \<Rightarrow> Inr None
      | TK_Relation \<Rightarrow> bindr (find_relation p (tr_id t)) (\<lambda>r.
          Inr (Some \<lparr>ct_relation_id = relation_id r, ct_speaker_label = rel_label r,
            ct_operation = operation_name (operation r), ct_input_fact_ids = input_fact_ids r,
            ct_output_fact_id = output_fact_id r,
            ct_method_policy = (if evaluation_mode r = ''open_semantic_support''
                                then ''open_equivalent'' else ''canonical_relation''),
            ct_numeric_expression_required = False, ct_answer_required_in_same_utterance = False\<rparr>)))"

definition request_target :: "home_pack \<Rightarrow> target_ref \<Rightarrow> understanding_target res" where
  "request_target p t =
     bindr (target_rubric p t) (\<lambda>rub.
     bindr (target_truth p t) (\<lambda>truth.
     bindr (target_semantic_contract p t) (\<lambda>sc.
     Inr \<lparr>ut_target_kind = tr_kind t, ut_target_id = tr_id t, ut_ask_kind = tr_ask t,
          ut_rubric = rub, ut_expected_truth = truth, ut_semantic_contract = sc\<rparr>)))"

section \<open>Facts and visible elements\<close>

text \<open>
  The vocabulary of a fact: its label without blanks when that differs, and the labels the screen
  shows for it.
\<close>

definition fact_semantic_aliases :: "home_pack \<Rightarrow> string \<Rightarrow> ustr list res" where
  "fact_semantic_aliases p i =
     bindr (find_fact p i) (\<lambda>f.
     let compact = filter (\<lambda>c. c \<noteq> 32) (fact_label f);
         screen = concat (map (\<lambda>b. if fst b = i then (case snd b of None \<Rightarrow> [] | Some s \<Rightarrow> [s]) else [])
                    (hp_rendered_labels p))
     in Inr (dedup ((if compact \<noteq> fact_label f then [compact] else []) @ screen)))"

definition request_fact_context :: "home_pack \<Rightarrow> content_fact \<Rightarrow> fact_context res" where
  "request_fact_context p f =
     bindr (fact_semantic_aliases p (fact_id f)) (\<lambda>aliases.
     Inr \<lparr>cx_fact_id = fact_id f, cx_speaker_label = fact_label f, cx_semantic_aliases = aliases,
          cx_visible = initially_visible f\<rparr>)"

definition visible_facts :: "home_pack \<Rightarrow> (string, json) dict" where
  "visible_facts p = foldl (\<lambda>d f. AList.update (fact_id f) (primitive (fact_value f)) d) []
     (filter initially_visible (facts (hp_graph p)))"

definition hint_name :: "hint_level \<Rightarrow> string" where
  "hint_name h = (case h of H0 \<Rightarrow> ''h0'' | H1 \<Rightarrow> ''h1'' | H2 \<Rightarrow> ''h2'' | H3 \<Rightarrow> ''h3'')"

definition visible_ui_elements :: "home_pack \<Rightarrow> hint_level \<Rightarrow> ui_element list" where
  "visible_ui_elements p h =
     (case help_card_for (hp_help p) h of
        None \<Rightarrow> []
      | Some c \<Rightarrow> [\<lparr>ue_element_id = ''help_card.'' @ hint_name h, ue_text = hc_body c,
                    ue_hint_level = Some h\<rparr>])"

section \<open>The request\<close>

text \<open>\<^verbatim>\<open>xs[-6:]\<close> keeps the last six turns.\<close>

definition last_six :: "'a list \<Rightarrow> 'a list" where
  "last_six xs = drop (length xs - 6) xs"

definition understanding_request_for ::
    "(task_pack \<Rightarrow> string) \<Rightarrow> session \<Rightarrow> home_pack \<Rightarrow> reasoning_ledger \<Rightarrow> child_response \<Rightarrow> ustr
     \<Rightarrow> history_turn list \<Rightarrow> understanding_request res" where
  "understanding_request_for H s p l resp previous_question history =
     (case resp_text resp of
        None \<Rightarrow> Inl AssertionError
      | Some text \<Rightarrow>
        bindr (targets_from_active_state H (ss_expression s) p l) (\<lambda>ts.
        bindr (mapr (request_fact_context p) (facts (hp_graph p))) (\<lambda>contexts.
        bindr (mapr (request_target p) ts) (\<lambda>targets.
        let r = \<lparr>req_task_id = ''home_teaching'', req_visible_facts = visible_facts p,
             req_fact_contexts = contexts, req_targets = targets,
             req_graph = \<lparr>cg_fact_ids = map fact_id (facts (hp_graph p)),
                cg_relation_ids = map relation_id (relations (hp_graph p)),
                cg_open_auxiliary_claims = open_auxiliary_claims (hp_graph p)\<rparr>,
             req_turn = \<lparr>tc_mormi_question = previous_question, tc_asks = dedup (map tr_ask ts),
                tc_expression_level = ss_expression s, tc_hint_level = ss_hint s,
                tc_help_scaffolded_relation_ids =
                  (if ss_hint s \<in> {H2, H3}
                   then map tr_id (filter (\<lambda>t. tr_kind t = TK_Relation) ts) else [])\<rparr>,
             req_ui_elements = visible_ui_elements p (ss_hint s),
             req_history = last_six history, req_child_utterance = text,
             req_guard_feedback_codes = []\<rparr>
        in bindr (validate_understanding_request r) (\<lambda>_. Inr r)))))"

end
