(* ===== verification/Home_Semantics.thy ===== *)
theory Home_Semantics
  imports Home_Request
begin

text \<open>
  What one child response means (the interpretation half of
  \<^verbatim>\<open>dialogue_v2_runtime.py\<close> and \<^verbatim>\<open>dialogue_v2_attempt_graph.py\<close>): free text is
  understood by an external model in at most two attempts, of which the second repairs claims the
  evidence guard rejected; a choice, a joint action and a missing response are resolved by the
  server alone. The answer of the model at an attempt is the argument \<open>gateway\<close>, a function of
  the attempt and of the request it is given.
\<close>

section \<open>Turn semantics\<close>

datatype route = Main | Bridge | Safety | Stable | Understanding_Fallback

datatype understanding_source =
    Sonnet_Low | Deterministic_Fallback | Structured_Choice | Structured_Joint
  | Explicit_No_Response | Silence_Timeout | Asr_Empty

datatype guard_status = Guard_Not_Applicable | Guard_Passed | Guard_Retry_Passed | Guard_Failed

datatype failure_reason =
    Understanding_Timeout | Understanding_Model_Unavailable | Understanding_Model_Output_Invalid
  | Understanding_Evidence_Guard_Failed

record turn_semantics =
  sm_response :: understanding_response
  sm_result :: apply_result
  sm_guarded :: "guarded_understanding option"
  sm_route :: route
  sm_source :: understanding_source
  sm_attempts :: nat
  sm_guard_status :: guard_status
  sm_structured_correct :: "bool option"
  sm_initial_help :: bool
  sm_failure :: "failure_reason option"

definition new_canonical_progress :: "apply_result \<Rightarrow> bool" where
  "new_canonical_progress r \<longleftrightarrow> as_new_fact_ids (ar_state r) \<noteq> [] \<or> as_new_relation_ids (ar_state r) \<noteq> []"

definition new_partial_progress :: "apply_result \<Rightarrow> bool" where
  "new_partial_progress r \<longleftrightarrow> as_new_partial_relation_ids (ar_state r) \<noteq> []"

definition unchanged_result ::
    "(task_pack \<Rightarrow> string) \<Rightarrow> snapshot \<Rightarrow> reasoning_ledger \<Rightarrow> apply_result res" where
  "unchanged_result H sn l =
     bindr (reasoning_completion H sn l) (\<lambda>c.
     Inr \<lparr>ar_ledger = l, ar_state = initial_state l, ar_completion = c,
          ar_completion_became_true = False\<rparr>)"

definition base_semantics ::
    "understanding_response \<Rightarrow> apply_result \<Rightarrow> route \<Rightarrow> understanding_source \<Rightarrow> turn_semantics" where
  "base_semantics resp result rt src =
     \<lparr>sm_response = resp, sm_result = result, sm_guarded = None, sm_route = rt, sm_source = src,
      sm_attempts = 0, sm_guard_status = Guard_Not_Applicable, sm_structured_correct = None,
      sm_initial_help = False, sm_failure = None\<rparr>"

definition route_for_understanding :: "understanding_response \<Rightarrow> route" where
  "route_for_understanding r =
     (if utterance_class r \<in> {UC_SYSTEM_MANIPULATION, UC_SAFETY_RISK} then Safety
      else if ui_reference r \<noteq> None then Main
      else if utterance_class r = UC_NON_LEARNING_SAFE then Bridge
      else if conversation_move r \<in> {MOVE_META_QUESTION, MOVE_REFUSAL, MOVE_SAFE_PLAY}
        \<and> \<not> contains_learning_evidence r then Bridge
      else Main)"

section \<open>Free text: two attempts\<close>

datatype gateway_answer =
    Gateway_Timeout | Gateway_Unavailable | Gateway_Output_Error
  | Candidate understanding_response

type_synonym gateway = "nat \<Rightarrow> understanding_request \<Rightarrow> gateway_answer"

record attempt_context =
  ax_session :: session
  ax_snapshot :: snapshot
  ax_ledger :: reasoning_ledger
  ax_response :: child_response
  ax_request :: understanding_request
  ax_admitted :: "guarded_understanding option"

text \<open>
  Claims that were admitted by the first attempt are immutable: a repair may repeat or add claims,
  never replace one.
\<close>

definition merge_matches :: "evidence_match list \<Rightarrow> evidence_match list \<Rightarrow> (string, evidence_match) dict" where
  "merge_matches old new =
     foldl (\<lambda>d m. if em_claim_id m \<in> set (dict_keys d) then d else AList.update (em_claim_id m) m d)
       (dict_by em_claim_id old) new"

definition merge_claims ::
    "understanding_claim list \<Rightarrow> understanding_claim list \<Rightarrow> (string, understanding_claim) dict" where
  "merge_claims old new =
     foldl (\<lambda>d c. if claim_id c \<in> set (dict_keys d) then d else AList.update (claim_id c) c d)
       (dict_by claim_id old) new"

definition merge_admitted_understanding ::
    "guarded_understanding option \<Rightarrow> guarded_understanding \<Rightarrow> guarded_understanding res" where
  "merge_admitted_understanding existing current =
     (case existing of
        None \<Rightarrow> Inr current
      | Some old \<Rightarrow>
          let merged = map snd (merge_claims (claims (response old)) (claims (response current)));
              ms = merge_matches (evidence_matches old) (evidence_matches current)
          in bindr (mapr (\<lambda>c. py_index ms (claim_id c)) merged) (\<lambda>matches.
             Inr \<lparr>response = (response old)\<lparr>claims := merged, contains_learning_evidence := merged \<noteq> [],
                    ui_reference := (case ui_reference (response old) of
                       None \<Rightarrow> ui_reference (response current) | Some u \<Rightarrow> Some u)\<rparr>,
                  evidence_matches = matches\<rparr>))"

definition understanding_failure_semantics ::
    "(task_pack \<Rightarrow> string) \<Rightarrow> snapshot \<Rightarrow> reasoning_ledger \<Rightarrow> nat \<Rightarrow> failure_reason \<Rightarrow> turn_semantics res" where
  "understanding_failure_semantics H sn l attempts reason =
     bindr (unchanged_result H sn l) (\<lambda>r.
     Inr ((base_semantics (default_response UC_LEARNING_RESPONSE) r Understanding_Fallback
             Deterministic_Fallback)
           \<lparr>sm_attempts := attempts, sm_guard_status := Guard_Failed, sm_failure := Some reason\<rparr>))"

definition is_initial_help :: "session \<Rightarrow> understanding_response \<Rightarrow> bool" where
  "is_initial_help s r \<longleftrightarrow> ss_expression s = L4 \<and> ss_hint s = H0
     \<and> support_need r = SN_GENERAL_HELP \<and> conversation_move r = MOVE_NONE"

definition admitted_understanding_semantics ::
    "(task_pack \<Rightarrow> string) \<Rightarrow> (evidence_key \<Rightarrow> string) \<Rightarrow> attempt_context \<Rightarrow> nat \<Rightarrow> turn_semantics res" where
  "admitted_understanding_semantics H sha cx attempt =
     (case ax_admitted cx of
        None \<Rightarrow> Inl AssertionError
      | Some g \<Rightarrow>
        bindr (apply_guarded_understanding H sha (ax_snapshot cx) (ax_ledger cx) g
                 (turn_id (ax_response cx))) (\<lambda>result.
        let initial_help = is_initial_help (ax_session cx) (response g);
            rt = route_for_understanding (response g);
            rt = (if rt \<in> {Bridge, Safety} \<and> claims (response g) \<noteq> [] then Main else rt)
        in Inr \<lparr>sm_response = response g, sm_result = result, sm_guarded = Some g,
             sm_route = (if initial_help then Stable else rt), sm_source = Sonnet_Low,
             sm_attempts = attempt,
             sm_guard_status = (if attempt = 1 then Guard_Passed else Guard_Retry_Passed),
             sm_structured_correct = None, sm_initial_help = initial_help, sm_failure = None\<rparr>))"

text \<open>A model call that failed keeps what an earlier attempt admitted.\<close>

definition provider_failure ::
    "(task_pack \<Rightarrow> string) \<Rightarrow> (evidence_key \<Rightarrow> string) \<Rightarrow> attempt_context \<Rightarrow> nat \<Rightarrow> failure_reason
     \<Rightarrow> turn_semantics res" where
  "provider_failure H sha cx attempt reason =
     (if ax_admitted cx \<noteq> None then admitted_understanding_semantics H sha cx attempt
      else understanding_failure_semantics H (ax_snapshot cx) (ax_ledger cx) attempt reason)"

definition violation_name :: "violation_code \<Rightarrow> string" where
  "violation_name v =
     (case v of UNKNOWN_FACT_ID \<Rightarrow> ''unknown_fact_id'' | UNKNOWN_RELATION_ID \<Rightarrow> ''unknown_relation_id''
      | AUXILIARY_CLAIMS_DISABLED \<Rightarrow> ''auxiliary_claims_disabled''
      | EVIDENCE_NOT_LITERAL \<Rightarrow> ''evidence_not_literal''
      | RELATION_EVIDENCE_IS_BARE_RESULT \<Rightarrow> ''relation_evidence_is_bare_result'')"

text \<open>An attempt ends the turn (\<open>Inl\<close> semantics) or asks for a repair (\<open>Inr\<close> the new context).\<close>

definition understand_candidate ::
    "(task_pack \<Rightarrow> string) \<Rightarrow> (evidence_key \<Rightarrow> string) \<Rightarrow> (ustr \<Rightarrow> ustr) \<Rightarrow> attempt_context \<Rightarrow> nat
     \<Rightarrow> understanding_response \<Rightarrow> (turn_semantics + attempt_context) res" where
  "understand_candidate H sha nfc cx attempt r =
     (if route_for_understanding r \<in> {Bridge, Safety} \<and> ax_admitted cx = None then
        bindr (unchanged_result H (ax_snapshot cx) (ax_ledger cx)) (\<lambda>u.
        Inr (Inl ((base_semantics r u (route_for_understanding r) Sonnet_Low)\<lparr>sm_attempts := attempt\<rparr>)))
      else
        let a = admit_understanding_response nfc (ax_request cx) r in
        bindr (merge_admitted_understanding (ax_admitted cx) (guarded a)) (\<lambda>g.
        if needs_repair a \<and> attempt = 1 then
          Inr (Inr (cx\<lparr>ax_admitted := (if claims (response g) \<noteq> [] then Some g else None),
                 ax_request := (ax_request cx)\<lparr>req_guard_feedback_codes :=
                   map (\<lambda>v. violation_name (gv_code v)) (quarantined_claims a)\<rparr>\<rparr>))
        else if claims (response g) = [] \<and> needs_repair a then
          bindr (understanding_failure_semantics H (ax_snapshot cx) (ax_ledger cx) attempt
                   Understanding_Evidence_Guard_Failed) (\<lambda>m. Inr (Inl m))
        else bindr (admitted_understanding_semantics H sha (cx\<lparr>ax_admitted := Some g\<rparr>) attempt)
               (\<lambda>m. Inr (Inl m))))"

definition understand_attempt ::
    "(task_pack \<Rightarrow> string) \<Rightarrow> (evidence_key \<Rightarrow> string) \<Rightarrow> (ustr \<Rightarrow> ustr) \<Rightarrow> gateway \<Rightarrow> attempt_context
     \<Rightarrow> nat \<Rightarrow> (turn_semantics + attempt_context) res" where
  "understand_attempt H sha nfc gateway cx attempt =
     (case gateway attempt (ax_request cx) of
        Gateway_Timeout \<Rightarrow> bindr (provider_failure H sha cx attempt Understanding_Timeout) (\<lambda>m. Inr (Inl m))
      | Gateway_Unavailable \<Rightarrow>
          bindr (provider_failure H sha cx attempt Understanding_Model_Unavailable) (\<lambda>m. Inr (Inl m))
      | Gateway_Output_Error \<Rightarrow>
          bindr (provider_failure H sha cx attempt Understanding_Model_Output_Invalid) (\<lambda>m. Inr (Inl m))
      | Candidate r \<Rightarrow> understand_candidate H sha nfc cx attempt r)"

definition understanding_exhausted ::
    "(task_pack \<Rightarrow> string) \<Rightarrow> (evidence_key \<Rightarrow> string) \<Rightarrow> attempt_context \<Rightarrow> turn_semantics res" where
  "understanding_exhausted H sha cx =
     (if ax_admitted cx \<noteq> None then admitted_understanding_semantics H sha cx 2
      else understanding_failure_semantics H (ax_snapshot cx) (ax_ledger cx) 2
             Understanding_Evidence_Guard_Failed)"

text \<open>
  The attempt graph: the operation runs with attempts \<open>1\<close> and \<open>2\<close>, and once more is
  exhausted. \<open>left\<close> is the number of attempts that remain.
\<close>

fun attempt_graph ::
    "('c \<Rightarrow> nat \<Rightarrow> ('r + 'c) res) \<Rightarrow> ('c \<Rightarrow> 'r res) \<Rightarrow> nat \<Rightarrow> nat \<Rightarrow> 'c \<Rightarrow> 'r res" where
  "attempt_graph oper exhausted 0 attempt cx = exhausted cx"
| "attempt_graph oper exhausted (Suc left) attempt cx =
     bindr (oper cx (Suc attempt)) (\<lambda>r. case r of
        Inl result \<Rightarrow> Inr result
      | Inr cx' \<Rightarrow> attempt_graph oper exhausted left (Suc attempt) cx')"

definition run_attempt_graph ::
    "('c \<Rightarrow> nat \<Rightarrow> ('r + 'c) res) \<Rightarrow> ('c \<Rightarrow> 'r res) \<Rightarrow> 'c \<Rightarrow> 'r res" where
  "run_attempt_graph oper exhausted cx = attempt_graph oper exhausted 2 0 cx"

definition understand_text ::
    "(task_pack \<Rightarrow> string) \<Rightarrow> (evidence_key \<Rightarrow> string) \<Rightarrow> (ustr \<Rightarrow> ustr) \<Rightarrow> gateway \<Rightarrow> session
     \<Rightarrow> home_pack \<Rightarrow> snapshot \<Rightarrow> reasoning_ledger \<Rightarrow> child_response \<Rightarrow> ustr \<Rightarrow> history_turn list
     \<Rightarrow> turn_semantics res" where
  "understand_text H sha nfc gateway s p sn l resp previous_question history =
     bindr (understanding_request_for H s p l resp previous_question history) (\<lambda>request.
     run_attempt_graph (understand_attempt H sha nfc gateway) (understanding_exhausted H sha)
       \<lparr>ax_session = s, ax_snapshot = sn, ax_ledger = l, ax_response = resp, ax_request = request,
        ax_admitted = None\<rparr>)"

section \<open>No response, choice and joint action\<close>

definition no_response_semantics ::
    "(task_pack \<Rightarrow> string) \<Rightarrow> session \<Rightarrow> snapshot \<Rightarrow> reasoning_ledger \<Rightarrow> child_response \<Rightarrow> turn_semantics res" where
  "no_response_semantics H s sn l resp =
    (let knd = (case no_response_kind resp of None \<Rightarrow> EXPLICIT_HELP | Some k \<Rightarrow> k);
         semantic = (default_response (if knd = EXPLICIT_HELP then UC_HELP_REQUEST else UC_LEARNING_RESPONSE))
           \<lparr>support_need := (case knd of EXPLICIT_HELP \<Rightarrow> SN_GENERAL_HELP
                               | SILENCE_TIMEOUT \<Rightarrow> SN_EXPRESSION | ASR_EMPTY \<Rightarrow> SN_NONE)\<rparr>;
         src = (case knd of EXPLICIT_HELP \<Rightarrow> Explicit_No_Response
                  | SILENCE_TIMEOUT \<Rightarrow> Silence_Timeout | ASR_EMPTY \<Rightarrow> Asr_Empty)
     in bindr (validate_semantic_contract semantic) (\<lambda>_.
        bindr (unchanged_result H sn l) (\<lambda>u.
        Inr ((base_semantics semantic u (if knd = EXPLICIT_HELP then Stable else Main) src)
               \<lparr>sm_initial_help := (knd = EXPLICIT_HELP \<and> ss_expression s = L4 \<and> ss_hint s = H0)\<rparr>))))"

definition choice_response :: "bool \<Rightarrow> target_kind \<Rightarrow> understanding_response" where
  "choice_response correct tk = (default_response UC_LEARNING_RESPONSE)
     \<lparr>contains_learning_evidence := correct,
      answer_status := (if tk = TK_Fact then (if correct then AS_COMPLETE else AS_INCORRECT)
                        else AS_NOT_APPLICABLE),
      reasoning_status := (if tk = TK_Relation then (if correct then RS_SUFFICIENT else RS_INCORRECT)
                           else RS_NOT_APPLICABLE)\<rparr>"

definition choice_fact_values :: "choice_effect \<Rightarrow> (string, canonical_value) dict" where
  "choice_fact_values e =
     (case ef_value e of
        Some v \<Rightarrow> if ef_target_kind e = TK_Fact then [(ef_target_id e, v)] else []
      | None \<Rightarrow> [])"

definition choice_relation_ids :: "home_pack \<Rightarrow> choice_effect \<Rightarrow> string list" where
  "choice_relation_ids p e =
     (if ef_target_kind e = TK_Relation then dedup (ef_target_id e # hp_note_relation_ids p) else [])"

definition choice_semantics ::
    "(task_pack \<Rightarrow> string) \<Rightarrow> (evidence_key \<Rightarrow> string) \<Rightarrow> session \<Rightarrow> home_pack \<Rightarrow> snapshot
     \<Rightarrow> reasoning_ledger \<Rightarrow> child_response \<Rightarrow> turn_semantics res" where
  "choice_semantics H sha s p sn l resp =
     (if ss_expression s \<noteq> L2 then Inl (ValueError ''choice response is not valid outside L2'')
      else bindr (active_l2_plan H s p l) (\<lambda>pl.
        if length (choice_ids resp) \<noteq> 1 then Inl (ValueError ''V2 L2 response requires exactly one choice'')
        else case List.find (\<lambda>c. ch_id c = choice_ids resp ! 0) (lp_choices pl) of
            None \<Rightarrow> Inl (ValueError ''choice_id does not belong to the pinned V2 plan'')
          | Some c \<Rightarrow>
            let e = ch_effect c; correct = (ef_verdict e = Correct);
                semantic = choice_response correct (ef_target_kind e)
            in bindr (if correct
                      then apply_structured_progress H sha sn l (choice_fact_values e)
                             (choice_relation_ids p e) (turn_id resp) Choice_Source
                      else unchanged_result H sn l) (\<lambda>result.
               bindr (validate_semantic_contract semantic) (\<lambda>_.
               Inr ((base_semantics semantic result Main Structured_Choice)
                      \<lparr>sm_structured_correct := Some correct\<rparr>)))))"

text \<open>
  A joint action performs every completion value of the plan, and every note relation the H3 card
  models. \<open>sort\<close> on the reviewed identifiers is Python's \<^verbatim>\<open>sorted\<close>.
\<close>

definition joint_relation_ids :: "home_pack \<Rightarrow> string list" where
  "joint_relation_ids p =
     dedup (joint_relations (jp_completion (hp_l0 p))
       @ sort (dedup (filter (\<lambda>i. i \<in> set (hc_relations (card_H3 (hp_help p)))) (hp_note_relation_ids p))))"

definition joint_response :: understanding_response where
  "joint_response = (default_response UC_LEARNING_RESPONSE)
     \<lparr>contains_learning_evidence := True, answer_status := AS_COMPLETE, reasoning_status := RS_SUFFICIENT\<rparr>"

definition joint_fact_values :: "home_pack \<Rightarrow> (string, canonical_value) dict" where
  "joint_fact_values p =
     foldl (\<lambda>d u. AList.update (fst u) (snd u) d) [] (joint_facts (jp_completion (hp_l0 p)))"

definition joint_semantics ::
    "(task_pack \<Rightarrow> string) \<Rightarrow> (evidence_key \<Rightarrow> string) \<Rightarrow> session \<Rightarrow> home_pack \<Rightarrow> snapshot
     \<Rightarrow> reasoning_ledger \<Rightarrow> child_response \<Rightarrow> turn_semantics res" where
  "joint_semantics H sha s p sn l resp =
     (if ss_expression s \<noteq> L0 \<or> ss_hint s \<noteq> H3 then Inl (ValueError ''joint response requires L0-H3'')
      else if \<not> same_json_value (JObj (resp_values resp)) (JObj (joint_expected_values p)) then
        Inl (ValueError ''action values do not match pinned joint completion values'')
      else bindr (apply_structured_progress H sha sn l (joint_fact_values p) (joint_relation_ids p)
                    (turn_id resp) Joint_Source) (\<lambda>result.
        bindr (validate_semantic_contract joint_response) (\<lambda>_.
        Inr ((base_semantics joint_response result Stable Structured_Joint)
               \<lparr>sm_structured_correct := Some True\<rparr>))))"

section \<open>Interpretation of a response\<close>

definition interpret_execution ::
    "(task_pack \<Rightarrow> string) \<Rightarrow> (evidence_key \<Rightarrow> string) \<Rightarrow> (ustr \<Rightarrow> ustr) \<Rightarrow> gateway \<Rightarrow> session
     \<Rightarrow> home_pack \<Rightarrow> snapshot \<Rightarrow> reasoning_ledger \<Rightarrow> child_response \<Rightarrow> ustr \<Rightarrow> history_turn list
     \<Rightarrow> turn_semantics res" where
  "interpret_execution H sha nfc gateway s p sn l resp previous_question history =
     (case resp_type resp of
        RT_TEXT \<Rightarrow> understand_text H sha nfc gateway s p sn l resp previous_question history
      | RT_NO_RESPONSE \<Rightarrow> no_response_semantics H s sn l resp
      | RT_CHOICE \<Rightarrow> choice_semantics H sha s p sn l resp
      | RT_FILL \<Rightarrow> choice_semantics H sha s p sn l resp
      | RT_ACTION \<Rightarrow> joint_semantics H sha s p sn l resp
      | _ \<Rightarrow> Inl (ValueError ''V2 home teaching received an unsupported response type''))"

end
