(* ===== verification/Home_Policy.thy ===== *)
theory Home_Policy
  imports Home_Semantics
begin

text \<open>
  What a turn does to the state (the policy half of \<^verbatim>\<open>dialogue_v2_runtime.py\<close>): the
  two support ladders, the storage of the ledger, the slots older clients read, the provenance of
  the note and the completion of the session.
\<close>

section \<open>Support ladders\<close>

definition ui_needs_support :: "understanding_response \<Rightarrow> bool" where
  "ui_needs_support r =
     (case ui_reference r of
        None \<Rightarrow> False
      | Some u \<Rightarrow> ur_interaction u \<in> {ASKS_WHY, ASKS_WHAT_NEXT, EXPRESSES_CONFUSION, CHALLENGES})"

definition asks_for_help_card :: "understanding_response \<Rightarrow> bool" where
  "asks_for_help_card r \<longleftrightarrow>
     conversation_move r \<in> {MOVE_TASK_QUESTION, MOVE_REQUEST_MORMI_ANSWER} \<or> ui_needs_support r"

definition has_incorrect :: "turn_semantics \<Rightarrow> bool" where
  "has_incorrect m \<longleftrightarrow> sm_structured_correct m = Some False
     \<or> (\<exists>c \<in> set (claims (sm_response m)). claim_verdict c = Incorrect)"

definition raise_hint :: "session \<Rightarrow> session" where
  "raise_hint s =
    (let s1 = (case ss_hint s of
                 H0 \<Rightarrow> s\<lparr>ss_hint := H1\<rparr>
               | H1 \<Rightarrow> s\<lparr>ss_hint := H2\<rparr>
               | H2 \<Rightarrow> s\<lparr>ss_hint := H3, ss_expression := L0\<rparr>
               | H3 \<Rightarrow> s);
         s2 = (if ss_expression s1 = L0 then s1\<lparr>ss_hint := H3\<rparr> else s1)
     in s2\<lparr>ss_max_hint := max_hint (ss_max_hint s2) (ss_hint s2)\<rparr>)"

definition lower_expression :: "session \<Rightarrow> session" where
  "lower_expression s =
    (let s1 = s\<lparr>ss_expression_failures := Suc (ss_expression_failures s),
                ss_expression := lower (ss_expression s)\<rparr>
     in if ss_expression s1 = L0 then s1\<lparr>ss_hint := H3, ss_max_hint := H3\<rparr> else s1)"

definition reset_counters :: "session \<Rightarrow> session" where
  "reset_counters s = s\<lparr>ss_expression_failures := 0, ss_concept_failures := 0, ss_vague := 0,
     ss_unrelated := 0\<rparr>"

definition apply_ladder_policy :: "session \<Rightarrow> turn_semantics \<Rightarrow> session" where
  "apply_ladder_policy s m =
    (let r = sm_response m in
     if sm_source m = Deterministic_Fallback then s
     else if new_canonical_progress (sm_result m) then
       (if asks_for_help_card r then raise_hint (reset_counters s) else reset_counters s)
     else if new_partial_progress (sm_result m) then
       (let s1 = s\<lparr>ss_vague := 0, ss_unrelated := 0\<rparr>
        in if ss_expression s1 = L4 then s1\<lparr>ss_expression := L3\<rparr> else s1)
     else if asks_for_help_card r then raise_hint (s\<lparr>ss_vague := 0\<rparr>)
     else if conversation_move r \<in> {MOVE_META_QUESTION, MOVE_REFUSAL, MOVE_SAFE_PLAY}
        \<or> sm_route m \<in> {Bridge, Safety} then s\<lparr>ss_unrelated := Suc (ss_unrelated s)\<rparr>
     else if sm_source m = Asr_Empty then s
     else if sm_source m = Silence_Timeout then lower_expression s
     else if support_need r = SN_EXPRESSION then lower_expression s
     else if support_need r = SN_GENERAL_HELP then raise_hint (lower_expression s)
     else if support_need r \<in> {SN_CONCEPT, SN_BOTH} \<or> has_incorrect m then
       raise_hint (s\<lparr>ss_concept_failures := Suc (ss_concept_failures s)\<rparr>)
     else if ss_vague s = 0 then s\<lparr>ss_vague := 1\<rparr>
     else lower_expression (s\<lparr>ss_vague := 0\<rparr>))"

section \<open>Ledger and legacy slots\<close>

definition store_ledger :: "session \<Rightarrow> reasoning_ledger \<Rightarrow> session res" where
  "store_ledger s l =
     (case ss_pinned s of
        None \<Rightarrow> Inl (ValueError ''missing V2 runtime state'')
      | Some pr \<Rightarrow> Inr (s\<lparr>ss_pinned := Some (pr\<lparr>pr_ledger := l\<rparr>)\<rparr>))"

definition verified_required_relations :: "home_pack \<Rightarrow> reasoning_ledger \<Rightarrow> string list" where
  "verified_required_relations p l =
     filter (\<lambda>i. i \<in> set (dict_keys (verified_relations l)))
       (required_relation_ids (completion (hp_graph p)))"

definition answer_slot :: "home_pack \<Rightarrow> reasoning_ledger \<Rightarrow> content_fact \<Rightarrow> (string, wire_value) dict res" where
  "answer_slot p l final =
     (if fact_id final \<in> set (dict_keys (verified_facts l)) then
        bindr (py_index (dict_by fact_id (facts (hp_graph p))) (fact_id final)) (\<lambda>f.
        Inr [(''answer'', WJson (primitive (fact_value f)))])
      else Inr [])"

definition rule_slot :: "home_pack \<Rightarrow> string list \<Rightarrow> (string, wire_value) dict res" where
  "rule_slot p rids =
     (case rids of
        [] \<Rightarrow> Inr []
      | i # _ \<Rightarrow> bindr (py_index (dict_by relation_id (relations (hp_graph p))) i) (\<lambda>r.
          Inr [(''rule'', WText (rel_label r))]))"

definition final_fact :: "home_pack \<Rightarrow> content_fact res" where
  "final_fact p = py_next (\<lambda>f. fact_role f = Final_Answer) (facts (hp_graph p))"

definition sync_legacy_slots :: "session \<Rightarrow> home_pack \<Rightarrow> reasoning_ledger \<Rightarrow> session res" where
  "sync_legacy_slots s p l =
     bindr (final_fact p) (\<lambda>final.
     bindr (answer_slot p l final) (\<lambda>a.
     bindr (rule_slot p (verified_required_relations p l)) (\<lambda>b.
     Inr (s\<lparr>ss_verified_slots := a @ b\<rparr>))))"

section \<open>Provenance of the note\<close>

definition direct_turn :: "turn_semantics \<Rightarrow> hint_level \<Rightarrow> bool" where
  "direct_turn m before_hint \<longleftrightarrow> sm_source m = Sonnet_Low \<and> before_hint \<in> {H0, H1}"

definition track_relation :: "home_pack \<Rightarrow> bool \<Rightarrow> session \<Rightarrow> string \<Rightarrow> session" where
  "track_relation p direct s i =
     (if i \<notin> set (hp_note_relation_ids p) then s
      else if direct \<and> i \<notin> set (ss_supported_notes s) then
        s\<lparr>ss_child_notes := AList.update i ''verified_relation'' (ss_child_notes s)\<rparr>
      else if i \<notin> set (dict_keys (ss_child_notes s)) then
        s\<lparr>ss_supported_notes := dedup (ss_supported_notes s @ [i])\<rparr>
      else s)"

definition unresolved_notes :: "home_pack \<Rightarrow> reasoning_ledger \<Rightarrow> string list" where
  "unresolved_notes p l =
     sort (dedup (filter (\<lambda>i. i \<notin> set (dict_keys (verified_relations l))) (hp_note_relation_ids p)))"

definition track_note_provenance ::
    "session \<Rightarrow> home_pack \<Rightarrow> turn_semantics \<Rightarrow> hint_level \<Rightarrow> session" where
  "track_note_provenance s p m before_hint =
    (let s1 = foldl (track_relation p (direct_turn m before_hint)) s
                (as_new_relation_ids (ar_state (sm_result m)))
     in if before_hint \<in> {H2, H3} \<or> ss_hint s1 \<in> {H2, H3} then
          s1\<lparr>ss_supported_notes :=
            dedup (ss_supported_notes s1 @ unresolved_notes p (ar_ledger (sm_result m)))\<rparr>
        else s1)"

section \<open>Completion\<close>

definition independent_notes :: "home_pack \<Rightarrow> session \<Rightarrow> bool" where
  "independent_notes p s \<longleftrightarrow> set (hp_note_relation_ids p) \<subseteq> set (dict_keys (ss_child_notes s))"

definition complete_state :: "session \<Rightarrow> home_pack \<Rightarrow> turn_semantics \<Rightarrow> session res" where
  "complete_state s p m =
    (let used = (ss_joint_used s \<or> sm_source m = Structured_Joint);
         outcome = (if independent_notes p s \<and> \<not> used then TAUGHT else SUPPORTED);
         s1 = s\<lparr>ss_joint_used := used, ss_all_direct := independent_notes p s,
                ss_status := COMPLETED, ss_outcome := Some outcome, ss_reward := (outcome = TAUGHT)\<rparr>
     in bindr (current_task_id s1) (\<lambda>t.
        Inr (s1\<lparr>ss_completed_slots := AList.update t (ss_verified_slots s1) (ss_completed_slots s1)\<rparr>)))"

text \<open>\<^verbatim>\<open>_apply_execution\<close>: the whole effect of the interpreted response on the state.\<close>

definition apply_execution :: "session \<Rightarrow> home_pack \<Rightarrow> turn_semantics \<Rightarrow> hint_level \<Rightarrow> session res" where
  "apply_execution s p m before_hint =
     bindr (store_ledger (apply_ladder_policy s m) (ar_ledger (sm_result m))) (\<lambda>s1.
     bindr (sync_legacy_slots s1 p (ar_ledger (sm_result m))) (\<lambda>s2.
     Inr (track_note_provenance s2 p m before_hint)))"

end
