(* ===== verification/Home_Speech.thy ===== *)
theory Home_Speech
  imports Home_Policy
begin

text \<open>
  What Mormi says (the speech half of \<^verbatim>\<open>dialogue_v2_runtime.py\<close>): the speech route,
  the reviewed texts of each route, and the re-ask that the server appends to every text a model
  wrote. The text a model wrote is an input, \<open>None\<close> when the call failed or its output check
  rejected it. Copy is written as code points.
\<close>

section \<open>Fixed copy\<close>

definition txt_this :: ustr where
  "txt_this =
     [51648, 44552, 32, 44417, 44552, 54620, 32, 44163]"

definition txt_and_consonant :: ustr where
  "txt_and_consonant =
     [51060, 46993]"

definition txt_and_vowel :: ustr where
  "txt_and_vowel =
     [46993]"

definition txt_and_other :: ustr where
  "txt_and_other =
     [54616, 44256]"

definition txt_and_last :: ustr where
  "txt_and_last =
     [44, 32, 44536, 47532, 44256, 32]"

definition txt_card_order :: ustr where
  "txt_card_order =
     [46020, 50880, 32, 52852, 46300, 50640, 32, 45208, 50728, 32, 49692, 49436, 45824, 47196,
     32]"

definition txt_do_together :: ustr where
  "txt_do_together =
     [44, 32, 45208, 50752, 32, 44057, 51060, 32, 54644, 32, 51460, 32, 49688, 32, 51080,
     50612, 63]"

definition txt_card_again :: ustr where
  "txt_card_again =
     [46020, 50880, 32, 52852, 46300, 47484, 32, 48372, 44256, 32, 45796, 49884, 32]"

definition txt_please_tell :: ustr where
  "txt_please_tell =
     [32, 50508, 47140, 51452, 47732, 32, 50504, 32, 46112, 44620, 63]"

definition txt_can_tell :: ustr where
  "txt_can_tell =
     [32, 50508, 47140, 51460, 32, 49688, 32, 51080, 50612, 63]"

definition txt_count_method :: ustr where
  "txt_count_method =
     [49464, 45716, 32, 48169, 48277]"

definition txt_compare_method :: ustr where
  "txt_compare_method =
     [48708, 44368, 54616, 45716, 32, 48169, 48277]"

definition txt_compute_method :: ustr where
  "txt_compute_method =
     [44228, 49328, 32, 48169, 48277]"

definition txt_select_method :: ustr where
  "txt_select_method =
     [44256, 47476, 45716, 32, 48169, 48277]"

definition txt_open_why :: ustr where
  "txt_open_why =
     [44536, 47084, 44172, 44, 32, 50780, 32, 44536, 47088, 51648, 45716, 32, 45208, 46020, 32,
     50500, 51649, 32, 47784, 47476, 44192, 50612, 46, 46, 46]"

definition txt_open_next :: ustr where
  "txt_open_next =
     [45208, 46020, 32, 44536, 45796, 51020, 50640, 32, 47960, 32, 54644, 50556, 32, 54616,
     45716, 51648, 45716, 32, 50500, 51649, 32, 47784, 47476, 44192, 50612, 46, 46, 46]"

definition txt_open_confused :: ustr where
  "txt_open_confused =
     [44536, 47084, 44172, 44, 32, 46020, 50880, 32, 52852, 46300, 47484, 32, 48400, 46020, 32,
     45208, 46020, 32, 50500, 51649, 32, 50612, 47157, 45348, 46, 46, 46]"

definition txt_open_challenge :: ustr where
  "txt_open_challenge =
     [44536, 47084, 44172, 44, 32, 50780, 32, 44536, 47111, 44172, 32, 51201, 54784, 32, 51080,
     45716, 51648, 45716, 32, 45208, 46020, 32, 50500, 51649, 32, 44417, 44552, 54644, 46, 46,
     46]"

definition txt_open_unsure :: ustr where
  "txt_open_unsure =
     [45208, 46020, 32, 50500, 51649, 32, 51096, 32, 47784, 47476, 44192, 50612, 46, 46, 46]"

definition txt_new_card :: ustr where
  "txt_new_card =
     [32, 50612, 63, 32, 45796, 47480, 32, 46020, 50880, 32, 52852, 46300, 44032, 32, 45208,
     50772, 50612, 46]"

definition txt_i_am_ai :: ustr where
  "txt_i_am_ai =
     [45208, 45716, 32, 65, 73, 51648, 47564, 44, 32, 45348, 44032, 32, 44032, 47476, 52432,
     32, 51452, 51648, 32, 50506, 51008, 32, 44148, 32, 51096, 32, 47792, 46972, 46, 46, 46,
     32]"

definition txt_untaught :: ustr where
  "txt_untaught =
     [45208, 45716, 32, 45348, 44032, 32, 44032, 47476, 52432, 32, 51452, 51648, 32, 50506,
     51008, 32, 44148, 32, 51096, 32, 47792, 46972, 46, 46, 46, 32]"

definition txt_want_to_know :: ustr where
  "txt_want_to_know =
     [45208, 32, 44845, 32, 50508, 44256, 32, 49910, 51008, 45936, 46, 46, 46, 32]"

definition txt_no_play :: ustr where
  "txt_no_play =
     [45208, 45716, 32, 51109, 45212, 32, 47568, 44256, 32, 51648, 44552, 51008, 32]"

definition txt_curious :: ustr where
  "txt_curious =
     [51060, 32, 44417, 44552, 54644, 46, 32]"

definition txt_dont_know_how :: ustr where
  "txt_dont_know_how =
     [45208, 45716, 32, 50612, 46523, 44172, 32, 54616, 45716, 32, 44148, 51648, 32, 47792,
     46972, 46, 46, 46, 32]"

definition txt_card_appeared :: ustr where
  "txt_card_appeared =
     [45208, 46020, 32, 50500, 51649, 32, 51096, 32, 47784, 47476, 44192, 50612, 46, 46, 46,
     32, 50612, 63, 32, 46020, 50880, 32, 52852, 46300, 44032, 32, 45208, 50772, 50612, 46, 32]"

definition txt_still_unsure :: ustr where
  "txt_still_unsure =
     [45208, 46020, 32, 50500, 51649, 32, 51096, 32, 47784, 47476, 44192, 50612, 46, 46, 46,
     32]"

definition txt_bridge :: ustr where
  "txt_bridge =
     [50724, 44, 32, 44536, 47088, 32, 51060, 50556, 44592, 46020, 32, 51080, 44396, 45208, 46,
     32, 44536, 47088, 45936, 32, 45208, 45716, 32, 50500, 51649, 32, 44417, 44552, 54644, 46,
     46, 46, 32]"

definition txt_is_it :: ustr where
  "txt_is_it =
     [50612, 44, 32, 44536, 47088, 44032, 63, 32, 45208, 32, 50500, 51649, 32, 51096, 32,
     47784, 47476, 44192, 50612, 46, 46, 46]"

definition txt_confused_part :: ustr where
  "txt_confused_part =
     [51020, 44, 32, 45236, 44032, 32, 50500, 51649, 32, 54775, 44040, 47532, 45716, 32, 48512,
     48516, 51060, 32, 51080, 45208, 32, 48400, 46, 46, 46]"

definition txt_not_understood :: ustr where
  "txt_not_understood =
     [51020, 44, 32, 45236, 44032, 32, 50500, 51649, 32, 51096, 32, 47803, 32, 50508, 50500,
     46308, 50632, 50612, 46, 46, 46, 32]"

definition txt_not_repeat :: ustr where
  "txt_not_repeat =
     [44536, 32, 47568, 51008, 32, 46384, 46972, 32, 54616, 51648, 32, 50506, 51012, 44172, 46,
     32]"

definition txt_thanks :: ustr where
  "txt_thanks =
     [44256, 47560, 50892, 126, 32, 45348, 44032, 32, 46020, 50752, 51480, 49436, 32, 45149,
     44620, 51648, 32, 51060, 54644, 54624, 32, 49688, 32, 51080, 50632, 50612, 33]"

definition txt_oh :: ustr where
  "txt_oh =
     [50500, 44, 32]"

definition txt_is :: ustr where
  "txt_is =
     [51060, 44396, 45208, 126]"

definition txt_told_values :: ustr where
  "txt_told_values =
     [50500, 44, 32, 50508, 47140, 32, 51456, 32, 44050, 51008, 32]"

definition txt_yes :: ustr where
  "txt_yes =
     [44536, 47111, 45796]"

definition txt_no :: ustr where
  "txt_no =
     [50500, 45768, 45796]"

section \<open>Re-asking the open targets\<close>

definition relation_focus_label :: "operation \<Rightarrow> ustr" where
  "relation_focus_label q =
     (case q of Counting \<Rightarrow> txt_count_method | Comparison \<Rightarrow> txt_compare_method
      | Selection \<Rightarrow> txt_select_method | _ \<Rightarrow> txt_compute_method)"

text \<open>
  \<^verbatim>\<open>_speaker_target_focus\<close>: a fact is named by its reviewed label, a relation only by a
  neutral label of its operation, because its own label can contain the method.
\<close>

definition speaker_target_focus :: "home_pack \<Rightarrow> target_ref list \<Rightarrow> ustr list res" where
  "speaker_target_focus p ts = mapr (\<lambda>t.
     case tr_kind t of
       TK_Fact \<Rightarrow> bindr (py_index (dict_by fact_id (facts (hp_graph p))) (tr_id t)) (\<lambda>f. Inr (fact_label f))
     | TK_Relation \<Rightarrow> bindr (py_index (dict_by relation_id (relations (hp_graph p))) (tr_id t))
         (\<lambda>r. Inr (relation_focus_label (operation r)))) ts"

definition rstrip :: "ustr \<Rightarrow> ustr" where
  "rstrip s = rev (dropWhile is_space (rev s))"

definition with_and_particle :: "ustr \<Rightarrow> ustr" where
  "with_and_particle label =
    (let stripped = rstrip label in
     if stripped = [] then label
     else let c = last stripped in
       if 44032 \<le> c \<and> c \<le> 55203 then
         stripped @ (if (c - 44032) mod 28 \<noteq> 0 then txt_and_consonant else txt_and_vowel)
       else stripped @ txt_and_other)"

definition comma_join :: "ustr list \<Rightarrow> ustr" where
  "comma_join ss = (case ss of [] \<Rightarrow> [] | s # r \<Rightarrow> s @ concat (map (\<lambda>t. [44, 32] @ t) r))"

definition join_reask_labels :: "ustr list \<Rightarrow> ustr" where
  "join_reask_labels labels =
     (if labels = [] then txt_this
      else if length labels = 1 then labels ! 0
      else if length labels = 2 then with_and_particle (labels ! 0) @ [32] @ labels ! 1
      else comma_join (butlast labels) @ txt_and_last @ last labels)"

datatype response_mode =
    Explain_Ai_Role | Explain_Mormi_Limit | Respond_Refusal | Respond_Safe_Play
  | Decline_Answer_And_Ask | Redirect_To_Help_Card | Safety_Redirect | Normal_Response

datatype reask_mode = Joint_Action | Help_Guided_Targets | Remaining_Targets

record response_plan =
  rp_mode :: response_mode
  rp_reask :: reask_mode
  rp_labels :: "ustr list"
  rp_card_visible :: bool
  rp_card_event :: bool

definition response_mode_for :: "session \<Rightarrow> turn_semantics \<Rightarrow> response_mode" where
  "response_mode_for s m =
    (let r = sm_response m; card_visible = (ss_hint s \<noteq> H0) in
     case conversation_move r of
       MOVE_META_QUESTION \<Rightarrow>
         if move_subject r = SUBJ_MORMI_AI_IDENTITY then Explain_Ai_Role else Explain_Mormi_Limit
     | MOVE_REFUSAL \<Rightarrow> Respond_Refusal
     | MOVE_SAFE_PLAY \<Rightarrow> Respond_Safe_Play
     | MOVE_REQUEST_MORMI_ANSWER \<Rightarrow> Decline_Answer_And_Ask
     | mv \<Rightarrow>
         if mv = MOVE_TASK_QUESTION \<or> ui_reference r \<noteq> None
            \<or> (card_visible \<and> (has_incorrect m
                 \<or> support_need r \<in> {SN_CONCEPT, SN_BOTH, SN_GENERAL_HELP})) then Redirect_To_Help_Card
         else if sm_route m = Safety then Safety_Redirect else Normal_Response)"

definition conversation_response_plan ::
    "session \<Rightarrow> home_pack \<Rightarrow> turn_semantics \<Rightarrow> question_contract \<Rightarrow> hint_level \<Rightarrow> response_plan res" where
  "conversation_response_plan s p m q before_hint =
     bindr (speaker_target_focus p (qc_targets q)) (\<lambda>labels.
     let md = response_mode_for s m in
     Inr \<lparr>rp_mode = md,
       rp_reask = (if ss_expression s = L0 then Joint_Action
                   else if md \<in> {Redirect_To_Help_Card, Decline_Answer_And_Ask} then Help_Guided_Targets
                   else Remaining_Targets),
       rp_labels = labels, rp_card_visible = (ss_hint s \<noteq> H0),
       rp_card_event = (ss_hint s \<noteq> H0 \<and> ss_hint s \<noteq> before_hint)\<rparr>)"

definition safe_reask_text :: "response_plan \<Rightarrow> ustr" where
  "safe_reask_text pl =
    (let target = join_reask_labels (dedup (rp_labels pl)) in
     case rp_reask pl of
       Joint_Action \<Rightarrow> txt_card_order @ target @ txt_do_together
     | Help_Guided_Targets \<Rightarrow>
         txt_card_again @ target
           @ (if rp_mode pl = Decline_Answer_And_Ask then txt_please_tell else txt_can_tell)
     | Remaining_Targets \<Rightarrow>
         target @ (if rp_mode pl = Respond_Refusal then txt_please_tell else txt_can_tell))"

definition compose_reaction_and_reask :: "ustr \<Rightarrow> ustr \<Rightarrow> ustr" where
  "compose_reaction_and_reask reaction reask =
     (let r = strip reaction in if r = [] then reask else r @ [32] @ reask)"

section \<open>Reviewed texts\<close>

definition ui_opening :: "ui_interaction \<Rightarrow> ustr" where
  "ui_opening i =
     (case i of ASKS_WHY \<Rightarrow> txt_open_why | ASKS_WHAT_NEXT \<Rightarrow> txt_open_next
      | EXPRESSES_CONFUSION \<Rightarrow> txt_open_confused | CHALLENGES \<Rightarrow> txt_open_challenge
      | UI_OTHER \<Rightarrow> txt_open_unsure | UI_UNCERTAIN \<Rightarrow> txt_open_unsure)"

definition fallback_opening ::
    "turn_semantics \<Rightarrow> ustr \<Rightarrow> bool \<Rightarrow> nat \<Rightarrow> ustr" where
  "fallback_opening m focus strengthened repeat_count =
    (let r = sm_response m in
     case ui_reference r of
       Some u \<Rightarrow> ui_opening (ur_interaction u) @ (if strengthened then txt_new_card else []) @ [32]
     | None \<Rightarrow>
       (case conversation_move r of
          MOVE_META_QUESTION \<Rightarrow>
            if move_subject r = SUBJ_MORMI_AI_IDENTITY then txt_i_am_ai else txt_untaught
        | MOVE_REFUSAL \<Rightarrow> txt_want_to_know
        | MOVE_SAFE_PLAY \<Rightarrow> txt_no_play @ focus @ txt_curious
        | MOVE_REQUEST_MORMI_ANSWER \<Rightarrow> txt_dont_know_how
        | MOVE_TASK_QUESTION \<Rightarrow> if strengthened then txt_card_appeared else txt_still_unsure
        | MOVE_NONE \<Rightarrow>
            if sm_route m = Bridge then txt_bridge
            else if has_incorrect m \<or> support_need r \<in> {SN_CONCEPT, SN_BOTH} then
              (if repeat_count \<le> 1 then txt_is_it else txt_confused_part) @ [32]
            else txt_not_understood))"

definition fallback_reask :: "turn_semantics \<Rightarrow> ustr \<Rightarrow> input_kind \<Rightarrow> bool \<Rightarrow> ustr" where
  "fallback_reask m focus knd card_visible =
    (let plain = focus @ txt_please_tell;
         reask = (if knd = IK_JOINT then txt_card_order @ focus @ txt_do_together
                  else if card_visible then txt_card_again @ focus @ txt_please_tell
                  else plain)
     in if ui_reference (sm_response m) = None \<and> conversation_move (sm_response m) = MOVE_REFUSAL
           \<and> knd \<noteq> IK_JOINT then plain else reask)"

definition conversational_fallback ::
    "home_pack \<Rightarrow> turn_semantics \<Rightarrow> question_contract \<Rightarrow> bool \<Rightarrow> bool \<Rightarrow> nat \<Rightarrow> ustr res" where
  "conversational_fallback p m q card_visible strengthened repeat_count =
     bindr (speaker_target_focus p (qc_targets q)) (\<lambda>labels.
     let focus = join_reask_labels (dedup labels) in
     Inr (fallback_opening m focus strengthened repeat_count
            @ fallback_reask m focus (kind (qc_input q)) card_visible))"

definition unsafe_fallback :: "ustr \<Rightarrow> ustr" where
  "unsafe_fallback question = txt_not_repeat @ question"

text \<open>
  \<^verbatim>\<open>_reviewed_fact_acknowledgement\<close> repeats the reviewed surface form of each new fact;
  \<open>render_value\<close> is Python's formatting of a value that has none.
\<close>

definition fact_surface :: "(canonical_value \<Rightarrow> ustr) \<Rightarrow> content_fact \<Rightarrow> ustr" where
  "fact_surface render_value f =
     (case surface_forms f of s # _ \<Rightarrow> s | [] \<Rightarrow> render_value (fact_value f))"

definition reviewed_fact_acknowledgement ::
    "(canonical_value \<Rightarrow> ustr) \<Rightarrow> home_pack \<Rightarrow> string list \<Rightarrow> ustr res" where
  "reviewed_fact_acknowledgement render_value p ids =
     bindr (mapr (\<lambda>i. bindr (py_index (dict_by fact_id (facts (hp_graph p))) i)
                    (\<lambda>f. Inr (fact_surface render_value f))) ids) (\<lambda>surfaces.
     Inr (if length surfaces = 1 then txt_oh @ surfaces ! 0 @ txt_is
          else txt_told_values @ comma_join surfaces @ txt_is))"

section \<open>Dialogue acts and speech route\<close>

datatype dialogue_act =
    Bridge_Back | Safe_Redirect | Offer_Initial_Help | Complete_Joint_Work
  | Redirect_To_Reviewed_Support | Acknowledge_Progress_Then_Ask | Reask_With_Support
  | Offer_Support | Clarify_Then_Reask | Stable_Act string

definition dialogue_act_of :: "turn_semantics \<Rightarrow> dialogue_act" where
  "dialogue_act_of m =
     (if sm_route m = Bridge then Bridge_Back
      else if sm_route m = Safety then Safe_Redirect
      else if sm_initial_help m then Offer_Initial_Help
      else if sm_source m = Structured_Joint then Complete_Joint_Work
      else if conversation_move (sm_response m) \<in> {MOVE_TASK_QUESTION, MOVE_REQUEST_MORMI_ANSWER}
        then Redirect_To_Reviewed_Support
      else if new_canonical_progress (sm_result m) then Acknowledge_Progress_Then_Ask
      else if has_incorrect m then Reask_With_Support
      else if support_need (sm_response m) \<noteq> SN_NONE then Offer_Support
      else Clarify_Then_Reask)"

definition uses_reviewed_expression_support :: "turn_semantics \<Rightarrow> bool" where
  "uses_reviewed_expression_support m \<longleftrightarrow>
     sm_route m = Main \<and> sm_source m = Sonnet_Low
     \<and> support_need (sm_response m) = SN_EXPRESSION
     \<and> conversation_move (sm_response m) = MOVE_NONE
     \<and> \<not> contains_learning_evidence (sm_response m)
     \<and> \<not> new_canonical_progress (sm_result m) \<and> \<not> new_partial_progress (sm_result m)"

text \<open>
  \<^verbatim>\<open>_stable_fallback\<close>: the reviewed copy of the slot may be used when the turn made
  exactly the ladder transition the plan was compiled for. \<open>resolved\<close> is the text of the
  stable-copy cache after its output check, \<open>None\<close> when the reviewed fallback stands.
\<close>

definition stable_fallback ::
    "session \<Rightarrow> question_contract \<Rightarrow> expression_level \<Rightarrow> hint_level \<Rightarrow> (string \<Rightarrow> ustr option)
     \<Rightarrow> (ustr \<times> dialogue_act) option res" where
  "stable_fallback s q before_expression before_hint resolved =
     (case qc_slot q of
        None \<Rightarrow> Inr None
      | Some slot \<Rightarrow>
        (case ss_pinned s of
           None \<Rightarrow> Inl (ValueError ''missing V2 runtime state'')
         | Some pr \<Rightarrow>
           (case dict_get (pr_plans pr) (cs_slot slot) of
              None \<Rightarrow> Inl (ValueError ''pinned stable-copy plan is missing for the copy slot'')
            | Some pl \<Rightarrow>
                if st_from_expression pl \<noteq> before_expression \<or> st_from_hint pl \<noteq> before_hint
                   \<or> st_to_expression pl \<noteq> ss_expression s \<or> st_to_hint pl \<noteq> ss_hint s
                then Inr None
                else Inr (Some (if cs_purpose slot \<in> {L0_Intro, L0_Action} then cs_fallback slot
                                else case resolved (cs_slot slot) of None \<Rightarrow> cs_fallback slot | Some t \<Rightarrow> t,
                                Stable_Act (st_act pl))))))"

datatype speech_route = Speak_Understanding_Fallback | Speak_Stable | Speak_Safety | Speak_Bridge | Speak_Main

definition execution_speech_route :: "turn_semantics \<Rightarrow> 'a option \<Rightarrow> speech_route" where
  "execution_speech_route m resolution =
     (if sm_route m = Understanding_Fallback then Speak_Understanding_Fallback
      else if resolution \<noteq> None \<and> sm_route m = Stable then Speak_Stable
      else if sm_route m = Safety then Speak_Safety
      else if sm_route m = Bridge then Speak_Bridge
      else Speak_Main)"

section \<open>The text of a turn\<close>

record speech =
  sp_text :: ustr
  sp_act :: dialogue_act

record speech_context =
  sx_question :: question_contract
  sx_stable :: "(ustr \<times> dialogue_act) option"
  sx_fallback :: ustr

text \<open>
  \<open>model_text\<close> is the reaction a speaker model wrote and the output check accepted.
\<close>

definition speak ::
    "(canonical_value \<Rightarrow> ustr) \<Rightarrow> session \<Rightarrow> home_pack \<Rightarrow> turn_semantics \<Rightarrow> question_contract
     \<Rightarrow> ustr \<Rightarrow> hint_level \<Rightarrow> ustr option \<Rightarrow> ustr res" where
  "speak render_value s p m q fallback before_hint model_text =
     bindr (conversation_response_plan s p m q before_hint) (\<lambda>pl.
     if progress_kind (ar_state (sm_result m)) = ANSWER_ONLY
        \<and> conversation_move (sm_response m) = MOVE_NONE then
       bindr (reviewed_fact_acknowledgement render_value p (as_new_fact_ids (ar_state (sm_result m)))) (\<lambda>ack.
       Inr (compose_reaction_and_reask ack (safe_reask_text pl)))
     else Inr (case model_text of
                 None \<Rightarrow> fallback
               | Some t \<Rightarrow> compose_reaction_and_reask (strip t) (safe_reask_text pl)))"

definition bridge_text ::
    "session \<Rightarrow> home_pack \<Rightarrow> turn_semantics \<Rightarrow> question_contract \<Rightarrow> ustr \<Rightarrow> hint_level
     \<Rightarrow> ustr option \<Rightarrow> ustr res" where
  "bridge_text s p m q fallback before_hint model_text =
     bindr (conversation_response_plan s p m q before_hint) (\<lambda>pl.
     Inr (case model_text of
            None \<Rightarrow> fallback
          | Some t \<Rightarrow> compose_reaction_and_reask t (safe_reask_text pl)))"

definition prepare_speech ::
    "(task_pack \<Rightarrow> string) \<Rightarrow> session \<Rightarrow> session \<Rightarrow> home_pack \<Rightarrow> turn_semantics
     \<Rightarrow> (string \<Rightarrow> ustr option) \<Rightarrow> (speech_context \<times> session) res" where
  "prepare_speech H prior s p m resolved =
     bindr (question_contract_of H s p (ar_ledger (sm_result m))) (\<lambda>(q0, s1).
     bindr (if sm_initial_help m then initial_help_question_contract p q0 else Inr q0) (\<lambda>q.
     bindr (stable_fallback s1 q (ss_expression prior) (ss_hint prior) resolved) (\<lambda>resolution.
     bindr (conversational_fallback p m q (ss_hint s1 \<noteq> H0) (ss_hint s1 \<noteq> ss_hint prior)
              (ss_concept_failures s1)) (\<lambda>fb.
     Inr (\<lparr>sx_question = q, sx_stable = resolution, sx_fallback = fb\<rparr>, s1)))))"

definition render_speech ::
    "(canonical_value \<Rightarrow> ustr) \<Rightarrow> session \<Rightarrow> session \<Rightarrow> home_pack \<Rightarrow> turn_semantics
     \<Rightarrow> speech_context \<Rightarrow> ustr option \<Rightarrow> speech res" where
  "render_speech render_value prior s p m cx model_text =
    (let q = sx_question cx; fb = sx_fallback cx; act = dialogue_act_of m;
         rt = execution_speech_route m (sx_stable cx) in
     if rt = Speak_Understanding_Fallback then Inr \<lparr>sp_text = fb, sp_act = act\<rparr>
     else if uses_reviewed_expression_support m then Inr \<lparr>sp_text = qc_fallback q, sp_act = act\<rparr>
     else case (rt, sx_stable cx) of
         (Speak_Stable, Some (t, a)) \<Rightarrow> Inr \<lparr>sp_text = t, sp_act = a\<rparr>
       | (Speak_Safety, _) \<Rightarrow> Inr \<lparr>sp_text = unsafe_fallback (qc_fallback q), sp_act = act\<rparr>
       | (Speak_Bridge, _) \<Rightarrow>
           bindr (bridge_text s p m q fb (ss_hint prior) model_text) (\<lambda>t. Inr \<lparr>sp_text = t, sp_act = act\<rparr>)
       | _ \<Rightarrow>
           bindr (speak render_value s p m q fb (ss_hint prior) model_text)
             (\<lambda>t. Inr \<lparr>sp_text = t, sp_act = act\<rparr>))"

end
