(* ===== verification/Home_Turn.thy ===== *)
theory Home_Turn
  imports Home_Speech
begin

text \<open>
  The turn a client receives and the whole execution of a turn (the assembly half of
  \<^verbatim>\<open>dialogue_v2_runtime.py\<close>, with the node order of
  \<^verbatim>\<open>dialogue_v2_graph.py\<close>): resolving the pinned state, interpreting the response,
  applying it, speaking, and composing the turn contract. Opaque identifiers
  (\<^verbatim>\<open>new_id\<close>) are inputs.
\<close>

section \<open>Turn contract\<close>

datatype note_attribution = Note_Child | Note_Coauthored
datatype note_evidence = Direct_Explanation | Supported_Completion

record note_update =
  nt_skill :: string
  nt_text :: ustr
  nt_attribution :: note_attribution
  nt_evidence :: note_evidence
  nt_label :: ustr

datatype help_visual =
    No_Visual | Problem_Visual ustr "ustr list" | Reading_Card ustr
  | Authored_Visual "string option" "(string \<times> json) list"

record help_contract =
  hv_level :: hint_level
  hv_body :: ustr
  hv_visual :: help_visual

record completion_info =
  cn_outcome :: completion_outcome
  cn_reward :: bool
  cn_stage :: bool
  cn_facts :: "(string, wire_value) dict"

record task_anchor =
  an_id :: string
  an_prompt :: ustr
  an_slots :: "string list"

record turn_contract =
  tn_id :: string
  tn_task_id :: string
  tn_task_index :: nat
  tn_text :: ustr
  tn_input :: input_contract
  tn_success :: bool
  tn_help :: "help_contract option"
  tn_note :: "note_update option"
  tn_status :: session_status
  tn_version :: int
  tn_completion :: "completion_info option"
  tn_anchor :: "task_anchor option"

text \<open>\<^verbatim>\<open>MormiContract\<close>: a text is not empty and has at most two lines.\<close>

definition is_line_break :: "nat \<Rightarrow> bool" where
  "is_line_break c \<longleftrightarrow> c \<in> {10, 11, 12, 13, 28, 29, 30, 133, 8232, 8233}"

function split_lines :: "bool \<Rightarrow> ustr \<Rightarrow> nat" where
  "split_lines pending [] = (if pending then 1 else 0)"
| "split_lines pending (c # s) =
     (if c = 13 \<and> s \<noteq> [] \<and> hd s = 10 then Suc (split_lines False (tl s))
      else if is_line_break c then Suc (split_lines False s)
      else split_lines True s)"
  by pat_completeness auto
termination by (relation "measure (\<lambda>(_, s). length s)") auto

definition mormi_checks :: "ustr \<Rightarrow> (bool \<times> py_error) list" where
  "mormi_checks t =
     [field (t \<noteq> []) ''text'',
      (2 < split_lines False t, ValueError ''Mormi text must fit in at most two lines'')]"

definition label_child_note :: ustr where
  "label_child_note = [50500, 51060, 44032, 32, 50508, 47140, 51468]"

definition label_joint_note :: ustr where
  "label_joint_note =
     [50500, 51060, 50752, 32, 54632, 44760, 32, 44277, 48512, 54632]"

definition note_update_for :: "session \<Rightarrow> home_pack \<Rightarrow> reasoning_ledger \<Rightarrow> note_update option" where
  "note_update_for s p l =
     (if ss_status s \<noteq> COMPLETED then None
      else if \<not> set (hp_note_relation_ids p) \<subseteq> set (dict_keys (verified_relations l)) then None
      else let independent = independent_notes p s in
        Some \<lparr>nt_skill = hp_session_id p, nt_text = hc_body (card_H3 (hp_help p)),
          nt_attribution = (if independent then Note_Child else Note_Coauthored),
          nt_evidence = (if independent then Direct_Explanation else Supported_Completion),
          nt_label = (if independent then label_child_note else label_joint_note)\<rparr>)"

definition help_contract_for :: "home_pack \<Rightarrow> hint_level \<Rightarrow> help_contract option" where
  "help_contract_for p h =
     (case help_card_for (hp_help p) h of
        None \<Rightarrow> None
      | Some c \<Rightarrow> Some \<lparr>hv_level = h, hv_body = hc_body c,
          hv_visual = (if h = H3 then Reading_Card (hc_body c)
                       else if h = H2 then Problem_Visual (hp_prompt p) (hp_answers p)
                       else No_Visual)\<rparr>)"

definition task_anchor_for :: "home_pack \<Rightarrow> input_contract \<Rightarrow> task_anchor res" where
  "task_anchor_for p i =
     bindr (check_all [field (hp_prompt p \<noteq> []) ''prompt'', field (target_slots i \<noteq> []) ''target_slots'']) (\<lambda>_.
     Inr \<lparr>an_id = ''v2.'' @ hp_pack_id p, an_prompt = hp_prompt p, an_slots = target_slots i\<rparr>)"

section \<open>Verified facts of a completion\<close>

definition completion_fact_values :: "home_pack \<Rightarrow> reasoning_ledger \<Rightarrow> (string, wire_value) dict res" where
  "completion_fact_values p l =
     mapr (\<lambda>i. bindr (py_index (dict_by fact_id (facts (hp_graph p))) i)
                 (\<lambda>f. Inr (i, WJson (primitive (fact_value f)))))
       (filter (\<lambda>i. i \<in> set (dict_keys (verified_facts l)))
          (required_fact_ids (completion (hp_graph p))))"

definition completion_relation_values :: "home_pack \<Rightarrow> reasoning_ledger \<Rightarrow> (string, wire_value) dict res" where
  "completion_relation_values p l =
     mapr (\<lambda>i. bindr (py_index (dict_by relation_id (relations (hp_graph p))) i)
                 (\<lambda>r. Inr (i, WText (rel_label r)))) (verified_required_relations p l)"

definition first_required_rule :: "home_pack \<Rightarrow> reasoning_ledger \<Rightarrow> string list" where
  "first_required_rule p l =
     (case required_relation_ids (completion (hp_graph p)) of
        [] \<Rightarrow> []
      | i # _ \<Rightarrow> if i \<in> set (dict_keys (verified_relations l)) then [i] else [])"

definition assign_all :: "('k \<times> 'v) list \<Rightarrow> ('k, 'v) dict \<Rightarrow> ('k, 'v) dict" where
  "assign_all kvs d = foldl (\<lambda>d kv. AList.update (fst kv) (snd kv) d) d kvs"

definition completion_facts :: "home_pack \<Rightarrow> reasoning_ledger \<Rightarrow> (string, wire_value) dict res" where
  "completion_facts p l =
     bindr (completion_fact_values p l) (\<lambda>fs.
     bindr (completion_relation_values p l) (\<lambda>rs.
     bindr (final_fact p) (\<lambda>final.
     bindr (rule_slot p (first_required_rule p l)) (\<lambda>rule.
     let ans = (if fact_id final \<in> set (dict_keys (verified_facts l))
                then [(''answer'', WJson (primitive (fact_value final)))] else [])
     in Inr (assign_all (fs @ rs @ ans @ rule) [])))))"

section \<open>Building a turn\<close>

definition build_turn ::
    "(task_pack \<Rightarrow> string) \<Rightarrow> session \<Rightarrow> home_pack \<Rightarrow> reasoning_ledger \<Rightarrow> ustr \<Rightarrow> string
     \<Rightarrow> (turn_contract \<times> session) res" where
  "build_turn H s p l text new_turn_id =
     bindr (question_contract_of H s p l) (\<lambda>(q, s1).
     bindr (case (ss_status s1, ss_outcome s1) of
              (COMPLETED, Some outcome) \<Rightarrow>
                bindr (completion_facts p l) (\<lambda>fs.
                Inr (Some \<lparr>cn_outcome = outcome, cn_reward = ss_reward s1, cn_stage = True, cn_facts = fs\<rparr>))
            | _ \<Rightarrow> Inr None) (\<lambda>comp.
     bindr (check_all (mormi_checks text)) (\<lambda>_.
     bindr (if ss_status s1 = ACTIVE
            then bindr (task_anchor_for p (qc_input q)) (\<lambda>a. Inr (Some a)) else Inr None) (\<lambda>anchor.
     Inr (\<lparr>tn_id = new_turn_id, tn_task_id = ''home_teaching'', tn_task_index = ss_task_index s1,
           tn_text = text, tn_input = qc_input q, tn_success = (ss_status s1 = COMPLETED),
           tn_help = help_contract_for p (ss_hint s1), tn_note = note_update_for s1 p l,
           tn_status = ss_status s1, tn_version = ss_version s1, tn_completion = comp,
           tn_anchor = anchor\<rparr>, s1)))))"

section \<open>Executing a turn\<close>

text \<open>
  \<^verbatim>\<open>_resolve_state\<close> revalidates the pinned pack, snapshot and ledger at every turn. The
  hash of the pinned copy plans is checked by \<^verbatim>\<open>dialogue_v2_copy.py\<close>, outside this model.
\<close>

definition resolve_state ::
    "(task_pack \<Rightarrow> string) \<Rightarrow> session \<Rightarrow> (home_pack \<times> snapshot \<times> reasoning_ledger) res" where
  "resolve_state H s =
     (if ss_runtime s \<noteq> VERDICT_V1 then Inl (ValueError ''legacy conversation cannot enter V2 engine'')
      else case ss_pinned s of
          None \<Rightarrow> Inl (ValueError ''verdict-v1 conversation has no pinned V2 state'')
        | Some pr \<Rightarrow>
          (case sn_payload (pr_snapshot pr) of
             Life _ \<Rightarrow> Inl (ValidationError ''pack_snapshot'')
           | Home p \<Rightarrow>
             bindr (validate_home_pack p) (\<lambda>_.
             bindr (validate_pinned_pack H (pr_snapshot pr)) (\<lambda>_.
             bindr (map_keys_must_match_entries (pr_ledger pr)) (\<lambda>_.
             bindr (reasoning_completion H (pr_snapshot pr) (pr_ledger pr)) (\<lambda>_.
             Inr (p, pr_snapshot pr, pr_ledger pr)))))))"

record turn_result =
  tr_state :: session
  tr_turn :: turn_contract
  tr_semantics :: turn_semantics

definition compose_execution ::
    "(task_pack \<Rightarrow> string) \<Rightarrow> session \<Rightarrow> home_pack \<Rightarrow> turn_semantics \<Rightarrow> ustr \<Rightarrow> string \<Rightarrow> turn_result res" where
  "compose_execution H s p m text new_turn_id =
     bindr (build_turn H s p (ar_ledger (sm_result m)) text new_turn_id) (\<lambda>(t, s1).
     Inr \<lparr>tr_state = s1\<lparr>ss_turn_id := Some (tn_id t)\<rparr>, tr_turn = t, tr_semantics = m\<rparr>)"

record turn_input =
  ti_response :: child_response
  ti_previous_question :: ustr
  ti_history :: "history_turn list"
  ti_gateway :: gateway
  ti_model_text :: "ustr option"
  ti_resolved_copy :: "string \<Rightarrow> ustr option"
  ti_new_turn_id :: string

record environment =
  en_hash :: "task_pack \<Rightarrow> string"
  en_sha :: "evidence_key \<Rightarrow> string"
  en_nfc :: "ustr \<Rightarrow> ustr"
  en_render :: "canonical_value \<Rightarrow> ustr"

definition continue_execution ::
    "environment \<Rightarrow> turn_input \<Rightarrow> session \<Rightarrow> session \<Rightarrow> home_pack \<Rightarrow> turn_semantics \<Rightarrow> turn_result res" where
  "continue_execution env i prior s p m =
     bindr (prepare_speech (en_hash env) prior s p m (ti_resolved_copy i)) (\<lambda>(cx, s1).
     bindr (render_speech (en_render env) prior s1 p m cx (ti_model_text i)) (\<lambda>sp.
     compose_execution (en_hash env) s1 p m (sp_text sp) (ti_new_turn_id i)))"

definition finish_execution ::
    "environment \<Rightarrow> turn_input \<Rightarrow> session \<Rightarrow> home_pack \<Rightarrow> turn_semantics \<Rightarrow> turn_result res" where
  "finish_execution env i s p m =
     bindr (complete_state s p m) (\<lambda>s1.
     compose_execution (en_hash env) s1 p m txt_thanks (ti_new_turn_id i))"

definition run_turn :: "environment \<Rightarrow> turn_input \<Rightarrow> session \<Rightarrow> turn_result res" where
  "run_turn env i s =
     bindr (resolve_state (en_hash env) s) (\<lambda>(p, sn, l).
     bindr (interpret_execution (en_hash env) (en_sha env) (en_nfc env) (ti_gateway i) s p sn l
              (ti_response i) (ti_previous_question i) (ti_history i)) (\<lambda>m.
     bindr (apply_execution (s\<lparr>ss_version := ss_version s + 1, ss_turn_id := None\<rparr>) p m (ss_hint s)) (\<lambda>s1.
     if co_complete (ar_completion (sm_result m)) then finish_execution env i s1 p m
     else continue_execution env i s s1 p m)))"

section \<open>Starting a session\<close>

definition initialize_state ::
    "(task_pack \<Rightarrow> string) \<Rightarrow> home_pack \<Rightarrow> (string, stable_plan) dict \<Rightarrow> session \<Rightarrow> string
     \<Rightarrow> (turn_contract \<times> session) res" where
  "initialize_state H p plans s new_turn_id =
     (if ss_runtime s \<noteq> VERDICT_V1 then Inl (ValueError ''V2 state must be pinned to verdict-v1'')
      else
        bindr (pin_pack H (Home p)) (\<lambda>sn.
        let l = empty_reasoning_ledger sn;
            s1 = s\<lparr>ss_pinned := Some \<lparr>pr_snapshot = sn, pr_ledger = l, pr_plans = plans\<rparr>,
                   ss_expression := canonical (ss_expression s), ss_hint := H0,
                   ss_subgoal := qp_plan_id (hp_initial p)\<rparr>
        in bindr (if ss_expression s1 = L4 then Inr (qp_fallback (hp_initial p), s1)
                  else bindr (question_contract_of H s1 p l) (\<lambda>(q, s2). Inr (qc_fallback q, s2))) (\<lambda>(opening, s2).
           bindr (build_turn H (s2\<lparr>ss_verified_slots := []\<rparr>) p l opening new_turn_id) (\<lambda>(t, s3).
           Inr (t, s3\<lparr>ss_turn_id := Some (tn_id t)\<rparr>)))))"

end
