(* ===== verification/Home_Laws.thy ===== *)
theory Home_Laws
  imports Home_Turn
begin

text \<open>
  Facts about the home runtime that several properties share: what an accepted pack gives the
  question contract, which targets an active conversation asks, and when the request, the
  interpretation and the state update of a turn return.
\<close>

section \<open>Authored plans of an accepted pack\<close>

lemma bounded_simps [simp]: "bounded a b xs \<longleftrightarrow> a \<le> length xs \<and> length xs \<le> b"
  by (simp add: bounded_def)

lemma initial_targets:
  assumes "validate_home_pack p = Inr ()"
  shows "distinct (map plan_key (qp_targets (hp_initial p)))"
    and "plan_key ` set (qp_targets (hp_initial p)) = required_targets (completion (hp_graph p))"
proof -
  note q = validate_pack_structure_parts(1) [OF validate_home_pack_parts(2) [OF assms]]
  show "distinct (map plan_key (qp_targets (hp_initial p)))"
    and "plan_key ` set (qp_targets (hp_initial p)) = required_targets (completion (hp_graph p))"
    using q by (auto simp: validate_questions_def bindr_eq_Inr dest!: mapr_target_key split: if_splits)
qed

lemma mapr_target_key_plans:
  "mapr (target_key fs rs) ts = Inr ks \<Longrightarrow> set ks = plan_key ` set ts"
  by (drule mapr_target_key) simp

lemma l3_targets:
  assumes "validate_home_pack p = Inr ()"
  shows "q \<in> set (hp_l3_plans p) \<Longrightarrow> qp_targets q = [qp_targets q ! 0]"
    and "t \<in> required_targets (completion (hp_graph p)) \<Longrightarrow>
           \<exists>q \<in> set (hp_l3_plans p). plan_key (qp_targets q ! 0) = t"
    and "q \<in> set (hp_l3_plans p) \<Longrightarrow> plan_key (qp_targets q ! 0) \<in> required_targets (completion (hp_graph p))"
proof -
  note v = validate_pack_structure_parts(1) [OF validate_home_pack_parts(2) [OF assms]]
  obtain ks where ks: "mapr (target_key (map fact_id (facts (hp_graph p)))
      (map relation_id (relations (hp_graph p)))) (concat (map qp_targets (hp_l3_plans p))) = Inr ks"
    and one: "\<forall>q \<in> set (hp_l3_plans p). length (qp_targets q) = 1"
    and cover: "set ks = required_targets (completion (hp_graph p))"
    using v by (auto simp: validate_questions_def bindr_eq_Inr split: if_splits)
  have s: "qp_targets q = [qp_targets q ! 0]" if "q \<in> set (hp_l3_plans p)" for q
    using one that by (cases "qp_targets q") auto
  show "q \<in> set (hp_l3_plans p) \<Longrightarrow> qp_targets q = [qp_targets q ! 0]" by (rule s)
  have keys: "plan_key ` (\<Union>q \<in> set (hp_l3_plans p). set (qp_targets q))
      = required_targets (completion (hp_graph p))"
    using mapr_target_key_plans [OF ks] cover by simp
  have "set (qp_targets q) = {qp_targets q ! 0}" if "q \<in> set (hp_l3_plans p)" for q
    using s [OF that] by (metis list.set(1) list.set(2))
  then have k: "(\<lambda>q. plan_key (qp_targets q ! 0)) ` set (hp_l3_plans p) = required_targets (completion (hp_graph p))"
    using keys by force
  show "t \<in> required_targets (completion (hp_graph p)) \<Longrightarrow>
      \<exists>q \<in> set (hp_l3_plans p). plan_key (qp_targets q ! 0) = t" unfolding k [symmetric] by blast
  show "q \<in> set (hp_l3_plans p) \<Longrightarrow> plan_key (qp_targets q ! 0) \<in> required_targets (completion (hp_graph p))"
    unfolding k [symmetric] by blast
qed

lemma l2_slot_exists:
  assumes "validate_home_pack p = Inr ()" and "q \<in> set (hp_l2_plans p)"
  shows "\<exists>c \<in> set (hp_copy_slots p). cs_slot c = lp_copy_slot q"
  using validate_pack_structure_parts(2) [OF validate_home_pack_parts(2) [OF assms(1)] assms(2)]
  by (auto simp: validate_l2_plan_def bindr_eq_Inr split: option.splits dest: dict_by_get)

lemma slots_of_pack:
  assumes "validate_home_pack p = Inr ()"
  shows "validate_copy_slots (map fact_id (facts (hp_graph p))) (map relation_id (relations (hp_graph p)))
           (required_targets (completion (hp_graph p))) (hp_copy_slots p) = Inr ()"
  using validate_home_pack_parts(2) [OF assms]
  by (auto simp: validate_pack_structure_def Let_def bindr_eq_Inr)

lemma purpose_slot_exists:
  assumes "validate_home_pack p = Inr ()" and "u \<in> {Initial_Help, L0_Intro, L0_Action}"
  shows "\<exists>c \<in> set (hp_copy_slots p). cs_purpose c = u"
proof -
  have "purpose_count u (hp_copy_slots p) = 1"
    using slots_of_pack [OF assms(1)] assms(2)
    by (auto simp: validate_copy_slots_def bindr_eq_Inr split: if_splits)
  then show ?thesis unfolding purpose_count_def by (rule length_filter_one_ex)
qed

lemma final_fact_exists:
  assumes "validate_home_pack p = Inr ()"
  shows "\<exists>f. final_fact p = Inr f"
proof -
  have "length (filter (\<lambda>f. fact_role f = Final_Answer) (facts (hp_graph p))) = 1"
    using validate_home_pack_parts(2) [OF assms]
    by (auto simp: validate_pack_structure_def Let_def bindr_eq_Inr check_Inr)
  then show ?thesis unfolding final_fact_def by (intro py_next_total length_filter_one_ex)
qed

section \<open>Open targets of an active conversation\<close>

lemma resolve_repins:
  assumes "resolve_pack H sn = Inr (Home p)"
  shows "pin_pack H (Home p) = Inr sn"
proof -
  have v: "validate_home_pack p = Inr ()" and m: "snapshot_matches H sn" and pl: "sn_payload sn = Home p"
    using assms by (auto simp: resolve_pack_Inr)
  obtain i v s where id: "pack_identity (Home p) = (i, v, s)" by (cases "pack_identity (Home p)") auto
  then have "sn = \<lparr>sn_pack_id = i, sn_content_version = v, sn_subject = s, sn_content_hash = H (Home p),
      sn_payload = Home p\<rparr>" using m pl by (cases sn) (auto simp: snapshot_matches_def)
  then show ?thesis using v m id
    by (simp add: pin_pack_def Let_def validate_pinned_pack_def check_def)
qed

text \<open>A task is resolved: its pinned snapshot holds the pack and the ledger is bound to it.\<close>

definition resolved_task :: "(task_pack \<Rightarrow> string) \<Rightarrow> snapshot \<Rightarrow> task_pack \<Rightarrow> reasoning_ledger \<Rightarrow> bool" where
  "resolved_task H sn tp l \<longleftrightarrow> resolve_pack H sn = Inr tp \<and> validate_ledger_binding sn l tp = Inr ()"

abbreviation resolved :: "(task_pack \<Rightarrow> string) \<Rightarrow> snapshot \<Rightarrow> home_pack \<Rightarrow> reasoning_ledger \<Rightarrow> bool" where
  "resolved H sn p l \<equiv> resolved_task H sn (Home p) l"

lemmas resolved_def = resolved_task_def

lemma resolved_pack: "resolved H sn p l \<Longrightarrow> validate_home_pack p = Inr ()"
  by (auto simp: resolved_def resolve_pack_Inr)

lemma resolved_completion:
  "resolved_task H sn tp l \<Longrightarrow> reasoning_completion H sn l = Inr (completion_of tp l)"
  by (simp add: resolved_def reasoning_completion_def)

abbreviation open_targets :: "home_pack \<Rightarrow> reasoning_ledger \<Rightarrow> target_ref list" where
  "open_targets p l \<equiv> ordered_targets p (completion_of (Home p) l)"

lemma targets_resolved:
  assumes "resolved H sn p l"
  shows "targets_from_active_state H level p l = Inr (narrowed_targets level p l (open_targets p l))"
  using assms resolve_repins [of H sn p] resolved_completion [OF assms]
  by (simp add: targets_from_active_state_def resolved_def)

lemma remaining_keys_completion:
  "remaining_keys (completion_of (Home p) l) =
     required_targets (completion (hp_graph p))
       - (Pair TK_Fact ` set (dict_keys (verified_facts l))
          \<union> Pair TK_Relation ` set (dict_keys (verified_relations l)))"
  by (auto simp: remaining_keys_def completion_of_def Let_def required_targets_def)

lemma open_targets_required:
  assumes "validate_home_pack p = Inr ()"
  shows "plan_key ` set (open_targets p l) = remaining_keys (completion_of (Home p) l)"
proof -
  have "plan_key ` set (open_targets p l)
      = plan_key ` set (qp_targets (hp_initial p)) \<inter> remaining_keys (completion_of (Home p) l)"
    by (auto simp: ordered_targets_def)
  then show ?thesis unfolding initial_targets(2) [OF assms] remaining_keys_completion by blast
qed

lemma open_targets_empty:
  assumes "validate_home_pack p = Inr ()"
  shows "open_targets p l = [] \<longleftrightarrow> co_complete (completion_of (Home p) l)"
proof -
  have "open_targets p l = [] \<longleftrightarrow> remaining_keys (completion_of (Home p) l) = {}"
    using open_targets_required [OF assms, of l] by (metis image_is_empty set_empty)
  also have "\<dots> \<longleftrightarrow> co_complete (completion_of (Home p) l)"
    by (auto simp: remaining_keys_def completion_of_def Let_def filter_empty_conv)
  finally show ?thesis .
qed

text \<open>What is asked is never empty and always open.\<close>

lemma narrowed_targets_open:
  fixes level :: expression_level
  assumes p: "validate_home_pack p = Inr ()" and ne: "open_targets p l \<noteq> []"
  defines "ts \<equiv> narrowed_targets level p l (open_targets p l)"
  shows "ts \<noteq> []" and "set ts \<subseteq> set (open_targets p l)"
proof -
  have "ts \<noteq> [] \<and> set ts \<subseteq> set (open_targets p l)"
    using ne unfolding ts_def narrowed_targets_def
    by (auto split: option.splits dest!: find_Some_mem)
  then show "ts \<noteq> []" "set ts \<subseteq> set (open_targets p l)" by blast+
qed

lemma narrowed_targets_single:
  assumes "level \<notin> {L4, L0}"
  shows "length (narrowed_targets level p l ts) \<le> 1"
  using assms by (auto simp: narrowed_targets_def split: option.splits)

section \<open>Question contracts\<close>

text \<open>
  The L3 plans ask their target the same way as the initial question does. The pack validator
  compares only the kind and the identifier of a target, so this is an extra requirement.
\<close>

definition asks_agree :: "home_pack \<Rightarrow> bool" where
  "asks_agree p \<longleftrightarrow>
     list_all (\<lambda>q. qp_targets q ! 0 \<in> set (qp_targets (hp_initial p))) (hp_l3_plans p)"

lemma target_slot_key_cong: "plan_key t = plan_key u \<Longrightarrow> target_slot_key t = target_slot_key u"
  by (simp add: plan_key_def target_slot_key_def)

lemma l3_plan_of_target:
  assumes p: "validate_home_pack p = Inr ()" and a: "asks_agree p" and t: "t \<in> set (open_targets p l)"
  shows "\<exists>q \<in> set (hp_l3_plans p). qp_targets q ! 0 = t"
proof -
  have ti: "t \<in> set (qp_targets (hp_initial p))" using t by (simp add: ordered_targets_def)
  then have "plan_key t \<in> required_targets (completion (hp_graph p))"
    using initial_targets(2) [OF p] by blast
  then obtain q where q: "q \<in> set (hp_l3_plans p)" "plan_key (qp_targets q ! 0) = plan_key t"
    using l3_targets(2) [OF p] by blast
  then have "qp_targets q ! 0 \<in> set (qp_targets (hp_initial p))"
    using a by (auto simp: asks_agree_def list_all_iff)
  then have "qp_targets q ! 0 = t"
    using initial_targets(1) [OF p] ti q(2) by (auto simp: distinct_map inj_on_def)
  then show ?thesis using q(1) by blast
qed

lemma l2_plan_of_targets:
  assumes p: "validate_home_pack p = Inr ()" and ne: "ts \<noteq> []" and ts: "set ts \<subseteq> set (open_targets p l)"
  shows "\<exists>q. l2_plan_for_targets p ts = Inr q \<and> q \<in> set (hp_l2_plans p)
           \<and> plan_key (lp_target q) \<in> plan_key ` set ts"
proof -
  have "plan_key (hd ts) \<in> required_targets (completion (hp_graph p))"
    using ts ne initial_targets(2) [OF p] by (force simp: ordered_targets_def)
  then obtain q where "q \<in> set (hp_l2_plans p)" "plan_key (lp_target q) = plan_key (hd ts)"
    using home_l2_plan_unique [OF p] by blast
  moreover have "plan_key (hd ts) \<in> set (map plan_key ts)" using ne by simp
  ultimately have "\<exists>q \<in> set (hp_l2_plans p). plan_key (lp_target q) \<in> set (map plan_key ts)" by metis
  then obtain q' where "List.find (\<lambda>q. plan_key (lp_target q) \<in> set (map plan_key ts)) (hp_l2_plans p) = Some q'"
    using find_exists [of "hp_l2_plans p" "\<lambda>q. plan_key (lp_target q) \<in> set (map plan_key ts)"] by blast
  then show ?thesis using find_Some_mem by (force simp: l2_plan_for_targets_def)
qed

lemma joint_question_total:
  assumes "validate_home_pack p = Inr ()"
  shows "\<exists>q. joint_question p ts = Inr q \<and> qc_targets q = ts \<and> qc_slot q \<noteq> None
           \<and> kind (qc_input q) = IK_JOINT \<and> target_slots (qc_input q) = map target_slot_key ts"
proof -
  obtain i where "py_next (\<lambda>c. cs_purpose c = L0_Intro) (hp_copy_slots p) = Inr i"
    using py_next_total [OF purpose_slot_exists [OF assms, of L0_Intro]] by auto
  moreover obtain a where "py_next (\<lambda>c. cs_purpose c = L0_Action) (hp_copy_slots p) = Inr a"
    using py_next_total [OF purpose_slot_exists [OF assms, of L0_Action]] by auto
  ultimately show ?thesis by (simp add: joint_question_def)
qed

lemma choice_question_total:
  assumes "validate_home_pack p = Inr ()" and "pl \<in> set (hp_l2_plans p)"
  shows "\<exists>q. choice_question p pl = Inr q \<and> qc_targets q = [lp_target pl]
           \<and> kind (qc_input q) = IK_CHOICES \<and> target_slots (qc_input q) = [target_slot_key (lp_target pl)]"
  using py_next_total [OF l2_slot_exists [OF assms]] by (auto simp: choice_question_def)

text \<open>
  The question contract of an open conversation exists, asks only open targets, asks at least one,
  and changes nothing of the state but the subgoal and, at L0, the hint.
\<close>

definition question_ok :: "session \<Rightarrow> home_pack \<Rightarrow> reasoning_ledger \<Rightarrow> question_contract \<Rightarrow> session \<Rightarrow> bool" where
  "question_ok s p l q s' \<longleftrightarrow>
     qc_targets q \<noteq> [] \<and> target_slots (qc_input q) \<noteq> []
     \<and> plan_key ` set (qc_targets q) \<subseteq> plan_key ` set (open_targets p l)
     \<and> s' = s\<lparr>ss_subgoal := ss_subgoal s', ss_hint := (if ss_expression s = L0 then H3 else ss_hint s)\<rparr>"

lemma question_contract_total:
  assumes r: "resolved H sn p l" and a: "asks_agree p" and act: "ss_status s = ACTIVE"
    and ne: "open_targets p l \<noteq> []"
  shows "\<exists>q s'. question_contract_of H s p l = Inr (q, s') \<and> question_ok s p l q s'"
proof -
  have p: "validate_home_pack p = Inr ()" using r by (rule resolved_pack)
  define ts where "ts = narrowed_targets (ss_expression s) p l (open_targets p l)"
  have t: "targets_from_active_state H (ss_expression s) p l = Inr ts"
    using targets_resolved [OF r] by (simp add: ts_def)
  have n: "ts \<noteq> []" "set ts \<subseteq> set (open_targets p l)"
    using narrowed_targets_open [OF p ne, of "ss_expression s"] by (simp_all add: ts_def)
  have im: "plan_key ` set ts \<subseteq> plan_key ` set (open_targets p l)" using n(2) by (rule image_mono)
  show ?thesis
  proof (cases "ss_expression s = L0")
    case True
    obtain q where q: "joint_question p ts = Inr q" "qc_targets q = ts"
      "target_slots (qc_input q) = map target_slot_key ts" using joint_question_total [OF p, of ts] by blast
    let ?s = "s\<lparr>ss_hint := H3, ss_subgoal := ''l0.joint''\<rparr>"
    have "question_contract_of H s p l = Inr (q, ?s)"
      using q t act True by (simp add: question_contract_of_def)
    moreover have "question_ok s p l q ?s" using q n(1) im True by (simp add: question_ok_def)
    ultimately show ?thesis by blast
  next
    case l0: False
    show ?thesis
    proof (cases "ss_expression s = L2")
      case True
      obtain pl where pl: "l2_plan_for_targets p ts = Inr pl" "pl \<in> set (hp_l2_plans p)"
        "plan_key (lp_target pl) \<in> plan_key ` set ts" using l2_plan_of_targets [OF p n] by blast
      have "plan_key (lp_target pl) \<in> plan_key ` set (open_targets p l)" using pl(3) n(2) by blast
      then show ?thesis using choice_question_total [OF p pl(2)] pl(1) t act True l0
        by (auto simp: question_contract_of_def question_ok_def)
    next
      case l2: False
      show ?thesis
      proof (cases "ss_expression s = L3")
        case True
        have h: "hd ts \<in> set (open_targets p l)" using n by auto
        from l3_plan_of_target [OF p a h] obtain q0 where
          q0: "q0 \<in> set (hp_l3_plans p)" "qp_targets q0 ! 0 = hd ts" by blast
        have "\<exists>q \<in> set (hp_l3_plans p). target_slot_key (qp_targets q ! 0) \<in> set (map target_slot_key ts)"
        proof (rule bexI [OF _ q0(1)])
          show "target_slot_key (qp_targets q0 ! 0) \<in> set (map target_slot_key ts)"
            unfolding q0(2) set_map by (rule imageI) (rule hd_in_set [OF n(1)])
        qed
        then obtain q where q: "py_next (\<lambda>q. target_slot_key (qp_targets q ! 0) \<in> set (map target_slot_key ts))
            (hp_l3_plans p) = Inr q"
          using py_next_total [of "hp_l3_plans p"
              "\<lambda>q. target_slot_key (qp_targets q ! 0) \<in> set (map target_slot_key ts)"] by blast
        then have m: "q \<in> set (hp_l3_plans p)"
          and k: "target_slot_key (qp_targets q ! 0) \<in> target_slot_key ` set ts"
          by (auto dest: py_next_Inr)
        have one: "qp_targets q = [qp_targets q ! 0]" using l3_targets(1) [OF p m] .
        have key: "plan_key (qp_targets q ! 0) \<in> plan_key ` set (open_targets p l)"
        proof -
          obtain u where u: "u \<in> set ts" "target_slot_key (qp_targets q ! 0) = target_slot_key u"
            using k by blast
          then have "plan_key (qp_targets q ! 0) = plan_key u"
            by (auto simp: target_slot_key_def plan_key_def split: target_kind.splits)
          then show ?thesis using u(1) n(2) by auto
        qed
        have "set (qp_targets q) = {qp_targets q ! 0}" by (subst one) simp
        moreover have "qp_targets q \<noteq> []" using one by auto
        moreover have "question_contract_of H s p l =
            Inr (text_question (qp_targets q) [qp_targets q ! 0] (qp_fallback q) label_short,
                 s\<lparr>ss_subgoal := qp_plan_id q\<rparr>)"
          using q t act True by (simp add: question_contract_of_def l3_question_def)
        ultimately show ?thesis using key True by (simp add: text_question_def question_ok_def)
      next
        case False
        show ?thesis
        proof (cases "1 < length ts")
          case True
          then have "question_contract_of H s p l =
              Inr (text_question ts ts (qp_fallback (hp_initial p)) label_answer_and_method,
                   s\<lparr>ss_subgoal := qp_plan_id (hp_initial p)\<rparr>)"
            using t act l0 l2 False by (simp add: question_contract_of_def l4_question_def)
          then show ?thesis using n(1) im l0 by (auto simp: text_question_def question_ok_def)
        next
          case len: False
          have h: "ts ! 0 \<in> set (open_targets p l)" using n
            by (metis length_greater_0_conv nth_mem subsetD)
          have "\<exists>q \<in> set (hp_l3_plans p). qp_targets q ! 0 = ts ! 0"
            using l3_plan_of_target [OF p a h] .
          then obtain q where "py_next (\<lambda>q. qp_targets q ! 0 = ts ! 0) (hp_l3_plans p) = Inr q"
            using py_next_total [of "hp_l3_plans p" "\<lambda>q. qp_targets q ! 0 = ts ! 0"] by blast
          then have "question_contract_of H s p l =
              Inr (text_question ts ts (qp_fallback q) label_short, s\<lparr>ss_subgoal := qp_plan_id q\<rparr>)"
            using t act n(1) l0 l2 False len by (simp add: question_contract_of_def l4_question_def)
          then show ?thesis using n(1) im l0 by (auto simp: text_question_def question_ok_def)
        qed
      qed
    qed
  qed
qed

end
