(* ===== verification/Home_Request_Laws.thy ===== *)
theory Home_Request_Laws
  imports Home_Laws
begin

text \<open>
  When the understanding request of a free-text turn is valid: the parts of the request one by one,
  then the request as a whole. Two requirements are not implied by the validation of a pack and
  are named here: distinct inputs of every relation and at most twelve names of a fact.
\<close>

definition relation_inputs_distinct :: "home_pack \<Rightarrow> bool" where
  "relation_inputs_distinct p \<longleftrightarrow> list_all (\<lambda>r. distinct (input_fact_ids r)) (relations (hp_graph p))"

definition aliases_fit :: "home_pack \<Rightarrow> bool" where
  "aliases_fit p \<longleftrightarrow> list_all (\<lambda>f. case fact_semantic_aliases p (fact_id f) of
       Inl _ \<Rightarrow> False | Inr names \<Rightarrow> length names \<le> 12) (facts (hp_graph p))"

section \<open>Loops\<close>

lemma mapr_total:
  "(\<And>x. x \<in> set xs \<Longrightarrow> \<exists>y. f x = Inr y) \<Longrightarrow> \<exists>ys. mapr f xs = Inr ys"
proof (induction xs)
  case (Cons x xs)
  then obtain y ys where "f x = Inr y" "mapr f xs = Inr ys" by (metis list.set_intros(1,2))
  then show ?case by simp
qed simp

lemma mapr_map:
  assumes "mapr f xs = Inr ys" and "\<And>x y. x \<in> set xs \<Longrightarrow> f x = Inr y \<Longrightarrow> g y = h x"
  shows "map g ys = map h xs"
  using assms by (induction xs arbitrary: ys) (auto simp: bindr_eq_Inr)

lemma mapr_mem: "mapr f xs = Inr ys \<Longrightarrow> y \<in> set ys \<Longrightarrow> \<exists>x \<in> set xs. f x = Inr y"
  by (induction xs arbitrary: ys) (auto simp: bindr_eq_Inr)

lemma foldl_update_map_keys:
  "set (dict_keys (foldl (\<lambda>d x. AList.update (k x) (v x) d) d xs)) = set (dict_keys d) \<union> k ` set xs"
  by (induction xs arbitrary: d) (auto simp del: set_map)

section \<open>Facts and relations of the pack\<close>

lemma find_fact_total:
  assumes "i \<in> fact_id ` set (facts (hp_graph p))"
  shows "\<exists>f. find_fact p i = Inr f \<and> f \<in> set (facts (hp_graph p)) \<and> fact_id f = i"
proof -
  have "\<exists>f \<in> set (facts (hp_graph p)). fact_id f = i" using assms by auto
  from py_next_total [OF this] obtain f where
    n: "py_next (\<lambda>f. fact_id f = i) (facts (hp_graph p)) = Inr f" by (rule exE)
  from py_next_Inr [OF n] n show ?thesis unfolding find_fact_def by simp
qed

lemma find_relation_total:
  assumes "i \<in> relation_id ` set (relations (hp_graph p))"
  shows "\<exists>r. find_relation p i = Inr r \<and> r \<in> set (relations (hp_graph p)) \<and> relation_id r = i"
proof -
  have "\<exists>r \<in> set (relations (hp_graph p)). relation_id r = i" using assms by auto
  from py_next_total [OF this] obtain r where
    n: "py_next (\<lambda>r. relation_id r = i) (relations (hp_graph p)) = Inr r" by (rule exE)
  from py_next_Inr [OF n] n show ?thesis unfolding find_relation_def by simp
qed

lemma required_target_known:
  assumes "validate_home_pack p = Inr ()" and "t \<in> required_targets (completion (hp_graph p))"
  shows "(\<exists>i. t = (TK_Fact, i) \<and> i \<in> fact_id ` set (facts (hp_graph p)))
       \<or> (\<exists>i. t = (TK_Relation, i) \<and> i \<in> relation_id ` set (relations (hp_graph p)))"
  using assms(2) validate_completion_parts(1,2) [OF validate_graph_parts(5) [OF validate_home_pack_parts(1) [OF assms(1)]]]
  by (auto simp: required_targets_def)

lemma content_id_bounded: "content_id_ok 120 s \<Longrightarrow> bounded 1 160 s"
  by (auto simp: content_id_ok_def split: list.splits)

lemma home_ids:
  assumes "validate_home_pack p = Inr ()"
  shows "f \<in> set (facts (hp_graph p)) \<Longrightarrow> content_id_ok 120 (fact_id f)"
    and "r \<in> set (relations (hp_graph p)) \<Longrightarrow> content_id_ok 120 (relation_id r)"
    and "length (facts (hp_graph p)) \<le> 50" and "length (relations (hp_graph p)) \<le> 50"
  using validate_home_pack_parts(6) [OF assms] by (auto simp: graph_fields_Inr list_all_iff)

lemma home_text:
  assumes "validate_home_pack p = Inr ()"
  shows "f \<in> set (facts (hp_graph p)) \<Longrightarrow> bounded 1 100 (fact_label f)"
    and "r \<in> set (relations (hp_graph p)) \<Longrightarrow> bounded 1 16 (input_fact_ids r) \<and> bounded 1 120 (rel_label r)"
    and "bounded 1 4 (qp_targets (hp_initial p))"
    and "help_card_for (hp_help p) h = Some c \<Longrightarrow> bounded 1 240 (hc_body c)"
    and "bounded 1 220 (hp_prompt p)" and "hp_note_relation_ids p \<noteq> []"
proof -
  have h: "\<And>b e. (b, e) \<in> set (home_fields p) \<Longrightarrow> \<not> b"
    using validate_home_pack_parts(7) [OF assms] by (auto simp: check_all_Inr)
  have hf: "ok" if "field ok n \<in> set (home_fields p)" for ok n
    using h [of "\<not> ok"] that by (auto simp: field_def)
  have "list_all (\<lambda>f. bounded 1 100 (fact_label f)) (facts (hp_graph p))"
    by (rule hf [of _ "''speaker_label''"]) (simp add: home_fields_def)
  then show "f \<in> set (facts (hp_graph p)) \<Longrightarrow> bounded 1 100 (fact_label f)"
    unfolding list_all_iff by blast
  show "bounded 1 16 (input_fact_ids r) \<and> bounded 1 120 (rel_label r)" if r: "r \<in> set (relations (hp_graph p))"
  proof
    show "bounded 1 16 (input_fact_ids r)"
      by (rule hf [of _ "''input_fact_ids''"]) (use r in \<open>auto simp: home_fields_def relation_fields_def\<close>)
    show "bounded 1 120 (rel_label r)"
      by (rule hf [of _ "''speaker_label''"]) (use r in \<open>auto simp: home_fields_def relation_fields_def\<close>)
  qed
  show "bounded 1 4 (qp_targets (hp_initial p))"
    by (rule hf [of _ "''targets''"]) (simp add: home_fields_def question_fields_def)
  show "bounded 1 220 (hp_prompt p)"
    by (rule hf [of _ "''prompt''"]) (simp add: home_fields_def)
  have "bounded 1 10 (hp_note_relation_ids p)"
    by (rule hf [of _ "''note_relation_ids''"]) (simp add: home_fields_def)
  then show "hp_note_relation_ids p \<noteq> []" by auto
  have "bounded 1 240 (hc_body (card_H1 (hp_help p)))"
    by (rule hf [of _ "''body''"]) (simp add: home_fields_def card_fields_def)
  moreover have "bounded 1 240 (hc_body (card_H2 (hp_help p)))"
    by (rule hf [of _ "''body''"]) (simp add: home_fields_def card_fields_def)
  moreover have "bounded 1 240 (hc_body (card_H3 (hp_help p)))"
    by (rule hf [of _ "''body''"]) (simp add: home_fields_def card_fields_def)
  ultimately show "help_card_for (hp_help p) h = Some c \<Longrightarrow> bounded 1 240 (hc_body c)"
    by (auto simp: help_card_for_def split: hint_level.splits)
qed

section \<open>Parts of the request\<close>

lemma request_fact_context_total:
  assumes p: "validate_home_pack p = Inr ()" and fit: "aliases_fit p" and f: "f \<in> set (facts (hp_graph p))"
  shows "\<exists>c. request_fact_context p f = Inr c \<and> cx_fact_id c = fact_id f
           \<and> cx_visible c = initially_visible f \<and> check_all (fact_context_fields c) = Inr ()"
proof -
  obtain names where n: "fact_semantic_aliases p (fact_id f) = Inr names" "length names \<le> 12"
    using fit f unfolding aliases_fit_def list_all_iff
    by (cases "fact_semantic_aliases p (fact_id f)") auto
  have "distinct names" using n(1) by (auto simp: fact_semantic_aliases_def bindr_eq_Inr Let_def)
  then show ?thesis using n content_id_bounded [OF home_ids(1) [OF p f]] home_text(1) [OF p f]
    by (simp add: request_fact_context_def fact_context_fields_def field_def)
qed

definition contract_of :: "content_relation \<Rightarrow> relation_contract" where
  "contract_of r = \<lparr>ct_relation_id = relation_id r, ct_speaker_label = rel_label r,
     ct_operation = operation_name (operation r), ct_input_fact_ids = input_fact_ids r,
     ct_output_fact_id = output_fact_id r,
     ct_method_policy = (if evaluation_mode r = ''open_semantic_support''
                         then ''open_equivalent'' else ''canonical_relation''),
     ct_numeric_expression_required = False, ct_answer_required_in_same_utterance = False\<rparr>"

lemma request_target_fact:
  assumes "tr_kind t = TK_Fact" and "tr_id t \<in> fact_id ` set (facts (hp_graph p))"
  shows "\<exists>u. request_target p t = Inr u \<and> ut_target_kind u = TK_Fact \<and> ut_target_id u = tr_id t
           \<and> ut_ask_kind u = tr_ask t \<and> ut_semantic_contract u = None"
  using assms find_fact_total [OF assms(2)]
  by (auto simp: request_target_def target_rubric_def target_truth_def target_semantic_contract_def)

lemma request_target_relation:
  assumes "tr_kind t = TK_Relation" and "tr_id t \<in> relation_id ` set (relations (hp_graph p))"
  shows "\<exists>u. \<exists>r \<in> set (relations (hp_graph p)). request_target p t = Inr u \<and> relation_id r = tr_id t
           \<and> ut_target_kind u = TK_Relation \<and> ut_target_id u = tr_id t
           \<and> ut_ask_kind u = tr_ask t \<and> ut_expected_truth u = None
           \<and> ut_semantic_contract u = Some (contract_of r)"
proof -
  obtain r where r: "find_relation p (tr_id t) = Inr r" "r \<in> set (relations (hp_graph p))"
    "relation_id r = tr_id t" using find_relation_total [OF assms(2)] by (elim exE conjE)
  have "target_semantic_contract p t = Inr (Some (contract_of r))"
    using r(1) assms(1) by (simp add: target_semantic_contract_def contract_of_def)
  then show ?thesis using r assms(1)
    by (simp add: request_target_def target_rubric_def target_truth_def) metis
qed

text \<open>What a target of the request is, for an open target of the pack.\<close>

definition request_target_ok :: "home_pack \<Rightarrow> target_ref \<Rightarrow> understanding_target \<Rightarrow> bool" where
  "request_target_ok p t u \<longleftrightarrow>
     ut_target_kind u = tr_kind t \<and> ut_target_id u = tr_id t \<and> ut_ask_kind u = tr_ask t
     \<and> validate_request_target u = Inr ()
     \<and> check_all (target_reference_checks (fact_id ` set (facts (hp_graph p)))
          (relation_id ` set (relations (hp_graph p))) u) = Inr ()"

lemma request_target_total:
  assumes p: "validate_home_pack p = Inr ()" and d: "relation_inputs_distinct p"
    and t: "plan_key t \<in> required_targets (completion (hp_graph p))"
  shows "\<exists>u. request_target p t = Inr u \<and> request_target_ok p t u"
proof (cases "tr_kind t")
  case TK_Fact
  then have i: "tr_id t \<in> fact_id ` set (facts (hp_graph p))"
    using required_target_known [OF p t] by (auto simp: plan_key_def)
  then obtain f where "f \<in> set (facts (hp_graph p))" "fact_id f = tr_id t" by auto
  then have b: "bounded 1 160 (tr_id t)" using content_id_bounded [OF home_ids(1) [OF p]] by metis
  from request_target_fact [OF TK_Fact i] obtain u where
    u: "request_target p t = Inr u" "ut_target_kind u = TK_Fact" "ut_target_id u = tr_id t"
       "ut_ask_kind u = tr_ask t" "ut_semantic_contract u = None" by (elim exE conjE)
  have "request_target_ok p t u" using u(2-) b i TK_Fact
    by (simp add: request_target_ok_def validate_request_target_def validate_understanding_target_def
        target_reference_checks_def field_def)
  then show ?thesis using u(1) by blast
next
  case TK_Relation
  then have i: "tr_id t \<in> relation_id ` set (relations (hp_graph p))"
    using required_target_known [OF p t] by (auto simp: plan_key_def)
  from request_target_relation [OF TK_Relation i] obtain u r where r: "r \<in> set (relations (hp_graph p))"
    and u: "request_target p t = Inr u" "relation_id r = tr_id t" "ut_target_kind u = TK_Relation"
       "ut_target_id u = tr_id t" "ut_ask_kind u = tr_ask t" "ut_expected_truth u = None"
       "ut_semantic_contract u = Some (contract_of r)" by (elim exE bexE conjE)
  have b: "bounded 1 160 (relation_id r)" using home_ids(2) [OF p r] by (rule content_id_bounded)
  have refs: "set (input_fact_ids r) \<subseteq> fact_id ` set (facts (hp_graph p))"
      "output_fact_id r \<in> fact_id ` set (facts (hp_graph p))" "output_fact_id r \<notin> set (input_fact_ids r)"
    using validate_graph_parts(3) [OF validate_home_pack_parts(1) [OF p] r]
    by (auto simp: validate_relation_refs_def split: if_splits)
  have bo: "bounded 1 160 (output_fact_id r)"
  proof -
    obtain f where "f \<in> set (facts (hp_graph p))" "fact_id f = output_fact_id r" using refs(2) by auto
    then show ?thesis using content_id_bounded [OF home_ids(1) [OF p]] by metis
  qed
  have di: "distinct (input_fact_ids r)" using d r by (auto simp: relation_inputs_distinct_def list_all_iff)
  have fields: "check_all (relation_contract_fields (contract_of r)) = Inr ()"
    using b bo home_text(2) [OF p r]
    by (simp add: relation_contract_fields_def contract_of_def field_def)
  have con: "validate_relation_contract (contract_of r) = Inr ()"
    using di refs(3) by (simp add: validate_relation_contract_def contract_of_def)
  have "request_target_ok p t u" using u(2-) b r i refs(1,2) fields con TK_Relation
    by (simp add: request_target_ok_def validate_request_target_def validate_understanding_target_def
        target_reference_checks_def contract_of_def field_def)
  then show ?thesis using u(1) by blast
qed

section \<open>The whole request\<close>

lemma distinct_ask_kinds: "length (dedup (xs :: ask_kind list)) \<le> 2"
proof -
  have u: "(UNIV :: ask_kind set) = {Ask_Answer, Ask_Reason_Or_Method}"
    using ask_kind.exhaust by blast
  have f: "finite (UNIV :: ask_kind set)" by (subst u) simp
  have "card (set (dedup xs)) \<le> card (UNIV :: ask_kind set)"
    by (rule card_mono [OF f subset_UNIV])
  also have "\<dots> \<le> 2" by (subst u) simp
  finally show ?thesis by (simp add: distinct_card del: set_dedup)
qed

lemma open_targets_bounds:
  assumes "validate_home_pack p = Inr ()"
  shows "length (open_targets p l) \<le> 4" and "distinct (map plan_key (open_targets p l))"
proof -
  show "length (open_targets p l) \<le> 4"
    unfolding ordered_targets_def
    by (rule le_trans [OF length_filter_le]) (use home_text(3) [OF assms] in simp)
  show "distinct (map plan_key (open_targets p l))"
    using initial_targets(1) [OF assms] by (simp add: ordered_targets_def distinct_map_filter)
qed

lemma narrowed_bounds:
  assumes p: "validate_home_pack p = Inr ()"
  defines "ts level l \<equiv> narrowed_targets level p l (open_targets p l)"
  shows "length (ts level l) \<le> 4" and "distinct (map plan_key (ts level l))"
proof -
  have "length (ts level l) \<le> 4 \<and> distinct (map plan_key (ts level l))"
  proof (cases "level \<in> {L4, L0}")
    case True
    then show ?thesis using open_targets_bounds [OF p, of l] by (auto simp: ts_def narrowed_targets_def)
  next
    case False
    then have "length (ts level l) \<le> 1" unfolding ts_def by (rule narrowed_targets_single)
    then show ?thesis by (cases "ts level l") auto
  qed
  then show "length (ts level l) \<le> 4" "distinct (map plan_key (ts level l))" by blast+
qed

lemma last_six_length: "length (last_six xs) \<le> 6"
  by (simp add: last_six_def)

lemma visible_facts_keys:
  "set (dict_keys (visible_facts p)) = fact_id ` {f \<in> set (facts (hp_graph p)). initially_visible f}"
  using foldl_update_map_keys [of fact_id "\<lambda>f. primitive (fact_value f)" "[]"
      "filter initially_visible (facts (hp_graph p))"] by (simp add: visible_facts_def)

lemma visible_ui_elements_ok:
  assumes p: "validate_home_pack p = Inr ()"
  shows "length (visible_ui_elements p h) \<le> 1"
    and "e \<in> set (visible_ui_elements p h) \<Longrightarrow> check_all (ui_element_fields e) = Inr ()"
proof -
  show "length (visible_ui_elements p h) \<le> 1"
    by (simp add: visible_ui_elements_def split: option.splits)
  show "check_all (ui_element_fields e) = Inr ()" if e: "e \<in> set (visible_ui_elements p h)"
  proof -
    obtain c where c: "help_card_for (hp_help p) h = Some c"
      and e': "e = \<lparr>ue_element_id = ''help_card.'' @ hint_name h, ue_text = hc_body c, ue_hint_level = Some h\<rparr>"
      using e by (cases "help_card_for (hp_help p) h") (simp_all add: visible_ui_elements_def)
    have "bounded 1 300 (hc_body c)" using home_text(4) [OF p c] by simp
    then show ?thesis using c unfolding e'
      by (cases h) (auto simp: ui_element_fields_def field_def help_card_for_def hint_name_def)
  qed
qed

lemma contexts_total:
  assumes p: "validate_home_pack p = Inr ()" and fit: "aliases_fit p"
  shows "\<exists>cs. mapr (request_fact_context p) (facts (hp_graph p)) = Inr cs
           \<and> map cx_fact_id cs = map fact_id (facts (hp_graph p))
           \<and> map (\<lambda>c. (cx_fact_id c, cx_visible c)) cs = map (\<lambda>f. (fact_id f, initially_visible f)) (facts (hp_graph p))
           \<and> (\<forall>c \<in> set cs. check_all (fact_context_fields c) = Inr ())"
proof -
  note one = request_fact_context_total [OF p fit]
  obtain cs where cs: "mapr (request_fact_context p) (facts (hp_graph p)) = Inr cs"
    using mapr_total [of "facts (hp_graph p)" "request_fact_context p"] one by blast
  have "map cx_fact_id cs = map fact_id (facts (hp_graph p))"
    by (rule mapr_map [OF cs]) (use one in fastforce)
  moreover have "map (\<lambda>c. (cx_fact_id c, cx_visible c)) cs
      = map (\<lambda>f. (fact_id f, initially_visible f)) (facts (hp_graph p))"
    by (rule mapr_map [OF cs]) (use one in fastforce)
  moreover have "check_all (fact_context_fields c) = Inr ()" if "c \<in> set cs" for c
    using mapr_mem [OF cs that] one by fastforce
  ultimately show ?thesis using cs by blast
qed

lemma targets_total:
  assumes p: "validate_home_pack p = Inr ()" and d: "relation_inputs_distinct p"
    and ts: "plan_key ` set ts \<subseteq> required_targets (completion (hp_graph p))"
  shows "\<exists>us. mapr (request_target p) ts = Inr us
           \<and> map (\<lambda>u. (ut_target_kind u, ut_target_id u)) us = map plan_key ts
           \<and> map ut_ask_kind us = map tr_ask ts
           \<and> (\<forall>u \<in> set us. \<exists>t. request_target_ok p t u)"
proof -
  have one: "\<exists>u. request_target p t = Inr u \<and> request_target_ok p t u" if "t \<in> set ts" for t
    using request_target_total [OF p d] ts that by blast
  obtain us where us: "mapr (request_target p) ts = Inr us"
    using mapr_total [of ts "request_target p"] one by blast
  have "map (\<lambda>u. (ut_target_kind u, ut_target_id u)) us = map plan_key ts"
    by (rule mapr_map [OF us]) (use one in \<open>fastforce simp: request_target_ok_def plan_key_def\<close>)
  moreover have "map ut_ask_kind us = map tr_ask ts"
    by (rule mapr_map [OF us]) (use one in \<open>fastforce simp: request_target_ok_def\<close>)
  moreover have "\<exists>t. request_target_ok p t u" if "u \<in> set us" for u
    using mapr_mem [OF us that] one by fastforce
  ultimately show ?thesis using us by blast
qed

text \<open>
  The request of a free-text turn is valid: the question is not empty, the answer has one to three
  hundred code points, and some target is open.
\<close>

definition request_ready :: "home_pack \<Rightarrow> bool" where
  "request_ready p \<longleftrightarrow> asks_agree p \<and> relation_inputs_distinct p \<and> aliases_fit p"

lemma request_total:
  assumes r: "resolved H sn p l" and ready: "request_ready p" and ne: "open_targets p l \<noteq> []"
    and tx: "resp_text resp = Some txt" and len: "bounded 1 300 txt" and q: "question \<noteq> []"
  shows "\<exists>rq. understanding_request_for H s p l resp question history = Inr rq
           \<and> req_child_utterance rq = txt
           \<and> cg_fact_ids (req_graph rq) = map fact_id (facts (hp_graph p))
           \<and> cg_relation_ids (req_graph rq) = map relation_id (relations (hp_graph p))"
proof -
  have p: "validate_home_pack p = Inr ()" using r by (rule resolved_pack)
  have d: "relation_inputs_distinct p" and fit: "aliases_fit p" using ready by (simp_all add: request_ready_def)
  define ts where "ts = narrowed_targets (ss_expression s) p l (open_targets p l)"
  have t: "targets_from_active_state H (ss_expression s) p l = Inr ts"
    using targets_resolved [OF r] by (simp add: ts_def)
  have n: "ts \<noteq> []" "set ts \<subseteq> set (open_targets p l)"
    using narrowed_targets_open [OF p ne, of "ss_expression s"] by (simp_all add: ts_def)
  have tl: "length ts \<le> 4" "distinct (map plan_key ts)"
    using narrowed_bounds [OF p, of "ss_expression s" l] by (simp_all add: ts_def)
  have req: "plan_key ` set ts \<subseteq> required_targets (completion (hp_graph p))"
    using n(2) initial_targets(2) [OF p] by (auto simp: ordered_targets_def)
  obtain cs where cs: "mapr (request_fact_context p) (facts (hp_graph p)) = Inr cs"
    and ci: "map cx_fact_id cs = map fact_id (facts (hp_graph p))"
    and cv: "map (\<lambda>c. (cx_fact_id c, cx_visible c)) cs = map (\<lambda>f. (fact_id f, initially_visible f)) (facts (hp_graph p))"
    and cf: "\<forall>c \<in> set cs. check_all (fact_context_fields c) = Inr ()"
    using contexts_total [OF p fit] by (elim exE conjE)
  obtain us where us: "mapr (request_target p) ts = Inr us"
    and uk: "map (\<lambda>u. (ut_target_kind u, ut_target_id u)) us = map plan_key ts"
    and ua: "map ut_ask_kind us = map tr_ask ts" and uo: "\<forall>u \<in> set us. \<exists>t. request_target_ok p t u"
    using targets_total [OF p d req] by (elim exE conjE)
  define scaffold where "scaffold = (if ss_hint s \<in> {H2, H3}
      then map tr_id (filter (\<lambda>t. tr_kind t = TK_Relation) ts) else [])"
  define rq where "rq = \<lparr>req_task_id = ''home_teaching'', req_visible_facts = visible_facts p,
     req_fact_contexts = cs, req_targets = us,
     req_graph = \<lparr>cg_fact_ids = map fact_id (facts (hp_graph p)),
        cg_relation_ids = map relation_id (relations (hp_graph p)),
        cg_open_auxiliary_claims = open_auxiliary_claims (hp_graph p)\<rparr>,
     req_turn = \<lparr>tc_mormi_question = question, tc_asks = dedup (map tr_ask ts),
        tc_expression_level = ss_expression s, tc_hint_level = ss_hint s,
        tc_help_scaffolded_relation_ids = scaffold\<rparr>,
     req_ui_elements = visible_ui_elements p (ss_hint s), req_history = last_six history,
     req_child_utterance = txt, req_guard_feedback_codes = []\<rparr>"
  have dg: "distinct (map fact_id (facts (hp_graph p)))" "distinct (map relation_id (relations (hp_graph p)))"
    using validate_graph_parts(1,2) [OF validate_home_pack_parts(1) [OF p]] by blast+
  have lc: "length cs = length (facts (hp_graph p))" using ci by (metis length_map)
  have lu: "length us = length ts" using uk by (metis length_map)
  have ls: "length scaffold \<le> 4"
    unfolding scaffold_def using tl(1) by (auto intro: le_trans [OF length_filter_le])
  have ds: "distinct scaffold"
  proof -
    have "distinct (map plan_key (filter (\<lambda>t. tr_kind t = TK_Relation) ts))"
      using tl(2) by (rule distinct_map_filter)
    then have "distinct (map tr_id (filter (\<lambda>t. tr_kind t = TK_Relation) ts))"
      by (auto simp: distinct_map inj_on_def plan_key_def)
    then show ?thesis by (simp add: scaffold_def)
  qed
  have ask1: "1 \<le> length (dedup (map tr_ask ts))" using n(1) by (cases ts) auto
  note ask2 = distinct_ask_kinds [of "map tr_ask ts"]
  have fields: "check_all (request_fields rq) = Inr ()"
    using lc lu home_ids(3,4) [OF p] tl(1) n(1) len visible_ui_elements_ok(1) [OF p, of "ss_hint s"]
      last_six_length [of history]
    by (simp add: request_fields_def rq_def field_def Suc_le_eq)
  have turn: "check_all (turn_context_fields (req_turn rq)) = Inr ()"
    using q ask1 ask2 ls by (simp add: turn_context_fields_def rq_def field_def)
  have scope: "validate_help_scaffold_scope (req_turn rq) = Inr ()"
    using ds by (simp add: validate_help_scaffold_scope_def rq_def scaffold_def)
  have targets: "for_each validate_request_target (req_targets rq) = Inr ()"
    using uo by (auto simp: for_each_Inr rq_def request_target_ok_def)
  have vis: "set (map cx_fact_id (filter cx_visible cs)) = set (map fst (visible_facts p))"
  proof -
    have "set (map cx_fact_id (filter cx_visible cs)) = fst ` {x \<in> set (map (\<lambda>c. (cx_fact_id c, cx_visible c)) cs). snd x}"
      by force
    also have "\<dots> = fact_id ` {f \<in> set (facts (hp_graph p)). initially_visible f}" unfolding cv by force
    finally show ?thesis using visible_facts_keys by simp
  qed
  have vsub: "set (map fst (visible_facts p)) \<subseteq> set (map fact_id (facts (hp_graph p)))"
    using visible_facts_keys [of p] by auto
  have refs: "check_all (concat (map (target_reference_checks (set (map fact_id (facts (hp_graph p))))
      (set (map relation_id (relations (hp_graph p))))) us)) = Inr ()"
    using uo by (auto simp: check_all_Inr request_target_ok_def simp del: check_all.simps)
  have kinds: "set (map ut_ask_kind us) = set (map tr_ask ts)" unfolding ua ..
  have rel: "set scaffold \<subseteq> set (map ut_target_id (filter (\<lambda>u. ut_target_kind u = TK_Relation) us))"
  proof -
    have "set (map ut_target_id (filter (\<lambda>u. ut_target_kind u = TK_Relation) us))
        = snd ` {k \<in> set (map (\<lambda>u. (ut_target_kind u, ut_target_id u)) us). fst k = TK_Relation}" by force
    also have "\<dots> = tr_id ` {t \<in> set ts. tr_kind t = TK_Relation}" unfolding uk by (force simp: plan_key_def)
    finally show ?thesis by (auto simp: scaffold_def)
  qed
  have dui: "distinct (map ue_element_id (visible_ui_elements p (ss_hint s)))"
    by (simp add: visible_ui_elements_def split: option.splits)
  have uniq: "distinct (map (\<lambda>u. (ut_target_kind u, ut_target_id u)) us)" unfolding uk by (rule tl(2))
  have dci: "distinct (map cx_fact_id cs)" unfolding ci by (rule dg(1))
  have cross: "targets_must_reference_the_claimable_graph rq = Inr ()"
    using uniq dci vis vsub refs kinds rel dui ci [THEN arg_cong [of _ _ set]]
    by (simp add: targets_must_reference_the_claimable_graph_def rq_def del: set_map)
  have ui: "for_each (\<lambda>e. check_all (ui_element_fields e)) (req_ui_elements rq) = Inr ()"
    using visible_ui_elements_ok(2) [OF p] by (simp add: for_each_Inr rq_def)
  have con: "for_each (\<lambda>c. check_all (fact_context_fields c)) (req_fact_contexts rq) = Inr ()"
    using cf by (simp add: for_each_Inr rq_def)
  have graph: "validate_claimable_graph (req_graph rq) = Inr ()"
    using dg by (simp add: validate_claimable_graph_def rq_def)
  have "validate_understanding_request rq = Inr ()"
    unfolding validate_understanding_request_def fields con targets graph turn scope ui
    by (simp add: cross)
  then have "understanding_request_for H s p l resp question history = Inr rq"
    using t cs us tx by (simp add: understanding_request_for_def rq_def scaffold_def)
  then show ?thesis by (auto simp: rq_def)
qed

end
