(* ===== verification/Home_Policy_Laws.thy ===== *)
theory Home_Policy_Laws
  imports Home_Request_Laws
begin

text \<open>
  Facts about the ladder policy and about what each stage of a turn may change in the session:
  frame lemmas, the joint invariant of the two ladders, and the measure that shows how far a
  conversation is from the joint action.
\<close>

section \<open>Frames\<close>

text \<open>The part of a session that only the ladder policy and the question contract write.\<close>

definition ladder_view :: "session \<Rightarrow> expression_level \<times> nat \<times> nat \<times> nat \<times> nat" where
  "ladder_view s = (ss_expression s, ss_expression_failures s, ss_concept_failures s, ss_vague s, ss_unrelated s)"

text \<open>The part that only completion writes.\<close>

definition outcome_view :: "session \<Rightarrow> session_status \<times> bool \<times> bool \<times> completion_outcome option \<times> bool" where
  "outcome_view s = (ss_status s, ss_all_direct s, ss_joint_used s, ss_outcome s, ss_reward s)"

definition identity_view :: "session \<Rightarrow> string \<times> string list \<times> nat \<times> runtime_contract_version" where
  "identity_view s = (ss_scenario_id s, ss_task_ids s, ss_task_index s, ss_runtime s)"

lemmas view_defs = ladder_view_def outcome_view_def identity_view_def

lemma raise_hint_frame [simp]:
  "outcome_view (raise_hint s) = outcome_view s" "identity_view (raise_hint s) = identity_view s"
  "ss_pinned (raise_hint s) = ss_pinned s" "ss_version (raise_hint s) = ss_version s"
  "ss_child_notes (raise_hint s) = ss_child_notes s" "ss_supported_notes (raise_hint s) = ss_supported_notes s"
  by (auto simp: raise_hint_def view_defs Let_def split: hint_level.splits)

lemma lower_expression_frame [simp]:
  "outcome_view (lower_expression s) = outcome_view s" "identity_view (lower_expression s) = identity_view s"
  "ss_pinned (lower_expression s) = ss_pinned s" "ss_version (lower_expression s) = ss_version s"
  "ss_child_notes (lower_expression s) = ss_child_notes s"
  "ss_supported_notes (lower_expression s) = ss_supported_notes s"
  by (auto simp: lower_expression_def view_defs Let_def)

lemma counter_frame [simp]:
  "outcome_view (reset_counters s) = outcome_view s" "identity_view (reset_counters s) = identity_view s"
  "outcome_view (s\<lparr>ss_vague := n\<rparr>) = outcome_view s" "identity_view (s\<lparr>ss_vague := n\<rparr>) = identity_view s"
  "outcome_view (s\<lparr>ss_unrelated := n\<rparr>) = outcome_view s" "identity_view (s\<lparr>ss_unrelated := n\<rparr>) = identity_view s"
  "outcome_view (s\<lparr>ss_concept_failures := n\<rparr>) = outcome_view s"
  "identity_view (s\<lparr>ss_concept_failures := n\<rparr>) = identity_view s"
  "outcome_view (s\<lparr>ss_expression := e\<rparr>) = outcome_view s" "identity_view (s\<lparr>ss_expression := e\<rparr>) = identity_view s"
  "ss_pinned (reset_counters s) = ss_pinned s" "ss_version (reset_counters s) = ss_version s"
  "ss_child_notes (reset_counters s) = ss_child_notes s"
  "ss_supported_notes (reset_counters s) = ss_supported_notes s"
  by (simp_all add: reset_counters_def view_defs)

lemma apply_ladder_policy_frame [simp]:
  "outcome_view (apply_ladder_policy s m) = outcome_view s"
  "identity_view (apply_ladder_policy s m) = identity_view s"
  "ss_pinned (apply_ladder_policy s m) = ss_pinned s"
  "ss_version (apply_ladder_policy s m) = ss_version s"
  "ss_child_notes (apply_ladder_policy s m) = ss_child_notes s"
  "ss_supported_notes (apply_ladder_policy s m) = ss_supported_notes s"
  by (simp_all add: apply_ladder_policy_def Let_def)

section \<open>The joint invariant of the ladders\<close>

text \<open>
  The joint action L0 is offered exactly with the joint card H3, and the legacy level L1 does not
  occur.
\<close>

definition ladders_ok :: "session \<Rightarrow> bool" where
  "ladders_ok s \<longleftrightarrow> ss_expression s \<noteq> L1 \<and> (ss_expression s = L0 \<longleftrightarrow> ss_hint s = H3)"

lemma raise_hint_ladders:
  assumes "ladders_ok s"
  shows "ladders_ok (raise_hint s)" and "hint_rank (ss_hint s) \<le> hint_rank (ss_hint (raise_hint s))"
    and "hint_rank (ss_hint (raise_hint s)) \<le> hint_rank (ss_hint s) + 1"
    and "rank (ss_expression (raise_hint s)) \<le> rank (ss_expression s)"
    and "ss_hint s \<noteq> H3 \<Longrightarrow> hint_rank (ss_hint (raise_hint s)) = hint_rank (ss_hint s) + 1"
    and "ss_hint (raise_hint s) \<noteq> H3 \<Longrightarrow> ss_expression (raise_hint s) = ss_expression s"
    and "ss_vague (raise_hint s) = ss_vague s"
  using assms by (cases "ss_hint s"; auto simp: raise_hint_def ladders_ok_def Let_def)+

lemma lower_expression_ladders:
  assumes "ladders_ok s"
  shows "ladders_ok (lower_expression s)"
    and "hint_rank (ss_hint s) \<le> hint_rank (ss_hint (lower_expression s))"
    and "ss_expression (lower_expression s) = lower (ss_expression s)"
    and "ss_hint (lower_expression s) = (if lower (ss_expression s) = L0 then H3 else ss_hint s)"
    and "ss_vague (lower_expression s) = ss_vague s"
  using assms by (cases "ss_expression s"; cases "ss_hint s";
      auto simp: lower_expression_def ladders_ok_def Let_def)+

lemma ladders_ok_counters [simp]:
  "ladders_ok (reset_counters s) = ladders_ok s" "ladders_ok (s\<lparr>ss_vague := n\<rparr>) = ladders_ok s"
  "ladders_ok (s\<lparr>ss_unrelated := n\<rparr>) = ladders_ok s" "ladders_ok (s\<lparr>ss_concept_failures := n\<rparr>) = ladders_ok s"
  by (simp_all add: ladders_ok_def reset_counters_def)

lemma reset_counters_levels [simp]:
  "ss_expression (reset_counters s) = ss_expression s" "ss_hint (reset_counters s) = ss_hint s"
  by (simp_all add: reset_counters_def)

lemma policy_ladders_ok:
  assumes "ladders_ok s"
  shows "ladders_ok (apply_ladder_policy s m)"
proof -
  have "ladders_ok (s\<lparr>ss_vague := 0, ss_unrelated := 0\<rparr>)" using assms by (simp add: ladders_ok_def)
  moreover have "ladders_ok (s\<lparr>ss_vague := 0, ss_unrelated := 0, ss_expression := L3\<rparr>)"
    if "ss_expression s = L4" using assms that by (simp add: ladders_ok_def)
  ultimately show ?thesis using assms
    by (simp add: apply_ladder_policy_def Let_def raise_hint_ladders(1) lower_expression_ladders(1))
qed

text \<open>Support only grows, and by at most one step of each ladder short of the joint action.\<close>

definition support_step :: "session \<Rightarrow> session \<Rightarrow> bool" where
  "support_step s t \<longleftrightarrow>
     rank (ss_expression t) \<le> rank (ss_expression s) \<and> hint_rank (ss_hint s) \<le> hint_rank (ss_hint t)
     \<and> (ss_expression t = L0
        \<or> hint_rank (ss_hint t) \<le> hint_rank (ss_hint s) + 1
          \<and> (ss_expression t = ss_expression s \<or> ss_expression t = lower (ss_expression s)))"

lemma support_step_refl: "ss_expression t = ss_expression s \<Longrightarrow> ss_hint t = ss_hint s \<Longrightarrow> support_step s t"
  by (simp add: support_step_def)

lemma support_step_raise:
  assumes "ladders_ok t" "ss_expression t = ss_expression s" "ss_hint t = ss_hint s"
  shows "support_step s (raise_hint t)"
proof -
  have "ladders_ok (raise_hint t)" using assms(1) by (rule raise_hint_ladders(1))
  then show ?thesis using raise_hint_ladders [OF assms(1)] assms(2,3)
    by (cases "ss_hint (raise_hint t) = H3") (auto simp: ladders_ok_def support_step_def)
qed

lemma support_step_lower:
  assumes "ladders_ok t" "ss_expression t = ss_expression s" "ss_hint t = ss_hint s"
  shows "support_step s (lower_expression t)"
  using lower_expression_ladders [OF assms(1)] assms(2,3) rank_lower_le [of "ss_expression s"]
  by (auto simp: support_step_def)

lemma support_step_both:
  assumes ok: "ladders_ok s"
  shows "support_step s (raise_hint (lower_expression s))"
proof -
  have l: "ladders_ok (lower_expression s)" using ok by (rule lower_expression_ladders(1))
  then have r: "ladders_ok (raise_hint (lower_expression s))" by (rule raise_hint_ladders(1))
  show ?thesis using raise_hint_ladders [OF l] r lower_expression_ladders [OF ok] rank_lower_le [of "ss_expression s"]
    by (cases "ss_hint (raise_hint (lower_expression s)) = H3") (auto simp: ladders_ok_def support_step_def)
qed

lemma policy_support_step:
  assumes ok: "ladders_ok s"
  shows "support_step s (apply_ladder_policy s m)"
proof -
  have "support_step s (s\<lparr>ss_vague := 0, ss_unrelated := 0, ss_expression := L3\<rparr>)" if "ss_expression s = L4"
    using that by (simp add: support_step_def)
  then show ?thesis using ok support_step_both [OF ok]
    by (simp add: apply_ladder_policy_def Let_def support_step_raise support_step_lower support_step_refl)
qed

section \<open>Distance to the joint action\<close>

fun level_index :: "expression_level \<Rightarrow> nat" where
  "level_index L4 = 3" | "level_index L3 = 2" | "level_index L2 = 1" | "level_index L1 = 1"
| "level_index L0 = 0"

definition support_distance :: "session \<Rightarrow> nat" where
  "support_distance s =
     (if ss_expression s = L0 then 0
      else 2 * level_index (ss_expression s) + 2 * (3 - hint_rank (ss_hint s))
        + (if ss_vague s = 0 then 1 else 0))"

lemma support_distance_le: "support_distance s \<le> 13"
proof -
  have "2 * level_index (ss_expression s) \<le> 6" by (cases "ss_expression s") simp_all
  moreover have "2 * (3 - hint_rank (ss_hint s)) \<le> 6" by simp
  ultimately show ?thesis unfolding support_distance_def by (auto split: if_splits)
qed

text \<open>
  An unproductive learning turn: the model was available, the turn was about the task, and nothing
  new was verified, not even in part. Social turns, unusable recordings and provider failures are
  not learning turns.
\<close>

definition unproductive :: "turn_semantics \<Rightarrow> bool" where
  "unproductive m \<longleftrightarrow>
     sm_source m \<notin> {Deterministic_Fallback, Asr_Empty}
     \<and> \<not> new_canonical_progress (sm_result m) \<and> \<not> new_partial_progress (sm_result m)
     \<and> (asks_for_help_card (sm_response m)
        \<or> conversation_move (sm_response m) \<notin> {MOVE_META_QUESTION, MOVE_REFUSAL, MOVE_SAFE_PLAY}
          \<and> sm_route m \<notin> {Bridge, Safety})"

lemma distance_zero: "support_distance s = 0 \<longleftrightarrow> ss_expression s = L0"
  by (cases "ss_expression s") (auto simp: support_distance_def)

lemma raise_hint_distance:
  assumes "ladders_ok s" and "ss_expression s \<noteq> L0"
  shows "support_distance (raise_hint s) + 2 \<le> support_distance s + (if ss_hint s = H2 then 2 else 0)"
    and "support_distance (raise_hint s) + 2 \<le> support_distance s"
  using assms by (cases "ss_hint s"; cases "ss_expression s";
      auto simp: raise_hint_def support_distance_def ladders_ok_def Let_def)+

lemma lower_expression_distance:
  assumes "ladders_ok s" and "ss_expression s \<noteq> L0"
  shows "support_distance (lower_expression s) + 2 \<le> support_distance s"
  using assms by (cases "ss_hint s"; cases "ss_expression s";
      auto simp: lower_expression_def support_distance_def ladders_ok_def Let_def)

lemma distance_counters [simp]:
  "support_distance (s\<lparr>ss_concept_failures := n\<rparr>) = support_distance s"
  "support_distance (s\<lparr>ss_unrelated := n\<rparr>) = support_distance s"
  by (simp_all add: support_distance_def)

lemma distance_vague: "support_distance (s\<lparr>ss_vague := 0\<rparr>) \<le> support_distance s + 1"
  by (simp add: support_distance_def)

text \<open>Every unproductive learning turn moves the conversation closer to the joint action.\<close>

lemma unproductive_distance:
  assumes ok: "ladders_ok s" and l0: "ss_expression s \<noteq> L0" and u: "unproductive m"
  shows "support_distance (apply_ladder_policy s m) < support_distance s"
proof -
  have a: "support_distance (raise_hint t) < support_distance s"
    if "ladders_ok t" "ss_expression t \<noteq> L0" "support_distance t \<le> support_distance s + 1" for t
    using raise_hint_distance(2) [OF that(1,2)] that(3) by linarith
  have b: "support_distance (lower_expression t) < support_distance s"
    if "ladders_ok t" "ss_expression t \<noteq> L0" "support_distance t \<le> support_distance s + 1" for t
    using lower_expression_distance [OF that(1,2)] that(3) by linarith
  have c: "support_distance (raise_hint (lower_expression s)) < support_distance s"
  proof (cases "ss_expression (lower_expression s) = L0")
    case True
    have k: "ladders_ok (lower_expression s)" using ok by (rule lower_expression_ladders(1))
    then have "rank (ss_expression (raise_hint (lower_expression s))) \<le> 0"
      using raise_hint_ladders(4) [OF k] True by simp
    then have "ss_expression (raise_hint (lower_expression s)) = L0"
      by (cases "ss_expression (raise_hint (lower_expression s))") simp_all
    then have "support_distance (raise_hint (lower_expression s)) = 0" by (simp add: distance_zero)
    moreover have "support_distance s \<noteq> 0" using l0 by (simp add: distance_zero)
    ultimately show ?thesis by simp
  next
    case False
    have k: "ladders_ok (lower_expression s)" using ok by (rule lower_expression_ladders(1))
    show ?thesis
      using raise_hint_distance(2) [OF k False] lower_expression_distance [OF ok l0] by linarith
  qed
  have d: "ss_vague s = 0 \<Longrightarrow> support_distance (s\<lparr>ss_vague := 1\<rparr>) < support_distance s"
    using l0 by (simp add: support_distance_def)
  have w: "ladders_ok (s\<lparr>ss_vague := 0\<rparr>)" "ss_expression (s\<lparr>ss_vague := 0\<rparr>) \<noteq> L0"
    using ok l0 by simp_all
  have x: "ladders_ok (s\<lparr>ss_concept_failures := Suc (ss_concept_failures s)\<rparr>)"
    "ss_expression (s\<lparr>ss_concept_failures := Suc (ss_concept_failures s)\<rparr>) \<noteq> L0" using ok l0 by simp_all
  show ?thesis
    using u a [OF w distance_vague] a [OF x] b [OF ok l0] b [OF w distance_vague] c d
    by (auto simp: apply_ladder_policy_def unproductive_def Let_def)
qed

end
