(* ===== verification/Home_Turn_Laws.thy ===== *)
theory Home_Turn_Laws
  imports Home_Policy_Laws
begin

text \<open>
  Facts about a whole turn that returned: what the interpreted response did to the ledger, which
  stage changed which part of the session, and the invariant that holds between turns.
\<close>

section \<open>The ledger of an interpreted response\<close>

text \<open>
  \<open>child_verified l i\<close>: the relation is verified by evidence in the child's own words.
\<close>

definition child_evidence :: "relation_entry \<Rightarrow> bool" where
  "child_evidence e \<longleftrightarrow> (\<exists>x \<in> set (re_evidence e). case x of
     RelationVerification ptr v \<Rightarrow> True | RelationStructured _ \<Rightarrow> False)"

definition child_verified :: "(string, relation_entry) dict \<Rightarrow> string \<Rightarrow> bool" where
  "child_verified rels i \<longleftrightarrow> (\<exists>e. dict_get rels i = Some e \<and> child_evidence e)"

lemma child_verified_mono:
  assumes "dict_le relation_le rels rels'" and "child_verified rels i"
  shows "child_verified rels' i"
proof -
  obtain e where e: "dict_get rels i = Some e" "child_evidence e"
    using assms(2) by (auto simp: child_verified_def)
  then obtain e' where "dict_get rels' i = Some e'" "relation_le e e'"
    using assms(1) unfolding dict_le_def by blast
  then show ?thesis using e(2) by (auto simp: child_verified_def child_evidence_def relation_le_def prefix_def)
qed

lemma new_relation_ids_frame:
  "record_fact fs fid val ev st = Inr st' \<Longrightarrow> as_new_relation_ids st' = as_new_relation_ids st"
  "record_partial rid pv st = Inr st' \<Longrightarrow> as_new_relation_ids st' = as_new_relation_ids st"
  "as_new_relation_ids (record_auxiliary pv v st) = as_new_relation_ids st"
  "as_new_relation_ids (note_claim c e st) = as_new_relation_ids st"
  "as_new_relation_ids (ignore_claim c st) = as_new_relation_ids st"
  by (auto simp: record_fact_def record_partial_def record_auxiliary_def note_claim_def ignore_claim_def
      bindr_eq_Inr split: option.splits if_splits)

lemma record_relation_new:
  assumes "record_relation rid (RelationVerification ptr v) st = Inr st'" and "i \<in> set (as_new_relation_ids st')"
  shows "i \<in> set (as_new_relation_ids st) \<or> child_verified (as_relations st') i"
  using assms by (auto simp: record_relation_def child_verified_def child_evidence_def
      split: option.splits if_splits)

lemma apply_claim_new:
  assumes "apply_claim sha fs ms turn c st = Inr st'" and "i \<in> set (as_new_relation_ids st')"
  shows "i \<in> set (as_new_relation_ids st) \<or> child_verified (as_relations st') i"
proof (cases c)
  case (FactClaim f)
  with assms show ?thesis
    by (auto simp: bindr_eq_Inr Let_def new_relation_ids_frame(4,5) dest!: new_relation_ids_frame(1) split: if_splits)
next
  case (RelationClaim r)
  with assms show ?thesis
    by (auto simp: bindr_eq_Inr Let_def new_relation_ids_frame(4,5)
        dest!: new_relation_ids_frame(2) dest: record_relation_new split: if_splits)
next
  case (AuxiliaryClaim a)
  with assms show ?thesis
    by (auto simp: bindr_eq_Inr Let_def new_relation_ids_frame(3,4,5) split: if_splits)
qed

lemma apply_claim_new_relations:
  assumes "apply_claim sha fs ms turn c st = Inr st'"
    and "\<forall>i \<in> set (as_new_relation_ids st). child_verified (as_relations st) i"
  shows "\<forall>i \<in> set (as_new_relation_ids st'). child_verified (as_relations st') i"
proof -
  have "dict_le relation_le (as_relations st) (as_relations st')"
    using apply_claim_effect(1) [OF assms(1)] by (simp add: state_le_def)
  then show ?thesis using apply_claim_new [OF assms(1)] assms(2) child_verified_mono by blast
qed

lemma apply_claims_new_relations:
  assumes "fold_res (apply_claim sha fs ms turn) cs (initial_state l) = Inr st"
  shows "\<forall>i \<in> set (as_new_relation_ids st). child_verified (as_relations st) i"
  by (rule fold_res_preserves [OF assms, of "\<lambda>st. \<forall>i \<in> set (as_new_relation_ids st). child_verified (as_relations st) i"])
    (simp add: initial_state_def, rule apply_claim_new_relations)

text \<open>A fact that a turn reports as new is verified.\<close>

definition new_facts_ok :: "apply_state \<Rightarrow> bool" where
  "new_facts_ok st \<longleftrightarrow> set (as_new_fact_ids st) \<subseteq> set (dict_keys (as_facts st))"

lemma new_facts_frame:
  "record_fact fs fid val ev st = Inr st' \<Longrightarrow> new_facts_ok st \<Longrightarrow> new_facts_ok st'"
  "record_relation rid ev' st = Inr st' \<Longrightarrow> new_facts_ok st \<Longrightarrow> new_facts_ok st'"
  "record_partial rid pv st = Inr st' \<Longrightarrow> new_facts_ok st \<Longrightarrow> new_facts_ok st'"
  "new_facts_ok (record_auxiliary pv v st) = new_facts_ok st"
  "new_facts_ok (note_claim c e st) = new_facts_ok st" "new_facts_ok (ignore_claim c st) = new_facts_ok st"
  by (auto simp: new_facts_ok_def record_fact_def record_relation_def record_partial_def record_auxiliary_def
      note_claim_def ignore_claim_def bindr_eq_Inr simp del: set_map split: option.splits if_splits)

lemma apply_claim_new_facts:
  assumes "apply_claim sha fs ms turn c st = Inr st'" and "new_facts_ok st"
  shows "new_facts_ok st'"
  using assms by (cases c) (auto simp: bindr_eq_Inr Let_def new_facts_frame(4-6) split: if_splits
      dest!: new_facts_frame(1-3))

lemma apply_claims_new_facts:
  assumes "fold_res (apply_claim sha fs ms turn) cs (initial_state l) = Inr st"
  shows "new_facts_ok st"
  by (rule fold_res_preserves [OF assms]) (simp add: new_facts_ok_def initial_state_def, rule apply_claim_new_facts)

lemma apply_structured_new_facts:
  assumes "fold_res (apply_structured_fact sha fs turn sk) us (initial_state l) = Inr st1"
    and "fold_res (apply_structured_relation sha turn sk) rids st1 = Inr st2"
  shows "new_facts_ok st2"
proof -
  have a: "new_facts_ok st1"
    by (rule fold_res_preserves [OF assms(1)]) (simp add: new_facts_ok_def initial_state_def,
        simp add: apply_structured_fact_def new_facts_frame(1))
  show ?thesis
    by (rule fold_res_preserves [OF assms(2)]) (rule a, simp add: apply_structured_relation_def new_facts_frame(2))
qed

text \<open>What holds of the semantics of every response that was interpreted.\<close>

definition result_ok ::
    "(task_pack \<Rightarrow> string) \<Rightarrow> snapshot \<Rightarrow> task_pack \<Rightarrow> reasoning_ledger \<Rightarrow> apply_result \<Rightarrow> bool" where
  "result_ok H sn tp l r \<longleftrightarrow> ledger_le l (ar_ledger r) \<and> resolved_task H sn tp (ar_ledger r)
     \<and> ar_completion r = completion_of tp (ar_ledger r)
     \<and> set (as_new_fact_ids (ar_state r)) \<subseteq> set (dict_keys (verified_facts (ar_ledger r)))"

definition semantics_ok ::
    "(task_pack \<Rightarrow> string) \<Rightarrow> snapshot \<Rightarrow> task_pack \<Rightarrow> reasoning_ledger \<Rightarrow> turn_semantics \<Rightarrow> bool" where
  "semantics_ok H sn tp l m \<longleftrightarrow> result_ok H sn tp l (sm_result m)
     \<and> (sm_source m = Deterministic_Fallback \<longrightarrow> ar_ledger (sm_result m) = l)
     \<and> (sm_source m = Sonnet_Low \<longrightarrow>
          (\<forall>i \<in> set (as_new_relation_ids (ar_state (sm_result m))).
             child_verified (verified_relations (ar_ledger (sm_result m))) i))"

lemma finish_result_ok:
  assumes r: "resolved_task H sn tp l" and f: "finish_apply H sn l prior st = Inr res" and le: "ledger_le l (ar_ledger res)"
    and new: "new_facts_ok st"
  shows "result_ok H sn tp l res"
proof -
  have "reasoning_completion H sn (ar_ledger res) = Inr (ar_completion res)" using finish_apply_Inr(4) [OF f] .
  then have "resolved_task H sn tp (ar_ledger res)" "ar_completion res = completion_of tp (ar_ledger res)"
    using r by (auto simp: resolved_def reasoning_completion_Inr)
  moreover have "set (as_new_fact_ids (ar_state res)) \<subseteq> set (dict_keys (verified_facts (ar_ledger res)))"
    using new unfolding finish_apply_Inr(1,2) [OF f] by (simp add: new_facts_ok_def next_ledger_def)
  ultimately show ?thesis using le by (simp add: result_ok_def)
qed

lemma unchanged_result_ok:
  assumes "resolved_task H sn tp l"
  shows "\<exists>r. unchanged_result H sn l = Inr r \<and> ar_ledger r = l \<and> ar_state r = initial_state l
           \<and> result_ok H sn tp l r"
  using assms resolved_completion [OF assms] by (simp add: unchanged_result_def result_ok_def initial_state_def)

lemma unchanged_result_Inr:
  assumes "resolved_task H sn tp l" and "unchanged_result H sn l = Inr r"
  shows "ar_ledger r = l" and "ar_state r = initial_state l" and "result_ok H sn tp l r"
  using unchanged_result_ok [OF assms(1)] assms(2) by auto

lemma guarded_result_ok:
  assumes r: "resolved_task H sn tp l" and a: "apply_guarded_understanding H sha sn l g turn = Inr res"
  shows "result_ok H sn tp l res"
    and "\<forall>i \<in> set (as_new_relation_ids (ar_state res)). child_verified (verified_relations (ar_ledger res)) i"
proof -
  obtain tp2 ms st where s: "fold_res (apply_claim sha (dict_by tf_id (pack_facts tp2)) ms turn) (claims (response g))
       (initial_state l) = Inr st" and f: "finish_apply H sn l (completion_of tp2 l) st = Inr res"
    using a by (rule apply_guarded_Inr)
  show "result_ok H sn tp l res"
    by (rule finish_result_ok [OF r f guarded_monotone [OF a] apply_claims_new_facts [OF s]])
  show "\<forall>i \<in> set (as_new_relation_ids (ar_state res)). child_verified (verified_relations (ar_ledger res)) i"
    using apply_claims_new_relations [OF s] finish_apply_Inr(1,2) [OF f] by (simp add: next_ledger_def)
qed

lemma structured_result_ok:
  assumes r: "resolved_task H sn tp l" and a: "apply_structured_progress H sha sn l us rids turn sk = Inr res"
  shows "result_ok H sn tp l res"
proof -
  obtain tp2 st1 st where s: "fold_res (apply_structured_fact sha (dict_by tf_id (pack_facts tp2)) turn sk) us
       (initial_state l) = Inr st1" "fold_res (apply_structured_relation sha turn sk) rids st1 = Inr st"
    and f: "finish_apply H sn l (completion_of tp2 l) st = Inr res"
    using a by (rule apply_structured_Inr)
  show ?thesis by (rule finish_result_ok [OF r f structured_monotone [OF a] apply_structured_new_facts [OF s]])
qed

lemma failure_semantics_ok:
  assumes r: "resolved_task H sn tp l"
  shows "\<exists>m. understanding_failure_semantics H sn l k reason = Inr m \<and> semantics_ok H sn tp l m
           \<and> sm_source m = Deterministic_Fallback"
  using unchanged_result_ok [OF r]
  by (auto simp: understanding_failure_semantics_def semantics_ok_def base_semantics_def)

lemma failure_semantics_Inr:
  assumes "resolved_task H sn tp l" and "understanding_failure_semantics H sn l k reason = Inr m"
  shows "semantics_ok H sn tp l m" and "sm_source m = Deterministic_Fallback"
  using failure_semantics_ok [OF assms(1), of k reason] assms(2) by auto

lemma admitted_semantics_Inr:
  assumes r: "resolved_task H (ax_snapshot cx) tp (ax_ledger cx)"
    and a: "admitted_understanding_semantics H sha cx k = Inr m"
  shows "semantics_ok H (ax_snapshot cx) tp (ax_ledger cx) m" and "sm_source m = Sonnet_Low"
proof -
  obtain g res where g: "apply_guarded_understanding H sha (ax_snapshot cx) (ax_ledger cx) g
      (turn_id (ax_response cx)) = Inr res" and m: "sm_result m = res" "sm_source m = Sonnet_Low"
    using a by (auto simp: admitted_understanding_semantics_def bindr_eq_Inr Let_def split: option.splits)
  show "semantics_ok H (ax_snapshot cx) tp (ax_ledger cx) m"
    using guarded_result_ok [OF r g] m by (simp add: semantics_ok_def)
  show "sm_source m = Sonnet_Low" by (rule m(2))
qed

lemma provider_failure_Inr:
  assumes "resolved_task H (ax_snapshot cx) tp (ax_ledger cx)" and "provider_failure H sha cx k reason = Inr m"
  shows "semantics_ok H (ax_snapshot cx) tp (ax_ledger cx) m"
  using assms admitted_semantics_Inr(1) [OF assms(1)] failure_semantics_Inr(1) [OF assms(1)]
  by (auto simp: provider_failure_def split: if_splits)

text \<open>An attempt keeps the snapshot and the ledger of its context.\<close>

lemma understand_attempt_Inr:
  assumes r: "resolved_task H (ax_snapshot cx) tp (ax_ledger cx)"
    and a: "understand_attempt H sha nfc gateway cx k = Inr out"
  shows "case out of Inl m \<Rightarrow> semantics_ok H (ax_snapshot cx) tp (ax_ledger cx) m
         | Inr cx' \<Rightarrow> k = 1 \<and> ax_snapshot cx' = ax_snapshot cx \<and> ax_ledger cx' = ax_ledger cx"
proof (cases "gateway k (ax_request cx)")
  case (Candidate resp)
  let ?adm = "admit_understanding_response nfc (ax_request cx) resp"
  show ?thesis
  proof (cases "route_for_understanding resp \<in> {Bridge, Safety} \<and> ax_admitted cx = None")
    case True
    then obtain u where "unchanged_result H (ax_snapshot cx) (ax_ledger cx) = Inr u"
      and "out = Inl ((base_semantics resp u (route_for_understanding resp) Sonnet_Low)\<lparr>sm_attempts := k\<rparr>)"
      using a Candidate by (auto simp: understand_attempt_def understand_candidate_def bindr_eq_Inr)
    then show ?thesis using unchanged_result_Inr [OF r]
      by (auto simp: semantics_ok_def base_semantics_def initial_state_def)
  next
    case False
    from a Candidate False obtain g where
      rest: "(if needs_repair ?adm \<and> k = 1 then
          Inr (Inr (cx\<lparr>ax_admitted := (if claims (response g) \<noteq> [] then Some g else None),
                 ax_request := (ax_request cx)\<lparr>req_guard_feedback_codes :=
                   map (\<lambda>v. violation_name (gv_code v)) (quarantined_claims ?adm)\<rparr>\<rparr>))
        else if claims (response g) = [] \<and> needs_repair ?adm then
          bindr (understanding_failure_semantics H (ax_snapshot cx) (ax_ledger cx) k
                   Understanding_Evidence_Guard_Failed) (\<lambda>m. Inr (Inl m))
        else bindr (admitted_understanding_semantics H sha (cx\<lparr>ax_admitted := Some g\<rparr>) k)
               (\<lambda>m. Inr (Inl m))) = Inr out"
      unfolding understand_attempt_def understand_candidate_def Let_def
      by (simp only: gateway_answer.case if_False bindr_eq_Inr) blast
    have r': "resolved_task H (ax_snapshot (cx\<lparr>ax_admitted := Some g\<rparr>)) tp (ax_ledger (cx\<lparr>ax_admitted := Some g\<rparr>))"
      using r by simp
    show ?thesis using rest failure_semantics_Inr(1) [OF r] admitted_semantics_Inr(1) [OF r']
      by (auto simp: bindr_eq_Inr split: if_splits)
  qed
qed (use a provider_failure_Inr [OF r] in \<open>auto simp: understand_attempt_def bindr_eq_Inr\<close>)

lemma attempt_graph_semantics:
  assumes r: "resolved_task H sn tp l"
    and g: "run_attempt_graph (understand_attempt H sha nfc gateway) (understanding_exhausted H sha)
       \<lparr>ax_session = s, ax_snapshot = sn, ax_ledger = l, ax_response = resp, ax_request = rq,
        ax_admitted = None\<rparr> = Inr m"
  shows "semantics_ok H sn tp l m"
proof -
  have "attempt_graph (understand_attempt H sha nfc gateway) (understanding_exhausted H sha) n k cx = Inr m
      \<Longrightarrow> ax_snapshot cx = sn \<Longrightarrow> ax_ledger cx = l \<Longrightarrow> semantics_ok H sn tp l m" for n k cx
  proof (induction n arbitrary: k cx)
    case 0
    then have r': "resolved_task H (ax_snapshot cx) tp (ax_ledger cx)" using r by simp
    from 0 show ?case using admitted_semantics_Inr(1) [OF r'] failure_semantics_Inr(1) [OF r']
      by (auto simp: understanding_exhausted_def split: if_splits)
  next
    case (Suc n)
    then have r': "resolved_task H (ax_snapshot cx) tp (ax_ledger cx)" using r by simp
    from Suc.prems(1) obtain out where o: "understand_attempt H sha nfc gateway cx (Suc k) = Inr out"
      and rest: "(case out of Inl result \<Rightarrow> Inr result
        | Inr cx' \<Rightarrow> attempt_graph (understand_attempt H sha nfc gateway) (understanding_exhausted H sha) n
            (Suc k) cx') = Inr m" by (auto simp: bindr_eq_Inr)
    from understand_attempt_Inr [OF r' o] rest Suc.IH Suc.prems(2,3) show ?case
      by (auto split: sum.splits)
  qed
  from this [OF g [unfolded run_attempt_graph_def]] show ?thesis by simp
qed

lemma no_response_result:
  assumes "resolved_task H sn tp l" and "no_response_semantics H s sn l resp = Inr m"
  shows "semantics_ok H sn tp l m"
  using assms(2) unchanged_result_Inr [OF assms(1)]
  by (auto simp: no_response_semantics_def Let_def bindr_eq_Inr semantics_ok_def base_semantics_def
      split: no_response_kind.splits)

lemma joint_result:
  assumes "resolved_task H sn tp l" and "joint_semantics H sha s p sn l resp = Inr m"
  shows "semantics_ok H sn tp l m"
  using assms(2) structured_result_ok [OF assms(1)]
  by (auto simp: joint_semantics_def bindr_eq_Inr semantics_ok_def base_semantics_def split: if_splits)

lemma understand_text_semantics:
  assumes r: "resolved H sn p l"
    and u: "understand_text H sha nfc gateway s p sn l resp question history = Inr m"
  shows "semantics_ok H sn (Home p) l m"
  using u attempt_graph_semantics [OF r] by (auto simp: understand_text_def bindr_eq_Inr)

lemma interpret_semantics:
  assumes r: "resolved H sn p l"
    and i: "interpret_execution H sha nfc gateway s p sn l resp question history = Inr m"
  shows "semantics_ok H sn (Home p) l m"
proof -
  have c: "semantics_ok H sn (Home p) l m" if "choice_semantics H sha s p sn l resp = Inr m"
    using that unchanged_result_Inr [OF r] structured_result_ok [OF r]
    by (auto simp: choice_semantics_def Let_def bindr_eq_Inr semantics_ok_def base_semantics_def
        split: if_splits option.splits)
  show ?thesis using i no_response_result [OF r] c joint_result [OF r] understand_text_semantics [OF r]
    by (auto simp: interpret_execution_def split: response_type.splits)
qed

end
