(* ===== verification/Home_Session.thy ===== *)
theory Home_Session
  imports Home_Turn_Laws
begin

text \<open>
  A whole home session: what a turn that returned changed in the session, sessions as sequences of
  turns, and the invariant of every session that was started by \<open>initialize_state\<close>.
\<close>

section \<open>What a turn changes\<close>

lemma question_effect:
  assumes "question_contract_of H s p l = Inr (q, s')"
  shows "s' = s\<lparr>ss_subgoal := ss_subgoal s',
                ss_hint := (if ss_status s \<noteq> COMPLETED \<and> ss_expression s = L0 then H3 else ss_hint s)\<rparr>"
proof (cases "ss_status s = COMPLETED")
  case True
  then show ?thesis using assms by (simp add: question_contract_of_def)
next
  case False
  show ?thesis
  proof (cases "ss_expression s = L0")
    case True
    then show ?thesis using assms False by (auto simp: question_contract_of_def bindr_eq_Inr)
  next
    case l0: False
    have "\<exists>g. s' = s\<lparr>ss_subgoal := g\<rparr>"
      using assms False l0
      by (auto simp: question_contract_of_def l3_question_def l4_question_def bindr_eq_Inr split: if_splits)
    then show ?thesis using l0 by auto
  qed
qed

text \<open>
  \<open>reworded s s'\<close>: \<open>s'\<close> differs from \<open>s\<close> in the subgoal, the turn identifier and,
  at L0, the hint.
\<close>

definition reworded :: "session \<Rightarrow> session \<Rightarrow> bool" where
  "reworded s s' \<longleftrightarrow> s' = s\<lparr>ss_subgoal := ss_subgoal s', ss_turn_id := ss_turn_id s', ss_hint := ss_hint s'\<rparr>
     \<and> (ss_hint s' = ss_hint s \<or> ss_expression s = L0 \<and> ss_hint s' = H3)"

lemma reworded_refl [simp]: "reworded s s"
  by (simp add: reworded_def)

lemma reworded_fields:
  assumes "reworded s s'"
  shows "ladder_view s' = ladder_view s" "outcome_view s' = outcome_view s" "identity_view s' = identity_view s"
    "ss_pinned s' = ss_pinned s" "ss_version s' = ss_version s" "ss_child_notes s' = ss_child_notes s"
    "ss_supported_notes s' = ss_supported_notes s" "ss_expression s' = ss_expression s"
    "ss_status s' = ss_status s" "ss_verified_slots s' = ss_verified_slots s"
proof -
  obtain a b c where "s' = s\<lparr>ss_subgoal := a, ss_turn_id := b, ss_hint := c\<rparr>"
    using assms unfolding reworded_def by blast
  then show "ladder_view s' = ladder_view s" "outcome_view s' = outcome_view s" "identity_view s' = identity_view s"
    "ss_pinned s' = ss_pinned s" "ss_version s' = ss_version s" "ss_child_notes s' = ss_child_notes s"
    "ss_supported_notes s' = ss_supported_notes s" "ss_expression s' = ss_expression s"
    "ss_status s' = ss_status s" "ss_verified_slots s' = ss_verified_slots s"
    by (simp_all add: view_defs)
qed

lemma reworded_trans:
  assumes "reworded s t" and "reworded t u"
  shows "reworded s u"
proof -
  obtain a b c where t: "t = s\<lparr>ss_subgoal := a, ss_turn_id := b, ss_hint := c\<rparr>"
    and c: "c = ss_hint s \<or> ss_expression s = L0 \<and> c = H3"
    using assms(1) unfolding reworded_def by blast
  obtain x y z where u: "u = t\<lparr>ss_subgoal := x, ss_turn_id := y, ss_hint := z\<rparr>"
    and z: "z = ss_hint t \<or> ss_expression t = L0 \<and> z = H3"
    using assms(2) unfolding reworded_def by blast
  show ?thesis using t u c z by (auto simp: reworded_def)
qed

lemma question_reworded: "question_contract_of H s p l = Inr (q, s') \<Longrightarrow> reworded s s'"
  using question_effect [of H s p l q s'] unfolding reworded_def
  by (cases s; cases s') auto

lemma prepare_reworded: "prepare_speech H prior s p m f = Inr (cx, s') \<Longrightarrow> reworded s s'"
  by (auto simp: prepare_speech_def bindr_eq_Inr split: prod.splits dest: question_reworded)

lemma build_reworded: "build_turn H s p l txt i = Inr (t, s') \<Longrightarrow> reworded s s'"
  by (auto simp: build_turn_def bindr_eq_Inr split: prod.splits dest: question_reworded)

lemma compose_reworded:
  assumes "compose_execution H s p m txt i = Inr r"
  shows "reworded s (tr_state r)" and "tr_semantics r = m"
    and "\<exists>s1. build_turn H s p (ar_ledger (sm_result m)) txt i = Inr (tr_turn r, s1)"
proof -
  obtain t s1 where b: "build_turn H s p (ar_ledger (sm_result m)) txt i = Inr (t, s1)"
    and r: "r = \<lparr>tr_state = s1\<lparr>ss_turn_id := Some (tn_id t)\<rparr>, tr_turn = t, tr_semantics = m\<rparr>"
    using assms by (auto simp: compose_execution_def bindr_eq_Inr split: prod.splits)
  have "reworded s1 (s1\<lparr>ss_turn_id := Some (tn_id t)\<rparr>)" by (simp add: reworded_def)
  then show "reworded s (tr_state r)" using reworded_trans [OF build_reworded [OF b]] r by simp
  show "tr_semantics r = m" "\<exists>s1. build_turn H s p (ar_ledger (sm_result m)) txt i = Inr (tr_turn r, s1)"
    using r b by auto
qed

lemma track_relation_frame [simp]:
  "ladder_view (track_relation p d s i) = ladder_view s" "outcome_view (track_relation p d s i) = outcome_view s"
  "identity_view (track_relation p d s i) = identity_view s" "ss_pinned (track_relation p d s i) = ss_pinned s"
  "ss_version (track_relation p d s i) = ss_version s" "ss_hint (track_relation p d s i) = ss_hint s"
  "ss_expression (track_relation p d s i) = ss_expression s" "ss_status (track_relation p d s i) = ss_status s"
  "ss_verified_slots (track_relation p d s i) = ss_verified_slots s"
  by (simp_all add: track_relation_def view_defs)

lemma track_relations_frame [simp]:
  "ladder_view (foldl (track_relation p d) s is) = ladder_view s"
  "outcome_view (foldl (track_relation p d) s is) = outcome_view s"
  "identity_view (foldl (track_relation p d) s is) = identity_view s"
  "ss_pinned (foldl (track_relation p d) s is) = ss_pinned s"
  "ss_version (foldl (track_relation p d) s is) = ss_version s"
  "ss_hint (foldl (track_relation p d) s is) = ss_hint s"
  "ss_expression (foldl (track_relation p d) s is) = ss_expression s"
  "ss_status (foldl (track_relation p d) s is) = ss_status s"
  "ss_verified_slots (foldl (track_relation p d) s is) = ss_verified_slots s"
  by (induction "is" arbitrary: s) simp_all

lemma track_note_frame [simp]:
  "ladder_view (track_note_provenance s p m h) = ladder_view s"
  "outcome_view (track_note_provenance s p m h) = outcome_view s"
  "identity_view (track_note_provenance s p m h) = identity_view s"
  "ss_pinned (track_note_provenance s p m h) = ss_pinned s"
  "ss_version (track_note_provenance s p m h) = ss_version s"
  "ss_hint (track_note_provenance s p m h) = ss_hint s"
  "ss_expression (track_note_provenance s p m h) = ss_expression s"
  "ss_status (track_note_provenance s p m h) = ss_status s"
  "ss_verified_slots (track_note_provenance s p m h) = ss_verified_slots s"
proof -
  note f = track_relations_frame [of p "direct_turn m h" s "as_new_relation_ids (ar_state (sm_result m))"]
  show "ladder_view (track_note_provenance s p m h) = ladder_view s"
    "outcome_view (track_note_provenance s p m h) = outcome_view s"
    "identity_view (track_note_provenance s p m h) = identity_view s"
    using f(1-3) by (simp_all add: track_note_provenance_def Let_def view_defs)
  show "ss_pinned (track_note_provenance s p m h) = ss_pinned s"
    "ss_version (track_note_provenance s p m h) = ss_version s"
    "ss_hint (track_note_provenance s p m h) = ss_hint s"
    "ss_expression (track_note_provenance s p m h) = ss_expression s"
    "ss_status (track_note_provenance s p m h) = ss_status s"
    "ss_verified_slots (track_note_provenance s p m h) = ss_verified_slots s"
    by (simp_all add: track_note_provenance_def Let_def)
qed

text \<open>Applying a response: the ladder policy decides the ladders, the ledger is stored, nothing else moves.\<close>

lemma apply_execution_effect:
  assumes "apply_execution s p m h = Inr s'"
  shows "ladder_view s' = ladder_view (apply_ladder_policy s m)" "ss_hint s' = ss_hint (apply_ladder_policy s m)"
    "outcome_view s' = outcome_view s" "identity_view s' = identity_view s" "ss_version s' = ss_version s"
    "\<exists>pr. ss_pinned s = Some pr \<and> ss_pinned s' = Some (pr\<lparr>pr_ledger := ar_ledger (sm_result m)\<rparr>)"
    "\<exists>s2. s' = track_note_provenance s2 p m h \<and> ss_child_notes s2 = ss_child_notes s
       \<and> ss_supported_notes s2 = ss_supported_notes s \<and> ss_hint s2 = ss_hint s'"
proof -
  obtain s1 s2 where s1: "store_ledger (apply_ladder_policy s m) (ar_ledger (sm_result m)) = Inr s1"
    and s2: "sync_legacy_slots s1 p (ar_ledger (sm_result m)) = Inr s2"
    and s': "s' = track_note_provenance s2 p m h"
    using assms by (auto simp: apply_execution_def bindr_eq_Inr)
  obtain pr where pr: "ss_pinned s = Some pr"
    and e1: "s1 = (apply_ladder_policy s m)\<lparr>ss_pinned := Some (pr\<lparr>pr_ledger := ar_ledger (sm_result m)\<rparr>)\<rparr>"
    using s1 by (auto simp: store_ledger_def split: option.splits)
  obtain v where e2: "s2 = s1\<lparr>ss_verified_slots := v\<rparr>"
    using s2 by (auto simp: sync_legacy_slots_def bindr_eq_Inr)
  note f = apply_ladder_policy_frame [of s m]
  have "ladder_view s2 = ladder_view (apply_ladder_policy s m)" "outcome_view s2 = outcome_view s"
    "identity_view s2 = identity_view s"
    using f(1,2) unfolding e2 e1 by (simp_all add: view_defs)
  then show "ladder_view s' = ladder_view (apply_ladder_policy s m)" "ss_hint s' = ss_hint (apply_ladder_policy s m)"
    "outcome_view s' = outcome_view s" "identity_view s' = identity_view s" "ss_version s' = ss_version s"
    "\<exists>pr. ss_pinned s = Some pr \<and> ss_pinned s' = Some (pr\<lparr>pr_ledger := ar_ledger (sm_result m)\<rparr>)"
    "\<exists>s2. s' = track_note_provenance s2 p m h \<and> ss_child_notes s2 = ss_child_notes s
       \<and> ss_supported_notes s2 = ss_supported_notes s \<and> ss_hint s2 = ss_hint s'"
    using pr f unfolding s' by (auto simp: e2 e1)
qed

section \<open>Inversion of a turn\<close>

lemma resolve_state_Inr:
  assumes "resolve_state H s = Inr (p, sn, l)"
  shows "resolved H sn p l" and "\<exists>pr. ss_pinned s = Some pr \<and> pr_snapshot pr = sn \<and> pr_ledger pr = l"
  using assms by (auto simp: resolve_state_def resolved_def bindr_eq_Inr reasoning_completion_Inr resolve_pack_Inr
      split: if_splits option.splits task_pack.splits)

abbreviation turn_start :: "session \<Rightarrow> session" where
  "turn_start s \<equiv> s\<lparr>ss_version := ss_version s + 1, ss_turn_id := None\<rparr>"

lemma turn_start_views [simp]:
  "ladder_view (turn_start s) = ladder_view s" "outcome_view (turn_start s) = outcome_view s"
  "identity_view (turn_start s) = identity_view s" "ladders_ok (turn_start s) = ladders_ok s"
  "support_distance (turn_start s) = support_distance s"
  by (simp_all add: view_defs ladders_ok_def support_distance_def)

lemma continue_reworded:
  assumes "continue_execution env i prior s p m = Inr r"
  shows "reworded s (tr_state r)" and "tr_semantics r = m"
proof -
  obtain cx s1 where a: "prepare_speech (en_hash env) prior s p m (ti_resolved_copy i) = Inr (cx, s1)"
    and b: "bindr (render_speech (en_render env) prior s1 p m cx (ti_model_text i)) (\<lambda>sp.
           compose_execution (en_hash env) s1 p m (sp_text sp) (ti_new_turn_id i)) = Inr r"
    using assms by (auto simp: continue_execution_def bindr_eq_Inr)
  obtain sp :: speech where c: "compose_execution (en_hash env) s1 p m (sp_text sp) (ti_new_turn_id i) = Inr r"
    using b by (auto simp: bindr_eq_Inr)
  show "reworded s (tr_state r)" by (rule reworded_trans [OF prepare_reworded [OF a] compose_reworded(1) [OF c]])
  show "tr_semantics r = m" by (rule compose_reworded(2) [OF c])
qed

lemma run_turn_Inr:
  assumes "run_turn env i s = Inr r"
  obtains p sn l m s1 s2 where
    "resolve_state (en_hash env) s = Inr (p, sn, l)"
    "interpret_execution (en_hash env) (en_sha env) (en_nfc env) (ti_gateway i) s p sn l
       (ti_response i) (ti_previous_question i) (ti_history i) = Inr m"
    "apply_execution (turn_start s) p m (ss_hint s) = Inr s1"
    "if co_complete (ar_completion (sm_result m)) then complete_state s1 p m = Inr s2 else s2 = s1"
    "reworded s2 (tr_state r)" "tr_semantics r = m"
proof -
  obtain p sn l m s1 where a: "resolve_state (en_hash env) s = Inr (p, sn, l)"
    "interpret_execution (en_hash env) (en_sha env) (en_nfc env) (ti_gateway i) s p sn l
       (ti_response i) (ti_previous_question i) (ti_history i) = Inr m"
    "apply_execution (turn_start s) p m (ss_hint s) = Inr s1"
    and rest: "(if co_complete (ar_completion (sm_result m)) then finish_execution env i s1 p m
                else continue_execution env i s s1 p m) = Inr r"
    using assms by (auto simp: run_turn_def bindr_eq_Inr)
  show thesis
  proof (cases "co_complete (ar_completion (sm_result m))")
    case True
    then obtain s2 where c: "complete_state s1 p m = Inr s2"
      and k: "compose_execution (en_hash env) s2 p m txt_thanks (ti_new_turn_id i) = Inr r"
      using rest by (auto simp: finish_execution_def bindr_eq_Inr)
    show thesis by (rule that [OF a]) (use True c compose_reworded(1,2) [OF k] in simp_all)
  next
    case False
    then have k: "continue_execution env i s s1 p m = Inr r" using rest by simp
    show thesis by (rule that [OF a]) (use False continue_reworded [OF k] in simp_all)
  qed
qed

lemma complete_state_effect:
  assumes "complete_state s p m = Inr s'"
  shows "ladder_view s' = ladder_view s" "ss_hint s' = ss_hint s" "identity_view s' = identity_view s"
    "ss_pinned s' = ss_pinned s" "ss_version s' = ss_version s" "ss_child_notes s' = ss_child_notes s"
    "ss_supported_notes s' = ss_supported_notes s" "ss_status s' = COMPLETED"
    "ss_joint_used s' \<longleftrightarrow> ss_joint_used s \<or> sm_source m = Structured_Joint"
    "ss_outcome s' = Some (if independent_notes p s \<and> \<not> ss_joint_used s' then TAUGHT else SUPPORTED)"
    "ss_reward s' \<longleftrightarrow> independent_notes p s \<and> \<not> ss_joint_used s'"
  using assms by (auto simp: complete_state_def Let_def bindr_eq_Inr view_defs split: if_splits)

section \<open>Sessions\<close>

text \<open>
  A session starts from the defaults of \<^verbatim>\<open>SessionState\<close>; every turn that returns replaces
  it. The service rejects a response to a completed conversation, so a step starts from an active one.
\<close>

definition fresh_session :: "session \<Rightarrow> bool" where
  "fresh_session s \<longleftrightarrow> ss_status s = ACTIVE \<and> ss_child_notes s = [] \<and> ss_supported_notes s = []
     \<and> \<not> ss_joint_used s \<and> ss_outcome s = None \<and> \<not> ss_reward s \<and> ss_hint s = H0"

inductive home_step :: "environment \<Rightarrow> session \<Rightarrow> session \<Rightarrow> bool" for env where
  "ss_status s = ACTIVE \<Longrightarrow> run_turn env i s = Inr r \<Longrightarrow> home_step env s (tr_state r)"

inductive home_session :: "environment \<Rightarrow> home_pack \<Rightarrow> session \<Rightarrow> bool" for env p where
  started: "fresh_session s0 \<Longrightarrow> initialize_state (en_hash env) p plans s0 i = Inr (t, s) \<Longrightarrow>
            home_session env p s"
| continued: "home_session env p s \<Longrightarrow> home_step env s s' \<Longrightarrow> home_session env p s'"

inductive_cases home_stepE: "home_step env s s'"

definition ledger_of :: "session \<Rightarrow> reasoning_ledger" where
  "ledger_of s = pr_ledger (the (ss_pinned s))"

definition notes_ok :: "home_pack \<Rightarrow> session \<Rightarrow> bool" where
  "notes_ok p s \<longleftrightarrow> (\<forall>i \<in> set (dict_keys (ss_child_notes s)).
     child_verified (verified_relations (ledger_of s)) i)"

definition outcome_ok :: "home_pack \<Rightarrow> session \<Rightarrow> bool" where
  "outcome_ok p s \<longleftrightarrow> ss_reward s = (ss_outcome s = Some TAUGHT)
     \<and> (ss_outcome s = None \<longleftrightarrow> ss_status s = ACTIVE)
     \<and> (ss_outcome s = Some TAUGHT \<longrightarrow> independent_notes p s \<and> \<not> ss_joint_used s)"

definition session_ok :: "environment \<Rightarrow> home_pack \<Rightarrow> session \<Rightarrow> bool" where
  "session_ok env p s \<longleftrightarrow>
     (\<exists>pr. ss_pinned s = Some pr \<and> resolved (en_hash env) (pr_snapshot pr) p (pr_ledger pr))
     \<and> ladders_ok s
     \<and> (ss_status s = COMPLETED \<longleftrightarrow> co_complete (completion_of (Home p) (ledger_of s)))
     \<and> notes_ok p s \<and> outcome_ok p s"

section \<open>The invariant holds at the start\<close>

lemma pin_resolves:
  assumes "pin_pack H (Home p) = Inr sn"
  shows "resolved H sn p (empty_reasoning_ledger sn)"
proof -
  obtain i v s where id: "pack_identity (Home p) = (i, v, s)" by (cases "pack_identity (Home p)") auto
  with assms have sn: "sn = \<lparr>sn_pack_id = i, sn_content_version = v, sn_subject = s,
      sn_content_hash = H (Home p), sn_payload = Home p\<rparr>" and ok: "validate_task_pack (Home p) = Inr ()"
    by (auto simp: pin_pack_def Let_def bindr_eq_Inr validate_pinned_pack_def)
  have "validate_ledger_binding sn (empty_reasoning_ledger sn) (Home p) = Inr ()"
    by (simp add: validate_ledger_binding_def empty_reasoning_ledger_def Let_def)
  then show ?thesis using ok id sn by (simp add: resolved_def resolve_pack_Inr snapshot_matches_def)
qed

lemma required_targets_nonempty:
  assumes "validate_home_pack p = Inr ()"
  shows "required_targets (completion (hp_graph p)) \<noteq> {}"
proof -
  have "qp_targets (hp_initial p) \<noteq> []"
    using validate_home_pack_parts(7) [OF assms] unfolding check_all_Inr
    by (auto simp: home_fields_def question_fields_def field_def)
  then show ?thesis using initial_targets(2) [OF assms] by auto
qed

lemma empty_ledger_open:
  assumes "validate_home_pack p = Inr ()"
  shows "\<not> co_complete (completion_of (Home p) (empty_reasoning_ledger sn))"
  using required_targets_nonempty [OF assms]
  by (auto simp: completion_of_complete empty_reasoning_ledger_def required_targets_def)

lemma initialize_Inr:
  assumes "initialize_state H p plans s0 i = Inr (t, s)"
  obtains sn s1 s2 where "pin_pack H (Home p) = Inr sn"
    "s1 = s0\<lparr>ss_pinned := Some \<lparr>pr_snapshot = sn, pr_ledger = empty_reasoning_ledger sn, pr_plans = plans\<rparr>,
             ss_expression := canonical (ss_expression s0), ss_hint := H0,
             ss_subgoal := qp_plan_id (hp_initial p)\<rparr>"
    "ss_expression s1 = L4 \<and> s2 = s1 \<or> (\<exists>q. question_contract_of H s1 p (empty_reasoning_ledger sn) = Inr (q, s2))"
    "reworded (s2\<lparr>ss_verified_slots := []\<rparr>) s"
proof -
  obtain sn where sn: "pin_pack H (Home p) = Inr sn"
    using assms by (auto simp: initialize_state_def bindr_eq_Inr split: if_splits)
  define s1 where "s1 = s0\<lparr>ss_pinned := Some \<lparr>pr_snapshot = sn, pr_ledger = empty_reasoning_ledger sn, pr_plans = plans\<rparr>,
             ss_expression := canonical (ss_expression s0), ss_hint := H0,
             ss_subgoal := qp_plan_id (hp_initial p)\<rparr>"
  obtain o1 s2 s3 where o: "(if ss_expression s1 = L4 then Inr (qp_fallback (hp_initial p), s1)
        else bindr (question_contract_of H s1 p (empty_reasoning_ledger sn)) (\<lambda>(q, s2). Inr (qc_fallback q, s2)))
        = Inr (o1, s2)"
    and b: "build_turn H (s2\<lparr>ss_verified_slots := []\<rparr>) p (empty_reasoning_ledger sn) o1 i = Inr (t, s3)"
    and s: "s = s3\<lparr>ss_turn_id := Some (tn_id t)\<rparr>"
    using assms sn by (auto simp: initialize_state_def bindr_eq_Inr Let_def s1_def split: if_splits prod.splits)
  have "reworded s3 s" unfolding s by (simp add: reworded_def)
  then have "reworded (s2\<lparr>ss_verified_slots := []\<rparr>) s" using reworded_trans [OF build_reworded [OF b]] by blast
  moreover have "ss_expression s1 = L4 \<and> s2 = s1
      \<or> (\<exists>q. question_contract_of H s1 p (empty_reasoning_ledger sn) = Inr (q, s2))"
    using o by (auto simp: bindr_eq_Inr split: if_splits prod.splits)
  ultimately show thesis using that [OF sn s1_def] by blast
qed

lemma reworded_ladders: "reworded s t \<Longrightarrow> ladders_ok s \<Longrightarrow> ladders_ok t"
  using reworded_fields(8) [of s t] by (auto simp: ladders_ok_def reworded_def)

lemma started_session_ok:
  assumes f: "fresh_session s0" and i: "initialize_state (en_hash env) p plans s0 k = Inr (t, s)"
  shows "session_ok env p s"
proof -
  obtain sn s1 s2 where sn: "pin_pack (en_hash env) (Home p) = Inr sn"
    and s1: "s1 = s0\<lparr>ss_pinned := Some \<lparr>pr_snapshot = sn, pr_ledger = empty_reasoning_ledger sn, pr_plans = plans\<rparr>,
             ss_expression := canonical (ss_expression s0), ss_hint := H0,
             ss_subgoal := qp_plan_id (hp_initial p)\<rparr>"
    and s2: "ss_expression s1 = L4 \<and> s2 = s1
      \<or> (\<exists>q. question_contract_of (en_hash env) s1 p (empty_reasoning_ledger sn) = Inr (q, s2))"
    and rw: "reworded (s2\<lparr>ss_verified_slots := []\<rparr>) s"
    using i by (rule initialize_Inr)
  obtain g where "s2 = s1\<lparr>ss_subgoal := g, ss_hint := (if ss_expression s1 = L0 then H3 else H0)\<rparr>"
    using s2
  proof
    assume a: "ss_expression s1 = L4 \<and> s2 = s1"
    show thesis by (rule that [of "ss_subgoal s1"]) (use a in \<open>simp add: s1\<close>)
  next
    assume "\<exists>q. question_contract_of (en_hash env) s1 p (empty_reasoning_ledger sn) = Inr (q, s2)"
    then obtain q where "question_contract_of (en_hash env) s1 p (empty_reasoning_ledger sn) = Inr (q, s2)" by blast
    moreover have "ss_status s1 \<noteq> COMPLETED" "ss_hint s1 = H0" using f by (simp_all add: s1 fresh_session_def)
    ultimately show thesis using question_effect that by force
  qed
  then have v: "ss_pinned s = ss_pinned s1" "ss_status s = ACTIVE" "ss_child_notes s = []"
    "outcome_view s = outcome_view s0" and l: "ladders_ok (s2\<lparr>ss_verified_slots := []\<rparr>)"
    using reworded_fields [OF rw] f by (auto simp: s1 fresh_session_def view_defs ladders_ok_def)
  have p: "validate_home_pack p = Inr ()" using resolved_pack [OF pin_resolves [OF sn]] .
  show ?thesis using v reworded_ladders [OF rw l] pin_resolves [OF sn] f empty_ledger_open [OF p, of sn]
    by (auto simp: session_ok_def notes_ok_def outcome_ok_def ledger_of_def s1 fresh_session_def view_defs)
qed

section \<open>Every turn keeps the invariant\<close>

lemma track_relations_children:
  "set (dict_keys (ss_child_notes (foldl (track_relation p d) s is)))
     \<subseteq> set (dict_keys (ss_child_notes s)) \<union> (if d then set is else {})"
proof (induction "is" arbitrary: s)
  case (Cons i "is")
  have "set (dict_keys (ss_child_notes (track_relation p d s i)))
      \<subseteq> set (dict_keys (ss_child_notes s)) \<union> (if d then {i} else {})"
    by (auto simp: track_relation_def dom_update simp del: set_map)
  then show ?case using Cons.IH [of "track_relation p d s i"] unfolding foldl_Cons list.set(2)
    by (cases d) (simp_all only: if_True if_False, blast+)
qed simp

lemma track_note_children:
  "set (dict_keys (ss_child_notes (track_note_provenance s p m h)))
     \<subseteq> set (dict_keys (ss_child_notes s))
       \<union> (if sm_source m = Sonnet_Low then set (as_new_relation_ids (ar_state (sm_result m))) else {})"
proof -
  let ?ids = "as_new_relation_ids (ar_state (sm_result m))"
  have "ss_child_notes (track_note_provenance s p m h)
      = ss_child_notes (foldl (track_relation p (direct_turn m h)) s ?ids)"
    by (simp add: track_note_provenance_def Let_def)
  moreover have "(if direct_turn m h then set ?ids else {}) \<subseteq> (if sm_source m = Sonnet_Low then set ?ids else {})"
    by (simp add: direct_turn_def)
  ultimately show ?thesis
    using track_relations_children [of p "direct_turn m h" s ?ids] by (simp only:) blast
qed

text \<open>What a turn of a session in good order did.\<close>

lemma session_turn:
  assumes ok: "session_ok env p s" and run: "run_turn env i s = Inr r"
  obtains pr m s1 s2 where
    "ss_pinned s = Some pr" "resolved (en_hash env) (pr_snapshot pr) p (pr_ledger pr)"
    "interpret_execution (en_hash env) (en_sha env) (en_nfc env) (ti_gateway i) s p (pr_snapshot pr) (pr_ledger pr)
       (ti_response i) (ti_previous_question i) (ti_history i) = Inr m"
    "semantics_ok (en_hash env) (pr_snapshot pr) (Home p) (pr_ledger pr) m"
    "apply_execution (turn_start s) p m (ss_hint s) = Inr s1"
    "if co_complete (ar_completion (sm_result m)) then complete_state s1 p m = Inr s2 else s2 = s1"
    "reworded s2 (tr_state r)" "tr_semantics r = m"
proof -
  obtain p' sn l m s1 s2 where r: "resolve_state (en_hash env) s = Inr (p', sn, l)"
    and i: "interpret_execution (en_hash env) (en_sha env) (en_nfc env) (ti_gateway i) s p' sn l
       (ti_response i) (ti_previous_question i) (ti_history i) = Inr m"
    and a: "apply_execution (turn_start s) p' m (ss_hint s) = Inr s1"
    and c: "if co_complete (ar_completion (sm_result m)) then complete_state s1 p' m = Inr s2 else s2 = s1"
    and w: "reworded s2 (tr_state r)" "tr_semantics r = m"
    using run by (rule run_turn_Inr)
  obtain pr where pr: "ss_pinned s = Some pr" "pr_snapshot pr = sn" "pr_ledger pr = l"
    using resolve_state_Inr(2) [OF r] by blast
  have "resolved (en_hash env) sn p l" using ok pr by (auto simp: session_ok_def)
  moreover have "resolved (en_hash env) sn p' l" by (rule resolve_state_Inr(1) [OF r])
  ultimately have p: "p' = p" and res: "resolved (en_hash env) sn p l" by (auto simp: resolved_def)
  show thesis
    by (rule that [OF pr(1)]) (use res i a c [unfolded p] w pr p interpret_semantics [OF res] in \<open>simp_all only: if_cancel\<close>)
qed

lemma turn_outcome:
  assumes ok: "session_ok env p s" and act: "ss_status s = ACTIVE" and run: "run_turn env i s = Inr r"
  shows "\<exists>pr. ss_pinned s = Some pr \<and> ss_pinned (tr_state r) = Some (pr\<lparr>pr_ledger := ar_ledger (sm_result (tr_semantics r))\<rparr>)
           \<and> semantics_ok (en_hash env) (pr_snapshot pr) (Home p) (pr_ledger pr) (tr_semantics r)"
    and "ss_expression (tr_state r) = ss_expression (apply_ladder_policy (turn_start s) (tr_semantics r))"
    and "ss_hint (tr_state r) = ss_hint (apply_ladder_policy (turn_start s) (tr_semantics r))"
    and "ladder_view (tr_state r) = ladder_view (apply_ladder_policy (turn_start s) (tr_semantics r))"
    and "ss_version (tr_state r) = ss_version s + 1" and "identity_view (tr_state r) = identity_view s"
    and "ss_status (tr_state r) = COMPLETED \<longleftrightarrow> co_complete (ar_completion (sm_result (tr_semantics r)))"
    and "outcome_ok p (tr_state r)"
    and "set (dict_keys (ss_child_notes (tr_state r))) \<subseteq> set (dict_keys (ss_child_notes s))
       \<union> (if sm_source (tr_semantics r) = Sonnet_Low
          then set (as_new_relation_ids (ar_state (sm_result (tr_semantics r)))) else {})"
    and "ss_joint_used (tr_state r) \<longleftrightarrow> ss_joint_used s
       \<or> ss_status (tr_state r) = COMPLETED \<and> sm_source (tr_semantics r) = Structured_Joint"
proof -
  obtain pr m s1 s2 where pr: "ss_pinned s = Some pr" "semantics_ok (en_hash env) (pr_snapshot pr) (Home p) (pr_ledger pr) m"
    and a: "apply_execution (turn_start s) p m (ss_hint s) = Inr s1"
    and c: "if co_complete (ar_completion (sm_result m)) then complete_state s1 p m = Inr s2 else s2 = s1"
    and w: "reworded s2 (tr_state r)" and m: "tr_semantics r = m"
    using session_turn [OF ok run] by metis
  note e = apply_execution_effect [OF a]
  have lad: "ladders_ok (apply_ladder_policy (turn_start s) m)"
    using ok by (intro policy_ladders_ok) (simp add: session_ok_def)
  have f: "ladder_view s2 = ladder_view s1" "ss_hint s2 = ss_hint s1" "identity_view s2 = identity_view s1"
    "ss_pinned s2 = ss_pinned s1" "ss_version s2 = ss_version s1" "ss_child_notes s2 = ss_child_notes s1"
    using c complete_state_effect(1-6) [of s1 p m s2] by (auto split: if_splits)
  note w' = reworded_fields [OF w]
  show "\<exists>pr. ss_pinned s = Some pr \<and> ss_pinned (tr_state r) = Some (pr\<lparr>pr_ledger := ar_ledger (sm_result (tr_semantics r))\<rparr>)
           \<and> semantics_ok (en_hash env) (pr_snapshot pr) (Home p) (pr_ledger pr) (tr_semantics r)"
    using pr e(6) f(4) w'(4) m by auto
  show lv: "ladder_view (tr_state r) = ladder_view (apply_ladder_policy (turn_start s) (tr_semantics r))"
    using w'(1) f(1) e(1) m by simp
  then show ex: "ss_expression (tr_state r) = ss_expression (apply_ladder_policy (turn_start s) (tr_semantics r))"
    by (simp add: ladder_view_def)
  have "ss_hint s2 = ss_hint (apply_ladder_policy (turn_start s) m)"
    "ss_expression s2 = ss_expression (apply_ladder_policy (turn_start s) m)"
    using f(1,2) e(1,2) by (simp_all add: ladder_view_def)
  then show "ss_hint (tr_state r) = ss_hint (apply_ladder_policy (turn_start s) (tr_semantics r))"
    using w lad m by (auto simp: reworded_def ladders_ok_def)
  show "ss_version (tr_state r) = ss_version s + 1" "identity_view (tr_state r) = identity_view s"
    using w'(3,5) f(3,5) e(4,5) by simp_all
  show "set (dict_keys (ss_child_notes (tr_state r))) \<subseteq> set (dict_keys (ss_child_notes s))
       \<union> (if sm_source (tr_semantics r) = Sonnet_Low
          then set (as_new_relation_ids (ar_state (sm_result (tr_semantics r)))) else {})"
    using e(7) w'(6) f(6) track_note_children [of _ p m "ss_hint s"] m by force
  have o1: "outcome_view s1 = outcome_view s" using e(3) by simp
  have o2: "outcome_ok p s2 \<and> (ss_status s2 = COMPLETED \<longleftrightarrow> co_complete (ar_completion (sm_result m)))
      \<and> (ss_joint_used s2 \<longleftrightarrow> ss_joint_used s \<or> ss_status s2 = COMPLETED \<and> sm_source m = Structured_Joint)"
  proof (cases "co_complete (ar_completion (sm_result m))")
    case True
    then have "complete_state s1 p m = Inr s2" using c by simp
    note k = complete_state_effect [OF this]
    have "independent_notes p s2 = independent_notes p s1" by (simp add: independent_notes_def k(6))
    then show ?thesis using k(8-11) True o1 by (auto simp: outcome_ok_def view_defs)
  next
    case False
    then have s2: "s2 = s1" using c by simp
    have "ss_outcome s = None" "\<not> ss_reward s" using ok act by (simp_all add: session_ok_def outcome_ok_def)
    then show ?thesis using o1 act False unfolding s2 by (simp add: outcome_ok_def view_defs)
  qed
  have o3: "outcome_view (tr_state r) = outcome_view s2" "ss_child_notes (tr_state r) = ss_child_notes s2"
    using w'(2,6) .
  show "outcome_ok p (tr_state r)" using conjunct1 [OF o2] o3
    by (auto simp add: outcome_ok_def view_defs independent_notes_def simp del: set_map)
  show "ss_status (tr_state r) = COMPLETED \<longleftrightarrow> co_complete (ar_completion (sm_result (tr_semantics r)))"
    using o2 o3 m by (simp add: view_defs)
  show "ss_joint_used (tr_state r) \<longleftrightarrow> ss_joint_used s
       \<or> ss_status (tr_state r) = COMPLETED \<and> sm_source (tr_semantics r) = Structured_Joint"
    using o2 o3 m by (simp add: view_defs)
qed

lemma step_session_ok:
  assumes ok: "session_ok env p s" and act: "ss_status s = ACTIVE" and run: "run_turn env i s = Inr r"
  shows "session_ok env p (tr_state r)"
proof -
  note t = turn_outcome [OF ok act run]
  let ?m = "tr_semantics r"
  obtain pr where pr: "ss_pinned s = Some pr"
    "ss_pinned (tr_state r) = Some (pr\<lparr>pr_ledger := ar_ledger (sm_result ?m)\<rparr>)"
    and m: "semantics_ok (en_hash env) (pr_snapshot pr) (Home p) (pr_ledger pr) ?m" using t(1) by blast
  have l: "ledger_of s = pr_ledger pr" "ledger_of (tr_state r) = ar_ledger (sm_result ?m)"
    using pr by (simp_all add: ledger_of_def)
  have le: "ledger_le (ledger_of s) (ledger_of (tr_state r))"
    and res: "resolved (en_hash env) (pr_snapshot pr) p (ledger_of (tr_state r))"
    and com: "ar_completion (sm_result ?m) = completion_of (Home p) (ledger_of (tr_state r))"
    using m unfolding l by (simp_all add: semantics_ok_def result_ok_def)
  have "ladders_ok (apply_ladder_policy (turn_start s) ?m)"
    using ok by (intro policy_ladders_ok) (simp add: session_ok_def)
  then have lad: "ladders_ok (tr_state r)" using t(2,3) by (simp add: ladders_ok_def)
  have "notes_ok p (tr_state r)"
  proof -
    have old: "child_verified (verified_relations (ledger_of (tr_state r))) i"
      if "i \<in> set (dict_keys (ss_child_notes s))" for i
      using that ok le child_verified_mono unfolding session_ok_def notes_ok_def ledger_le_def by blast
    have new: "child_verified (verified_relations (ledger_of (tr_state r))) i"
      if "sm_source ?m = Sonnet_Low" "i \<in> set (as_new_relation_ids (ar_state (sm_result ?m)))" for i
      using that m unfolding l by (simp add: semantics_ok_def)
    show ?thesis unfolding notes_ok_def
    proof
      fix j assume "j \<in> set (dict_keys (ss_child_notes (tr_state r)))"
      then have "j \<in> set (dict_keys (ss_child_notes s)) \<or> sm_source ?m = Sonnet_Low
          \<and> j \<in> set (as_new_relation_ids (ar_state (sm_result ?m)))"
        using subsetD [OF t(9)] by (cases "sm_source ?m = Sonnet_Low") (simp_all del: set_map)
      then show "child_verified (verified_relations (ledger_of (tr_state r))) j" using old new by blast
    qed
  qed
  then show ?thesis using lad t(7,8) com res pr(2) l(2) by (auto simp: session_ok_def)
qed

lemma home_session_ok: "home_session env p s \<Longrightarrow> session_ok env p s"
proof (induction rule: home_session.induct)
  case (started s0 plans i t s)
  then show ?case by (rule started_session_ok)
next
  case (continued s s')
  from continued.hyps(2) show ?case
    by (cases rule: home_step.cases) (use continued.IH step_session_ok in blast)
qed

end
