(* ===== verification/Home_Interpret_Laws.thy ===== *)
theory Home_Interpret_Laws
  imports Home_Session
begin

text \<open>
  The interpretation of a response returns: a guarded understanding whose claims the pack knows
  always applies, merging a repair into an earlier admission keeps that, both attempts of the
  attempt graph end, a choice of the active plan and the exact joint values always apply.
\<close>

section \<open>Guarded understandings that apply\<close>

definition guarded_ok :: "task_pack \<Rightarrow> nat \<Rightarrow> guarded_understanding \<Rightarrow> bool" where
  "guarded_ok tp n g \<longleftrightarrow> distinct (map claim_id (claims (response g)))
     \<and> map em_claim_id (evidence_matches g) = map claim_id (claims (response g))
     \<and> list_all match_boundaries_ok (evidence_matches g)
     \<and> list_all (claim_known tp) (claims (response g)) \<and> length (claims (response g)) \<le> n"

text \<open>What the schema of a model response guarantees.\<close>

definition candidate_ok :: "understanding_response \<Rightarrow> bool" where
  "candidate_ok r \<longleftrightarrow> validate_semantic_contract r = Inr () \<and> length (claims r) \<le> 30
     \<and> list_all (\<lambda>c. bounded 1 300 (evidence_span c)) (claims r)"

definition gateway_ok :: "gateway \<Rightarrow> bool" where
  "gateway_ok gw \<longleftrightarrow> (\<forall>k rq r. gw k rq = Candidate r \<longrightarrow> candidate_ok r)"

definition request_known :: "task_pack \<Rightarrow> understanding_request \<Rightarrow> bool" where
  "request_known tp rq \<longleftrightarrow> set (cg_fact_ids (req_graph rq)) \<subseteq> tf_id ` set (pack_facts tp)
     \<and> set (cg_relation_ids (req_graph rq)) \<subseteq> set (pack_relations tp)
     \<and> bounded 1 300 (req_child_utterance rq)"

lemma admission_guarded_ok:
  assumes k: "request_known tp rq" and c: "candidate_ok r"
  shows "guarded_ok tp 30 (guarded (admit_understanding_response nfc rq r))"
proof -
  let ?cs = "filter (claim_admissible nfc rq) (claims r)"
  have d: "distinct (map claim_id (claims r))"
    using c by (simp add: candidate_ok_def validate_semantic_contract_def split: if_splits)
  have "claim_known tp x" if "x \<in> set ?cs" for x
  proof -
    have "claim_admissible nfc rq x" using that by simp
    then show ?thesis using k
      by (cases x) (auto simp: claim_admissible_def claim_violations_def request_known_def split: if_splits)
  qed
  moreover have "match_boundaries_ok (match_for nfc rq x)" if "x \<in> set ?cs" for x
  proof -
    have "bounded 1 300 (evidence_span x)" using that c by (auto simp: candidate_ok_def list_all_iff)
    then have "evidence_span x \<noteq> []" by auto
    then show ?thesis using that k match_for_boundaries [of nfc rq x] by (simp add: request_known_def)
  qed
  ultimately show ?thesis
    using d c le_trans [OF length_filter_le] by (auto simp: guarded_ok_def admitted_claims admitted_matches list_all_iff
        candidate_ok_def o_def distinct_map_filter)
qed

lemma guarded_applies:
  assumes r: "resolved H sn p l" and wf: "ledger_wf (Home p) l" and turn: "bounded 1 100 turn"
    and g: "guarded_ok (Home p) n g" and room: "length (accepted_auxiliary l) + n \<le> 200"
  shows "\<exists>res. apply_guarded_understanding H sha sn l g turn = Inr res \<and> ledger_wf (Home p) (ar_ledger res)"
proof -
  have ms: "evidence_matches_by_claim g = Inr (dict_by em_claim_id (evidence_matches g))"
    using g by (intro evidence_matches_total) (simp_all add: guarded_ok_def)
  have "claim_known (Home p) c \<and> matched (dict_by em_claim_id (evidence_matches g)) c"
    if "c \<in> set (claims (response g))" for c
    using that g evidence_matches_matched [OF ms _ that] by (simp add: guarded_ok_def list_all_iff)
  moreover have "length (filter is_auxiliary (claims (response g))) \<le> n"
    using g le_trans [OF length_filter_le] by (auto simp: guarded_ok_def)
  ultimately show ?thesis
    using apply_guarded_total [of H sn "Home p" l turn g _ sha] r wf turn ms room by (simp add: resolved_def)
qed

section \<open>Merging a repair\<close>

text \<open>\<^verbatim>\<open>setdefault\<close> over a list: a key that is present keeps its entry.\<close>

fun keep_first :: "('a \<Rightarrow> 'k) \<Rightarrow> 'a list \<Rightarrow> 'a list \<Rightarrow> 'a list" where
  "keep_first key ys [] = ys"
| "keep_first key ys (x # xs) = keep_first key (if key x \<in> key ` set ys then ys else ys @ [x]) xs"

lemma keep_first_fold:
  "foldl (\<lambda>d x. if key x \<in> set (dict_keys d) then d else AList.update (key x) x d) (map (\<lambda>x. (key x, x)) ys) xs
     = map (\<lambda>x. (key x, x)) (keep_first key ys xs)"
proof (induction xs arbitrary: ys)
  case (Cons x xs)
  have k: "set (dict_keys (map (\<lambda>x. (key x, x)) ys)) = key ` set ys" by force
  show ?case
  proof (cases "key x \<in> key ` set ys")
    case True
    then show ?thesis using Cons.IH [of ys] unfolding foldl_Cons k by simp
  next
    case False
    then have "AList.update (key x) x (map (\<lambda>x. (key x, x)) ys) = map (\<lambda>x. (key x, x)) (ys @ [x])"
      using k by (subst dict_update_fresh) simp_all
    then show ?thesis using False Cons.IH [of "ys @ [x]"] unfolding foldl_Cons k by simp
  qed
qed simp

lemma keep_first_distinct: "distinct (map key ys) \<Longrightarrow> distinct (map key (keep_first key ys xs))"
  by (induction xs arbitrary: ys) auto

lemma keep_first_prefix: "\<exists>zs. keep_first key ys xs = ys @ zs"
proof (induction xs arbitrary: ys)
  case (Cons x xs)
  obtain us vs where "keep_first key ys xs = ys @ us" "keep_first key (ys @ [x]) xs = (ys @ [x]) @ vs"
    using Cons.IH by meson
  then show ?case by simp
qed simp

lemma keep_first_set: "set (keep_first key ys xs) \<subseteq> set ys \<union> set xs"
proof (induction xs arbitrary: ys)
  case (Cons x xs)
  then show ?case using Cons.IH [of ys] Cons.IH [of "ys @ [x]"] by (cases "key x \<in> key ` set ys") auto
qed simp

lemma keep_first_length: "length (keep_first key ys xs) \<le> length ys + length xs"
proof (induction xs arbitrary: ys)
  case (Cons x xs)
  have "length (keep_first key ys xs) \<le> Suc (length ys + length xs)" using Cons.IH [of ys] by linarith
  then show ?case using Cons.IH [of "ys @ [x]"] by (cases "key x \<in> key ` set ys") simp_all
qed simp

lemma keep_first_keys: "key ` set (keep_first key ys xs) = key ` set ys \<union> key ` set xs"
proof (induction xs arbitrary: ys)
  case (Cons x xs)
  then show ?case using Cons.IH [of ys] Cons.IH [of "ys @ [x]"] by (cases "key x \<in> key ` set ys") auto
qed simp

lemma merge_dicts:
  assumes "distinct (map claim_id cs)" and "map em_claim_id ms = map claim_id cs"
  shows "map snd (merge_claims cs ds) = keep_first claim_id cs ds"
    and "merge_matches ms ns = map (\<lambda>m. (em_claim_id m, m)) (keep_first em_claim_id ms ns)"
proof -
  have "merge_claims cs ds = map (\<lambda>c. (claim_id c, c)) (keep_first claim_id cs ds)"
    unfolding merge_claims_def dict_by_distinct [OF assms(1)] by (rule keep_first_fold)
  then show "map snd (merge_claims cs ds) = keep_first claim_id cs ds" by (simp add: o_def)
  have "distinct (map em_claim_id ms)" using assms by simp
  from dict_by_distinct [OF this]
  show "merge_matches ms ns = map (\<lambda>m. (em_claim_id m, m)) (keep_first em_claim_id ms ns)"
    unfolding merge_matches_def by (simp only: keep_first_fold)
qed

lemma merge_total:
  assumes a: "guarded_ok tp m old" and b: "guarded_ok tp n new"
  shows "\<exists>g. merge_admitted_understanding (Some old) new = Inr g \<and> guarded_ok tp (m + n) g
           \<and> (\<exists>added. claims (response g) = claims (response old) @ added)"
proof -
  let ?cs = "claims (response old)" and ?ds = "claims (response new)"
  let ?ms = "evidence_matches old" and ?ns = "evidence_matches new"
  let ?cd = "keep_first claim_id ?cs ?ds" and ?mn = "keep_first em_claim_id ?ms ?ns"
  have d: "distinct (map claim_id ?cs)" "map em_claim_id ?ms = map claim_id ?cs"
    "map em_claim_id ?ns = map claim_id ?ds" using a b by (simp_all add: guarded_ok_def)
  note md = merge_dicts [OF d(1,2)]
  have dm: "distinct (map em_claim_id ?mn)" using d by (intro keep_first_distinct) simp
  have keys: "em_claim_id ` set ?mn = claim_id ` set ?cd"
    using arg_cong [OF d(2), of set] arg_cong [OF d(3), of set] by (simp add: keep_first_keys)
  have look: "\<exists>x. py_index (merge_matches ?ms ?ns) (claim_id c) = Inr x \<and> em_claim_id x = claim_id c \<and> x \<in> set ?mn"
    if "c \<in> set ?cd" for c
  proof -
    have "claim_id c \<in> em_claim_id ` set ?mn" unfolding keys using that by (rule imageI)
    then obtain x where x: "x \<in> set ?mn" "em_claim_id x = claim_id c" by (elim imageE) simp
    have "merge_matches ?ms ?ns = dict_by em_claim_id ?mn" unfolding md(2) dict_by_distinct [OF dm] ..
    then show ?thesis using x dict_by_lookup [OF dm x(1)] by (auto simp: py_index_Inr)
  qed
  have "\<exists>xs. mapr (\<lambda>c. py_index (merge_matches ?ms ?ns) (claim_id c)) ?cd = Inr xs"
    by (rule mapr_total) (drule look, elim exE conjE, erule exI)
  then obtain xs where xs: "mapr (\<lambda>c. py_index (merge_matches ?ms ?ns) (claim_id c)) ?cd = Inr xs" ..
  have xi: "map em_claim_id xs = map claim_id ?cd"
    by (rule mapr_map [OF xs]) (use look in fastforce)
  have xm: "set xs \<subseteq> set ?mn"
  proof
    fix x assume "x \<in> set xs"
    then obtain c where "c \<in> set ?cd" "py_index (merge_matches ?ms ?ns) (claim_id c) = Inr x"
      using mapr_mem [OF xs] by blast
    then show "x \<in> set ?mn" using look by fastforce
  qed
  have mb: "list_all match_boundaries_ok xs"
    using a b xm keep_first_set [of em_claim_id ?ms ?ns] unfolding guarded_ok_def list_all_iff by blast
  have known: "list_all (claim_known tp) ?cd"
    using a b keep_first_set [of claim_id ?cs ?ds] unfolding guarded_ok_def list_all_iff by blast
  have len: "length ?cd \<le> m + n"
    using a b keep_first_length [of claim_id ?cs ?ds] by (simp add: guarded_ok_def)
  have dc: "distinct (map claim_id ?cd)" using keep_first_distinct [OF d(1)] .
  obtain g where g: "merge_admitted_understanding (Some old) new = Inr g"
    "claims (response g) = ?cd" "evidence_matches g = xs"
    using xs by (simp add: merge_admitted_understanding_def Let_def md(1))
  have "guarded_ok tp (m + n) g"
    unfolding guarded_ok_def g(2,3) using mb known len dc xi by simp
  then show ?thesis using g keep_first_prefix [of claim_id ?cs ?ds] by (intro exI [of _ g]) simp
qed

section \<open>Free text\<close>

definition ready_result :: "apply_result \<Rightarrow> home_pack \<Rightarrow> bool" where
  "ready_result r p \<longleftrightarrow> ledger_wf (Home p) (ar_ledger r)"

lemma unchanged_total:
  assumes "resolved H sn p l" and "ledger_wf (Home p) l"
  shows "\<exists>r. unchanged_result H sn l = Inr r \<and> ready_result r p"
  using unchanged_result_ok [OF assms(1)] assms(2) by (auto simp: ready_result_def)

lemma failure_total:
  assumes "resolved H sn p l" and "ledger_wf (Home p) l"
  shows "\<exists>m. understanding_failure_semantics H sn l k reason = Inr m \<and> ready_result (sm_result m) p"
  using unchanged_total [OF assms] by (auto simp: understanding_failure_semantics_def base_semantics_def)

definition context_ok :: "(task_pack \<Rightarrow> string) \<Rightarrow> home_pack \<Rightarrow> nat \<Rightarrow> attempt_context \<Rightarrow> bool" where
  "context_ok H p n cx \<longleftrightarrow> resolved H (ax_snapshot cx) p (ax_ledger cx) \<and> ledger_wf (Home p) (ax_ledger cx)
     \<and> bounded 1 100 (turn_id (ax_response cx)) \<and> request_known (Home p) (ax_request cx)
     \<and> (\<forall>g. ax_admitted cx = Some g \<longrightarrow> guarded_ok (Home p) n g)
     \<and> length (accepted_auxiliary (ax_ledger cx)) + 60 \<le> 200"

lemma admitted_total:
  assumes cx: "context_ok H p n cx" and g: "ax_admitted cx = Some g" and n: "n \<le> 60"
  shows "\<exists>m. admitted_understanding_semantics H sha cx k = Inr m \<and> ready_result (sm_result m) p"
proof -
  have "length (accepted_auxiliary (ax_ledger cx)) + n \<le> 200" using cx n by (simp add: context_ok_def)
  then have "\<exists>res. apply_guarded_understanding H sha (ax_snapshot cx) (ax_ledger cx) g (turn_id (ax_response cx)) = Inr res
      \<and> ledger_wf (Home p) (ar_ledger res)"
    using cx g by (intro guarded_applies) (simp_all add: context_ok_def)
  then show ?thesis using g by (auto simp: admitted_understanding_semantics_def Let_def ready_result_def)
qed

lemma provider_total:
  assumes "context_ok H p n cx" and "n \<le> 60"
  shows "\<exists>m. provider_failure H sha cx k reason = Inr m \<and> ready_result (sm_result m) p"
  using assms failure_total [of H "ax_snapshot cx" p "ax_ledger cx" k reason] admitted_total [of H p n cx _ sha k]
  by (auto simp: provider_failure_def context_ok_def)

lemma candidate_total:
  assumes cx: "context_ok H p n cx" and r: "candidate_ok r" and n: "n \<le> 30" and k: "k = 1 \<or> k = 2"
  shows "\<exists>out. understand_candidate H sha nfc cx k r = Inr out \<and>
     (case out of Inl m \<Rightarrow> ready_result (sm_result m) p | Inr cx' \<Rightarrow> k = 1 \<and> context_ok H p (n + 30) cx')"
proof (cases "route_for_understanding r \<in> {Bridge, Safety} \<and> ax_admitted cx = None")
  case True
  have "\<exists>u. unchanged_result H (ax_snapshot cx) (ax_ledger cx) = Inr u \<and> ready_result u p"
    using cx by (intro unchanged_total) (simp_all add: context_ok_def)
  then obtain u where "unchanged_result H (ax_snapshot cx) (ax_ledger cx) = Inr u" "ready_result u p"
    by (elim exE conjE)
  then show ?thesis using True by (simp add: understand_candidate_def base_semantics_def)
next
  case False
  let ?a = "admit_understanding_response nfc (ax_request cx) r"
  have new: "guarded_ok (Home p) 30 (guarded ?a)"
    using cx r by (intro admission_guarded_ok) (simp_all add: context_ok_def)
  have "\<exists>g. merge_admitted_understanding (ax_admitted cx) (guarded ?a) = Inr g \<and> guarded_ok (Home p) (n + 30) g"
  proof (cases "ax_admitted cx")
    case None
    have "guarded_ok (Home p) (n + 30) (guarded ?a)" using new by (simp add: guarded_ok_def)
    then show ?thesis using None by (simp add: merge_admitted_understanding_def)
  next
    case (Some old)
    then have "guarded_ok (Home p) n old" using cx by (simp add: context_ok_def)
    then show ?thesis using merge_total [OF _ new] Some by metis
  qed
  then obtain g where m: "merge_admitted_understanding (ax_admitted cx) (guarded ?a) = Inr g"
    and g: "guarded_ok (Home p) (n + 30) g" by (elim exE conjE)
  let ?cx1 = "cx\<lparr>ax_admitted := (if claims (response g) \<noteq> [] then Some g else None),
                 ax_request := (ax_request cx)\<lparr>req_guard_feedback_codes :=
                   map (\<lambda>v. violation_name (gv_code v)) (quarantined_claims ?a)\<rparr>\<rparr>"
  let ?cx2 = "cx\<lparr>ax_admitted := Some g\<rparr>"
  have c1: "context_ok H p (n + 30) ?cx1" and c2: "context_ok H p (n + 30) ?cx2"
    using cx g by (simp_all add: context_ok_def request_known_def)
  have "\<exists>f. understanding_failure_semantics H (ax_snapshot cx) (ax_ledger cx) k
      Understanding_Evidence_Guard_Failed = Inr f \<and> ready_result (sm_result f) p"
    using cx by (intro failure_total) (simp_all add: context_ok_def)
  then obtain f where f: "understanding_failure_semantics H (ax_snapshot cx) (ax_ledger cx) k
      Understanding_Evidence_Guard_Failed = Inr f" "ready_result (sm_result f) p" by (elim exE conjE)
  obtain y where y: "admitted_understanding_semantics H sha ?cx2 k = Inr y" "ready_result (sm_result y) p"
    using admitted_total [OF c2, of g sha k] n by auto
  have u: "understand_candidate H sha nfc cx k r =
     (if needs_repair ?a \<and> k = 1 then Inr (Inr ?cx1)
      else if claims (response g) = [] \<and> needs_repair ?a then Inr (Inl f) else Inr (Inl y))"
    unfolding understand_candidate_def Let_def if_not_P [OF False] m bindr_Inr f(1) y(1) ..
  show ?thesis unfolding u using c1 f(2) y(2) by simp
qed

lemma attempt_total:
  assumes cx: "context_ok H p n cx" and gw: "gateway_ok gateway" and n: "n \<le> 30" and k: "k = 1 \<or> k = 2"
  shows "\<exists>out. understand_attempt H sha nfc gateway cx k = Inr out \<and>
     (case out of Inl m \<Rightarrow> ready_result (sm_result m) p | Inr cx' \<Rightarrow> k = 1 \<and> context_ok H p (n + 30) cx')"
proof (cases "gateway k (ax_request cx)")
  case (Candidate r)
  then have "candidate_ok r" using gw by (simp add: gateway_ok_def)
  from candidate_total [OF cx this n k] show ?thesis by (simp add: understand_attempt_def Candidate)
qed (use provider_total [OF cx, of sha k Understanding_Timeout] provider_total [OF cx, of sha k Understanding_Model_Unavailable]
    provider_total [OF cx, of sha k Understanding_Model_Output_Invalid] n in \<open>auto simp: understand_attempt_def\<close>)

text \<open>The attempt graph unrolled: two attempts, then exhaustion.\<close>

lemma run_attempt_graph_unroll:
  "run_attempt_graph oper exhausted cx = bindr (oper cx 1) (\<lambda>r. case r of
      Inl result \<Rightarrow> Inr result
    | Inr cx' \<Rightarrow> bindr (oper cx' 2) (\<lambda>r. case r of Inl result \<Rightarrow> Inr result | Inr cx'' \<Rightarrow> exhausted cx''))"
  unfolding run_attempt_graph_def numeral_2_eq_2 attempt_graph.simps One_nat_def ..

lemma understand_text_total:
  assumes r: "resolved H sn p l" and wf: "ledger_wf (Home p) l" and gw: "gateway_ok gateway"
    and turn: "bounded 1 100 (turn_id resp)" and ready: "request_ready p" and ne: "open_targets p l \<noteq> []"
    and tx: "resp_text resp = Some txt" "bounded 1 300 txt" and q: "question \<noteq> []"
    and room: "length (accepted_auxiliary l) \<le> 140"
  shows "\<exists>m. understand_text H sha nfc gateway s p sn l resp question history = Inr m \<and> ready_result (sm_result m) p"
proof -
  obtain rq where rq: "understanding_request_for H s p l resp question history = Inr rq"
    "req_child_utterance rq = txt" "cg_fact_ids (req_graph rq) = map fact_id (facts (hp_graph p))"
    "cg_relation_ids (req_graph rq) = map relation_id (relations (hp_graph p))"
    using request_total [OF r ready ne tx q, of s history] by (elim exE conjE)
  let ?cx = "\<lparr>ax_session = s, ax_snapshot = sn, ax_ledger = l, ax_response = resp, ax_request = rq,
        ax_admitted = None\<rparr>"
  have "request_known (Home p) rq" unfolding request_known_def rq(2,3,4) using tx(2) by (simp add: image_image)
  then have c0: "context_ok H p 0 ?cx" using r wf turn room by (simp add: context_ok_def)
  obtain o1 where o1: "understand_attempt H sha nfc gateway ?cx 1 = Inr o1"
    "case o1 of Inl m \<Rightarrow> ready_result (sm_result m) p | Inr cx' \<Rightarrow> (1::nat) = 1 \<and> context_ok H p (0 + 30) cx'"
    using attempt_total [OF c0 gw le0 disjI1 [OF refl], of sha nfc] by (elim exE conjE)
  have t: "understand_text H sha nfc gateway s p sn l resp question history =
     (case o1 of Inl m \<Rightarrow> Inr m
      | Inr cx' \<Rightarrow> bindr (understand_attempt H sha nfc gateway cx' 2) (\<lambda>r. case r of
          Inl m \<Rightarrow> Inr m | Inr cx'' \<Rightarrow> understanding_exhausted H sha cx''))"
    unfolding understand_text_def rq(1) bindr_Inr run_attempt_graph_unroll o1(1) ..
  show ?thesis
  proof (cases o1)
    case (Inl m)
    then show ?thesis using t o1(2) by simp
  next
    case (Inr cx')
    then have "context_ok H p 30 cx'" using o1(2) by simp
    from attempt_total [OF this gw order_refl disjI2 [OF refl], of sha nfc] obtain o2 where
      "understand_attempt H sha nfc gateway cx' 2 = Inr o2"
      "case o2 of Inl m \<Rightarrow> ready_result (sm_result m) p | Inr cx'' \<Rightarrow> (2::nat) = 1 \<and> context_ok H p (30 + 30) cx''"
      by (elim exE conjE)
    then show ?thesis using t Inr by (cases o2) simp_all
  qed
qed

section \<open>No response, choice and joint action\<close>

lemma no_response_total:
  assumes "resolved H sn p l" and "ledger_wf (Home p) l"
  shows "\<exists>m. no_response_semantics H s sn l resp = Inr m \<and> ready_result (sm_result m) p"
proof -
  obtain u where "unchanged_result H sn l = Inr u" "ready_result u p"
    using unchanged_total [OF assms] by (elim exE conjE)
  then show ?thesis
    by (cases "no_response_kind resp"; cases "the (no_response_kind resp)")
      (simp_all add: no_response_semantics_def Let_def base_semantics_def validate_semantic_contract_def
        default_response_def)
qed

lemma active_l2_plan_mem: "active_l2_plan H s p l = Inr q \<Longrightarrow> q \<in> set (hp_l2_plans p)"
  by (auto simp: active_l2_plan_def l2_plan_for_targets_def bindr_eq_Inr split: option.splits dest: find_Some_mem)

lemma home_fact_ids: "tf_id ` set (pack_facts (Home p)) = fact_id ` set (facts (hp_graph p))"
  by (simp add: image_image)

lemma note_ids_known:
  assumes "validate_home_pack p = Inr ()"
  shows "set (hp_note_relation_ids p) \<subseteq> relation_id ` set (relations (hp_graph p))"
    and "set (hp_note_relation_ids p) \<subseteq> set (hc_relations (card_H3 (hp_help p)))"
  using validate_pack_structure_parts(6) [OF validate_home_pack_parts(2) [OF assms]]
  by (auto simp: validate_help_scope_def bindr_eq_Inr split: if_splits)

lemma l2_target_known:
  assumes p: "validate_home_pack p = Inr ()" and q: "q \<in> set (hp_l2_plans p)"
  shows "plan_key (lp_target q) \<in> required_targets (completion (hp_graph p))"
  using validate_pack_structure_parts(4) [OF validate_home_pack_parts(2) [OF p]] q by blast

lemma required_relations_known:
  assumes "validate_home_pack p = Inr ()" and "(TK_Relation, i) \<in> required_targets (completion (hp_graph p))"
  shows "i \<in> relation_id ` set (relations (hp_graph p))"
  using required_target_known [OF assms] by auto

lemma choice_total:
  assumes r: "resolved H sn p l" and wf: "ledger_wf (Home p) l" and turn: "bounded 1 100 (turn_id resp)"
    and l2: "ss_expression s = L2" and pl: "active_l2_plan H s p l = Inr pl"
    and c: "c \<in> set (lp_choices pl)" "choice_ids resp = [ch_id c]"
  shows "\<exists>m. choice_semantics H sha s p sn l resp = Inr m \<and> ready_result (sm_result m) p"
proof -
  have p: "validate_home_pack p = Inr ()" using r by (rule resolved_pack)
  have q: "pl \<in> set (hp_l2_plans p)" using pl by (rule active_l2_plan_mem)
  note ch = validate_choices_parts [OF validate_home_pack_parts(3) [OF p q]]
  obtain d where d: "List.find (\<lambda>x. ch_id x = ch_id c) (lp_choices pl) = Some d"
    using find_exists [of "lp_choices pl" "\<lambda>x. ch_id x = ch_id c"] c(1) by blast
  then have dm: "d \<in> set (lp_choices pl)" by (auto dest: find_Some_mem)
  let ?e = "ch_effect d"
  have tgt: "(ef_target_kind ?e, ef_target_id ?e) \<in> required_targets (completion (hp_graph p))"
    unfolding ch(3) [OF dm] by (rule l2_target_known [OF p q])
  have rels: "set (choice_relation_ids p ?e) \<subseteq> set (pack_relations (Home p))"
    using required_relations_known [OF p, of "ef_target_id ?e"] tgt note_ids_known(1) [OF p]
    by (auto simp: choice_relation_ids_def)
  have "ef_verdict ?e = Correct \<Longrightarrow>
      \<exists>res. apply_structured_progress H sha sn l (choice_fact_values ?e) (choice_relation_ids p ?e) (turn_id resp) Choice_Source = Inr res
        \<and> ready_result res p"
  proof -
    assume v: "ef_verdict ?e = Correct"
    have facts: "\<forall>(i, v) \<in> set (choice_fact_values ?e). \<exists>f \<in> set (pack_facts (Home p)). tf_id f = i \<and> tf_accepts f v"
      using home_correct_choice_value [OF p q dm v]
      by (cases "ef_target_kind ?e") (auto simp: choice_fact_values_def split: option.splits)
    have "distinct (choice_relation_ids p ?e)" by (simp add: choice_relation_ids_def)
    from apply_structured_total [OF _ _ wf turn this facts rels, of H sn sha Choice_Source] r
    show ?thesis by (auto simp: resolved_def ready_result_def)
  qed
  moreover obtain u where "unchanged_result H sn l = Inr u" "ready_result u p"
    using unchanged_total [OF r wf] by (elim exE conjE)
  moreover have "validate_semantic_contract (choice_response b k) = Inr ()" for b k
    by (simp add: validate_semantic_contract_def choice_response_def default_response_def)
  ultimately show ?thesis
    using l2 pl c(2) d by (cases "ef_verdict ?e = Correct") (auto simp: choice_semantics_def Let_def base_semantics_def)
qed

lemma foldl_update_distinct:
  "distinct (map fst xs) \<Longrightarrow> fst ` set xs \<inter> set (dict_keys d) = {} \<Longrightarrow>
   foldl (\<lambda>d u. AList.update (fst u) (snd u) d) d xs = d @ xs"
proof (induction xs arbitrary: d)
  case (Cons x xs)
  then have "AList.update (fst x) (snd x) d = d @ [x]" by (subst dict_update_fresh) auto
  with Cons show ?case by auto
qed simp

lemma joint_facts_distinct: "distinct (map joint_key cs) \<Longrightarrow> distinct (map fst (joint_facts cs))"
proof (induction cs)
  case (Cons c cs)
  have k: "i \<in> fst ` set (joint_facts cs) \<Longrightarrow> (TK_Fact, i) \<in> joint_key ` set cs" for i
    by (force simp: joint_facts_mem)
  have d: "distinct (map fst (joint_facts cs))" using Cons by simp
  show ?case
  proof (cases c)
    case (JointFact i v)
    then have "i \<notin> fst ` set (joint_facts cs)" using Cons.prems k [of i] by auto
    moreover have "joint_facts (c # cs) = (i, v) # joint_facts cs" by (simp add: joint_facts_def JointFact)
    ultimately show ?thesis using d by simp
  next
    case (JointRelation i)
    then have "joint_facts (c # cs) = joint_facts cs" by (simp add: joint_facts_def)
    then show ?thesis using d by simp
  qed
qed (simp add: joint_facts_def)

lemma joint_total:
  assumes r: "resolved H sn p l" and wf: "ledger_wf (Home p) l" and turn: "bounded 1 100 (turn_id resp)"
    and l0: "ss_expression s = L0" "ss_hint s = H3"
    and v: "same_json_value (JObj (resp_values resp)) (JObj (joint_expected_values p))"
  shows "\<exists>m. joint_semantics H sha s p sn l resp = Inr m \<and> ready_result (sm_result m) p
           \<and> co_complete (ar_completion (sm_result m)) \<and> sm_source m = Structured_Joint
           \<and> set (hp_note_relation_ids p) \<subseteq> set (dict_keys (verified_relations (ar_ledger (sm_result m))))"
proof -
  have p: "validate_home_pack p = Inr ()" using r by (rule resolved_pack)
  let ?cs = "jp_completion (hp_l0 p)"
  note j = home_joint_completion [OF p]
  have fv: "joint_fact_values p = joint_facts ?cs"
    using foldl_update_distinct [OF joint_facts_distinct [OF j(1)], of "[]"] by (simp add: joint_fact_values_def)
  have us: "\<forall>(i, v) \<in> set (joint_facts ?cs). \<exists>f \<in> set (pack_facts (Home p)). tf_id f = i \<and> tf_accepts f v"
    using j(3) by (auto simp: joint_facts_mem)
  have rs: "set (joint_relation_ids p) = set (joint_relations ?cs) \<union> set (hp_note_relation_ids p)"
    using note_ids_known(2) [OF p] by (auto simp: joint_relation_ids_def)
  then have known: "set (joint_relation_ids p) \<subseteq> set (pack_relations (Home p))"
    using j(4) note_ids_known(1) [OF p] by (auto simp: joint_relations_mem)
  have dr: "distinct (joint_relation_ids p)" by (simp add: joint_relation_ids_def)
  obtain res where res: "apply_structured_progress H sha sn l (joint_facts ?cs) (joint_relation_ids p)
      (turn_id resp) Joint_Source = Inr res" "ledger_wf (Home p) (ar_ledger res)"
    using apply_structured_total [OF _ _ wf turn dr us known, of H sn sha Joint_Source] r by (auto simp: resolved_def)
  from res(1) obtain tp' st1 st2 where q: "resolve_pack H sn = Inr tp'"
    "fold_res (apply_structured_fact sha (dict_by tf_id (pack_facts tp')) (turn_id resp) Joint_Source) (joint_facts ?cs)
       (initial_state l) = Inr st1"
    "fold_res (apply_structured_relation sha (turn_id resp) Joint_Source) (joint_relation_ids p) st1 = Inr st2"
    "finish_apply H sn l (completion_of tp' l) st2 = Inr res"
    by (rule apply_structured_Inr)
  note f = finish_apply_Inr [OF q(4)] and e = apply_structured_effect(2,3) [OF q(2,3)]
  have com: "ar_completion res = completion_of (Home p) (ar_ledger res)"
    using structured_result_ok [OF r res(1)] by (simp add: result_ok_def)
  have "co_complete (completion_of (Home p) (ar_ledger res))"
    using e rs joint_covers [OF j(2)] unfolding completion_of_complete f(1) next_ledger_def by auto
  moreover have "set (hp_note_relation_ids p) \<subseteq> set (dict_keys (verified_relations (ar_ledger res)))"
    using e rs unfolding f(1) next_ledger_def by auto
  moreover have "validate_semantic_contract joint_response = Inr ()"
    by (simp add: validate_semantic_contract_def joint_response_def default_response_def)
  ultimately show ?thesis
    using l0 v res fv com by (simp add: joint_semantics_def base_semantics_def ready_result_def)
qed

end
