(* ===== verification/Home_Speech_Laws.thy ===== *)
theory Home_Speech_Laws
  imports Home_Interpret_Laws
begin

text \<open>
  Mormi always has something to say: the speech of a turn, its turn contract and the completion of
  a session are total. The reviewed texts of a pack must not contain line breaks, because a turn
  contract accepts at most two lines.
\<close>

section \<open>Single-line texts\<close>

definition one_line :: "ustr \<Rightarrow> bool" where
  "one_line t \<longleftrightarrow> list_all (\<lambda>c. \<not> is_line_break c) t"

lemma one_line_simps [simp]:
  "one_line []" "one_line (s @ t) \<longleftrightarrow> one_line s \<and> one_line t"
  "one_line (c # s) \<longleftrightarrow> \<not> is_line_break c \<and> one_line s"
  "one_line (rev s) \<longleftrightarrow> one_line s"
  by (auto simp: one_line_def list_all_iff)

lemma one_line_concat: "list_all one_line ss \<Longrightarrow> one_line (concat ss)"
  by (induction ss) auto

lemma one_line_subset: "one_line s \<Longrightarrow> set t \<subseteq> set s \<Longrightarrow> one_line t"
  by (auto simp: one_line_def list_all_iff)

lemma one_line_dropWhile: "one_line s \<Longrightarrow> one_line (dropWhile P s)"
  by (rule one_line_subset) (auto dest: set_dropWhileD)

lemma one_line_strip: "one_line s \<Longrightarrow> one_line (strip s)"
  by (simp add: strip_def one_line_dropWhile)

lemma split_lines_one: "one_line s \<Longrightarrow> split_lines b s \<le> 1"
proof (induction s arbitrary: b)
  case (Cons c s)
  then have "\<not> is_line_break c" by simp
  moreover from this have "c \<noteq> 13" by (auto simp: is_line_break_def)
  ultimately show ?case using Cons by simp
qed simp

definition speech_ok :: "ustr \<Rightarrow> bool" where
  "speech_ok t \<longleftrightarrow> t \<noteq> [] \<and> one_line t"

lemma speech_ok_checks: "speech_ok t \<Longrightarrow> check_all (mormi_checks t) = Inr ()"
  using split_lines_one [of t False] by (simp add: speech_ok_def mormi_checks_def field_def)

lemma txt_lines [simp]:
  "speech_ok txt_this"
  "speech_ok txt_and_consonant"
  "speech_ok txt_and_vowel"
  "speech_ok txt_and_other"
  "speech_ok txt_and_last"
  "speech_ok txt_card_order"
  "speech_ok txt_do_together"
  "speech_ok txt_card_again"
  "speech_ok txt_please_tell"
  "speech_ok txt_can_tell"
  "speech_ok txt_count_method"
  "speech_ok txt_compare_method"
  "speech_ok txt_compute_method"
  "speech_ok txt_select_method"
  "speech_ok txt_open_why"
  "speech_ok txt_open_next"
  "speech_ok txt_open_confused"
  "speech_ok txt_open_challenge"
  "speech_ok txt_open_unsure"
  "speech_ok txt_new_card"
  "speech_ok txt_i_am_ai"
  "speech_ok txt_untaught"
  "speech_ok txt_want_to_know"
  "speech_ok txt_no_play"
  "speech_ok txt_curious"
  "speech_ok txt_dont_know_how"
  "speech_ok txt_card_appeared"
  "speech_ok txt_still_unsure"
  "speech_ok txt_bridge"
  "speech_ok txt_is_it"
  "speech_ok txt_confused_part"
  "speech_ok txt_not_understood"
  "speech_ok txt_not_repeat"
  "speech_ok txt_thanks"
  "speech_ok txt_oh"
  "speech_ok txt_is"
  "speech_ok txt_told_values"
  "speech_ok txt_yes"
  "speech_ok txt_no"
  by (simp_all add: speech_ok_def is_line_break_def txt_this_def
    txt_and_consonant_def
    txt_and_vowel_def
    txt_and_other_def
    txt_and_last_def
    txt_card_order_def
    txt_do_together_def
    txt_card_again_def
    txt_please_tell_def
    txt_can_tell_def
    txt_count_method_def
    txt_compare_method_def
    txt_compute_method_def
    txt_select_method_def
    txt_open_why_def
    txt_open_next_def
    txt_open_confused_def
    txt_open_challenge_def
    txt_open_unsure_def
    txt_new_card_def
    txt_i_am_ai_def
    txt_untaught_def
    txt_want_to_know_def
    txt_no_play_def
    txt_curious_def
    txt_dont_know_how_def
    txt_card_appeared_def
    txt_still_unsure_def
    txt_bridge_def
    txt_is_it_def
    txt_confused_part_def
    txt_not_understood_def
    txt_not_repeat_def
    txt_thanks_def
    txt_oh_def
    txt_is_def
    txt_told_values_def
    txt_yes_def
    txt_no_def)

lemmas txt_one_line [simp] = txt_lines [unfolded speech_ok_def, THEN conjunct1] txt_lines [unfolded speech_ok_def, THEN conjunct2]

section \<open>Reviewed texts of a pack\<close>

definition reviewed_texts :: "home_pack \<Rightarrow> ustr list" where
  "reviewed_texts p = qp_fallback (hp_initial p) # map qp_fallback (hp_l3_plans p)
     @ map cs_fallback (hp_copy_slots p) @ map fact_label (facts (hp_graph p))
     @ concat (map surface_forms (facts (hp_graph p)))"

definition speakable :: "home_pack \<Rightarrow> bool" where
  "speakable p \<longleftrightarrow> list_all one_line (reviewed_texts p)"

lemma fallbacks_ok:
  assumes p: "validate_home_pack p = Inr ()" and s: "speakable p"
  shows "q \<in> set (hp_initial p # hp_l3_plans p) \<Longrightarrow> speech_ok (qp_fallback q)"
    and "c \<in> set (hp_copy_slots p) \<Longrightarrow> speech_ok (cs_fallback c)"
    and "f \<in> set (facts (hp_graph p)) \<Longrightarrow> speech_ok (fact_label f)"
    and "f \<in> set (facts (hp_graph p)) \<Longrightarrow> u \<in> set (surface_forms f) \<Longrightarrow> one_line u"
proof -
  have h: "\<And>b e. (b, e) \<in> set (home_fields p) \<Longrightarrow> \<not> b"
    using validate_home_pack_parts(7) [OF p] by (auto simp: check_all_Inr)
  have hf: "ok" if "field ok n \<in> set (home_fields p)" for ok n
    using h [of "\<not> ok"] that by (auto simp: field_def)
  show "speech_ok (qp_fallback q)" if q: "q \<in> set (hp_initial p # hp_l3_plans p)"
  proof -
    have "bounded 1 220 (qp_fallback q)"
      by (rule hf [of _ "''reviewed_fallback''"]) (use q in \<open>auto simp: home_fields_def question_fields_def\<close>)
    then show ?thesis using q s by (auto simp: speech_ok_def speakable_def reviewed_texts_def list_all_iff)
  qed
  show "speech_ok (cs_fallback c)" if c: "c \<in> set (hp_copy_slots p)"
  proof -
    have "bounded 1 220 (cs_fallback c)"
      by (rule hf [of _ "''reviewed_fallback''"]) (use c in \<open>auto simp: home_fields_def slot_fields_def\<close>)
    then show ?thesis using c s by (auto simp: speech_ok_def speakable_def reviewed_texts_def list_all_iff)
  qed
  show "speech_ok (fact_label f)" if f: "f \<in> set (facts (hp_graph p))"
    using home_text(1) [OF p f] f s by (auto simp: speech_ok_def speakable_def reviewed_texts_def list_all_iff)
  show "one_line u" if "f \<in> set (facts (hp_graph p))" "u \<in> set (surface_forms f)"
    using that s by (auto simp: speakable_def reviewed_texts_def list_all_iff)
qed

text \<open>The fallback of a question of an active session is one of the reviewed ones.\<close>

lemma question_fallback_reviewed:
  assumes "question_contract_of H s p l = Inr (q, s')" and "ss_status s = ACTIVE"
  shows "qc_fallback q \<in> set (map qp_fallback (hp_initial p # hp_l3_plans p)) \<union> set (map cs_fallback (hp_copy_slots p))"
    and "qc_slot q = Some c \<Longrightarrow> c \<in> set (hp_copy_slots p)"
proof -
  have "qc_fallback q \<in> set (map qp_fallback (hp_initial p # hp_l3_plans p)) \<union> set (map cs_fallback (hp_copy_slots p))
      \<and> (\<forall>c. qc_slot q = Some c \<longrightarrow> c \<in> set (hp_copy_slots p))"
    using assms by (auto simp: question_contract_of_def joint_question_def choice_question_def l3_question_def
        l4_question_def text_question_def bindr_eq_Inr dest!: py_next_Inr split: if_splits)
  then show "qc_fallback q \<in> set (map qp_fallback (hp_initial p # hp_l3_plans p)) \<union> set (map cs_fallback (hp_copy_slots p))"
    "qc_slot q = Some c \<Longrightarrow> c \<in> set (hp_copy_slots p)" by blast+
qed

section \<open>Naming the open targets\<close>

definition target_known :: "home_pack \<Rightarrow> target_ref \<Rightarrow> bool" where
  "target_known p t \<longleftrightarrow> (case tr_kind t of
     TK_Fact \<Rightarrow> tr_id t \<in> fact_id ` set (facts (hp_graph p))
   | TK_Relation \<Rightarrow> tr_id t \<in> relation_id ` set (relations (hp_graph p)))"

lemma required_target_ref_known:
  assumes "validate_home_pack p = Inr ()" and "plan_key t \<in> required_targets (completion (hp_graph p))"
  shows "target_known p t"
  using required_target_known [OF assms] by (auto simp: target_known_def plan_key_def)

lemma slot_targets_known:
  assumes p: "validate_home_pack p = Inr ()" and c: "c \<in> set (hp_copy_slots p)" and t: "t \<in> set (cs_targets c)"
  shows "target_known p t"
proof -
  obtain keys where "mapr (target_key (map fact_id (facts (hp_graph p))) (map relation_id (relations (hp_graph p))))
      (cs_targets c) = Inr keys"
    using slots_of_pack [OF p] c by (auto simp: validate_copy_slots_def validate_slot_def bindr_eq_Inr for_each_Inr)
  then have "\<exists>k. target_key (map fact_id (facts (hp_graph p))) (map relation_id (relations (hp_graph p))) t = Inr k"
    using t by (induction "cs_targets c" arbitrary: keys c rule: list.induct)
      (auto simp: bindr_eq_Inr dest!: mapr_Inr simp: list_all2_conv_all_nth in_set_conv_nth)
  then show ?thesis by (auto simp: target_key_def bindr_eq_Inr target_known_def split: if_splits target_kind.splits)
qed

lemma focus_total:
  assumes p: "validate_home_pack p = Inr ()" and s: "speakable p" and t: "\<forall>t \<in> set ts. target_known p t"
  shows "\<exists>labels. speaker_target_focus p ts = Inr labels \<and> list_all one_line labels"
proof -
  let ?f = "\<lambda>t. case tr_kind t of
       TK_Fact \<Rightarrow> bindr (py_index (dict_by fact_id (facts (hp_graph p))) (tr_id t)) (\<lambda>f. Inr (fact_label f))
     | TK_Relation \<Rightarrow> bindr (py_index (dict_by relation_id (relations (hp_graph p))) (tr_id t))
         (\<lambda>r. Inr (relation_focus_label (operation r)))"
  have one: "\<exists>y. ?f t = Inr y \<and> one_line y" if "t \<in> set ts" for t
  proof (cases "tr_kind t")
    case TK_Fact
    then have "tr_id t \<in> fact_id ` set (facts (hp_graph p))" using that t by (auto simp: target_known_def)
    then obtain f where g: "dict_get (dict_by fact_id (facts (hp_graph p))) (tr_id t) = Some f"
      using dict_by_get_mem by metis
    then have "f \<in> set (facts (hp_graph p))" by (auto dest: dict_by_get)
    from fallbacks_ok(3) [OF p s this] show ?thesis using TK_Fact g by (simp add: py_index_def speech_ok_def)
  next
    case TK_Relation
    then have "tr_id t \<in> relation_id ` set (relations (hp_graph p))" using that t by (auto simp: target_known_def)
    then obtain r where g: "dict_get (dict_by relation_id (relations (hp_graph p))) (tr_id t) = Some r"
      using dict_by_get_mem by metis
    then show ?thesis using TK_Relation
      by (auto simp: py_index_def relation_focus_label_def split: operation.splits)
  qed
  have "\<exists>ys. mapr ?f ts = Inr ys" by (rule mapr_total) (drule one, elim exE conjE, erule exI)
  then obtain ys where ys: "mapr ?f ts = Inr ys" ..
  have "one_line y" if "y \<in> set ys" for y
  proof -
    obtain t where "t \<in> set ts" "?f t = Inr y" using mapr_mem [OF ys \<open>y \<in> set ys\<close>] by blast
    then show ?thesis using one [of t] by auto
  qed
  then show ?thesis using ys by (simp add: speaker_target_focus_def list_all_iff)
qed

section \<open>Speech\<close>

lemma one_line_rstrip: "one_line s \<Longrightarrow> one_line (rstrip s)"
  by (simp add: rstrip_def one_line_dropWhile)

lemma one_line_particle: "one_line s \<Longrightarrow> one_line (with_and_particle s)"
  by (simp add: with_and_particle_def Let_def one_line_rstrip)

lemma one_line_comma: "list_all one_line ss \<Longrightarrow> one_line (comma_join ss)"
  by (cases ss) (auto simp: comma_join_def list_all_iff is_line_break_def intro!: one_line_concat)

lemma one_line_labels:
  assumes "list_all one_line labels"
  shows "one_line (join_reask_labels (dedup labels))"
proof -
  have a: "list_all one_line (dedup labels)" using assms by (simp add: list_all_iff)
  have b: "list_all one_line (butlast (dedup labels))" using a by (auto simp: list_all_iff dest: in_set_butlastD)
  have c: "dedup labels \<noteq> [] \<Longrightarrow> one_line (last (dedup labels))"
    using a last_in_set [of "dedup labels"] unfolding list_all_iff by blast
  have n: "n < length (dedup labels) \<Longrightarrow> one_line (dedup labels ! n)" for n using a by (simp add: list_all_length)
  show ?thesis using n [of 0] n [of 1] c one_line_comma [OF b]
    by (simp add: join_reask_labels_def Let_def one_line_particle is_line_break_def)
qed

lemma fallback_reask_ok: "one_line focus \<Longrightarrow> speech_ok (fallback_reask m focus knd visible)"
  by (simp add: fallback_reask_def Let_def speech_ok_def)

lemma fallback_opening_ok: "one_line focus \<Longrightarrow> one_line (fallback_opening m focus strong n)"
  by (auto simp: fallback_opening_def Let_def ui_opening_def is_line_break_def
      split: option.splits ui_interaction.splits conversation_move.splits)

lemma conversational_total:
  assumes "validate_home_pack p = Inr ()" "speakable p" "\<forall>t \<in> set (qc_targets q). target_known p t"
  shows "\<exists>fb. conversational_fallback p m q visible strong n = Inr fb \<and> speech_ok fb"
proof -
  obtain labels where l: "speaker_target_focus p (qc_targets q) = Inr labels" "list_all one_line labels"
    using focus_total [OF assms] by blast
  note f = one_line_labels [OF l(2)]
  show ?thesis using l(1) fallback_reask_ok [OF f] fallback_opening_ok [OF f]
    by (simp add: conversational_fallback_def Let_def speech_ok_def)
qed

lemma safe_reask_ok: "list_all one_line (rp_labels pl) \<Longrightarrow> speech_ok (safe_reask_text pl)"
  using one_line_labels [of "rp_labels pl"] by (cases "rp_reask pl") (simp_all add: safe_reask_text_def Let_def speech_ok_def)

lemma compose_ok: "one_line reaction \<Longrightarrow> speech_ok reask \<Longrightarrow> speech_ok (compose_reaction_and_reask reaction reask)"
  by (simp add: compose_reaction_and_reask_def Let_def speech_ok_def one_line_strip is_line_break_def)

lemma response_plan_total:
  assumes "validate_home_pack p = Inr ()" "speakable p" "\<forall>t \<in> set (qc_targets q). target_known p t"
  shows "\<exists>pl. conversation_response_plan s p m q h = Inr pl \<and> speech_ok (safe_reask_text pl)"
proof -
  obtain labels where l: "speaker_target_focus p (qc_targets q) = Inr labels" "list_all one_line labels"
    using focus_total [OF assms] by blast
  then show ?thesis by (auto simp: conversation_response_plan_def Let_def intro!: safe_reask_ok)
qed

text \<open>Every copy slot has a pinned plan, and resolved copy and model texts stay on one line.\<close>

definition plans_cover :: "home_pack \<Rightarrow> session \<Rightarrow> bool" where
  "plans_cover p s \<longleftrightarrow> (\<forall>pr. ss_pinned s = Some pr \<longrightarrow>
     (\<forall>c \<in> set (hp_copy_slots p). cs_slot c \<in> set (dict_keys (pr_plans pr))))"

definition texts_ok :: "environment \<Rightarrow> turn_input \<Rightarrow> bool" where
  "texts_ok env i \<longleftrightarrow> (\<forall>k t. ti_resolved_copy i k = Some t \<longrightarrow> speech_ok t)
     \<and> (\<forall>t. ti_model_text i = Some t \<longrightarrow> one_line t) \<and> (\<forall>v. one_line (en_render env v))"

lemma acknowledgement_total:
  assumes p: "validate_home_pack p = Inr ()" and s: "speakable p" and r: "\<forall>v. one_line (render v)"
    and ids: "set ids \<subseteq> fact_id ` set (facts (hp_graph p))"
  shows "\<exists>a. reviewed_fact_acknowledgement render p ids = Inr a \<and> one_line a"
proof -
  let ?f = "\<lambda>i. bindr (py_index (dict_by fact_id (facts (hp_graph p))) i) (\<lambda>f. Inr (fact_surface render f))"
  have one: "\<exists>y. ?f i = Inr y \<and> one_line y" if i: "i \<in> set ids" for i
  proof -
    have "i \<in> fact_id ` set (facts (hp_graph p))" using i ids by blast
    then obtain f where g: "dict_get (dict_by fact_id (facts (hp_graph p))) i = Some f"
      using dict_by_get_mem by metis
    then have "f \<in> set (facts (hp_graph p))" by (auto dest: dict_by_get)
    from fallbacks_ok(4) [OF p s this] show ?thesis using g r
      by (auto simp: py_index_def fact_surface_def split: list.splits)
  qed
  have "\<exists>ys. mapr ?f ids = Inr ys" by (rule mapr_total) (drule one, elim exE conjE, erule exI)
  then obtain ys where ys: "mapr ?f ids = Inr ys" ..
  have l: "list_all one_line ys"
    unfolding list_all_iff
  proof
    fix y assume "y \<in> set ys"
    then obtain i where "i \<in> set ids" "?f i = Inr y" using mapr_mem [OF ys] by blast
    then show "one_line y" using one [of i] by auto
  qed
  have "length ys = 1 \<Longrightarrow> one_line (ys ! 0)" using l by (simp add: list_all_length)
  then show ?thesis using ys one_line_comma [OF l] by (simp add: reviewed_fact_acknowledgement_def)
qed

lemma speak_total:
  assumes p: "validate_home_pack p = Inr ()" and s: "speakable p" and q: "\<forall>t \<in> set (qc_targets q). target_known p t"
    and fb: "speech_ok fb" and r: "\<forall>v. one_line (render v)" and mt: "\<forall>t. model = Some t \<longrightarrow> one_line t"
    and ids: "set (as_new_fact_ids (ar_state (sm_result m))) \<subseteq> fact_id ` set (facts (hp_graph p))"
  shows "\<exists>t. speak render st p m q fb h model = Inr t \<and> speech_ok t"
proof -
  obtain pl where pl: "conversation_response_plan st p m q h = Inr pl" "speech_ok (safe_reask_text pl)"
    using response_plan_total [OF p s q, of st m h] by (elim exE conjE)
  obtain a where a: "reviewed_fact_acknowledgement render p (as_new_fact_ids (ar_state (sm_result m))) = Inr a" "one_line a"
    using acknowledgement_total [OF p s r ids] by (elim exE conjE)
  show ?thesis using pl a fb mt by (cases model) (auto simp: speak_def one_line_strip intro: compose_ok)
qed

lemma bridge_total:
  assumes p: "validate_home_pack p = Inr ()" and s: "speakable p" and q: "\<forall>t \<in> set (qc_targets q). target_known p t"
    and fb: "speech_ok fb" and mt: "\<forall>t. model = Some t \<longrightarrow> one_line t"
  shows "\<exists>t. bridge_text st p m q fb h model = Inr t \<and> speech_ok t"
proof -
  obtain pl where pl: "conversation_response_plan st p m q h = Inr pl" "speech_ok (safe_reask_text pl)"
    using response_plan_total [OF p s q, of st m h] by (elim exE conjE)
  then show ?thesis using fb mt by (cases model) (auto simp: bridge_text_def intro: compose_ok)
qed

lemma stable_total:
  assumes pc: "plans_cover p s" and pin: "ss_pinned s = Some pr" and ok: "speakable p" "validate_home_pack p = Inr ()"
    and slot: "\<forall>c. qc_slot q = Some c \<longrightarrow> c \<in> set (hp_copy_slots p)" and copy: "\<forall>k t. resolve k = Some t \<longrightarrow> speech_ok t"
  shows "\<exists>r. stable_fallback s q e h resolve = Inr r \<and> (\<forall>t a. r = Some (t, a) \<longrightarrow> speech_ok t)"
proof (cases "qc_slot q")
  case None
  then show ?thesis by (simp add: stable_fallback_def)
next
  case (Some c)
  then have c: "c \<in> set (hp_copy_slots p)" using slot by simp
  then obtain pl where "dict_get (pr_plans pr) (cs_slot c) = Some pl"
    using pc pin by (metis dict_get_None_iff not_None_eq plans_cover_def)
  then show ?thesis using Some pin copy fallbacks_ok(2) [OF ok(2,1) c]
    by (auto simp: stable_fallback_def split: option.splits)
qed

lemma render_total:
  assumes p: "validate_home_pack p = Inr ()" and s: "speakable p" and q: "\<forall>t \<in> set (qc_targets (sx_question cx)). target_known p t"
    and fb: "speech_ok (sx_fallback cx)" "speech_ok (qc_fallback (sx_question cx))"
    and st: "\<forall>t a. sx_stable cx = Some (t, a) \<longrightarrow> speech_ok t"
    and r: "\<forall>v. one_line (render v)" and mt: "\<forall>t. model = Some t \<longrightarrow> one_line t"
    and ids: "set (as_new_fact_ids (ar_state (sm_result m))) \<subseteq> fact_id ` set (facts (hp_graph p))"
  shows "\<exists>sp :: speech. render_speech render prior s1 p m cx model = Inr sp \<and> speech_ok (sp_text sp)"
proof -
  let ?q = "sx_question cx" and ?fb = "sx_fallback cx"
  obtain t1 where t1: "speak render s1 p m ?q ?fb (ss_hint prior) model = Inr t1" "speech_ok t1"
    using speak_total [OF p s q fb(1) r mt ids] by blast
  obtain t2 where t2: "bridge_text s1 p m ?q ?fb (ss_hint prior) model = Inr t2" "speech_ok t2"
    using bridge_total [OF p s q fb(1) mt] by blast
  have u: "speech_ok (unsafe_fallback (qc_fallback ?q))" using fb(2) by (simp add: unsafe_fallback_def speech_ok_def)
  show ?thesis
    using fb t1 t2 u st by (cases "execution_speech_route m (sx_stable cx)"; cases "sx_stable cx")
      (auto simp: render_speech_def Let_def split: prod.splits)
qed

section \<open>The turn contract and the completion\<close>

lemma open_targets_known:
  assumes p: "validate_home_pack p = Inr ()" and k: "plan_key ` set ts \<subseteq> plan_key ` set (open_targets p l)"
  shows "\<forall>t \<in> set ts. target_known p t"
proof
  fix t assume "t \<in> set ts"
  then have "plan_key t \<in> plan_key ` set (open_targets p l)" using k by blast
  then have "plan_key t \<in> required_targets (completion (hp_graph p))"
    using initial_targets(2) [OF p] by (auto simp: ordered_targets_def)
  then show "target_known p t" by (rule required_target_ref_known [OF p])
qed

text \<open>The question of an open session: it exists, it is reviewed and it can be named.\<close>

lemma question_ready:
  assumes r: "resolved H sn p l" and a: "asks_agree p" and sp: "speakable p" and act: "ss_status s = ACTIVE"
    and ne: "open_targets p l \<noteq> []"
  shows "\<exists>q s'. question_contract_of H s p l = Inr (q, s') \<and> reworded s s' \<and> target_slots (qc_input q) \<noteq> []
      \<and> (\<forall>t \<in> set (qc_targets q). target_known p t) \<and> speech_ok (qc_fallback q)
      \<and> (\<forall>c. qc_slot q = Some c \<longrightarrow> c \<in> set (hp_copy_slots p))"
proof -
  have p: "validate_home_pack p = Inr ()" using r by (rule resolved_pack)
  obtain q s' where q: "question_contract_of H s p l = Inr (q, s')" "question_ok s p l q s'"
    using question_contract_total [OF r a act ne] by blast
  note f = question_fallback_reviewed [OF q(1) act]
  have "speech_ok (qc_fallback q)" using f(1) fallbacks_ok(1,2) [OF p sp] by auto
  moreover have "\<forall>t \<in> set (qc_targets q). target_known p t"
    using q(2) by (intro open_targets_known [OF p, of _ l]) (simp add: question_ok_def)
  ultimately show ?thesis using q question_reworded [OF q(1)] f(2) by (auto simp: question_ok_def)
qed

lemma build_turn_active:
  assumes r: "resolved H sn p l" and a: "asks_agree p" and sp: "speakable p" and act: "ss_status s = ACTIVE"
    and ne: "open_targets p l \<noteq> []" and t: "speech_ok txt"
  shows "\<exists>tn s'. build_turn H s p l txt i = Inr (tn, s')"
proof -
  obtain q s' where q: "question_contract_of H s p l = Inr (q, s')" "reworded s s'" "target_slots (qc_input q) \<noteq> []"
    using question_ready [OF r a sp act ne] by (elim exE conjE)
  have "hp_prompt p \<noteq> []" using home_text(5) [OF resolved_pack [OF r]] by auto
  then have "task_anchor_for p (qc_input q) = Inr \<lparr>an_id = ''v2.'' @ hp_pack_id p, an_prompt = hp_prompt p,
      an_slots = target_slots (qc_input q)\<rparr>"
    using q(3) by (simp add: task_anchor_for_def field_def)
  moreover have "ss_status s' = ACTIVE" using reworded_fields(9) [OF q(2)] act by simp
  ultimately show ?thesis using q(1) speech_ok_checks [OF t] by (simp add: build_turn_def)
qed

lemma completion_facts_total:
  assumes "validate_home_pack p = Inr ()"
  shows "\<exists>fs. completion_facts p l = Inr fs"
proof -
  note req = validate_completion_parts(1,2) [OF validate_graph_parts(5) [OF validate_home_pack_parts(1) [OF assms]]]
  have f: "\<exists>f. dict_get (dict_by fact_id (facts (hp_graph p))) i = Some f"
    if "i \<in> set (required_fact_ids (completion (hp_graph p)))" for i
    using that req by (intro dict_by_get_mem) auto
  have r: "\<exists>r. dict_get (dict_by relation_id (relations (hp_graph p))) i = Some r"
    if "i \<in> set (required_relation_ids (completion (hp_graph p)))" for i
    using that req by (intro dict_by_get_mem) auto
  have "\<exists>fs. completion_fact_values p l = Inr fs"
    unfolding completion_fact_values_def by (rule mapr_total) (use f in \<open>fastforce simp: py_index_def\<close>)
  moreover have "\<exists>rs. completion_relation_values p l = Inr rs"
    unfolding completion_relation_values_def verified_required_relations_def
    by (rule mapr_total) (use r in \<open>fastforce simp: py_index_def\<close>)
  moreover obtain f where "final_fact p = Inr f" using final_fact_exists [OF assms] by blast
  moreover have "\<exists>b. rule_slot p (first_required_rule p l) = Inr b"
    using r by (fastforce simp: rule_slot_def first_required_rule_def py_index_def split: list.splits)
  ultimately show ?thesis by (auto simp: completion_facts_def Let_def)
qed

lemma build_turn_completed:
  assumes "validate_home_pack p = Inr ()" and "ss_status s = COMPLETED" and "speech_ok txt"
  shows "\<exists>tn s'. build_turn H s p l txt i = Inr (tn, s')"
proof -
  obtain fs where "completion_facts p l = Inr fs" using completion_facts_total [OF assms(1)] by blast
  then show ?thesis using assms(2) speech_ok_checks [OF assms(3)]
    by (auto simp: build_turn_def question_contract_of_def split: option.splits)
qed

lemma sync_total:
  assumes "validate_home_pack p = Inr ()"
  shows "\<exists>s'. sync_legacy_slots s p l = Inr s'"
proof -
  note req = validate_completion_parts(1,2) [OF validate_graph_parts(5) [OF validate_home_pack_parts(1) [OF assms]]]
  obtain f where f: "final_fact p = Inr f" using final_fact_exists [OF assms] by blast
  then have "f \<in> set (facts (hp_graph p))" by (auto simp: final_fact_def dest: py_next_Inr)
  then obtain g where "dict_get (dict_by fact_id (facts (hp_graph p))) (fact_id f) = Some g"
    using dict_by_get_mem [of "fact_id f" fact_id "facts (hp_graph p)"] by auto
  then have a: "\<exists>a. answer_slot p l f = Inr a" by (simp add: answer_slot_def py_index_def)
  have "\<exists>b. rule_slot p (verified_required_relations p l) = Inr b"
  proof (cases "verified_required_relations p l")
    case (Cons i rest)
    then have "i \<in> set (verified_required_relations p l)" by simp
    then have "i \<in> relation_id ` set (relations (hp_graph p))"
      using req by (auto simp: verified_required_relations_def)
    then obtain r where "dict_get (dict_by relation_id (relations (hp_graph p))) i = Some r"
      using dict_by_get_mem [of i relation_id "relations (hp_graph p)"] by auto
    then show ?thesis using Cons by (simp add: rule_slot_def py_index_def)
  qed (simp add: rule_slot_def)
  then show ?thesis using f a by (auto simp: sync_legacy_slots_def)
qed

lemma apply_execution_total:
  assumes "validate_home_pack p = Inr ()" and "ss_pinned s = Some pr"
  shows "\<exists>s'. apply_execution s p m h = Inr s'"
proof -
  obtain s1 where s1: "store_ledger (apply_ladder_policy s m) (ar_ledger (sm_result m)) = Inr s1"
    using assms(2) by (simp add: store_ledger_def)
  obtain s2 where "sync_legacy_slots s1 p (ar_ledger (sm_result m)) = Inr s2"
    using sync_total [OF assms(1)] by blast
  then show ?thesis using s1 by (simp add: apply_execution_def)
qed

end
