(* ===== verification/Home_Returns.thy ===== *)
theory Home_Returns
  imports Home_Speech_Laws
begin

text \<open>
  A turn of an active session returns: what a session, its pack and the input of a turn must
  satisfy, and that every turn keeps the session ready for the next one.
\<close>

section \<open>Readiness\<close>

definition session_ready :: "environment \<Rightarrow> home_pack \<Rightarrow> session \<Rightarrow> bool" where
  "session_ready env p s \<longleftrightarrow> session_ok env p s \<and> ss_runtime s = VERDICT_V1
     \<and> ss_task_index s < length (ss_task_ids s) \<and> ledger_wf (Home p) (ledger_of s) \<and> plans_cover p s"

definition pack_ready :: "home_pack \<Rightarrow> bool" where
  "pack_ready p \<longleftrightarrow> request_ready p \<and> speakable p"

text \<open>The response answers the input the session asks, as the service checks before a turn runs.\<close>

definition response_fits :: "environment \<Rightarrow> home_pack \<Rightarrow> session \<Rightarrow> child_response \<Rightarrow> bool" where
  "response_fits env p s resp \<longleftrightarrow> (case resp_type resp of
      RT_TEXT \<Rightarrow> (case resp_text resp of None \<Rightarrow> False | Some txt \<Rightarrow> bounded 1 300 txt)
    | RT_NO_RESPONSE \<Rightarrow> True
    | RT_CHOICE \<Rightarrow> ss_expression s = L2 \<and> (case active_l2_plan (en_hash env) s p (ledger_of s) of
        Inl _ \<Rightarrow> False | Inr pl \<Rightarrow> \<exists>c \<in> set (lp_choices pl). choice_ids resp = [ch_id c])
    | RT_ACTION \<Rightarrow> ss_expression s = L0
        \<and> same_json_value (JObj (resp_values resp)) (JObj (joint_expected_values p))
    | _ \<Rightarrow> False)"

definition input_ready :: "environment \<Rightarrow> home_pack \<Rightarrow> session \<Rightarrow> turn_input \<Rightarrow> bool" where
  "input_ready env p s i \<longleftrightarrow> bounded 1 100 (turn_id (ti_response i)) \<and> gateway_ok (ti_gateway i)
     \<and> texts_ok env i \<and> response_fits env p s (ti_response i) \<and> ti_previous_question i \<noteq> []
     \<and> length (accepted_auxiliary (ledger_of s)) \<le> 140"

section \<open>Interpretation\<close>

lemma interpret_total:
  assumes sr: "session_ready env p s" and pr: "pack_ready p" and act: "ss_status s = ACTIVE"
    and i: "input_ready env p s i" and pin: "ss_pinned s = Some pin"
  shows "\<exists>m. interpret_execution (en_hash env) (en_sha env) (en_nfc env) (ti_gateway i) s p (pr_snapshot pin)
           (pr_ledger pin) (ti_response i) (ti_previous_question i) (ti_history i) = Inr m
         \<and> ready_result (sm_result m) p"
proof -
  have l: "ledger_of s = pr_ledger pin" using pin by (simp add: ledger_of_def)
  have r: "resolved (en_hash env) (pr_snapshot pin) p (pr_ledger pin)" and wf: "ledger_wf (Home p) (pr_ledger pin)"
    and lad: "ladders_ok s" and nc: "\<not> co_complete (completion_of (Home p) (pr_ledger pin))"
    using sr pin act l by (auto simp: session_ready_def session_ok_def)
  have ne: "open_targets p (pr_ledger pin) \<noteq> []" using open_targets_empty [OF resolved_pack [OF r]] nc by simp
  have turn: "bounded 1 100 (turn_id (ti_response i))" and gw: "gateway_ok (ti_gateway i)"
    and q: "ti_previous_question i \<noteq> []" and fits: "response_fits env p s (ti_response i)"
    and room: "length (accepted_auxiliary (pr_ledger pin)) \<le> 140"
    using i l by (simp_all add: input_ready_def)
  have rr: "request_ready p" using pr by (simp add: pack_ready_def)
  show ?thesis
  proof (cases "resp_type (ti_response i)")
    case RT_TEXT
    then obtain ws where "resp_text (ti_response i) = Some ws" "bounded 1 300 ws"
      using fits by (auto simp: response_fits_def split: option.splits)
    from understand_text_total [OF r wf gw turn rr ne this q room] RT_TEXT show ?thesis
      by (simp add: interpret_execution_def)
  next
    case RT_NO_RESPONSE
    then show ?thesis using no_response_total [OF r wf] by (simp add: interpret_execution_def)
  next
    case RT_CHOICE
    then obtain pl c where "ss_expression s = L2" "active_l2_plan (en_hash env) s p (pr_ledger pin) = Inr pl"
      "c \<in> set (lp_choices pl)" "choice_ids (ti_response i) = [ch_id c]"
      using fits l by (auto simp: response_fits_def split: sum.splits)
    from choice_total [OF r wf turn this] RT_CHOICE show ?thesis by (simp add: interpret_execution_def)
  next
    case RT_ACTION
    then have a: "ss_expression s = L0"
      and v: "same_json_value (JObj (resp_values (ti_response i))) (JObj (joint_expected_values p))"
      using fits by (simp_all add: response_fits_def)
    then have h: "ss_hint s = H3" using lad by (simp add: ladders_ok_def)
    obtain m where "joint_semantics (en_hash env) (en_sha env) s p (pr_snapshot pin) (pr_ledger pin) (ti_response i) = Inr m"
      "ready_result (sm_result m) p"
      using joint_total [OF r wf turn a h v, of "en_sha env"] by (elim exE conjE)
    then show ?thesis using RT_ACTION by (simp add: interpret_execution_def)
  qed (use fits in \<open>simp_all add: response_fits_def\<close>)
qed

section \<open>The rest of the turn\<close>

lemma ledger_wf_keys:
  assumes "ledger_wf tp l" and "validate_task_pack tp = Inr ()"
  shows "map_keys_must_match_entries l = Inr ()"
proof -
  have "next_ledger l (initial_state l) = l" by (simp add: next_ledger_def initial_state_def)
  then show ?thesis using state_wf_constructor [of tp "initial_state l" l] assms
    by (simp add: ledger_wf_def initial_state_def)
qed

lemma resolve_state_total:
  assumes "session_ready env p s" and "ss_pinned s = Some pin"
  shows "resolve_state (en_hash env) s = Inr (p, pr_snapshot pin, pr_ledger pin)"
proof -
  have r: "resolved (en_hash env) (pr_snapshot pin) p (pr_ledger pin)" and wf: "ledger_wf (Home p) (pr_ledger pin)"
    and v: "ss_runtime s = VERDICT_V1"
    using assms by (auto simp: session_ready_def session_ok_def ledger_of_def)
  have rp: "resolve_pack (en_hash env) (pr_snapshot pin) = Inr (Home p)" using r by (simp add: resolved_def)
  then have pl: "sn_payload (pr_snapshot pin) = Home p" "snapshot_matches (en_hash env) (pr_snapshot pin)"
    by (auto simp: resolve_pack_Inr)
  have "validate_pinned_pack (en_hash env) (pr_snapshot pin) = Inr ()"
    using pl resolved_pack [OF r] by (simp add: validate_pinned_pack_def check_def)
  then show ?thesis
    using v assms(2) pl resolved_pack [OF r] ledger_wf_keys [OF wf] resolve_pack_valid [OF rp] resolved_completion [OF r]
    by (simp add: resolve_state_def)
qed

lemma continue_total:
  assumes r: "resolved (en_hash env) sn p (ar_ledger (sm_result m))" and pr: "pack_ready p"
    and act: "ss_status s = ACTIVE" and ne: "open_targets p (ar_ledger (sm_result m)) \<noteq> []"
    and pin: "ss_pinned s = Some pin" and pc: "plans_cover p s" and tx: "texts_ok env i"
    and new: "set (as_new_fact_ids (ar_state (sm_result m))) \<subseteq> set (dict_keys (verified_facts (ar_ledger (sm_result m))))"
  shows "\<exists>res. continue_execution env i prior s p m = Inr res"
proof -
  let ?H = "en_hash env" and ?l = "ar_ledger (sm_result m)"
  have p: "validate_home_pack p = Inr ()" using r by (rule resolved_pack)
  have sp: "speakable p" and a: "asks_agree p" using pr by (simp_all add: pack_ready_def request_ready_def)
  obtain q0 s1 where q0: "question_contract_of ?H s p ?l = Inr (q0, s1)" "reworded s s1"
    "\<forall>t \<in> set (qc_targets q0). target_known p t" "speech_ok (qc_fallback q0)"
    "\<forall>c. qc_slot q0 = Some c \<longrightarrow> c \<in> set (hp_copy_slots p)"
    using question_ready [OF r a sp act ne] by (elim exE conjE)
  have "\<exists>q. (if sm_initial_help m then initial_help_question_contract p q0 else Inr q0) = Inr q
      \<and> (\<forall>t \<in> set (qc_targets q). target_known p t) \<and> speech_ok (qc_fallback q)
      \<and> (\<forall>c. qc_slot q = Some c \<longrightarrow> c \<in> set (hp_copy_slots p))"
  proof (cases "sm_initial_help m")
    case True
    obtain c where c: "py_next (\<lambda>c. cs_purpose c = Initial_Help) (hp_copy_slots p) = Inr c"
      using py_next_total [OF purpose_slot_exists [OF p, of Initial_Help]] by auto
    then have cm: "c \<in> set (hp_copy_slots p)" by (auto dest: py_next_Inr)
    show ?thesis using True c cm fallbacks_ok(2) [OF p sp cm] slot_targets_known [OF p cm]
      by (simp add: initial_help_question_contract_def)
  qed (use q0 in simp)
  then obtain q where q: "(if sm_initial_help m then initial_help_question_contract p q0 else Inr q0) = Inr q"
    "\<forall>t \<in> set (qc_targets q). target_known p t" "speech_ok (qc_fallback q)"
    "\<forall>c. qc_slot q = Some c \<longrightarrow> c \<in> set (hp_copy_slots p)" by (elim exE conjE)
  have pin1: "ss_pinned s1 = Some pin" and pc1: "plans_cover p s1" and act1: "ss_status s1 = ACTIVE"
    using reworded_fields [OF q0(2)] pin pc act by (simp_all add: plans_cover_def)
  have cp: "\<forall>k t. ti_resolved_copy i k = Some t \<longrightarrow> speech_ok t" and mt: "\<forall>t. ti_model_text i = Some t \<longrightarrow> one_line t"
    and rn: "\<forall>v. one_line (en_render env v)" using tx by (simp_all add: texts_ok_def)
  obtain st where st: "stable_fallback s1 q (ss_expression prior) (ss_hint prior) (ti_resolved_copy i) = Inr st"
    "\<forall>t a. st = Some (t, a) \<longrightarrow> speech_ok t"
    using stable_total [OF pc1 pin1 sp p q(4) cp, of "ss_expression prior" "ss_hint prior"] by (elim exE conjE)
  obtain fb where fb: "conversational_fallback p m q (ss_hint s1 \<noteq> H0) (ss_hint s1 \<noteq> ss_hint prior)
      (ss_concept_failures s1) = Inr fb" "speech_ok fb"
    using conversational_total [OF p sp q(2), of m "ss_hint s1 \<noteq> H0" "ss_hint s1 \<noteq> ss_hint prior"
      "ss_concept_failures s1"] by (elim exE conjE)
  let ?cx = "\<lparr>sx_question = q, sx_stable = st, sx_fallback = fb\<rparr>"
  have prep: "prepare_speech ?H prior s p m (ti_resolved_copy i) = Inr (?cx, s1)"
    unfolding prepare_speech_def q0(1) bindr_Inr prod.case q(1) st(1) fb(1) ..
  have ids: "set (as_new_fact_ids (ar_state (sm_result m))) \<subseteq> fact_id ` set (facts (hp_graph p))"
  proof -
    have "set (dict_keys (verified_facts ?l)) \<subseteq> set (dict_keys (dict_by tf_id (pack_facts (Home p))))"
      using r by (auto simp: resolved_def validate_ledger_binding_def Let_def bindr_eq_Inr simp del: set_map split: if_splits)
    then show ?thesis using new unfolding dict_by_keys home_fact_ids by blast
  qed
  have "\<exists>sp :: speech. render_speech (en_render env) prior s1 p m ?cx (ti_model_text i) = Inr sp \<and> speech_ok (sp_text sp)"
    by (rule render_total [OF p sp]) (use q(2,3) fb(2) st(2) rn mt ids in simp_all)
  then obtain sp' :: speech where sp': "render_speech (en_render env) prior s1 p m ?cx (ti_model_text i) = Inr sp'"
    "speech_ok (sp_text sp')" by (elim exE conjE)
  obtain tn s2 where "build_turn ?H s1 p ?l (sp_text sp') (ti_new_turn_id i) = Inr (tn, s2)"
    using build_turn_active [OF r a sp act1 ne sp'(2), of "ti_new_turn_id i"] by (elim exE)
  then have c: "\<exists>res. compose_execution ?H s1 p m (sp_text sp') (ti_new_turn_id i) = Inr res"
    by (simp add: compose_execution_def)
  then show ?thesis unfolding continue_execution_def prep bindr_Inr prod.case sp'(1) by simp
qed

lemma finish_total:
  assumes p: "validate_home_pack p = Inr ()" and idx: "ss_task_index s < length (ss_task_ids s)"
  shows "\<exists>res. finish_execution env i s p m = Inr res"
proof -
  have "\<exists>s1. complete_state s p m = Inr s1"
    using idx by (simp add: complete_state_def Let_def current_task_id_def)
  then obtain s1 where s1: "complete_state s p m = Inr s1" ..
  obtain tn s2 where "build_turn (en_hash env) s1 p (ar_ledger (sm_result m)) txt_thanks (ti_new_turn_id i) = Inr (tn, s2)"
    using build_turn_completed [OF p complete_state_effect(8) [OF s1] txt_lines(34)] by blast
  then show ?thesis using s1 by (simp add: finish_execution_def compose_execution_def)
qed

section \<open>Every turn returns\<close>

lemma turn_total:
  assumes sr: "session_ready env p s" and pr: "pack_ready p" and act: "ss_status s = ACTIVE"
    and i: "input_ready env p s i"
  shows "\<exists>r. run_turn env i s = Inr r \<and> session_ready env p (tr_state r)"
proof -
  have ok: "session_ok env p s" using sr by (simp add: session_ready_def)
  then obtain pin where pin: "ss_pinned s = Some pin" by (auto simp: session_ok_def)
  have r: "resolved (en_hash env) (pr_snapshot pin) p (pr_ledger pin)" using ok pin by (simp add: session_ok_def)
  note p = resolved_pack [OF r]
  obtain m where m: "interpret_execution (en_hash env) (en_sha env) (en_nfc env) (ti_gateway i) s p (pr_snapshot pin)
      (pr_ledger pin) (ti_response i) (ti_previous_question i) (ti_history i) = Inr m" "ready_result (sm_result m) p"
    using interpret_total [OF sr pr act i pin] by (elim exE conjE)
  have so: "result_ok (en_hash env) (pr_snapshot pin) (Home p) (pr_ledger pin) (sm_result m)"
    using interpret_semantics [OF r m(1)] by (simp add: semantics_ok_def)
  then have rl: "resolved (en_hash env) (pr_snapshot pin) p (ar_ledger (sm_result m))"
    and com: "ar_completion (sm_result m) = completion_of (Home p) (ar_ledger (sm_result m))"
    and new: "set (as_new_fact_ids (ar_state (sm_result m))) \<subseteq> set (dict_keys (verified_facts (ar_ledger (sm_result m))))"
    by (simp_all add: result_ok_def)
  have "ss_pinned (turn_start s) = Some pin" using pin by simp
  from apply_execution_total [OF p this] obtain s1 where a: "apply_execution (turn_start s) p m (ss_hint s) = Inr s1" by blast
  note e = apply_execution_effect [OF a]
  have act1: "ss_status s1 = ACTIVE" and idx: "ss_task_index s1 < length (ss_task_ids s1)"
    using e(3,4) act sr by (simp_all add: view_defs session_ready_def)
  obtain pin1 where pin1: "ss_pinned s1 = Some pin1" "pr_plans pin1 = pr_plans pin"
    using e(6) pin by auto
  have pc: "plans_cover p s1" using sr pin pin1 by (simp add: plans_cover_def session_ready_def)
  have tx: "texts_ok env i" using i by (simp add: input_ready_def)
  have "\<exists>res. (if co_complete (ar_completion (sm_result m)) then finish_execution env i s1 p m
        else continue_execution env i s s1 p m) = Inr res"
  proof (cases "co_complete (ar_completion (sm_result m))")
    case True
    then show ?thesis using finish_total [OF p idx] by simp
  next
    case False
    then have "open_targets p (ar_ledger (sm_result m)) \<noteq> []" using open_targets_empty [OF p] com by simp
    from continue_total [OF rl pr act1 this pin1(1) pc tx new, of s] False show ?thesis by simp
  qed
  then obtain res where res: "run_turn env i s = Inr res"
    unfolding run_turn_def resolve_state_total [OF sr pin] bindr_Inr prod.case m(1) a by blast
  have "tr_semantics res = m"
  proof -
    obtain pr' m' s1' s2' where "ss_pinned s = Some pr'"
      "interpret_execution (en_hash env) (en_sha env) (en_nfc env) (ti_gateway i) s p (pr_snapshot pr') (pr_ledger pr')
         (ti_response i) (ti_previous_question i) (ti_history i) = Inr m'" "tr_semantics res = m'"
      using session_turn [OF ok res] by metis
    then show ?thesis using m(1) pin by simp
  qed
  then have "ss_pinned (tr_state res) = Some (pin\<lparr>pr_ledger := ar_ledger (sm_result m)\<rparr>)"
    "identity_view (tr_state res) = identity_view s"
    using turn_outcome(1,6) [OF ok act res] pin by auto
  then have "session_ready env p (tr_state res)"
    using step_session_ok [OF ok act res] m(2) sr pin
    by (simp add: session_ready_def view_defs ledger_of_def ready_result_def plans_cover_def)
  then show ?thesis using res by blast
qed

end
