(* ===== verification/Home_Demo.thy ===== *)
theory Home_Demo
  imports Home_Returns Money_Price_Turn
begin

text \<open>
  How a session starts, sequences of turns, and a concrete session on the \<open>money_price\<close> pack.
\<close>

section \<open>Starting a session\<close>

lemma initialize_total:
  assumes pin: "pin_pack H (Home p) = Inr sn" and pr: "pack_ready p" and f: "fresh_session s0"
    and v: "ss_runtime s0 = VERDICT_V1"
  shows "\<exists>t s. initialize_state H p plans s0 i = Inr (t, s)"
proof -
  let ?l = "empty_reasoning_ledger sn"
  let ?s1 = "s0\<lparr>ss_pinned := Some \<lparr>pr_snapshot = sn, pr_ledger = ?l, pr_plans = plans\<rparr>,
             ss_expression := canonical (ss_expression s0), ss_hint := H0,
             ss_subgoal := qp_plan_id (hp_initial p)\<rparr>"
  have r: "resolved H sn p ?l" using pin by (rule pin_resolves)
  have p: "validate_home_pack p = Inr ()" using r by (rule resolved_pack)
  have sp: "speakable p" and a: "asks_agree p" using pr by (simp_all add: pack_ready_def request_ready_def)
  have ne: "open_targets p ?l \<noteq> []" using open_targets_empty [OF p] empty_ledger_open [OF p] by simp
  have act: "ss_status ?s1 = ACTIVE" using f by (simp add: fresh_session_def)
  have "\<exists>o1 s2. (if ss_expression ?s1 = L4 then Inr (qp_fallback (hp_initial p), ?s1)
        else bindr (question_contract_of H ?s1 p ?l) (\<lambda>(q, s2). Inr (qc_fallback q, s2))) = Inr (o1, s2)
        \<and> speech_ok o1 \<and> ss_status s2 = ACTIVE"
  proof (cases "ss_expression ?s1 = L4")
    case True
    have "speech_ok (qp_fallback (hp_initial p))" using fallbacks_ok(1) [OF p sp] by simp
    then show ?thesis using True act by simp
  next
    case False
    obtain q s2 where q: "question_contract_of H ?s1 p ?l = Inr (q, s2)" "reworded ?s1 s2" "speech_ok (qc_fallback q)"
      using question_ready [OF r a sp act ne] by (elim exE conjE)
    have "ss_status s2 = ACTIVE" using reworded_fields(9) [OF q(2)] act by simp
    then show ?thesis using False q by simp
  qed
  then obtain o1 s2 where o1: "(if ss_expression ?s1 = L4 then Inr (qp_fallback (hp_initial p), ?s1)
        else bindr (question_contract_of H ?s1 p ?l) (\<lambda>(q, s2). Inr (qc_fallback q, s2))) = Inr (o1, s2)"
    "speech_ok o1" "ss_status s2 = ACTIVE" by (elim exE conjE)
  have "ss_status (s2\<lparr>ss_verified_slots := []\<rparr>) = ACTIVE" using o1(3) by simp
  from build_turn_active [OF r a sp this ne o1(2), of i] obtain t s3
    where "build_turn H (s2\<lparr>ss_verified_slots := []\<rparr>) p ?l o1 i = Inr (t, s3)" by (elim exE)
  then show ?thesis using v unfolding initialize_state_def Let_def pin bindr_Inr o1(1) by simp
qed

lemma started_session_ready:
  assumes f: "fresh_session s0" and i: "initialize_state (en_hash env) p plans s0 k = Inr (t, s)"
    and idx: "ss_task_index s0 < length (ss_task_ids s0)"
    and pc: "\<forall>c \<in> set (hp_copy_slots p). cs_slot c \<in> set (dict_keys plans)"
  shows "session_ready env p s" and "ss_status s = ACTIVE"
proof -
  obtain sn s1 s2 where sn: "pin_pack (en_hash env) (Home p) = Inr sn"
    and s1: "s1 = s0\<lparr>ss_pinned := Some \<lparr>pr_snapshot = sn, pr_ledger = empty_reasoning_ledger sn, pr_plans = plans\<rparr>,
             ss_expression := canonical (ss_expression s0), ss_hint := H0,
             ss_subgoal := qp_plan_id (hp_initial p)\<rparr>"
    and s2: "ss_expression s1 = L4 \<and> s2 = s1
      \<or> (\<exists>q. question_contract_of (en_hash env) s1 p (empty_reasoning_ledger sn) = Inr (q, s2))"
    and rw: "reworded (s2\<lparr>ss_verified_slots := []\<rparr>) s"
    using i by (rule initialize_Inr)
  have "reworded s1 s2" using s2 by (auto dest: question_reworded)
  note a = reworded_fields [OF this] and b = reworded_fields [OF rw]
  have v: "ss_pinned s = ss_pinned s1" "identity_view s = identity_view s0" "ss_status s = ss_status s0"
    using a b by (simp_all add: view_defs s1)
  have rt: "ss_runtime s0 = VERDICT_V1" using i by (auto simp: initialize_state_def split: if_splits)
  have "ledger_wf (Home p) (empty_reasoning_ledger sn)"
    by (simp add: ledger_wf_def state_wf_def initial_state_def empty_reasoning_ledger_def)
  then show "session_ready env p s"
    using started_session_ok [OF f i] v idx pc rt
    by (simp add: session_ready_def view_defs s1 ledger_of_def plans_cover_def)
  show "ss_status s = ACTIVE" using v f by (simp add: fresh_session_def)
qed

section \<open>Sequences of turns\<close>

inductive home_turns :: "environment \<Rightarrow> session \<Rightarrow> turn_semantics list \<Rightarrow> session \<Rightarrow> bool" for env where
  none: "home_turns env s [] s"
| turn: "home_turns env s ms t \<Longrightarrow> ss_status t = ACTIVE \<Longrightarrow> run_turn env i t = Inr r \<Longrightarrow>
         home_turns env s (ms @ [tr_semantics r]) (tr_state r)"

lemma home_turns_ok: "home_turns env s ms t \<Longrightarrow> session_ok env p s \<Longrightarrow> session_ok env p t"
  by (induction rule: home_turns.induct) (simp_all add: step_session_ok)

text \<open>Unproductive turns shorten the distance to the joint action, or it was reached already.\<close>

lemma turns_distance:
  assumes "home_turns env s ms t" and "session_ok env p s" and "\<forall>m \<in> set ms. unproductive m"
  shows "ss_expression t = L0 \<or> support_distance t + length ms \<le> support_distance s"
  using assms
proof (induction rule: home_turns.induct)
  case (turn s ms t i r)
  have ok: "session_ok env p t" using home_turns_ok [OF turn.hyps(1) turn.prems(1)] .
  then have lad: "ladders_ok (turn_start t)" by (simp add: session_ok_def)
  let ?m = "tr_semantics r"
  note o = turn_outcome(2,3,4) [OF ok turn.hyps(2,3)]
  have d: "support_distance (tr_state r) = support_distance (apply_ladder_policy (turn_start t) ?m)"
    using o by (simp add: support_distance_def ladder_view_def)
  have u: "unproductive ?m" using turn.prems(2) by simp
  have ih: "ss_expression t = L0 \<or> support_distance t + length ms \<le> support_distance s"
    using turn.IH [OF turn.prems(1)] turn.prems(2) by simp
  show ?case
  proof (cases "ss_expression t = L0")
    case True
    have "rank (ss_expression (apply_ladder_policy (turn_start t) ?m)) \<le> rank (ss_expression (turn_start t))"
      using policy_support_step [OF lad, of ?m] by (simp add: support_step_def)
    then have "ss_expression (tr_state r) = L0" using True o(1)
      by (cases "ss_expression (tr_state r)") simp_all
    then show ?thesis by simp
  next
    case False
    then have "support_distance (tr_state r) < support_distance t"
      using unproductive_distance [OF lad _ u] d by simp
    then show ?thesis using ih False by simp
  qed
qed simp

text \<open>A turn without a response changes no ledger.\<close>

lemma no_response_turn:
  assumes ok: "session_ok env p s" and act: "ss_status s = ACTIVE" and run: "run_turn env i s = Inr r"
    and nr: "resp_type (ti_response i) = RT_NO_RESPONSE"
  shows "ss_status (tr_state r) = ACTIVE" and "ledger_of (tr_state r) = ledger_of s"
    and "no_response_kind (ti_response i) = Some EXPLICIT_HELP \<Longrightarrow> unproductive (tr_semantics r)"
proof -
  obtain pr m where pr: "ss_pinned s = Some pr" and res: "resolved (en_hash env) (pr_snapshot pr) p (pr_ledger pr)"
    and i: "interpret_execution (en_hash env) (en_sha env) (en_nfc env) (ti_gateway i) s p (pr_snapshot pr) (pr_ledger pr)
       (ti_response i) (ti_previous_question i) (ti_history i) = Inr m" and m: "tr_semantics r = m"
    using session_turn [OF ok run] by metis
  then have n: "no_response_semantics (en_hash env) s (pr_snapshot pr) (pr_ledger pr) (ti_response i) = Inr m"
    using nr by (simp add: interpret_execution_def)
  then obtain u where u: "unchanged_result (en_hash env) (pr_snapshot pr) (pr_ledger pr) = Inr u" "sm_result m = u"
    by (auto simp: no_response_semantics_def Let_def bindr_eq_Inr base_semantics_def)
  note un = unchanged_result_Inr [OF res u(1)]
  have com: "ar_completion u = completion_of (Home p) (pr_ledger pr)" using un(1,3) by (simp add: result_ok_def)
  have nc: "\<not> co_complete (completion_of (Home p) (ledger_of s))" using ok act by (auto simp: session_ok_def)
  have l: "ledger_of s = pr_ledger pr" using pr by (simp add: ledger_of_def)
  show "ss_status (tr_state r) = ACTIVE"
    using turn_outcome(7) [OF ok act run] nc com u(2) m l by (cases "ss_status (tr_state r)") simp_all
  show "ledger_of (tr_state r) = ledger_of s"
    using turn_outcome(1) [OF ok act run] pr m u(2) un(1) by (auto simp: ledger_of_def)
  show "unproductive (tr_semantics r)" if "no_response_kind (ti_response i) = Some EXPLICIT_HELP"
  proof -
    have "sm_source m = Explicit_No_Response \<and> sm_route m = Stable \<and> conversation_move (sm_response m) = MOVE_NONE"
      using n that by (auto simp: no_response_semantics_def Let_def bindr_eq_Inr base_semantics_def default_response_def)
    then show ?thesis using m u(2) un(2)
      by (simp add: unproductive_def new_canonical_progress_def new_partial_progress_def initial_state_def)
  qed
qed

text \<open>Without any candidate nothing is admitted, and the turn falls back.\<close>

lemma failed_gateway_source:
  assumes r: "resolved H sn p l" and gw: "\<forall>k rq c. gateway k rq \<noteq> Candidate c"
    and u: "understand_text H sha nfc gateway s p sn l resp question history = Inr m"
  shows "sm_source m = Deterministic_Fallback"
proof -
  obtain rq where g: "run_attempt_graph (understand_attempt H sha nfc gateway) (understanding_exhausted H sha)
       \<lparr>ax_session = s, ax_snapshot = sn, ax_ledger = l, ax_response = resp, ax_request = rq,
        ax_admitted = None\<rparr> = Inr m"
    using u by (auto simp: understand_text_def bindr_eq_Inr)
  show ?thesis
  proof (cases "gateway 1 rq")
    case (Candidate c)
    then show ?thesis using gw by blast
  qed (use g failure_semantics_Inr(2) [OF r] in \<open>auto simp: run_attempt_graph_unroll understand_attempt_def
         provider_failure_def bindr_eq_Inr\<close>)
qed

section \<open>A concrete session\<close>

definition demo_env :: environment where
  "demo_env = \<lparr>en_hash = demo_hash, en_sha = demo_sha, en_nfc = nfc_hangul, en_render = (\<lambda>v. [])\<rparr>"

definition demo_fresh :: "expression_level \<Rightarrow> session" where
  "demo_fresh level = \<lparr>ss_scenario_id = ''home_teach'', ss_task_ids = [''home_teaching''], ss_task_index = 0,
     ss_expression = level, ss_hint = H0, ss_subgoal = ''initial'', ss_runtime = VERDICT_V1, ss_pinned = None,
     ss_verified_slots = [], ss_completed_slots = [], ss_status = ACTIVE, ss_turn_id = None, ss_version = 1,
     ss_expression_failures = 0, ss_concept_failures = 0, ss_vague = 0, ss_unrelated = 0, ss_max_hint = H0,
     ss_child_notes = [], ss_supported_notes = [], ss_all_direct = True, ss_joint_used = False,
     ss_outcome = None, ss_reward = False\<rparr>"

definition demo_plans :: "(string, stable_plan) dict" where
  "demo_plans = map (\<lambda>c. (cs_slot c, \<lparr>st_from_expression = L4, st_from_hint = H0, st_to_expression = L3,
     st_to_hint = H1, st_act = ''offer_initial_help''\<rparr>)) (hp_copy_slots money_price_pack)"

definition demo_child :: "response_type \<Rightarrow> ustr option \<Rightarrow> (string \<times> json) list \<Rightarrow> no_response_kind option \<Rightarrow> child_response" where
  "demo_child rt words vals nk = \<lparr>turn_id = ''turn_1'', response_id = ''response_1'', resp_type = rt,
     resp_text = words, choice_ids = [], resp_values = vals, no_response_kind = nk\<rparr>"

definition demo_input :: "child_response \<Rightarrow> gateway \<Rightarrow> turn_input" where
  "demo_input resp gw = \<lparr>ti_response = resp, ti_previous_question = [63], ti_history = [], ti_gateway = gw,
     ti_model_text = None, ti_resolved_copy = (\<lambda>_. None), ti_new_turn_id = ''turn_2''\<rparr>"

definition demo_silent :: gateway where
  "demo_silent k rq = Gateway_Timeout"

definition demo_help :: turn_input where
  "demo_help = demo_input (demo_child RT_NO_RESPONSE None [] (Some EXPLICIT_HELP)) demo_silent"

definition demo_words :: turn_input where
  "demo_words = demo_input (demo_child RT_TEXT (Some demo_utterance) [] None) demo_silent"

definition demo_taught :: turn_input where
  "demo_taught = demo_input (demo_child RT_TEXT (Some demo_utterance) [] None) (\<lambda>k rq. Candidate demo_response)"

lemma money_ready: "pack_ready money_price_pack"
  by code_simp

lemma demo_candidate: "candidate_ok demo_response"
  by code_simp

lemma demo_plans_cover: "\<forall>c \<in> set (hp_copy_slots money_price_pack). cs_slot c \<in> set (dict_keys demo_plans)"
  by (auto simp: demo_plans_def)

lemma demo_fresh_ok: "fresh_session (demo_fresh level)"
  by (simp add: fresh_session_def demo_fresh_def)

lemma demo_started:
  "\<exists>t s. initialize_state (en_hash demo_env) money_price_pack demo_plans (demo_fresh level) ''turn_1'' = Inr (t, s)
     \<and> home_session demo_env money_price_pack s \<and> session_ready demo_env money_price_pack s
     \<and> ss_status s = ACTIVE \<and> ledger_of s = empty_reasoning_ledger money_snapshot"
proof -
  have h: "en_hash demo_env = demo_hash" by (simp add: demo_env_def)
  have rt: "ss_runtime (demo_fresh level) = VERDICT_V1" by (simp add: demo_fresh_def)
  obtain t s where i: "initialize_state (en_hash demo_env) money_price_pack demo_plans (demo_fresh level) ''turn_1'' = Inr (t, s)"
    using initialize_total [OF money_pins money_ready demo_fresh_ok rt, of demo_plans "''turn_1''"] unfolding h
    by (elim exE)
  have "ss_task_index (demo_fresh level) < length (ss_task_ids (demo_fresh level))" by (simp add: demo_fresh_def)
  note r = started_session_ready [OF demo_fresh_ok i this demo_plans_cover]
  obtain sn s1 s2 where "pin_pack (en_hash demo_env) (Home money_price_pack) = Inr sn"
    and s1: "s1 = (demo_fresh level)\<lparr>ss_pinned := Some \<lparr>pr_snapshot = sn, pr_ledger = empty_reasoning_ledger sn, pr_plans = demo_plans\<rparr>,
             ss_expression := canonical (ss_expression (demo_fresh level)), ss_hint := H0,
             ss_subgoal := qp_plan_id (hp_initial money_price_pack)\<rparr>"
    and s2: "ss_expression s1 = L4 \<and> s2 = s1
      \<or> (\<exists>q. question_contract_of (en_hash demo_env) s1 money_price_pack (empty_reasoning_ledger sn) = Inr (q, s2))"
    and rw: "reworded (s2\<lparr>ss_verified_slots := []\<rparr>) s"
    using i by (rule initialize_Inr)
  moreover have "sn = money_snapshot" using calculation(1) money_pins unfolding h by simp
  moreover have "reworded s1 s2" using s2 by (auto dest: question_reworded)
  ultimately have "ledger_of s = empty_reasoning_ledger money_snapshot"
    using reworded_fields(4) [of s1 s2] reworded_fields(4) [OF rw] by (simp add: ledger_of_def)
  then show ?thesis using i r home_session.started [OF demo_fresh_ok i] by blast
qed

lemma demo_texts: "texts_ok demo_env (demo_input resp gw)"
  by (simp add: texts_ok_def demo_env_def demo_input_def)

lemma demo_gateways: "gateway_ok demo_silent" "gateway_ok (\<lambda>k rq. Candidate demo_response)"
  using demo_candidate by (simp_all add: gateway_ok_def demo_silent_def)

lemma demo_words_ready:
  assumes "length (accepted_auxiliary (ledger_of s)) \<le> 140"
  shows "input_ready demo_env money_price_pack s demo_help" "input_ready demo_env money_price_pack s demo_words"
    "input_ready demo_env money_price_pack s demo_taught"
proof -
  have "bounded 1 300 demo_utterance" by (simp add: demo_utterance_def)
  then show "input_ready demo_env money_price_pack s demo_help" "input_ready demo_env money_price_pack s demo_words"
    "input_ready demo_env money_price_pack s demo_taught"
    using assms demo_texts demo_gateways
    by (simp_all add: input_ready_def demo_help_def demo_words_def demo_taught_def response_fits_def
        demo_child_def del: bounded_simps) (simp_all add: demo_input_def)
qed

text \<open>Any number of help requests.\<close>

lemma demo_help_turns:
  "\<exists>s ms t. home_session demo_env money_price_pack s \<and> session_ok demo_env money_price_pack s
     \<and> home_turns demo_env s ms t \<and> length ms = n \<and> (\<forall>m \<in> set ms. unproductive m)
     \<and> session_ready demo_env money_price_pack t \<and> ss_status t = ACTIVE
     \<and> ledger_of t = empty_reasoning_ledger money_snapshot"
proof (induction n)
  case 0
  obtain t s where "home_session demo_env money_price_pack s" "session_ready demo_env money_price_pack s"
    "ss_status s = ACTIVE" "ledger_of s = empty_reasoning_ledger money_snapshot"
    using demo_started [of L4] by (elim exE conjE)
  moreover have "home_turns demo_env s [] s" by (rule home_turns.none)
  ultimately show ?case by (intro exI [of _ s] exI [of _ "[]"]) (simp add: session_ready_def)
next
  case (Suc n)
  then obtain s ms t where s: "home_session demo_env money_price_pack s" "session_ok demo_env money_price_pack s"
    "home_turns demo_env s ms t" "length ms = n" "\<forall>m \<in> set ms. unproductive m"
    "session_ready demo_env money_price_pack t" "ss_status t = ACTIVE"
    "ledger_of t = empty_reasoning_ledger money_snapshot" by (elim exE conjE)
  have "length (accepted_auxiliary (ledger_of t)) \<le> 140" unfolding s(8) by (simp add: empty_reasoning_ledger_def)
  from turn_total [OF s(6) money_ready s(7) demo_words_ready(1) [OF this]] obtain r where
    r: "run_turn demo_env demo_help t = Inr r" "session_ready demo_env money_price_pack (tr_state r)" by (elim exE conjE)
  have ok: "session_ok demo_env money_price_pack t" using s(6) by (simp add: session_ready_def)
  have k: "resp_type (ti_response demo_help) = RT_NO_RESPONSE" "no_response_kind (ti_response demo_help) = Some EXPLICIT_HELP"
    by (simp_all add: demo_help_def demo_input_def demo_child_def)
  note n = no_response_turn [OF ok s(7) r(1) k(1)]
  have "home_turns demo_env s (ms @ [tr_semantics r]) (tr_state r)" by (rule home_turns.turn [OF s(3,7) r(1)])
  moreover have "\<forall>m \<in> set (ms @ [tr_semantics r]). unproductive m" using s(5) n(3) [OF k(2)] by simp
  ultimately show ?case using s n r(2)
    by (intro exI [of _ s] exI [of _ "ms @ [tr_semantics r]"] exI [of _ "tr_state r"]) simp
qed

end
