(* ===== verification/Home_Properties.thy ===== *)
theory Home_Properties
  imports Home_Demo
begin

text \<open>
  The properties of the home dialogue runtime, each with a concrete instance on the
  \<open>money_price\<close> pack.
\<close>

section \<open>Every turn returns\<close>



section \<open>Support ladders\<close>

text \<open>C3. In every state a home conversation can reach, the two support ladders agree: the joint action
  L0 is on offer exactly when the joint card H3 is shown, and the legacy level L1 never occurs.\<close>

theorem ladders_agree_in_every_session:
  assumes "home_session env p s"
  shows "ss_expression s \<noteq> L1 \<and> (ss_expression s = L0 \<longleftrightarrow> ss_hint s = H3)"
  using home_session_ok [OF assms] by (simp add: session_ok_def ladders_ok_def)

theorem ladders_agree_in_every_session_witness:
  "\<exists>s. home_session demo_env money_price_pack s \<and> (ss_expression s = L0 \<longleftrightarrow> ss_hint s = H3)"
  using demo_started [of L0] ladders_agree_in_every_session by blast

text \<open>C4. One turn never takes support away and adds at most one step of each ladder, unless it reaches
  the joint action: the expression level never rises, the hint never falls, and short of L0 the hint
  moves by at most one card and the level by at most one step.\<close>

theorem one_turn_moves_one_step:
  assumes "home_session env p s" and "ss_status s = ACTIVE" and "run_turn env i s = Inr r"
  shows "support_step s (tr_state r)"
proof -
  have ok: "session_ok env p s" using assms(1) by (rule home_session_ok)
  then have "ladders_ok (turn_start s)" by (simp add: session_ok_def)
  from policy_support_step [OF this, of "tr_semantics r"] turn_outcome(2,3) [OF ok assms(2,3)]
  show ?thesis by (simp add: support_step_def)
qed

theorem one_turn_moves_one_step_witness:
  "\<exists>s r. run_turn demo_env demo_help s = Inr r \<and> support_step s (tr_state r)"
proof -
  obtain t s where s: "home_session demo_env money_price_pack s" "session_ready demo_env money_price_pack s"
    "ss_status s = ACTIVE" "ledger_of s = empty_reasoning_ledger money_snapshot"
    using demo_started [of L4] by (elim exE conjE)
  have "length (accepted_auxiliary (ledger_of s)) \<le> 140" unfolding s(4) by (simp add: empty_reasoning_ledger_def)
  from turn_total [OF s(2) money_ready s(3) demo_words_ready(1) [OF this]] obtain r where
    "run_turn demo_env demo_help s = Inr r" by blast
  then show ?thesis using one_turn_moves_one_step [OF s(1,3)] by blast
qed

text \<open>C2. A child is never trapped in the same question: whatever the interleaving of vague answers, wrong
  answers, help requests and questions, after at most thirteen learning turns without progress the
  conversation offers the joint action together with its card.\<close>

theorem unproductive_turns_reach_joint_action:
  assumes "home_session env p s" and "home_turns env s ms t" and "\<forall>m \<in> set ms. unproductive m"
    and "13 \<le> length ms"
  shows "ss_expression t = L0 \<and> ss_hint t = H3"
proof -
  have ok: "session_ok env p s" using assms(1) by (rule home_session_ok)
  have "ss_expression t = L0"
  proof (rule ccontr)
    assume a: "ss_expression t \<noteq> L0"
    then have "support_distance t + length ms \<le> support_distance s" using turns_distance [OF assms(2) ok assms(3)] by simp
    moreover have "support_distance t \<noteq> 0" using a by (simp add: distance_zero)
    ultimately show False using assms(4) support_distance_le [of s] by simp
  qed
  then show ?thesis using home_turns_ok [OF assms(2) ok] by (simp add: session_ok_def ladders_ok_def)
qed

theorem unproductive_turns_reach_joint_action_witness:
  "\<exists>s ms t. home_turns demo_env s ms t \<and> length ms = 13 \<and> ss_expression t = L0 \<and> ss_hint t = H3"
proof -
  obtain s ms t where s: "home_session demo_env money_price_pack s" "home_turns demo_env s ms t" "length ms = 13"
    "\<forall>m \<in> set ms. unproductive m" using demo_help_turns [of 13] by (elim exE conjE)
  from unproductive_turns_reach_joint_action [OF s(1,2,4)] s show ?thesis by auto
qed

text \<open>C5. A model that is down costs the child nothing: a text turn in which every call of the
  understanding model fails changes neither the ledger nor the support ladders, and does not end the
  session.\<close>

theorem failed_model_changes_nothing:
  assumes "home_session env p s" and "ss_status s = ACTIVE" and "run_turn env i s = Inr r"
    and "resp_type (ti_response i) = RT_TEXT" and "\<forall>k rq c. ti_gateway i k rq \<noteq> Candidate c"
  shows "ledger_of (tr_state r) = ledger_of s \<and> ladder_view (tr_state r) = ladder_view s
    \<and> ss_hint (tr_state r) = ss_hint s \<and> ss_status (tr_state r) = ACTIVE"
proof -
  have ok: "session_ok env p s" using assms(1) by (rule home_session_ok)
  obtain pr m where pr: "ss_pinned s = Some pr" and res: "resolved (en_hash env) (pr_snapshot pr) p (pr_ledger pr)"
    and i: "interpret_execution (en_hash env) (en_sha env) (en_nfc env) (ti_gateway i) s p (pr_snapshot pr) (pr_ledger pr)
       (ti_response i) (ti_previous_question i) (ti_history i) = Inr m" and m: "tr_semantics r = m"
    using session_turn [OF ok assms(3)] by metis
  have "sm_source m = Deterministic_Fallback"
    using i assms(4) failed_gateway_source [OF res assms(5)] by (simp add: interpret_execution_def)
  then have led: "ar_ledger (sm_result m) = pr_ledger pr"
    and pol: "apply_ladder_policy (turn_start s) m = turn_start s"
    using interpret_semantics [OF res i] by (simp_all add: semantics_ok_def apply_ladder_policy_def)
  note o = turn_outcome [OF ok assms(2,3)]
  have l: "ledger_of (tr_state r) = ledger_of s" using o(1) pr m led by (auto simp: ledger_of_def)
  have "\<not> co_complete (completion_of (Home p) (ledger_of (tr_state r)))"
    using ok assms(2) l by (auto simp: session_ok_def)
  then have "ss_status (tr_state r) = ACTIVE"
    using step_session_ok [OF ok assms(2,3)] by (cases "ss_status (tr_state r)") (auto simp: session_ok_def)
  then show ?thesis using o(3,4) m pol l by simp
qed

theorem failed_model_changes_nothing_witness:
  "\<exists>s r. run_turn demo_env demo_words s = Inr r \<and> ledger_of (tr_state r) = empty_reasoning_ledger money_snapshot
     \<and> ladder_view (tr_state r) = ladder_view s"
proof -
  obtain t s where s: "home_session demo_env money_price_pack s" "session_ready demo_env money_price_pack s"
    "ss_status s = ACTIVE" "ledger_of s = empty_reasoning_ledger money_snapshot"
    using demo_started [of L4] by (elim exE conjE)
  have "length (accepted_auxiliary (ledger_of s)) \<le> 140" unfolding s(4) by (simp add: empty_reasoning_ledger_def)
  from turn_total [OF s(2) money_ready s(3) demo_words_ready(2) [OF this]] obtain r where
    r: "run_turn demo_env demo_words s = Inr r" by blast
  have "resp_type (ti_response demo_words) = RT_TEXT" "\<forall>k rq c. ti_gateway demo_words k rq \<noteq> Candidate c"
    by (simp_all add: demo_words_def demo_input_def demo_child_def demo_silent_def)
  from failed_model_changes_nothing [OF s(1,3) r this] r s(4) show ?thesis by auto
qed

end
