(* ===== verification/Life_Scenario.thy ===== *)
theory Life_Scenario
  imports Home_Turn
begin

text \<open>
  The pinned runtime of a cafe or amusement conversation
  (\<^verbatim>\<open>dialogue_v2_scenario_snapshot.py\<close> and the runtime records of
  \<^verbatim>\<open>schemas.py\<close>): the reviewed scenario as it was when the conversation started, and
  for every task of it the active variant, the reasoning ledger and the provenance of its note.
\<close>

section \<open>Provenance of a task note\<close>

record task_note_state =
  ns_independent :: "(string, string list) dict"
  ns_supported :: "string list"
  ns_joint :: bool
  ns_emitted :: bool
  ns_note_id :: "string option"

definition empty_note_state :: task_note_state where
  "empty_note_state = \<lparr>ns_independent = [], ns_supported = [], ns_joint = False, ns_emitted = False,
     ns_note_id = None\<rparr>"

definition validate_note_provenance :: "task_note_state \<Rightarrow> unit res" where
  "validate_note_provenance n = check_all
     [(\<not> distinct (ns_supported n), ValueError ''task note supported relation IDs must be unique''),
      (set (dict_keys (ns_independent n)) \<inter> set (ns_supported n) \<noteq> {},
         ValueError ''task note relation cannot be both independent and supported''),
      (\<exists>es \<in> set (map snd (ns_independent n)). es = [] \<or> \<not> distinct es,
         ValueError ''independent task note evidence IDs must be non-empty and unique''),
      (ns_emitted n \<noteq> (ns_note_id n \<noteq> None),
         ValueError ''emitted task note state must include exactly one note ID'')]"

section \<open>The pinned scenario\<close>

record pinned_scenario =
  ps_pack :: scenario_pack
  ps_pack_id :: string
  ps_content_version :: nat
  ps_source_hash :: string
  ps_variants :: "(string, string) dict"
  ps_ledgers :: "(string, reasoning_ledger) dict"
  ps_notes :: "(string, task_note_state) dict"

text \<open>
  The whole validation of a scenario payload: the packs of its variants, its stages, its projections
  and the contract between them. The digests are \<open>task_pack \<Rightarrow> string\<close> for one task and
  \<open>scenario_pack \<Rightarrow> string\<close> for the scenario.
\<close>

definition validate_stage :: "task_stage \<Rightarrow> unit res" where
  "validate_stage st =
     bindr (for_each validate_life_pack (map snd (st_variants st))) (\<lambda>_.
     bindr (check (bounded 1 20 (st_variants st)) ''variants'') (\<lambda>_. validate_variants st))"

definition validate_scenario_pack :: "scenario_pack \<Rightarrow> unit res" where
  "validate_scenario_pack sc =
     bindr (for_each validate_stage (sp_stages sc)) (\<lambda>_.
     bindr (for_each validate_projection (sp_projection sc)) (\<lambda>_.
     bindr (check_all
       [field (sp_scene sc \<in> {CAFE, AMUSEMENT_PARK}) ''scene'', field (bounded 1 4 (sp_stages sc)) ''task_stages'',
        field (bounded 1 12 (sp_projection sc)) ''completion_projection'']) (\<lambda>_.
     validate_scenario sc)))"

definition task_scopes_must_match :: "pinned_scenario \<Rightarrow> unit res" where
  "task_scopes_must_match ps =
     check (set (dict_keys (ps_ledgers ps)) = set (dict_keys (ps_variants ps))
            \<and> set (dict_keys (ps_notes ps)) = set (dict_keys (ps_variants ps)))
       ''scenario variant, ledger, and note state task scopes must match''"

definition snapshot_error :: "string \<Rightarrow> py_error" where
  "snapshot_error m = ValueError m"

definition ledger_bound :: "(task_pack \<Rightarrow> string) \<Rightarrow> life_pack \<Rightarrow> reasoning_ledger \<Rightarrow> bool" where
  "ledger_bound H p l \<longleftrightarrow>
     (rl_pack_id l, rl_content_version l, rl_content_hash l) = (li_pack_id p, li_content_version p, H (Life p))"

definition check_task_notes :: "life_pack \<Rightarrow> task_note_state \<Rightarrow> unit res" where
  "check_task_notes p n = check_all
     [(\<not> set (dict_keys (ns_independent n)) \<union> set (ns_supported n) \<subseteq> set (po_note_relation_ids (li_policies p)),
         snapshot_error ''task note state contains an unreviewed relation''),
      (\<not> set (po_note_relation_ids (li_policies p)) \<subseteq> relation_id ` set (lg_relations (li_graph p)),
         snapshot_error ''task note policy contains an unknown relation''),
      (ns_emitted n \<and> po_note_policy (li_policies p) = Note_None,
         snapshot_error ''note-disabled life task cannot have an emitted note'')]"

definition validate_task_state :: "(task_pack \<Rightarrow> string) \<Rightarrow> scenario_pack \<Rightarrow> pinned_scenario \<Rightarrow> unit res" where
  "validate_task_state H sc ps =
     (if set (dict_keys (ps_variants ps)) \<noteq> set (map st_task_id (sp_stages sc))
      then Inl (snapshot_error ''scenario snapshot task scope does not match its content pack'')
      else for_each (\<lambda>(t, v).
        bindr (stage_by_task_id sc t) (\<lambda>st.
        case dict_get (st_variants st) v of
          None \<Rightarrow> Inl (snapshot_error ''active life task variant is unavailable'')
        | Some p \<Rightarrow>
          bindr (py_index (ps_ledgers ps) t) (\<lambda>l.
          if \<not> ledger_bound H p l
          then Inl (snapshot_error ''life reasoning ledger is not bound to active task variant'')
          else bindr (py_index (ps_notes ps) t) (check_task_notes p))))
        (ps_variants ps))"

definition resolve_life_scenario ::
    "(task_pack \<Rightarrow> string) \<Rightarrow> (scenario_pack \<Rightarrow> string) \<Rightarrow> pinned_scenario \<Rightarrow> scenario_pack res" where
  "resolve_life_scenario H Hs ps =
     bindr (validate_scenario_pack (ps_pack ps)) (\<lambda>_.
     if sp_pack_id (ps_pack ps) \<noteq> ps_pack_id ps \<or> sp_content_version (ps_pack ps) \<noteq> ps_content_version ps
        \<or> Hs (ps_pack ps) \<noteq> ps_source_hash ps
     then Inl (snapshot_error ''pinned life scenario identity or hash does not match its payload'')
     else bindr (validate_task_state H (ps_pack ps) ps) (\<lambda>_. Inr (ps_pack ps)))"

text \<open>Pinning starts every task at its default variant, with an empty ledger and no provenance.\<close>

definition default_pack :: "task_stage \<Rightarrow> life_pack res" where
  "default_pack st = py_index (st_variants st) (st_default_variant st)"

definition pin_life_scenario ::
    "(task_pack \<Rightarrow> string) \<Rightarrow> (scenario_pack \<Rightarrow> string) \<Rightarrow> scenario_pack \<Rightarrow> pinned_scenario res" where
  "pin_life_scenario H Hs sc =
     bindr (mapr (\<lambda>st. bindr (default_pack st) (\<lambda>p. bindr (pin_pack H (Life p)) (\<lambda>sn.
              Inr (st_task_id st, empty_reasoning_ledger sn)))) (sp_stages sc)) (\<lambda>ls.
     let ps = \<lparr>ps_pack = sc, ps_pack_id = sp_pack_id sc, ps_content_version = sp_content_version sc,
               ps_source_hash = Hs sc,
               ps_variants = assign_all (map (\<lambda>st. (st_task_id st, st_default_variant st)) (sp_stages sc)) [],
               ps_ledgers = assign_all ls [],
               ps_notes = assign_all (map (\<lambda>st. (st_task_id st, empty_note_state)) (sp_stages sc)) []\<rparr>
     in bindr (task_scopes_must_match ps) (\<lambda>_.
        bindr (resolve_life_scenario H Hs ps) (\<lambda>_. Inr ps)))"

text \<open>What loading a stored session checks of the pinned scenario before any step runs.\<close>

definition validate_pinned_scenario :: "pinned_scenario \<Rightarrow> unit res" where
  "validate_pinned_scenario ps =
     bindr (for_each validate_note_provenance (map snd (ps_notes ps))) (\<lambda>_. task_scopes_must_match ps)"

section \<open>The active task\<close>

definition pack_of_task :: "pinned_scenario \<Rightarrow> scenario_pack \<Rightarrow> string \<Rightarrow> life_pack res" where
  "pack_of_task ps sc t =
     bindr (stage_by_task_id sc t) (\<lambda>st.
     bindr (py_index (ps_variants ps) t) (\<lambda>v. py_index (st_variants st) v))"

definition ledger_of_task :: "pinned_scenario \<Rightarrow> string \<Rightarrow> reasoning_ledger res" where
  "ledger_of_task ps t =
     bindr (py_index (ps_ledgers ps) t) (\<lambda>l. bindr (map_keys_must_match_entries l) (\<lambda>_. Inr l))"

end
