(* ===== verification/Store_Rows.thy ===== *)
theory Store_Rows
  imports Life_Scenario Outbox Ladder
begin

text \<open>
  The rows of the conversation database (\<^verbatim>\<open>db.py\<close>) and the values a committed turn is made
  of: the persisted session state, the analysis of an answer, the result of an engine, the text
  codec (\<^verbatim>\<open>security.py\<close>) and the slot contract that admits a classifier claim
  (\<^verbatim>\<open>content.py\<close>). JSON columns that only repeat typed columns, and the pinned
  dictionary cards, are left out.
\<close>

section \<open>Stored text\<close>

text \<open>
  \<^verbatim>\<open>StoredTextCodec\<close>: new text is a readable \<^verbatim>\<open>plain:\<close> envelope, an old
  \<^verbatim>\<open>fernet:\<close> envelope needs the key. A codec is \<open>None\<close> without a key, and otherwise
  the decryption of the Fernet library, which fails on an invalid token.
\<close>

type_synonym codec = "(ustr \<Rightarrow> ustr option) option"

definition plain_prefix :: ustr where
  "plain_prefix = [112, 108, 97, 105, 110, 58]"

definition fernet_prefix :: ustr where
  "fernet_prefix = [102, 101, 114, 110, 101, 116, 58]"

definition starts_with :: "ustr \<Rightarrow> ustr \<Rightarrow> bool" where
  "starts_with p s \<longleftrightarrow> take (length p) s = p"

definition store_text :: "ustr \<Rightarrow> ustr" where
  "store_text t = plain_prefix @ t"

definition load_text :: "codec \<Rightarrow> ustr \<Rightarrow> ustr res" where
  "load_text c payload =
     (if starts_with plain_prefix payload then Inr (drop (length plain_prefix) payload)
      else if \<not> starts_with fernet_prefix payload then Inr payload
      else case c of
          None \<Rightarrow> Inl (ValueError ''Legacy encrypted dialogue cannot be migrated without MORMI_RAW_DATA_ENCRYPTION_KEY'')
        | Some decrypt \<Rightarrow>
          (case decrypt (drop (length fernet_prefix) payload) of
             None \<Rightarrow> Inl (ValueError ''Invalid legacy dialogue encryption key'')
           | Some t \<Rightarrow> Inr t))"

text \<open>A column that is \<^verbatim>\<open>NULL\<close> or empty reads as no text.\<close>

definition load_optional :: "codec \<Rightarrow> ustr option \<Rightarrow> ustr option res" where
  "load_optional c p =
     (case p of
        None \<Rightarrow> Inr None
      | Some t \<Rightarrow> if t = [] then Inr None else bindr (load_text c t) (\<lambda>u. Inr (Some u)))"

section \<open>Sessions and answers\<close>

datatype retention_policy = No_Raw | Days_30 | Days_90 | Permanent

definition retention_days :: "retention_policy \<Rightarrow> nat option" where
  "retention_days r = (case r of Days_30 \<Rightarrow> Some 30 | Days_90 \<Rightarrow> Some 90 | _ \<Rightarrow> None)"

definition day_micros :: int where
  "day_micros = 86400000000"

definition expires_at :: "retention_policy \<Rightarrow> int \<Rightarrow> int option" where
  "expires_at r started = map_option (\<lambda>d. started + int d * day_micros) (retention_days r)"

text \<open>
  The persisted session: the part the dialogue engines work on, and the identity and storage fields.
  A cafe or amusement conversation
  pins its scenario; \<open>ds_patches\<close> and \<open>ds_transition\<close> are the two entries its
  runtime keeps in \<^verbatim>\<open>scenario_data\<close>.
\<close>

record dialogue_state = session +
  ds_conversation_id :: string
  ds_learner_id :: int
  ds_learning_session :: "string option"
  ds_round :: int
  ds_scene :: scene_type
  ds_start_level :: "expression_level option"
  ds_raw_enabled :: bool
  ds_retention :: retention_policy
  ds_raw_until :: "int option"
  ds_life :: "pinned_scenario option"
  ds_patches :: "(string, (string \<times> json) list) dict"
  ds_transition :: "string option"
  ds_updated_at :: int

datatype safety_category =
  Safety_Normal | Safety_Unknown | Playful_Offtopic | Sexual | Personal_Data | Prompt_Injection
  | Abusive | Dangerous

datatype response_category =
  Correct_Full | Correct_Partial | Related_Vague | Expression_Block | Conceptual_Error
  | Conceptual_Block | No_Response | Recognition_Or_Input_Error | Unrelated_Response
  | Help_Request | Self_Correction

datatype difficulty_class =
  Diff_Expression | Diff_Concept | Diff_Both | Diff_Input | Diff_Engagement | Diff_Unknown

record slot_claim =
  sc_slot :: string
  sc_value :: json
  sc_factual :: bool
  sc_span :: ustr
  sc_supported :: "bool option"

record utterance_analysis =
  ua_safety :: safety_category
  ua_category :: response_category
  ua_difficulty :: difficulty_class
  ua_claims :: "slot_claim list"
  ua_misconception :: "string option"
  ua_bottleneck :: string
  ua_confidence :: rat
  ua_grounding_span :: ustr
  ua_note_candidate :: ustr

record speaker_audit =
  sa_act :: string
  sa_source :: string
  sa_verifier :: string
  sa_fallback :: "string option"

record identified_note = note_update +
  nt_id :: string

record engine_result =
  er_state :: dialogue_state
  er_analysis :: utterance_analysis
  er_classifier :: response_category
  er_turn :: turn_contract
  er_note :: "identified_note option"
  er_runtime :: speaker_audit
  er_accepted :: "(string, json) dict"

section \<open>Admitting a classifier claim\<close>

text \<open>
  The part of a task the repository reads. \<open>sd_accepts\<close> is the matching of one reviewed
  value (\<^verbatim>\<open>SlotDefinition.accepts\<close>, a normalisation of texts and numbers).
\<close>

record slot_definition =
  sd_role :: string
  sd_expected :: json
  sd_preserve :: bool
  sd_mode :: string
  sd_accepts :: "json \<Rightarrow> bool"

record task_definition =
  td_id :: string
  td_skill :: string
  td_slots :: "(string, slot_definition) dict"
  td_required :: "string list"
  td_note_slots :: "string list"
  td_misconceptions :: "string list"

type_synonym task_book = "(string, task_definition) dict"

definition is_semantic_support :: "slot_definition \<Rightarrow> bool" where
  "is_semantic_support d \<longleftrightarrow>
     (if sd_mode d \<noteq> ''auto'' then sd_mode d = ''semantic_support''
      else sd_role d \<in> {''method'', ''reason'', ''explanation''})"

definition canonical_slot_value :: "slot_definition \<Rightarrow> json \<Rightarrow> json" where
  "canonical_slot_value d v =
     (if sd_preserve d \<and> is_scalar v \<and> v \<noteq> JNull then v else sd_expected d)"

definition accepted_claim_value :: "slot_definition \<Rightarrow> slot_claim \<Rightarrow> json option" where
  "accepted_claim_value d c =
     (if \<not> sc_factual c then None
      else if is_semantic_support d then
        (if sc_supported c = Some True then Some (JBool True)
         else if sc_supported c = None \<and> sd_accepts d (sc_value c) then Some (JBool True)
         else None)
      else if sd_accepts d (sc_value c) then Some (canonical_slot_value d (sc_value c)) else None)"

text \<open>Python's \<^verbatim>\<open>==\<close> on scalars compares booleans, integers and floats as numbers.\<close>

fun scalar_number :: "json \<Rightarrow> rat option" where
  "scalar_number (JBool b) = Some (if b then 1 else 0)"
| "scalar_number (JInt i) = Some (of_int i)"
| "scalar_number (JFloat q) = Some q"
| "scalar_number _ = None"

definition scalar_eq :: "json \<Rightarrow> json \<Rightarrow> bool" where
  "scalar_eq v w =
     (case (scalar_number v, scalar_number w) of
        (Some p, Some q) \<Rightarrow> p = q | (None, None) \<Rightarrow> v = w | _ \<Rightarrow> False)"

text \<open>A value of the session state against a canonical value; reviewed labels are never claimed.\<close>

definition equivalent_state_value :: "slot_definition \<Rightarrow> wire_value option \<Rightarrow> json option \<Rightarrow> bool" where
  "equivalent_state_value d left right =
     (if is_semantic_support d then left \<noteq> None \<and> right \<noteq> None
      else case (left, right) of
          (Some (WJson v), Some w) \<Rightarrow> scalar_eq v w
        | (None, None) \<Rightarrow> True
        | _ \<Rightarrow> False)"

definition effective_note_slots :: "task_definition \<Rightarrow> string list" where
  "effective_note_slots t = (if td_note_slots t \<noteq> [] then td_note_slots t else td_required t)"

section \<open>Rows\<close>

record conversation_row =
  cv_learner :: int
  cv_learning_session :: "string option"
  cv_round :: int
  cv_scene :: scene_type
  cv_scenario :: string
  cv_state :: dialogue_state
  cv_version :: int
  cv_status :: session_status
  cv_raw_until :: "int option"
  cv_updated_at :: int

record turn_row =
  tw_turn_id :: string
  tw_conversation :: string
  tw_task_id :: string
  tw_version :: int
  tw_question :: "ustr option"
  tw_contract :: turn_contract
  tw_response :: "string option"
  tw_expires :: "int option"
  tw_result :: "string option"
  tw_response_type :: "response_type option"
  tw_raw :: "ustr option"
  tw_structured :: "child_response option"
  tw_safety :: "safety_category option"
  tw_category :: "response_category option"
  tw_expression :: expression_level
  tw_hint :: hint_level

record observation_row =
  ob_id :: string
  ob_conversation :: string
  ob_learner :: int
  ob_learning_session :: "string option"
  ob_scene :: scene_type
  ob_scenario :: string
  ob_task :: string
  ob_task_index :: nat
  ob_subgoal :: string
  ob_source_turn :: string
  ob_result_turn :: "string option"
  ob_response :: "string option"
  ob_response_type :: "response_type option"
  ob_input_kind :: "input_kind option"
  ob_category :: "response_category option"
  ob_classifier_category :: "response_category option"
  ob_difficulty :: "difficulty_class option"
  ob_concept_result :: string
  ob_safety :: "safety_category option"
  ob_misconception :: "string option"
  ob_bottleneck :: string
  ob_confidence :: "rat option"
  ob_expression_before :: expression_level
  ob_expression_after :: expression_level
  ob_hint_before :: hint_level
  ob_hint_after :: hint_level
  ob_act :: string
  ob_help_level :: "hint_level option"
  ob_speaker_source :: string
  ob_verifier :: string
  ob_fallback :: "string option"
  ob_outcome :: "completion_outcome option"
  ob_origin :: string
  ob_created_at :: int

record claim_row =
  cl_observation :: string
  cl_slot :: string
  cl_role :: string
  cl_value :: "json option"
  cl_factual :: bool
  cl_verified :: bool
  cl_span :: "ustr option"
  cl_newly :: bool

record note_row = identified_note +
  no_conversation :: string
  no_learner :: int
  no_active :: bool

record link_row =
  lk_note :: string
  lk_observation :: string
  lk_slots :: "string list"

record outcome_row =
  oc_id :: string
  oc_conversation :: string
  oc_learner :: int
  oc_task :: string
  oc_task_index :: nat
  oc_start_expression :: expression_level
  oc_end_expression :: expression_level
  oc_start_hint :: hint_level
  oc_max_hint :: hint_level
  oc_completion :: string
  oc_slots :: "(string, wire_value) dict"
  oc_bottlenecks :: "(string \<times> string \<times> rat option) list"
  oc_evidence :: "string list"
  oc_note :: "string option"

record practice_result =
  pc_learner :: int
  pc_skill :: string
  pc_session :: string
  pc_success_rate :: rat

record parent_row =
  pt_graph_version :: string
  pt_version :: int
  pt_turn :: string
  pt_phase :: string
  pt_generation :: nat
  pt_checkpoint :: "json option"

text \<open>
  The database. Turn, observation, claim, note, link and outcome rows are listed in the order of
  their insertion, which is the order of their autoincremented ids and creation times.
\<close>

record store =
  db_conversations :: "(string, conversation_row) dict"
  db_turns :: "turn_row list"
  db_observations :: "observation_row list"
  db_claims :: "claim_row list"
  db_notes :: "note_row list"
  db_links :: "link_row list"
  db_outcomes :: "outcome_row list"
  db_events :: outbox_table
  db_profiles :: "(int, learner_profile) dict"
  db_practice :: "(string, practice_result) dict"
  db_parents :: "(string, parent_row) dict"
  db_migrations :: "string list"

definition empty_store :: store where
  "empty_store = \<lparr>db_conversations = [], db_turns = [], db_observations = [], db_claims = [],
     db_notes = [], db_links = [], db_outcomes = [], db_events = [], db_profiles = [],
     db_practice = [], db_parents = [], db_migrations = []\<rparr>"

definition turn_by_id :: "store \<Rightarrow> string \<Rightarrow> turn_row option" where
  "turn_by_id db i = List.find (\<lambda>r. tw_turn_id r = i) (db_turns db)"

definition turns_of :: "store \<Rightarrow> string \<Rightarrow> turn_row list" where
  "turns_of db c = filter (\<lambda>r. tw_conversation r = c) (db_turns db)"

definition observations_of :: "store \<Rightarrow> string \<Rightarrow> observation_row list" where
  "observations_of db c = filter (\<lambda>b. ob_conversation b = c) (db_observations db)"

end
