(* ===== verification/Store.thy ===== *)
theory Store
  imports Store_Rows
begin

text \<open>
  The operations of \<^verbatim>\<open>repository.py\<close> on one conversation: reading the state, the active
  turn and the stored result of an answer, creating a conversation, the learner's profile and
  practice results, the retention of child text, and the migrations of stored text. A method that
  runs in one database transaction is one function here; an error rolls its writes back.

  The codec, the rendering of Python values, the retention of idempotency keys and the task book are
  collected in an environment. The instant of a call (\<^verbatim>\<open>utc_now\<close>) is an argument.
\<close>

record storage_env =
  sv_codec :: codec
  sv_render :: "(string \<times> json) list \<Rightarrow> ustr"
  sv_idempotency_days :: nat
  sv_tasks :: task_book

section \<open>Reading a conversation\<close>

definition retention_expired :: "int \<Rightarrow> dialogue_state \<Rightarrow> bool" where
  "retention_expired now s = (case ds_raw_until s of None \<Rightarrow> False | Some d \<Rightarrow> d \<le> now)"

definition close_retention :: "dialogue_state \<Rightarrow> dialogue_state" where
  "close_retention s =
     (let s1 = s\<lparr>ds_raw_enabled := False, ds_raw_until := None\<rparr>
      in if ss_runtime s \<noteq> VERDICT_V1 then s1\<lparr>ss_child_notes := []\<rparr> else s1)"

definition load_state :: "int \<Rightarrow> dialogue_state \<Rightarrow> dialogue_state" where
  "load_state now s = (if retention_expired now s then close_retention s else s)"

definition get_state :: "int \<Rightarrow> store \<Rightarrow> string \<Rightarrow> dialogue_state res" where
  "get_state now db c =
     (case dict_get (db_conversations db) c of
        None \<Rightarrow> Inl (ConversationNotFoundError c)
      | Some r \<Rightarrow> Inr (load_state now (cv_state r)))"

text \<open>The question is kept beside the contract, whose own text is stored empty.\<close>

definition txt_retention_over :: ustr where
  "txt_retention_over = [45824, 54868, 32, 48372, 51316, 32, 44592, 44036, 51060, 32, 45149, 45228,
     50612, 50836, 46]"

definition stored_turn_contract :: "turn_contract \<Rightarrow> turn_contract" where
  "stored_turn_contract t = t\<lparr>tn_text := []\<rparr>"

definition load_turn :: "codec \<Rightarrow> turn_row \<Rightarrow> turn_contract res" where
  "load_turn c r =
     bindr (case tw_question r of
              None \<Rightarrow> Inr txt_retention_over
            | Some q \<Rightarrow> if q = [] then Inr txt_retention_over else load_text c q) (\<lambda>text.
     bindr (check_all (mormi_checks text)) (\<lambda>_.
     Inr ((tw_contract r)\<lparr>tn_text := text\<rparr>)))"

definition answered_with :: "int \<Rightarrow> string \<Rightarrow> string \<Rightarrow> turn_row \<Rightarrow> bool" where
  "answered_with now c i r \<longleftrightarrow> tw_conversation r = c \<and> tw_response r = Some i
     \<and> (case tw_expires r of None \<Rightarrow> True | Some e \<Rightarrow> now < e)"

definition response_exists :: "codec \<Rightarrow> int \<Rightarrow> store \<Rightarrow> string \<Rightarrow> string \<Rightarrow> turn_contract option res" where
  "response_exists codec now db c i =
     (case List.find (answered_with now c i) (db_turns db) of
        None \<Rightarrow> Inr None
      | Some r \<Rightarrow>
        (case tw_result r of
           None \<Rightarrow> Inr None
         | Some t \<Rightarrow>
           if t = [] then Inr None
           else (case turn_by_id db t of
                   None \<Rightarrow> Inr None
                 | Some r' \<Rightarrow> bindr (load_turn codec r') (\<lambda>u. Inr (Some u)))))"

definition active_turn :: "codec \<Rightarrow> store \<Rightarrow> dialogue_state \<Rightarrow> turn_contract res" where
  "active_turn codec db s =
     (case ss_turn_id s of
        None \<Rightarrow> Inl (StaleConversationError ''Conversation has no active turn'')
      | Some t \<Rightarrow>
        if t = [] then Inl (StaleConversationError ''Conversation has no active turn'')
        else (case turn_by_id db t of
                None \<Rightarrow> Inl (StaleConversationError ''Active turn was not found'')
              | Some r \<Rightarrow>
                if tw_conversation r \<noteq> ds_conversation_id s
                then Inl (StaleConversationError ''Active turn was not found'')
                else load_turn codec r))"

text \<open>
  The answered tail of a conversation, oldest first: the last rows of the table with a response, at
  least one and at most six.
\<close>

definition history_entry :: "codec \<Rightarrow> turn_row \<Rightarrow> history_turn res" where
  "history_entry codec r =
     bindr (load_optional codec (tw_question r)) (\<lambda>m.
     bindr (load_optional codec (tw_raw r)) (\<lambda>c.
     Inr \<lparr>ht_turn_id = tw_turn_id r, ht_mormi = (case m of None \<Rightarrow> [] | Some q \<Rightarrow> q), ht_child = c\<rparr>))"

definition recent_dialogue_context :: "codec \<Rightarrow> store \<Rightarrow> string \<Rightarrow> int \<Rightarrow> history_turn list res" where
  "recent_dialogue_context codec db c limit =
     (let n = nat (max 1 (min limit 6)) in
      case dict_get (db_conversations db) c of
        None \<Rightarrow> Inl (ConversationNotFoundError c)
      | Some _ \<Rightarrow>
        (let answered = filter (\<lambda>r. tw_response r \<noteq> None) (turns_of db c)
         in mapr (history_entry codec) (drop (length answered - n) answered)))"

section \<open>Creating a conversation\<close>

definition same_round :: "int \<Rightarrow> string \<Rightarrow> scene_type \<Rightarrow> string \<Rightarrow> int \<Rightarrow> conversation_row \<Rightarrow> bool" where
  "same_round learner learning scene scenario n r \<longleftrightarrow>
     cv_learner r = learner \<and> cv_learning_session r = Some learning \<and> cv_scene r = scene
     \<and> cv_scenario r = scenario \<and> cv_round r = n"

definition conversation_id_for_learning_session ::
    "store \<Rightarrow> int \<Rightarrow> string \<Rightarrow> scene_type \<Rightarrow> string \<Rightarrow> int \<Rightarrow> string option" where
  "conversation_id_for_learning_session db learner learning scene scenario n =
     map_option fst (List.find (\<lambda>kr. same_round learner learning scene scenario n (snd kr))
       (rev (db_conversations db)))"

definition new_turn_row :: "dialogue_state \<Rightarrow> turn_contract \<Rightarrow> turn_row res" where
  "new_turn_row s t =
     bindr (current_task_id (session.truncate s)) (\<lambda>task.
     Inr \<lparr>tw_turn_id = tn_id t, tw_conversation = ds_conversation_id s, tw_task_id = task,
       tw_version = ss_version s, tw_question = Some (store_text (tn_text t)),
       tw_contract = stored_turn_contract t, tw_response = None, tw_expires = None,
       tw_result = None, tw_response_type = None, tw_raw = None, tw_structured = None,
       tw_safety = None, tw_category = None, tw_expression = ss_expression s, tw_hint = ss_hint s\<rparr>)"

definition conversation_row_of :: "dialogue_state \<Rightarrow> conversation_row" where
  "conversation_row_of s =
     \<lparr>cv_learner = ds_learner_id s, cv_learning_session = ds_learning_session s, cv_round = ds_round s,
       cv_scene = ds_scene s, cv_scenario = ss_scenario_id s, cv_state = s, cv_version = ss_version s,
       cv_status = ss_status s, cv_raw_until = ds_raw_until s, cv_updated_at = ds_updated_at s\<rparr>"

text \<open>
  The unique key of a learning session elects one winner of concurrent creations; the loser reads
  and returns the winner. Rows without a learning session never collide (SQL's \<^verbatim>\<open>NULL\<close>).
\<close>

definition round_taken :: "store \<Rightarrow> dialogue_state \<Rightarrow> bool" where
  "round_taken db s =
     (case ds_learning_session s of
        None \<Rightarrow> False
      | Some learning \<Rightarrow> \<exists>kr \<in> set (db_conversations db).
          same_round (ds_learner_id s) learning (ds_scene s) (ss_scenario_id s) (ds_round s) (snd kr))"

definition create_conversation :: "dialogue_state \<Rightarrow> turn_contract \<Rightarrow> store \<Rightarrow> (string \<times> store) res" where
  "create_conversation s t db =
     (if ds_conversation_id s \<in> set (dict_keys (db_conversations db)) then Inl (IntegrityError ''conversations'')
      else if round_taken db s then
        (case ds_learning_session s of
           None \<Rightarrow> Inl (IntegrityError ''conversations'')
         | Some learning \<Rightarrow>
           (case conversation_id_for_learning_session db (ds_learner_id s) learning (ds_scene s)
                   (ss_scenario_id s) (ds_round s) of
              None \<Rightarrow> Inl (IntegrityError ''conversations'')
            | Some winner \<Rightarrow> Inr (winner, db)))
      else if turn_by_id db (tn_id t) \<noteq> None then Inl (IntegrityError ''turns'')
      else bindr (new_turn_row s t) (\<lambda>row.
        Inr (ds_conversation_id s,
          db\<lparr>db_conversations := db_conversations db @ [(ds_conversation_id s, conversation_row_of s)],
             db_turns := db_turns db @ [row]\<rparr>)))"

section \<open>Profiles and practice results\<close>

definition get_profile :: "int \<Rightarrow> store \<Rightarrow> int \<Rightarrow> learner_profile" where
  "get_profile now db learner =
     (case dict_get (db_profiles db) learner of
        None \<Rightarrow> \<lparr>lp_learner_id = learner, lp_skills = [], lp_updated_at = now\<rparr>
      | Some p \<Rightarrow> p)"

definition save_profile :: "int \<Rightarrow> learner_profile \<Rightarrow> store \<Rightarrow> store" where
  "save_profile now p db =
     db\<lparr>db_profiles := AList.update (lp_learner_id p) (p\<lparr>lp_updated_at := now\<rparr>) (db_profiles db)\<rparr>"

definition save_practice_summary :: "string \<Rightarrow> practice_result \<Rightarrow> store \<Rightarrow> store" where
  "save_practice_summary i p db =
     (if dict_get (db_practice db) i \<noteq> None then db
      else db\<lparr>db_practice := AList.update i p (db_practice db)\<rparr>)"

definition get_practice_summary :: "store \<Rightarrow> string \<Rightarrow> practice_result option" where
  "get_practice_summary db i = dict_get (db_practice db) i"

definition list_notes :: "store \<Rightarrow> int \<Rightarrow> note_row list" where
  "list_notes db learner = rev (filter (\<lambda>n. no_learner n = learner \<and> no_active n) (db_notes db))"

section \<open>Retention\<close>

definition forget_response :: "int \<Rightarrow> turn_row \<Rightarrow> turn_row" where
  "forget_response now r =
     (case tw_expires r of
        Some e \<Rightarrow> if e \<le> now then r\<lparr>tw_response := None, tw_expires := None, tw_result := None\<rparr> else r
      | None \<Rightarrow> r)"

definition raw_due :: "int \<Rightarrow> conversation_row \<Rightarrow> bool" where
  "raw_due now r = (case cv_raw_until r of None \<Rightarrow> False | Some d \<Rightarrow> d \<le> now)"

definition due_conversations :: "int \<Rightarrow> store \<Rightarrow> string set" where
  "due_conversations now db = fst ` set (filter (\<lambda>kr. raw_due now (snd kr)) (db_conversations db))"

definition purge_turn :: "string set \<Rightarrow> turn_row \<Rightarrow> turn_row" where
  "purge_turn cs r = (if tw_conversation r \<in> cs then r\<lparr>tw_raw := None, tw_structured := None\<rparr> else r)"

definition purge_claim :: "string set \<Rightarrow> claim_row \<Rightarrow> claim_row" where
  "purge_claim os c = (if cl_observation c \<in> os then c\<lparr>cl_span := None\<rparr> else c)"

definition purge_conversation :: "int \<Rightarrow> conversation_row \<Rightarrow> conversation_row" where
  "purge_conversation now r =
     (if raw_due now r then r\<lparr>cv_state := close_retention (cv_state r), cv_raw_until := None\<rparr> else r)"

definition purge_expired_raw_data :: "int \<Rightarrow> store \<Rightarrow> store" where
  "purge_expired_raw_data now db =
     (let cs = due_conversations now db;
          os = ob_id ` set (filter (\<lambda>b. ob_conversation b \<in> cs) (db_observations db))
      in db\<lparr>db_turns := map (purge_turn cs \<circ> forget_response now) (db_turns db),
            db_claims := map (purge_claim os) (db_claims db),
            db_conversations := map (\<lambda>(c, r). (c, purge_conversation now r)) (db_conversations db)\<rparr>)"

text \<open>The transcript of a conversation, after a purge.\<close>

definition raw_turns :: "codec \<Rightarrow> int \<Rightarrow> store \<Rightarrow> string \<Rightarrow> ((string \<times> ustr option \<times> ustr option) list \<times> store) res" where
  "raw_turns codec now db c =
     (let db1 = purge_expired_raw_data now db in
      case dict_get (db_conversations db1) c of
        None \<Rightarrow> Inl (ConversationNotFoundError c)
      | Some _ \<Rightarrow>
        bindr (mapr (\<lambda>r.
           bindr (load_optional codec (tw_question r)) (\<lambda>q.
           bindr (load_optional codec (tw_raw r)) (\<lambda>t. Inr (tw_turn_id r, q, t)))) (turns_of db1 c)) (\<lambda>rows.
        Inr (rows, db1)))"

section \<open>Migrations of stored text\<close>

definition plaintext_migration :: string where
  "plaintext_migration = ''2026-08-plaintext-dialogue-storage''"

definition permanent_migration :: string where
  "permanent_migration = ''2026-08-permanent-raw-storage''"

definition restore_text :: "codec \<Rightarrow> ustr option \<Rightarrow> ustr option res" where
  "restore_text codec p =
     (case p of None \<Rightarrow> Inr None | Some t \<Rightarrow> bindr (load_text codec t) (\<lambda>u. Inr (Some (store_text u))))"

definition plain_turn :: "codec \<Rightarrow> turn_row \<Rightarrow> turn_row res" where
  "plain_turn codec r =
     bindr (restore_text codec (tw_question r)) (\<lambda>q.
     bindr (restore_text codec (tw_raw r)) (\<lambda>t. Inr (r\<lparr>tw_question := q, tw_raw := t\<rparr>)))"

definition plain_claim :: "codec \<Rightarrow> claim_row \<Rightarrow> claim_row res" where
  "plain_claim codec c = bindr (restore_text codec (cl_span c)) (\<lambda>t. Inr (c\<lparr>cl_span := t\<rparr>))"

definition migrate_to_plaintext :: "codec \<Rightarrow> store \<Rightarrow> store res" where
  "migrate_to_plaintext codec db =
     (if plaintext_migration \<in> set (db_migrations db) then Inr db
      else bindr (mapr (plain_turn codec) (db_turns db)) (\<lambda>ts.
           bindr (mapr (plain_claim codec) (db_claims db)) (\<lambda>cs.
           Inr (db\<lparr>db_turns := ts, db_claims := cs, db_migrations := db_migrations db @ [plaintext_migration]\<rparr>))))"

definition permanent_conversation :: "conversation_row \<Rightarrow> conversation_row" where
  "permanent_conversation r =
     r\<lparr>cv_state := (cv_state r)\<lparr>ds_raw_enabled := True, ds_retention := Permanent, ds_raw_until := None\<rparr>,
       cv_raw_until := None\<rparr>"

definition migrate_to_permanent :: "store \<Rightarrow> store" where
  "migrate_to_permanent db =
     (if permanent_migration \<in> set (db_migrations db) then db
      else db\<lparr>db_conversations := map (\<lambda>(c, r). (c, permanent_conversation r)) (db_conversations db),
              db_turns := map (\<lambda>r. if tw_conversation r \<in> set (dict_keys (db_conversations db))
                                    then r\<lparr>tw_expires := None\<rparr> else r) (db_turns db),
              db_migrations := db_migrations db @ [permanent_migration]\<rparr>)"

end
