(* ===== verification/Turn_Commit.thy ===== *)
theory Turn_Commit
  imports Store
begin

text \<open>
  \<^verbatim>\<open>Repository.commit_turn\<close>: the one transaction that answers a turn. It locks the
  conversation, checks the version and the turn, enforces the retention deadline again, writes the
  answer and the next state, and derives the observation, the claims, the note with its evidence, the
  outcome of a finished task and the outbox events. The life-scene (v3) branches are not modelled.
\<close>

section \<open>Names on the wire\<close>

definition level_name :: "expression_level \<Rightarrow> string" where
  "level_name l = (case l of L4 \<Rightarrow> ''L4'' | L3 \<Rightarrow> ''L3'' | L2 \<Rightarrow> ''L2'' | L1 \<Rightarrow> ''L1'' | L0 \<Rightarrow> ''L0'')"

definition hint_value :: "hint_level \<Rightarrow> string" where
  "hint_value h = (case h of H0 \<Rightarrow> ''H0'' | H1 \<Rightarrow> ''H1'' | H2 \<Rightarrow> ''H2'' | H3 \<Rightarrow> ''H3'')"

definition scene_name :: "scene_type \<Rightarrow> string" where
  "scene_name s = (case s of HOME_TEACH \<Rightarrow> ''home_teach'' | CAFE \<Rightarrow> ''cafe'' | AMUSEMENT_PARK \<Rightarrow> ''amusement_park'')"

definition safety_name :: "safety_category \<Rightarrow> string" where
  "safety_name c = (case c of Safety_Normal \<Rightarrow> ''normal'' | Safety_Unknown \<Rightarrow> ''unknown''
     | Playful_Offtopic \<Rightarrow> ''playful_offtopic'' | Sexual \<Rightarrow> ''sexual'' | Personal_Data \<Rightarrow> ''personal_data''
     | Prompt_Injection \<Rightarrow> ''prompt_injection'' | Abusive \<Rightarrow> ''abusive'' | Dangerous \<Rightarrow> ''dangerous'')"

definition category_name :: "response_category \<Rightarrow> string" where
  "category_name c = (case c of Correct_Full \<Rightarrow> ''correct_full'' | Correct_Partial \<Rightarrow> ''correct_partial''
     | Related_Vague \<Rightarrow> ''related_vague'' | Expression_Block \<Rightarrow> ''expression_block''
     | Conceptual_Error \<Rightarrow> ''conceptual_error'' | Conceptual_Block \<Rightarrow> ''conceptual_block''
     | No_Response \<Rightarrow> ''no_response'' | Recognition_Or_Input_Error \<Rightarrow> ''recognition_or_input_error''
     | Unrelated_Response \<Rightarrow> ''unrelated_response'' | Help_Request \<Rightarrow> ''help_request''
     | Self_Correction \<Rightarrow> ''self_correction'')"

definition difficulty_name :: "difficulty_class \<Rightarrow> string" where
  "difficulty_name d = (case d of Diff_Expression \<Rightarrow> ''expression'' | Diff_Concept \<Rightarrow> ''concept''
     | Diff_Both \<Rightarrow> ''both'' | Diff_Input \<Rightarrow> ''input'' | Diff_Engagement \<Rightarrow> ''engagement''
     | Diff_Unknown \<Rightarrow> ''unknown'')"

definition response_type_name :: "response_type \<Rightarrow> string" where
  "response_type_name t = (case t of RT_TEXT \<Rightarrow> ''text'' | RT_CHOICE \<Rightarrow> ''choice'' | RT_FILL \<Rightarrow> ''fill''
     | RT_COUNT \<Rightarrow> ''count'' | RT_EQUATION \<Rightarrow> ''equation'' | RT_ACTION \<Rightarrow> ''action''
     | RT_NO_RESPONSE \<Rightarrow> ''no_response'')"

definition outcome_name :: "completion_outcome \<Rightarrow> string" where
  "outcome_name c = (case c of TAUGHT \<Rightarrow> ''taught'' | SUPPORTED \<Rightarrow> ''supported'' | BRIGHT_EXIT \<Rightarrow> ''bright_exit'')"

definition attribution_name :: "note_attribution \<Rightarrow> string" where
  "attribution_name a = (case a of Note_Child \<Rightarrow> ''child'' | Note_Coauthored \<Rightarrow> ''coauthored'')"

definition evidence_name :: "note_evidence \<Rightarrow> string" where
  "evidence_name e = (case e of Direct_Explanation \<Rightarrow> ''direct_explanation''
     | Supported_Completion \<Rightarrow> ''supported_completion'')"

section \<open>The input of a commit\<close>

record commit_input =
  ci_now :: int
  ci_previous :: dialogue_state
  ci_response :: child_response
  ci_result :: engine_result
  ci_observation_id :: string
  ci_outcome_id :: string
  ci_event_id :: string
  ci_note_event_id :: string

text \<open>The stored text of an answer: its words, or its choices, or Python's rendering of its values.\<close>

definition structured_response_text :: "storage_env \<Rightarrow> child_response \<Rightarrow> ustr" where
  "structured_response_text env r =
     (if choice_ids r \<noteq> [] then comma_join (map (map of_char) (choice_ids r))
      else sv_render env (resp_values r))"

definition raw_response :: "storage_env \<Rightarrow> child_response \<Rightarrow> ustr" where
  "raw_response env r =
     (case resp_text r of
        Some t \<Rightarrow> if t \<noteq> [] then t else structured_response_text env r
      | None \<Rightarrow> structured_response_text env r)"

definition raw_allowed :: "commit_input \<Rightarrow> bool" where
  "raw_allowed i \<longleftrightarrow> ds_raw_enabled (ci_previous i) \<and> \<not> retention_expired (ci_now i) (ci_previous i)"

definition committed_state :: "commit_input \<Rightarrow> dialogue_state" where
  "committed_state i =
     (let s = er_state (ci_result i);
          s1 = (if retention_expired (ci_now i) (ci_previous i) then close_retention s else s)
      in s1\<lparr>ds_updated_at := ci_now i\<rparr>)"

definition answer_turn :: "storage_env \<Rightarrow> commit_input \<Rightarrow> turn_row \<Rightarrow> turn_row" where
  "answer_turn env i row =
     row\<lparr>tw_response := Some (response_id (ci_response i)),
        tw_expires := (if ds_retention (ci_previous i) = Permanent then None
                       else Some (ci_now i + int (sv_idempotency_days env) * day_micros)),
        tw_result := Some (tn_id (er_turn (ci_result i))),
        tw_response_type := Some (resp_type (ci_response i)),
        tw_raw := (if raw_allowed i then Some (store_text (raw_response env (ci_response i))) else None),
        tw_structured := (if raw_allowed i then Some ((ci_response i)\<lparr>resp_text := None\<rparr>) else None),
        tw_safety := Some (ua_safety (er_analysis (ci_result i))),
        tw_category := Some (ua_category (er_analysis (ci_result i)))\<rparr>"

definition update_conversation :: "dialogue_state \<Rightarrow> conversation_row \<Rightarrow> conversation_row" where
  "update_conversation s r =
     r\<lparr>cv_state := s, cv_version := ss_version s, cv_status := ss_status s,
       cv_raw_until := ds_raw_until s, cv_updated_at := ds_updated_at s\<rparr>"

section \<open>Observation and claims\<close>

definition concept_result :: "response_category \<Rightarrow> string" where
  "concept_result c =
     (if c \<in> {Correct_Full, Self_Correction} then ''correct_full''
      else if c = Correct_Partial then ''correct_partial''
      else if c \<in> {Conceptual_Error, Conceptual_Block} then ''incorrect''
      else ''not_assessed'')"

definition safe_misconception :: "task_definition \<Rightarrow> utterance_analysis \<Rightarrow> string option" where
  "safe_misconception task a =
     (case ua_misconception a of
        Some t \<Rightarrow> if t \<in> set (td_misconceptions task) then Some t else None
      | None \<Rightarrow> None)"

definition safe_bottleneck :: "utterance_analysis \<Rightarrow> string" where
  "safe_bottleneck a =
     (if ua_bottleneck a \<in> {''unknown'', ''expression'', ''concept'', ''structured_input'', ''not_collected''}
      then ua_bottleneck a else ''unknown'')"

definition observation_record ::
    "commit_input \<Rightarrow> task_definition \<Rightarrow> string \<Rightarrow> turn_row \<Rightarrow> observation_row" where
  "observation_record i task task_id current =
     (let p = ci_previous i; r = ci_result i; n = er_state r; a = er_analysis r in
      \<lparr>ob_id = ci_observation_id i, ob_conversation = ds_conversation_id p, ob_learner = ds_learner_id p,
       ob_learning_session = ds_learning_session p, ob_scene = ds_scene p, ob_scenario = ss_scenario_id p,
       ob_task = task_id, ob_task_index = ss_task_index p, ob_subgoal = ss_subgoal p,
       ob_source_turn = tw_turn_id current, ob_result_turn = Some (tn_id (er_turn r)),
       ob_response = Some (response_id (ci_response i)), ob_response_type = Some (resp_type (ci_response i)),
       ob_input_kind = Some (kind (tn_input (tw_contract current))), ob_category = Some (ua_category a),
       ob_classifier_category = Some (er_classifier r), ob_difficulty = Some (ua_difficulty a),
       ob_concept_result = concept_result (ua_category a), ob_safety = Some (ua_safety a),
       ob_misconception = safe_misconception task a, ob_bottleneck = safe_bottleneck a,
       ob_confidence = Some (ua_confidence a), ob_expression_before = ss_expression p,
       ob_expression_after = ss_expression n, ob_hint_before = ss_hint p, ob_hint_after = ss_hint n,
       ob_act = sa_act (er_runtime r), ob_help_level = map_option hv_level (tn_help (er_turn r)),
       ob_speaker_source = sa_source (er_runtime r), ob_verifier = sa_verifier (er_runtime r),
       ob_fallback = sa_fallback (er_runtime r), ob_outcome = ss_outcome n, ob_origin = ''live'',
       ob_created_at = ci_now i\<rparr>)"

definition claim_accepted :: "(string, json) dict \<Rightarrow> slot_definition option \<Rightarrow> slot_claim \<Rightarrow> bool" where
  "claim_accepted accepted slot c =
     (case (slot, dict_get accepted (sc_slot c)) of
        (Some d, Some v) \<Rightarrow>
          (case accepted_claim_value d c of None \<Rightarrow> False | Some w \<Rightarrow> scalar_eq v w)
      | _ \<Rightarrow> False)"

definition claim_record ::
    "(string, json) dict \<Rightarrow> (string, wire_value) dict \<Rightarrow> bool \<Rightarrow> string \<Rightarrow> task_definition \<Rightarrow> slot_claim \<Rightarrow> claim_row" where
  "claim_record accepted verified raw observation task c =
     (let slot = dict_get (td_slots task) (sc_slot c);
          value = (case slot of None \<Rightarrow> None | Some d \<Rightarrow> accepted_claim_value d c);
          ok = claim_accepted accepted slot c
      in \<lparr>cl_observation = observation, cl_slot = sc_slot c,
          cl_role = (case slot of None \<Rightarrow> ''not_collected'' | Some d \<Rightarrow> sd_role d),
          cl_value = (if ok then value else None), cl_factual = sc_factual c, cl_verified = ok,
          cl_span = (if raw \<and> sc_span c \<noteq> [] then Some (store_text (sc_span c)) else None),
          cl_newly = (ok \<and> (case slot of None \<Rightarrow> False | Some d \<Rightarrow>
             \<not> equivalent_state_value d (dict_get verified (sc_slot c)) value))\<rparr>)"

definition claim_records :: "commit_input \<Rightarrow> task_definition \<Rightarrow> claim_row list" where
  "claim_records i task =
     map (claim_record (er_accepted (ci_result i)) (ss_verified_slots (ci_previous i)) (raw_allowed i)
            (ci_observation_id i) task) (ua_claims (er_analysis (ci_result i)))"

section \<open>Evidence of a note\<close>

text \<open>
  A note links to every observation that supplied its evidence: for a pinned home pack the
  observations of the turns behind its note relations, otherwise the observations whose claims newly
  verified one of its note slots. A note without evidence is an error, which undoes the turn.
\<close>

definition note_evidence_missing :: py_error where
  "note_evidence_missing = PersistenceError ''note_evidence_missing''"

definition relation_turns :: "reasoning_ledger \<Rightarrow> string \<Rightarrow> string list" where
  "relation_turns l i =
     (case dict_get (verified_relations l) i of
        None \<Rightarrow> []
      | Some e \<Rightarrow> map (\<lambda>v. case v of RelationVerification p _ \<Rightarrow> ep_source_turn_id p
                                   | RelationStructured s \<Rightarrow> se_source_turn_id s) (re_evidence e))"

definition relations_by_turn :: "home_pack \<Rightarrow> reasoning_ledger \<Rightarrow> string \<Rightarrow> string list" where
  "relations_by_turn p l t = filter (\<lambda>i. t \<in> set (relation_turns l i)) (dedup (hp_note_relation_ids p))"

definition task_observations :: "store \<Rightarrow> string \<Rightarrow> nat \<Rightarrow> observation_row list" where
  "task_observations db c k =
     filter (\<lambda>b. ob_conversation b = c \<and> ob_task_index b = k) (db_observations db)"

definition links_for :: "string \<Rightarrow> (observation_row \<Rightarrow> string list) \<Rightarrow> observation_row list \<Rightarrow> link_row list res" where
  "links_for note slots obs =
     (let used = filter (\<lambda>b. slots b \<noteq> []) obs
      in if used = [] then Inl note_evidence_missing
         else Inr (map (\<lambda>b. \<lparr>lk_note = note, lk_observation = ob_id b, lk_slots = sort (dedup (slots b))\<rparr>)
                    (sort_key ob_id used)))"

definition home_links :: "store \<Rightarrow> dialogue_state \<Rightarrow> string \<Rightarrow> link_row list res" where
  "home_links db s note =
     (case ss_pinned s of
        None \<Rightarrow> Inl (PersistenceError ''v2_note_runtime_missing'')
      | Some pr \<Rightarrow>
        (case sn_payload (pr_snapshot pr) of
           Life _ \<Rightarrow> Inl (ValidationError ''pack_snapshot'')
         | Home p \<Rightarrow>
           bindr (validate_home_pack p) (\<lambda>_.
           bindr (map_keys_must_match_entries (pr_ledger pr)) (\<lambda>_.
           links_for note (\<lambda>b. relations_by_turn p (pr_ledger pr) (ob_source_turn b))
             (task_observations db (ds_conversation_id s) (ss_task_index s))))))"

definition newly_verified_slots :: "store \<Rightarrow> string list \<Rightarrow> string \<Rightarrow> string list" where
  "newly_verified_slots db slots observation =
     map cl_slot (filter (\<lambda>c. cl_observation c = observation \<and> cl_verified c \<and> cl_newly c
                              \<and> cl_slot c \<in> set slots) (db_claims db))"

definition legacy_links :: "store \<Rightarrow> dialogue_state \<Rightarrow> task_definition \<Rightarrow> string \<Rightarrow> link_row list res" where
  "legacy_links db p task note =
     (if effective_note_slots task = [] then Inr []
      else links_for note (\<lambda>b. newly_verified_slots db (effective_note_slots task) (ob_id b))
             (task_observations db (ds_conversation_id p) (ss_task_index p)))"

definition note_links ::
    "store \<Rightarrow> dialogue_state \<Rightarrow> dialogue_state \<Rightarrow> task_definition \<Rightarrow> string \<Rightarrow> link_row list res" where
  "note_links db p n task note =
     (if ss_runtime n = VERDICT_V1 then home_links db n note else legacy_links db p task note)"

section \<open>Outcome of a finished task\<close>

definition task_finished :: "dialogue_state \<Rightarrow> dialogue_state \<Rightarrow> bool" where
  "task_finished p n \<longleftrightarrow> ss_status n = COMPLETED \<or> ss_task_index n \<noteq> ss_task_index p"

definition completion_name :: "identified_note option \<Rightarrow> dialogue_state \<Rightarrow> string" where
  "completion_name note n =
     (case note of
        Some t \<Rightarrow> if nt_attribution t = Note_Child then ''taught'' else ''supported''
      | None \<Rightarrow> (case ss_outcome n of Some c \<Rightarrow> outcome_name c | None \<Rightarrow> ''not_collected''))"

definition claimed_slots :: "claim_row list \<Rightarrow> (string, wire_value) dict \<Rightarrow> (string, wire_value) dict" where
  "claimed_slots cs d =
     foldl (\<lambda>d c. case cl_value c of Some v \<Rightarrow> AList.update (cl_slot c) (WJson v) d | None \<Rightarrow> d) d
       (filter cl_verified cs)"

definition outcome_slots ::
    "dialogue_state \<Rightarrow> dialogue_state \<Rightarrow> claim_row list \<Rightarrow> (string, wire_value) dict" where
  "outcome_slots p n cs =
     (if ss_task_index n = ss_task_index p then assign_all (ss_verified_slots n) (ss_verified_slots p)
      else claimed_slots cs (ss_verified_slots p))"

definition task_outcome ::
    "store \<Rightarrow> commit_input \<Rightarrow> observation_row \<Rightarrow> claim_row list \<Rightarrow> outcome_row option" where
  "task_outcome db i b cs =
     (let p = ci_previous i; n = committed_state i; note = er_note (ci_result i) in
      if \<not> task_finished p n then None
      else
        let found = sort_key ob_created_at (task_observations db (ds_conversation_id p) (ss_task_index p));
            records = (if ob_id b \<in> set (map ob_id found) then found else found @ [b])
        in Some \<lparr>oc_id = ci_outcome_id i, oc_conversation = ds_conversation_id p,
             oc_learner = ds_learner_id p, oc_task = ob_task b, oc_task_index = ss_task_index p,
             oc_start_expression = (case ds_start_level p of None \<Rightarrow> ss_expression p | Some l \<Rightarrow> l),
             oc_end_expression = ss_expression p,
             oc_start_hint = ob_hint_before (if found = [] then b else hd found),
             oc_max_hint = max_hint (ss_max_hint p) (ob_hint_after b),
             oc_completion = completion_name note n, oc_slots = outcome_slots p n cs,
             oc_bottlenecks = map (\<lambda>r. (ob_id r, ob_bottleneck r, ob_confidence r))
               (filter (\<lambda>r. ob_bottleneck r \<notin> {[], ''unknown'', ''not_collected''}) records),
             oc_evidence = map ob_id records, oc_note = map_option nt_id note\<rparr>)"

section \<open>Outbox events\<close>

text \<open>Texts in an event are JSON strings, here in UTF-8.\<close>

definition utf8_char :: "nat \<Rightarrow> nat list" where
  "utf8_char c =
     (if c < 128 then [c]
      else if c < 2048 then [192 + c div 64, 128 + c mod 64]
      else if c < 65536 then [224 + c div 4096, 128 + c div 64 mod 64, 128 + c mod 64]
      else [240 + c div 262144, 128 + c div 4096 mod 64, 128 + c div 64 mod 64, 128 + c mod 64])"

definition json_text :: "ustr \<Rightarrow> json" where
  "json_text t = JStr (map char_of (concat (map utf8_char t)))"

definition json_option :: "('a \<Rightarrow> json) \<Rightarrow> 'a option \<Rightarrow> json" where
  "json_option f x = (case x of None \<Rightarrow> JNull | Some v \<Rightarrow> f v)"

fun json_wire :: "wire_value \<Rightarrow> json" where
  "json_wire (WJson v) = v"
| "json_wire (WText t) = json_text t"

definition json_rat :: "rat \<Rightarrow> json" where
  "json_rat q = JFloat q"

definition claim_payload :: "claim_row \<Rightarrow> json" where
  "claim_payload c = JObj
     [(''slot_id'', JStr (cl_slot c)), (''semantic_role'', JStr (cl_role c)),
      (''value'', json_option id (cl_value c)), (''factual'', JBool (cl_factual c)),
      (''validation_status'', JStr (if cl_verified c then ''verified'' else ''rejected'')),
      (''newly_verified'', JBool (cl_newly c))]"

definition outcome_payload :: "outcome_row \<Rightarrow> json" where
  "outcome_payload r = JObj
     [(''outcome_id'', JStr (oc_id r)), (''completion_outcome'', JStr (oc_completion r)),
      (''max_hint_level'', JStr (hint_value (oc_max_hint r))),
      (''verified_slots'', JObj (map (\<lambda>(k, v). (k, json_wire v)) (oc_slots r))),
      (''evidence_observation_ids'', JList (map JStr (oc_evidence r))),
      (''note_id'', json_option JStr (oc_note r))]"

definition observation_payload :: "observation_row \<Rightarrow> claim_row list \<Rightarrow> (string \<times> json) list" where
  "observation_payload b cs =
     [(''schema_version'', JInt 1), (''observation_version'', JInt 1),
      (''observation_id'', JStr (ob_id b)), (''conversation_id'', JStr (ob_conversation b)),
      (''learner_id'', JInt (ob_learner b)),
      (''learning_session_id'', json_option JStr (ob_learning_session b)),
      (''scene'', JStr (scene_name (ob_scene b))), (''scenario_id'', JStr (ob_scenario b)),
      (''task_id'', JStr (ob_task b)), (''task_index'', JInt (int (ob_task_index b))),
      (''source_turn_id'', JStr (ob_source_turn b)), (''response_id'', json_option JStr (ob_response b)),
      (''response_type'', json_option (JStr \<circ> response_type_name) (ob_response_type b)),
      (''response_category'', json_option (JStr \<circ> category_name) (ob_category b)),
      (''difficulty_class'', json_option (JStr \<circ> difficulty_name) (ob_difficulty b)),
      (''concept_result'', JStr (ob_concept_result b)),
      (''safety_category'', json_option (JStr \<circ> safety_name) (ob_safety b)),
      (''bottleneck'', JStr (ob_bottleneck b)), (''bottleneck_candidate'', JStr (ob_bottleneck b)),
      (''classifier_confidence'', json_option json_rat (ob_confidence b)),
      (''expression_before'', JStr (level_name (ob_expression_before b))),
      (''expression_after'', JStr (level_name (ob_expression_after b))),
      (''hint_before'', JStr (hint_value (ob_hint_before b))),
      (''hint_after'', JStr (hint_value (ob_hint_after b))),
      (''transition_reason'', JStr (ob_act b)), (''help_used'', JBool (ob_help_level b \<noteq> None)),
      (''fallback_occurred'', JBool (ob_fallback b \<noteq> None)),
      (''completion_outcome'', json_option (JStr \<circ> outcome_name) (ob_outcome b)),
      (''dialogue_act'', JStr (ob_act b)), (''speaker_source'', JStr (ob_speaker_source b)),
      (''verifier_status'', JStr (ob_verifier b)), (''record_origin'', JStr (ob_origin b)),
      (''observed_at'', JInt (ob_created_at b)), (''claims'', JList (map claim_payload cs))]"

definition new_event :: "string \<Rightarrow> string \<Rightarrow> int \<Rightarrow> (string \<times> json) list \<Rightarrow> outbox_event" where
  "new_event i typ now payload =
     \<lparr>ev_id = i, ev_type = typ, ev_schema_version = 1, ev_payload = payload, ev_status = Pending,
      ev_attempts = 0, ev_available_at = now, ev_delivered_at = None, ev_last_error = None,
      ev_created_at = now\<rparr>"

definition observation_event ::
    "commit_input \<Rightarrow> observation_row \<Rightarrow> claim_row list \<Rightarrow> outcome_row option \<Rightarrow> outbox_event" where
  "observation_event i b cs out =
     new_event (ci_event_id i) observation_event_type (ci_now i)
       (observation_payload b cs
        @ (case out of None \<Rightarrow> [] | Some r \<Rightarrow> [(''task_outcome'', outcome_payload r)]))"

definition star_note_event :: "commit_input \<Rightarrow> observation_row \<Rightarrow> note_row \<Rightarrow> link_row list \<Rightarrow> outbox_event" where
  "star_note_event i b n ls =
     new_event (ci_note_event_id i) star_note_event_type (ci_now i)
       [(''note_id'', JStr (nt_id n)), (''note_version'', JInt 1), (''learner_id'', JInt (ob_learner b)),
        (''conversation_id'', JStr (ob_conversation b)),
        (''learning_session_id'', json_option JStr (ob_learning_session b)),
        (''scene'', JStr (scene_name (ob_scene b))), (''scenario_id'', JStr (ob_scenario b)),
        (''task_id'', JStr (ob_task b)), (''task_index'', JInt (int (ob_task_index b))),
        (''skill_id'', JStr (nt_skill n)), (''text'', json_text (nt_text n)),
        (''attribution'', JStr (attribution_name (nt_attribution n))),
        (''attribution_label'', json_text (nt_label n)),
        (''evidence'', JStr (evidence_name (nt_evidence n))),
        (''evidence_links'', JList (map (\<lambda>l. JObj [(''observation_id'', JStr (lk_observation l)),
            (''source_slot_ids'', JList (map JStr (lk_slots l)))]) ls)),
        (''active'', JBool (no_active n)), (''created_at'', JInt (ci_now i))]"

section \<open>The transaction\<close>

definition turn_persistence_failed :: py_error where
  "turn_persistence_failed = PersistenceError ''turn_persistence_failed''"

text \<open>The checks made under the lock of the conversation, before anything is written.\<close>

definition commit_guards :: "store \<Rightarrow> commit_input \<Rightarrow> (conversation_row \<times> turn_row) res" where
  "commit_guards db i =
     (let c = ds_conversation_id (ci_previous i); rid = response_id (ci_response i) in
      case dict_get (db_conversations db) c of
        None \<Rightarrow> Inl (ConversationNotFoundError c)
      | Some conv \<Rightarrow>
        if cv_version conv \<noteq> ss_version (ci_previous i) then Inl (StaleConversationError c)
        else case turn_by_id db (turn_id (ci_response i)) of
            None \<Rightarrow> Inl (StaleConversationError ''Response does not match the active turn'')
          | Some row \<Rightarrow>
            if tw_conversation row \<noteq> c then Inl (StaleConversationError ''Response does not match the active turn'')
            else case tw_response row of
                None \<Rightarrow> Inr (conv, row)
              | Some r \<Rightarrow>
                if r = [] then Inr (conv, row)
                else if r = rid then Inl (DuplicateResponseError rid)
                else Inl (StaleConversationError ''Turn was already answered''))"

text \<open>
  The unique keys, in the order in which the writes reach the database: the observation, the note,
  the answered and the new turn.
\<close>

definition commit_conflicts :: "store \<Rightarrow> commit_input \<Rightarrow> (bool \<times> py_error) list" where
  "commit_conflicts db i =
     (let c = ds_conversation_id (ci_previous i); rid = response_id (ci_response i);
          t = turn_id (ci_response i); duplicate = DuplicateResponseError rid in
      [(\<exists>b \<in> set (db_observations db). ob_id b = ci_observation_id i, turn_persistence_failed),
       (\<exists>b \<in> set (db_observations db). ob_source_turn b = t, duplicate),
       (\<exists>b \<in> set (db_observations db). ob_conversation b = c \<and> ob_response b = Some rid, duplicate),
       (case er_note (ci_result i) of
          None \<Rightarrow> False | Some n \<Rightarrow> \<exists>m \<in> set (db_notes db). nt_id m = nt_id n, turn_persistence_failed),
       (\<exists>r \<in> set (turns_of db c). tw_turn_id r \<noteq> t \<and> tw_response r = Some rid, duplicate),
       (turn_by_id db (tn_id (er_turn (ci_result i))) \<noteq> None, turn_persistence_failed)])"

definition outcome_conflict :: "store \<Rightarrow> outcome_row option \<Rightarrow> bool" where
  "outcome_conflict db out =
     (case out of
        None \<Rightarrow> False
      | Some r \<Rightarrow> \<exists>q \<in> set (db_outcomes db). oc_id q = oc_id r
          \<or> (oc_conversation q = oc_conversation r \<and> oc_task_index q = oc_task_index r))"

definition event_conflict :: "store \<Rightarrow> outbox_event list \<Rightarrow> bool" where
  "event_conflict db es \<longleftrightarrow>
     \<not> distinct (map ev_id es) \<or> (\<exists>e \<in> set es. ev_id e \<in> set (dict_keys (db_events db)))"

definition note_row_of :: "dialogue_state \<Rightarrow> identified_note \<Rightarrow> note_row" where
  "note_row_of s n = identified_note.extend n
     \<lparr>no_conversation = ds_conversation_id s, no_learner = ds_learner_id s, no_active = True\<rparr>"

definition write_turn :: "storage_env \<Rightarrow> commit_input \<Rightarrow> conversation_row \<Rightarrow> turn_row \<Rightarrow> store \<Rightarrow> store" where
  "write_turn env i conv new db =
     db\<lparr>db_turns := map (\<lambda>r. if tw_turn_id r = turn_id (ci_response i) then answer_turn env i r else r)
          (db_turns db) @ [new],
        db_conversations := AList.update (ds_conversation_id (ci_previous i))
          (update_conversation (committed_state i) conv) (db_conversations db)\<rparr>"

definition commit_turn :: "storage_env \<Rightarrow> commit_input \<Rightarrow> store \<Rightarrow> store res" where
  "commit_turn env i db =
     bindr (commit_guards db i) (\<lambda>(conv, row).
     bindr (new_turn_row (committed_state i) (er_turn (ci_result i))) (\<lambda>new.
     bindr (current_task_id (session.truncate (ci_previous i))) (\<lambda>task_id.
     bindr (py_index (sv_tasks env) task_id) (\<lambda>task.
     let b = observation_record i task task_id row;
         cs = claim_records i task
     in bindr (check_all (commit_conflicts db i)) (\<lambda>_.
        let db1 = (write_turn env i conv new db)\<lparr>db_observations := db_observations db @ [b],
                     db_claims := db_claims db @ cs\<rparr>;
            out = task_outcome db1 i b cs
        in bindr (case er_note (ci_result i) of
             None \<Rightarrow> Inr []
           | Some n \<Rightarrow> bindr (note_links db1 (ci_previous i) (committed_state i) task (nt_id n)) (\<lambda>ls.
               Inr [(note_row_of (committed_state i) n, ls)])) (\<lambda>notes.
        let events = observation_event i b cs out # map (\<lambda>(n, ls). star_note_event i b n ls) notes
        in if outcome_conflict db out \<or> event_conflict db events then Inl turn_persistence_failed
           else Inr (db1\<lparr>db_notes := db_notes db @ map fst notes,
                  db_links := db_links db @ concat (map snd notes),
                  db_outcomes := db_outcomes db @ (case out of None \<Rightarrow> [] | Some r \<Rightarrow> [r]),
                  db_events := db_events db @ map (\<lambda>e. (ev_id e, e)) events\<rparr>)))))))"

end
