(* ===== verification/Turn_Service.thy ===== *)
theory Turn_Service
  imports Turn_Commit
begin

text \<open>
  \<^verbatim>\<open>service.py\<close>: validation of an answer against the active turn, the choice of the
  engine pinned in the conversation, and the life of one request. A request reads and writes the
  database in several transactions and runs the engine between them, outside any lock; other requests
  and the retention purge interleave with it. One transition of a request is one of its transactions.
\<close>

section \<open>Validation of an answer\<close>

definition response_matches_input :: "input_kind \<Rightarrow> response_type \<Rightarrow> bool" where
  "response_matches_input k t =
     (if t = RT_NO_RESPONSE then k \<noteq> IK_NONE
      else (case k of
          IK_TEXT \<Rightarrow> Some RT_TEXT | IK_CHOICES \<Rightarrow> Some RT_CHOICE | IK_FILL \<Rightarrow> Some RT_FILL
        | IK_COUNT \<Rightarrow> Some RT_COUNT | IK_EQUATION \<Rightarrow> Some RT_EQUATION | IK_JOINT \<Rightarrow> Some RT_ACTION
        | IK_BUTTON \<Rightarrow> Some RT_ACTION | IK_NONE \<Rightarrow> None) = Some t)"

text \<open>An option without a \<^verbatim>\<open>disabled\<close> flag is enabled.\<close>

definition option_enabled :: "choice_option \<Rightarrow> bool" where
  "option_enabled c \<longleftrightarrow> opt_disabled c \<noteq> Some True"

definition validate_response_payload :: "input_contract \<Rightarrow> child_response \<Rightarrow> bool \<Rightarrow> unit res" where
  "validate_response_payload i r exact_joint =
     (if exact_joint \<and> kind i = IK_JOINT \<and> resp_type r = RT_ACTION then
        (case map_of (config i) ''completion_values'' of
           Some (WJson (JObj expected)) \<Rightarrow>
             if same_json_value (JObj (resp_values r)) (JObj expected) then Inr ()
             else Inl (InvalidTurnResponseError ''V2 joint response values must exactly match the active completion_values'')
         | _ \<Rightarrow> Inl (InvalidTurnResponseError ''V2 joint input has no valid completion_values''))
      else if resp_type r \<notin> {RT_CHOICE, RT_FILL} then Inr ()
      else if length (choice_ids r) \<noteq> 1
        then Inl (InvalidTurnResponseError ''structured teaching response requires exactly one choice_id'')
      else if hd (choice_ids r) \<notin> opt_id ` set (filter option_enabled (choices i))
        then Inl (InvalidTurnResponseError ''choice_id does not belong to the active turn'')
      else Inr ())"

section \<open>Engines\<close>

text \<open>
  An engine completes the task anchor of a stored turn and runs a turn. What the language models
  answer, and the identifiers drawn during the run, are part of the function.
\<close>

record engine =
  eg_anchor :: "dialogue_state \<Rightarrow> turn_contract \<Rightarrow> turn_contract res"
  eg_run :: "dialogue_state \<Rightarrow> child_response \<Rightarrow> ustr \<Rightarrow> history_turn list \<Rightarrow> engine_result res"

record engines =
  es_legacy :: engine
  es_home :: "engine option"
  es_life :: "engine option"

definition engine_for_state :: "engines \<Rightarrow> dialogue_state \<Rightarrow> engine res" where
  "engine_for_state es s =
     (if ss_runtime s = LEGACY_V1 then Inr (es_legacy es)
      else if ss_pinned s \<noteq> None \<and> ds_life s \<noteq> None
        then Inl (RuntimeError ''verdict-v1 conversation has ambiguous pinned runtimes'')
      else if ss_pinned s \<noteq> None then
        (case es_home es of
           None \<Rightarrow> Inl (RuntimeError ''verdict-v1 conversation cannot run because the V2 engine is unavailable'')
         | Some e \<Rightarrow> Inr e)
      else if ds_life s \<noteq> None then
        (case es_life es of
           None \<Rightarrow> Inl (RuntimeError ''verdict-v1 life conversation cannot run because the life V2 engine is unavailable'')
         | Some e \<Rightarrow> Inr e)
      else Inl (RuntimeError ''verdict-v1 conversation has no pinned dialogue runtime''))"

section \<open>One request\<close>

datatype phase =
    Received
  | Loading
  | Running dialogue_state turn_contract
  | Writing dialogue_state turn_contract engine_result
  | Recovering
  | Crediting dialogue_state engine_result
  | Saving learner_profile engine_result
  | Replied turn_contract bool
  | Rejected py_error

record request =
  rq_conversation :: string
  rq_response :: child_response
  rq_phase :: phase

record moment =
  mo_now :: int
  mo_engines :: engines
  mo_observation_id :: string
  mo_outcome_id :: string
  mo_event_id :: string
  mo_note_event_id :: string

definition load_turn_for :: "storage_env \<Rightarrow> moment \<Rightarrow> request \<Rightarrow> store \<Rightarrow> (dialogue_state \<times> turn_contract) res" where
  "load_turn_for env m q db =
     bindr (get_state (mo_now m) db (rq_conversation q)) (\<lambda>s.
     bindr (engine_for_state (mo_engines m) s) (\<lambda>e.
     bindr (active_turn (sv_codec env) db s) (\<lambda>stored.
     bindr (eg_anchor e s stored) (\<lambda>t.
     let r = rq_response q in
     if tn_id t \<noteq> turn_id r then Inl (InvalidTurnResponseError ''turn_id is stale; use the latest turn'')
     else if \<not> response_matches_input (kind (tn_input t)) (resp_type r)
       then Inl (InvalidTurnResponseError ''response type does not match input kind'')
     else bindr (validate_response_payload (tn_input t) r (ss_runtime s = VERDICT_V1)) (\<lambda>_.
     Inr (s, t))))))"

definition task_of :: "storage_env \<Rightarrow> dialogue_state \<Rightarrow> task_definition res" where
  "task_of env s = bindr (current_task_id (session.truncate s)) (py_index (sv_tasks env))"

definition run_engine :: "storage_env \<Rightarrow> moment \<Rightarrow> request \<Rightarrow> store \<Rightarrow> dialogue_state \<Rightarrow> turn_contract \<Rightarrow> engine_result res" where
  "run_engine env m q db s t =
     bindr (task_of env s) (\<lambda>_.
     bindr (recent_dialogue_context (sv_codec env) db (rq_conversation q) 6) (\<lambda>history.
     bindr (engine_for_state (mo_engines m) s) (\<lambda>e.
     eg_run e s (rq_response q) (tn_text t) history)))"

definition commit_input_for :: "moment \<Rightarrow> request \<Rightarrow> dialogue_state \<Rightarrow> engine_result \<Rightarrow> commit_input" where
  "commit_input_for m q s r =
     \<lparr>ci_now = mo_now m, ci_previous = s, ci_response = rq_response q, ci_result = r,
      ci_observation_id = mo_observation_id m, ci_outcome_id = mo_outcome_id m,
      ci_event_id = mo_event_id m, ci_note_event_id = mo_note_event_id m\<rparr>"

definition replay :: "storage_env \<Rightarrow> moment \<Rightarrow> request \<Rightarrow> store \<Rightarrow> phase \<Rightarrow> phase" where
  "replay env m q db otherwise =
     (case response_exists (sv_codec env) (mo_now m) db (rq_conversation q) (response_id (rq_response q)) of
        Inl e \<Rightarrow> Rejected e
      | Inr (Some t) \<Rightarrow> Replied t True
      | Inr None \<Rightarrow> otherwise)"

definition request_step :: "storage_env \<Rightarrow> moment \<Rightarrow> request \<Rightarrow> store \<Rightarrow> phase \<times> store" where
  "request_step env m q db =
     (case rq_phase q of
        Received \<Rightarrow> (replay env m q db Loading, db)
      | Loading \<Rightarrow>
          (case load_turn_for env m q db of Inl e \<Rightarrow> Rejected e | Inr (s, t) \<Rightarrow> Running s t, db)
      | Running s t \<Rightarrow>
          (case run_engine env m q db s t of Inl e \<Rightarrow> Rejected e | Inr r \<Rightarrow> Writing s t r, db)
      | Writing s t r \<Rightarrow>
          (case commit_turn env (commit_input_for m q s r) db of
             Inr db' \<Rightarrow> (if er_note r \<noteq> None then Crediting s r else Replied (er_turn r) False, db')
           | Inl (DuplicateResponseError _) \<Rightarrow> (Recovering, db)
           | Inl e \<Rightarrow> (Rejected e, db))
      | Recovering \<Rightarrow>
          (replay env m q db (Rejected (PersistenceError ''duplicate_response_result_missing'')), db)
      | Crediting s r \<Rightarrow>
          (case task_of env s of
             Inl e \<Rightarrow> Rejected e
           | Inr task \<Rightarrow> Saving (update_skill_profile (get_profile (mo_now m) db (ds_learner_id s))
                                   (ss_max_hint s) (ss_expression s) (td_skill task)) r, db)
      | Saving p r \<Rightarrow> (Replied (er_turn r) False, save_profile (mo_now m) p db)
      | done \<Rightarrow> (done, db))"

text \<open>A request that runs alone, from its arrival to its reply.\<close>

definition advance :: "storage_env \<Rightarrow> moment \<Rightarrow> request \<times> store \<Rightarrow> request \<times> store" where
  "advance env m = (\<lambda>(q, db). case request_step env m q db of (p, db') \<Rightarrow> (q\<lparr>rq_phase := p\<rparr>, db'))"

definition respond :: "storage_env \<Rightarrow> moment \<Rightarrow> string \<Rightarrow> child_response \<Rightarrow> store \<Rightarrow> phase \<times> store" where
  "respond env m c r db =
     (case (advance env m ^^ 6) (\<lparr>rq_conversation = c, rq_response = r, rq_phase = Received\<rparr>, db) of
        (q, db') \<Rightarrow> (rq_phase q, db'))"

definition snapshot_turn :: "storage_env \<Rightarrow> moment \<Rightarrow> string \<Rightarrow> store \<Rightarrow> turn_contract res" where
  "snapshot_turn env m c db =
     bindr (get_state (mo_now m) db c) (\<lambda>s.
     bindr (engine_for_state (mo_engines m) s) (\<lambda>e.
     bindr (active_turn (sv_codec env) db s) (eg_anchor e s)))"

section \<open>Many requests\<close>

text \<open>
  A world is the database and the requests of any number of clients. New requests arrive, any request
  advances by one transaction, conversations are created and expired text is purged.
\<close>

record world =
  wd_store :: store
  wd_requests :: "request list"

definition arrive :: "string \<Rightarrow> child_response \<Rightarrow> world \<Rightarrow> world" where
  "arrive c r w = w\<lparr>wd_requests := wd_requests w @ [\<lparr>rq_conversation = c, rq_response = r, rq_phase = Received\<rparr>]\<rparr>"

definition advance_request :: "storage_env \<Rightarrow> moment \<Rightarrow> nat \<Rightarrow> world \<Rightarrow> world" where
  "advance_request env m k w =
     (let q = wd_requests w ! k in
      case request_step env m q (wd_store w) of
        (p, db) \<Rightarrow> w\<lparr>wd_store := db, wd_requests := (wd_requests w)[k := q\<lparr>rq_phase := p\<rparr>]\<rparr>)"

end
