(* ===== verification/Store_Inv.thy ===== *)
theory Store_Inv
  imports Store_Laws
begin

text \<open>
  The invariant of the database and that every transaction keeps it. An engine is known by a contract:
  its result continues the state it was given.
\<close>

section \<open>Well-formed databases\<close>

text \<open>
  The version of a conversation counts its observations from one; its current turn is a row of its
  own that nobody has answered.
\<close>

definition current_ok :: "store \<Rightarrow> string \<Rightarrow> string \<Rightarrow> bool" where
  "current_ok db c t \<longleftrightarrow> t \<noteq> [] \<and> t \<notin> ob_source_turn ` set (db_observations db)
     \<and> (\<exists>w. turn_by_id db t = Some w \<and> tw_conversation w = c \<and> tw_response w = None)"

definition conversation_ok :: "store \<Rightarrow> string \<Rightarrow> conversation_row \<Rightarrow> bool" where
  "conversation_ok db c r \<longleftrightarrow>
     ds_conversation_id (cv_state r) = c \<and> cv_version r = ss_version (cv_state r)
     \<and> cv_raw_until r = ds_raw_until (cv_state r)
     \<and> cv_version r = 1 + int (length (observations_of db c))
     \<and> (\<exists>t. ss_turn_id (cv_state r) = Some t \<and> current_ok db c t)"

definition answered_ok :: "store \<Rightarrow> turn_row \<Rightarrow> bool" where
  "answered_ok db w \<longleftrightarrow> tn_id (tw_contract w) = tw_turn_id w \<and> (\<forall>rid. tw_response w = Some rid \<longrightarrow> rid \<noteq> []
     \<and> (\<exists>b \<in> set (db_observations db). ob_source_turn b = tw_turn_id w
          \<and> ob_conversation b = tw_conversation w \<and> ob_response b = Some rid))"

lemma stored_turn_contract_id [simp]: "tn_id (stored_turn_contract t) = tn_id t"
  by (simp add: stored_turn_contract_def)

definition store_ok :: "store \<Rightarrow> bool" where
  "store_ok db \<longleftrightarrow>
     dict_ok (db_conversations db) \<and> distinct (map tw_turn_id (db_turns db))
     \<and> (\<forall>(c, r) \<in> set (db_conversations db). conversation_ok db c r)
     \<and> (\<forall>w \<in> set (db_turns db). answered_ok db w)
     \<and> distinct (map ob_source_turn (db_observations db))
     \<and> distinct (map (\<lambda>b. (ob_conversation b, ob_response b)) (db_observations db))
     \<and> ob_source_turn ` set (db_observations db) \<subseteq> tw_turn_id ` set (db_turns db)
     \<and> ob_conversation ` set (db_observations db) \<subseteq> set (dict_keys (db_conversations db))"

lemma store_okD:
  assumes "store_ok db"
  shows "dict_ok (db_conversations db)" "distinct (map tw_turn_id (db_turns db))"
    "\<And>c r. dict_get (db_conversations db) c = Some r \<Longrightarrow> conversation_ok db c r"
    "\<And>w. w \<in> set (db_turns db) \<Longrightarrow> answered_ok db w"
    "distinct (map ob_source_turn (db_observations db))"
    "distinct (map (\<lambda>b. (ob_conversation b, ob_response b)) (db_observations db))"
    "ob_source_turn ` set (db_observations db) \<subseteq> tw_turn_id ` set (db_turns db)"
    "ob_conversation ` set (db_observations db) \<subseteq> set (dict_keys (db_conversations db))"
  using assms unfolding store_ok_def by (auto dest!: dict_get_Some_in)

lemma empty_store_ok: "store_ok empty_store"
  by (simp add: store_ok_def empty_store_def)

section \<open>The contract of an engine\<close>

definition follows :: "dialogue_state \<Rightarrow> engine_result \<Rightarrow> bool" where
  "follows s r \<longleftrightarrow>
     (let n = er_state r in
      ds_conversation_id n = ds_conversation_id s \<and> ds_learner_id n = ds_learner_id s
      \<and> ds_learning_session n = ds_learning_session s \<and> ds_round n = ds_round s \<and> ds_scene n = ds_scene s
      \<and> ss_runtime n = ss_runtime s \<and> ds_raw_enabled n = ds_raw_enabled s
      \<and> ds_retention n = ds_retention s \<and> ds_raw_until n = ds_raw_until s
      \<and> ss_version n = ss_version s + 1 \<and> ss_turn_id n = Some (tn_id (er_turn r))
      \<and> tn_id (er_turn r) \<noteq> [] \<and> check_all (mormi_checks (tn_text (er_turn r))) = Inr ())"

locale turn_engine =
  fixes eg :: engine
  assumes run_follows: "eg_run eg s q question h = Inr r \<Longrightarrow> follows s r"
    and anchor_keeps: "eg_anchor eg s t = Inr t' \<Longrightarrow> tn_id t' = tn_id t \<and> tn_input t' = tn_input t"

definition engines_ok :: "engines \<Rightarrow> bool" where
  "engines_ok es \<longleftrightarrow> turn_engine (es_legacy es)
     \<and> (\<forall>e. es_home es = Some e \<or> es_life es = Some e \<longrightarrow> turn_engine e)"

lemma engine_for_state_ok: "engines_ok es \<Longrightarrow> engine_for_state es s = Inr e \<Longrightarrow> turn_engine e"
  unfolding engines_ok_def engine_for_state_def by (auto split: if_splits option.splits)

lemma committed_fields [simp]:
  "ss_version (committed_state i) = ss_version (er_state (ci_result i))"
  "ss_turn_id (committed_state i) = ss_turn_id (er_state (ci_result i))"
  "ds_conversation_id (committed_state i) = ds_conversation_id (er_state (ci_result i))"
  "ds_learner_id (committed_state i) = ds_learner_id (er_state (ci_result i))"
  by (simp_all add: committed_state_def close_retention_def Let_def)

section \<open>Answering a turn\<close>

lemma write_turn_ids:
  "map tw_turn_id (db_turns (write_turn env i conv new db)) = map tw_turn_id (db_turns db) @ [tw_turn_id new]"
  by (simp add: write_turn_def)

lemma commit_fresh_turn:
  "check_all (commit_conflicts db i) = Inr () \<Longrightarrow> tn_id (er_turn (ci_result i)) \<notin> tw_turn_id ` set (db_turns db)"
  unfolding commit_conflicts_def Let_def check_all_Inr by (simp add: turn_by_id_None)

lemma commit_fresh_observation:
  assumes "check_all (commit_conflicts db i) = Inr ()"
  shows "turn_id (ci_response i) \<notin> ob_source_turn ` set (db_observations db)"
    and "(ds_conversation_id (ci_previous i), Some (response_id (ci_response i)))
           \<notin> (\<lambda>b. (ob_conversation b, ob_response b)) ` set (db_observations db)"
  using assms unfolding commit_conflicts_def Let_def check_all_Inr by auto

lemma observation_fields [simp]:
  "ob_source_turn (observation_record i task tid row) = tw_turn_id row"
  "ob_conversation (observation_record i task tid row) = ds_conversation_id (ci_previous i)"
  "ob_response (observation_record i task tid row) = Some (response_id (ci_response i))"
  "ob_id (observation_record i task tid row) = ci_observation_id i"
  by (simp_all add: observation_record_def Let_def)

text \<open>What a commit leaves in the tables the invariant speaks about.\<close>

lemma commit_tables:
  assumes "commit_turn env i db = Inr db'"
  obtains conv row new b where
    "dict_get (db_conversations db) (ds_conversation_id (ci_previous i)) = Some conv"
    "cv_version conv = ss_version (ci_previous i)"
    "turn_by_id db (turn_id (ci_response i)) = Some row"
    "tw_conversation row = ds_conversation_id (ci_previous i)"
    "tw_response row = None \<or> tw_response row = Some []"
    "new_turn_row (committed_state i) (er_turn (ci_result i)) = Inr new"
    "check_all (commit_conflicts db i) = Inr ()"
    "ob_source_turn b = turn_id (ci_response i)" "ob_conversation b = ds_conversation_id (ci_previous i)"
    "ob_response b = Some (response_id (ci_response i))"
    "db_turns db' = map (\<lambda>r. if tw_turn_id r = turn_id (ci_response i) then answer_turn env i r else r)
       (db_turns db) @ [new]"
    "db_conversations db' = AList.update (ds_conversation_id (ci_previous i))
       (update_conversation (committed_state i) conv) (db_conversations db)"
    "db_observations db' = db_observations db @ [b]"
  using assms
proof (rule commit_turn_Inr)
  fix conv row new task_id task b cs out written events
  assume a: "dict_get (db_conversations db) (ds_conversation_id (ci_previous i)) = Some conv"
    "cv_version conv = ss_version (ci_previous i)"
    "turn_by_id db (turn_id (ci_response i)) = Some row"
    "tw_conversation row = ds_conversation_id (ci_previous i)"
    "tw_response row = None \<or> tw_response row = Some []"
    "new_turn_row (committed_state i) (er_turn (ci_result i)) = Inr new"
    "b = observation_record i task task_id row"
    "check_all (commit_conflicts db i) = Inr ()"
    and d: "db' = (write_turn env i conv new db)\<lparr>db_observations := db_observations db @ [b],
             db_claims := db_claims db @ cs, db_notes := db_notes db @ map fst written,
             db_links := db_links db @ concat (map snd written),
             db_outcomes := db_outcomes db @ (case out of None \<Rightarrow> [] | Some r \<Rightarrow> [r]),
             db_events := db_events db @ map (\<lambda>e. (ev_id e, e)) events\<rparr>"
  have "tw_turn_id row = turn_id (ci_response i)" using turn_by_id_Some [OF a(3)] by simp
  then show thesis
    by (intro that [OF a(1-6) a(8), of b]) (simp_all add: a(7) d write_turn_def)
qed

lemma commit_turn_by_id:
  assumes "db_turns db' = map (\<lambda>r. if tw_turn_id r = t then f r else r) (db_turns db) @ [new]"
    and "\<And>r. tw_turn_id (f r) = tw_turn_id r" and "distinct (map tw_turn_id (db_turns db))"
    and "tw_turn_id new \<notin> tw_turn_id ` set (db_turns db)"
  shows "turn_by_id db' x = (if x = tw_turn_id new then Some new
     else map_option (\<lambda>r. if tw_turn_id r = t then f r else r) (turn_by_id db x))"
proof -
  have "List.find (\<lambda>r. tw_turn_id r = x) (map (\<lambda>r. if tw_turn_id r = t then f r else r) rs @ [new])
      = (case List.find (\<lambda>r. tw_turn_id r = x) rs of Some r \<Rightarrow> Some (if tw_turn_id r = t then f r else r)
         | None \<Rightarrow> if tw_turn_id new = x then Some new else None)" for rs
    by (induction rs) (auto simp: assms(2))
  then have e: "turn_by_id db' x = (case turn_by_id db x of Some r \<Rightarrow> Some (if tw_turn_id r = t then f r else r)
         | None \<Rightarrow> if tw_turn_id new = x then Some new else None)"
    by (simp add: turn_by_id_def assms(1))
  show ?thesis
  proof (cases "x = tw_turn_id new")
    case True
    then have "turn_by_id db x = None" using assms(4) by (simp add: turn_by_id_None)
    then show ?thesis using e True by simp
  next
    case False
    then show ?thesis using e by (auto split: option.splits)
  qed
qed

lemma commit_store_ok:
  assumes ok: "store_ok db" and c: "commit_turn env i db = Inr db'"
    and f: "follows (ci_previous i) (ci_result i)" and rid: "response_id (ci_response i) \<noteq> []"
  shows "store_ok db'"
  using c
proof (rule commit_tables)
  fix conv row new b
  let ?c = "ds_conversation_id (ci_previous i)" and ?t = "turn_id (ci_response i)"
  assume cv: "dict_get (db_conversations db) ?c = Some conv" "cv_version conv = ss_version (ci_previous i)"
    and row: "turn_by_id db ?t = Some row" "tw_conversation row = ?c" "tw_response row = None \<or> tw_response row = Some []"
    and n: "new_turn_row (committed_state i) (er_turn (ci_result i)) = Inr new"
    and cf: "check_all (commit_conflicts db i) = Inr ()"
    and b: "ob_source_turn b = ?t" "ob_conversation b = ?c" "ob_response b = Some (response_id (ci_response i))"
    and ts: "db_turns db' = map (\<lambda>r. if tw_turn_id r = ?t then answer_turn env i r else r) (db_turns db) @ [new]"
    and cs: "db_conversations db' = AList.update ?c (update_conversation (committed_state i) conv) (db_conversations db)"
    and os: "db_observations db' = db_observations db @ [b]"
  note okD = store_okD [OF ok]
  note new = new_turn_row_Inr [OF n] and fresh = commit_fresh_turn [OF cf] and fo = commit_fresh_observation [OF cf]
  have fw: "ds_conversation_id (er_state (ci_result i)) = ?c" "ss_version (er_state (ci_result i)) = ss_version (ci_previous i) + 1"
    "ss_turn_id (er_state (ci_result i)) = Some (tn_id (er_turn (ci_result i)))" "tn_id (er_turn (ci_result i)) \<noteq> []"
    using f by (simp_all add: follows_def Let_def)
  have newid: "tw_turn_id new = tn_id (er_turn (ci_result i))" "tw_conversation new = ?c" "tw_response new = None"
    using new fw by simp_all
  note byid = commit_turn_by_id [OF ts answer_turn_fields(1) okD(2), unfolded newid(1), OF fresh]
  have in_row: "row \<in> set (db_turns db)" "tw_turn_id row = ?t" using turn_by_id_Some [OF row(1)] by simp_all
  have mids: "map tw_turn_id (db_turns db') = map tw_turn_id (db_turns db) @ [tn_id (er_turn (ci_result i))]"
    by (simp add: ts newid(1))
  have ids: "tw_turn_id ` set (db_turns db') = insert (tn_id (er_turn (ci_result i))) (tw_turn_id ` set (db_turns db))"
    using arg_cong [OF mids, of set] by simp
  have obs_new: "tn_id (er_turn (ci_result i)) \<notin> ob_source_turn ` set (db_observations db')"
    using okD(7) fresh imageI [OF in_row(1), of tw_turn_id] in_row(2) b(1) by (auto simp: os)
  have other: "conversation_ok db' c r" if "dict_get (db_conversations db) c = Some r" "c \<noteq> ?c" for c r
  proof -
    from okD(3) [OF that(1)] obtain t where o: "ds_conversation_id (cv_state r) = c" "cv_version r = ss_version (cv_state r)"
      "cv_raw_until r = ds_raw_until (cv_state r)" "cv_version r = 1 + int (length (observations_of db c))"
      "ss_turn_id (cv_state r) = Some t" "current_ok db c t" by (auto simp: conversation_ok_def)
    obtain w where w: "turn_by_id db t = Some w" "tw_conversation w = c" "tw_response w = None"
      using o(6) by (auto simp: current_ok_def)
    have wt: "tw_turn_id w = t" "w \<in> set (db_turns db)" using turn_by_id_Some [OF w(1)] by simp_all
    have nt: "t \<noteq> ?t" using w row that(2) by auto
    have nn: "t \<noteq> tn_id (er_turn (ci_result i))" using imageI [OF wt(2), of tw_turn_id] wt(1) fresh by auto
    have "turn_by_id db' t = Some w" using byid [of t] w(1) nt nn wt by simp
    then have "current_ok db' c t" using o(6) w nt by (auto simp: current_ok_def os b)
    moreover have "observations_of db' c = observations_of db c" using that(2) by (simp add: observations_of_def os b)
    ultimately show ?thesis using o by (simp add: conversation_ok_def)
  qed
  have own: "conversation_ok db' ?c (update_conversation (committed_state i) conv)"
  proof -
    have "turn_by_id db' (tn_id (er_turn (ci_result i))) = Some new" using byid by simp
    then have "current_ok db' ?c (tn_id (er_turn (ci_result i)))"
      using fw(4) newid obs_new by (simp add: current_ok_def)
    moreover have "length (observations_of db' ?c) = Suc (length (observations_of db ?c))"
      by (simp add: observations_of_def os b)
    ultimately show ?thesis using okD(3) [OF cv(1)] cv(2) fw
      by (simp add: conversation_ok_def update_conversation_def)
  qed
  have "\<forall>(c, r) \<in> set (db_conversations db'). conversation_ok db' c r"
  proof (intro ballI, clarify)
    fix c r assume h: "(c, r) \<in> set (db_conversations db')"
    have "dict_ok (db_conversations db')" using okD(1) by (simp add: cs)
    then have "dict_get (db_conversations db') c = Some r" using h by (rule dict_in_get)
    then show "conversation_ok db' c r" using own other by (auto simp: cs split: if_splits)
  qed
  moreover have "\<forall>w \<in> set (db_turns db'). answered_ok db' w"
  proof
    fix w assume "w \<in> set (db_turns db')"
    then consider "w = new" | r where "r \<in> set (db_turns db)" "w = (if tw_turn_id r = ?t then answer_turn env i r else r)"
      by (auto simp: ts)
    then show "answered_ok db' w"
    proof cases
      case 1
      then show ?thesis using newid new by (simp add: answered_ok_def)
    next
      case (2 r)
      show ?thesis
      proof (cases "tw_turn_id r = ?t")
        case True
        then have "r = row" using 2(1) in_row okD(2) by (auto dest: turn_by_id_unique [OF okD(2)] simp: row(1))
        then show ?thesis using True 2 row(2) b rid okD(4) [OF 2(1)] by (simp add: answered_ok_def os)
      next
        case False
        then show ?thesis using 2 okD(4) [OF 2(1)] by (auto simp: answered_ok_def os)
      qed
    qed
  qed
  moreover have "distinct (map tw_turn_id (db_turns db'))"
    unfolding mids using okD(2) fresh by simp
  moreover have "ob_source_turn ` set (db_observations db') \<subseteq> tw_turn_id ` set (db_turns db')"
    unfolding ids using okD(7) imageI [OF in_row(1), of tw_turn_id] in_row(2) by (auto simp: os b)
  moreover have "ob_conversation ` set (db_observations db') \<subseteq> set (dict_keys (db_conversations db'))"
    unfolding cs dict_keys_update os using okD(8) by (auto simp: b(2))
  ultimately show "store_ok db'"
    unfolding store_ok_def using okD(1,5,6) fo by (simp add: cs os b)
qed

section \<open>Creation and retention\<close>

definition fresh_start :: "dialogue_state \<Rightarrow> turn_contract \<Rightarrow> bool" where
  "fresh_start s t \<longleftrightarrow> ss_version s = 1 \<and> ss_turn_id s = Some (tn_id t) \<and> tn_id t \<noteq> []"

lemma create_conversation_Inr:
  assumes "create_conversation s t db = Inr (c, db')"
  obtains "db' = db" "c \<in> set (dict_keys (db_conversations db))"
  | row where "c = ds_conversation_id s" "ds_conversation_id s \<notin> set (dict_keys (db_conversations db))"
    "turn_by_id db (tn_id t) = None" "new_turn_row s t = Inr row"
    "db' = db\<lparr>db_conversations := db_conversations db @ [(ds_conversation_id s, conversation_row_of s)],
             db_turns := db_turns db @ [row]\<rparr>"
proof (cases "ds_conversation_id s \<notin> set (dict_keys (db_conversations db)) \<and> \<not> round_taken db s")
  case True
  then have "turn_by_id db (tn_id t) = None"
    using assms by (simp add: create_conversation_def split: if_splits)
  with True assms have "bindr (new_turn_row s t) (\<lambda>row.
        Inr (ds_conversation_id s,
          db\<lparr>db_conversations := db_conversations db @ [(ds_conversation_id s, conversation_row_of s)],
             db_turns := db_turns db @ [row]\<rparr>)) = Inr (c, db')"
    by (simp add: create_conversation_def)
  then obtain row where "new_turn_row s t = Inr row" "c = ds_conversation_id s"
    "db' = db\<lparr>db_conversations := db_conversations db @ [(ds_conversation_id s, conversation_row_of s)],
             db_turns := db_turns db @ [row]\<rparr>"
    unfolding bindr_eq_Inr by auto
  then show ?thesis using that(2) True \<open>turn_by_id db (tn_id t) = None\<close> by simp
next
  case False
  have k: "ds_conversation_id s \<notin> set (dict_keys (db_conversations db))"
  proof
    assume "ds_conversation_id s \<in> set (dict_keys (db_conversations db))"
    then show False using assms by (simp add: create_conversation_def)
  qed
  then have rt: "round_taken db s" using False by simp
  then obtain l where ls: "ds_learning_session s = Some l" by (auto simp: round_taken_def split: option.splits)
  then have l: "conversation_id_for_learning_session db (ds_learner_id s) l (ds_scene s)
      (ss_scenario_id s) (ds_round s) = Some c" and e: "db' = db"
    using assms k rt by (simp_all add: create_conversation_def split: option.splits)
  obtain r where "(c, r) \<in> set (db_conversations db)"
    using l find_SomeD [of _ "rev (db_conversations db)"]
    unfolding conversation_id_for_learning_session_def by fastforce
  then have "c \<in> set (dict_keys (db_conversations db))" by force
  then show ?thesis using e that(1) by simp
qed

lemma create_store_ok:
  assumes ok: "store_ok db" and c: "create_conversation s t db = Inr (c, db')" and f: "fresh_start s t"
  shows "store_ok db'"
  using c
proof (rule create_conversation_Inr)
  assume "db' = db" then show ?thesis using ok by simp
next
  fix row
  let ?c = "ds_conversation_id s"
  assume fc: "?c \<notin> set (dict_keys (db_conversations db))" and ft: "turn_by_id db (tn_id t) = None"
    and n: "new_turn_row s t = Inr row"
    and d: "db' = db\<lparr>db_conversations := db_conversations db @ [(?c, conversation_row_of s)],
             db_turns := db_turns db @ [row]\<rparr>"
  note okD = store_okD [OF ok] and new = new_turn_row_Inr [OF n]
  have ft': "tn_id t \<notin> tw_turn_id ` set (db_turns db)" using ft by (simp add: turn_by_id_None)
  have byid: "turn_by_id db' x = (if x = tn_id t then Some row else turn_by_id db x)" for x
  proof -
    have "List.find P (xs @ ys) = (case List.find P xs of Some z \<Rightarrow> Some z | None \<Rightarrow> List.find P ys)" for P and xs ys :: "turn_row list"
      by (induction xs) auto
    then show ?thesis using ft new by (auto simp: turn_by_id_def d split: option.splits)
  qed
  have keep: "conversation_ok db' c r" if "(c, r) \<in> set (db_conversations db)" for c r
  proof -
    have "dict_get (db_conversations db) c = Some r" using okD(1) that by (rule dict_in_get)
    from okD(3) [OF this] obtain u where u: "ss_turn_id (cv_state r) = Some u" "current_ok db c u"
      and rest: "ds_conversation_id (cv_state r) = c" "cv_version r = ss_version (cv_state r)"
      "cv_raw_until r = ds_raw_until (cv_state r)" "cv_version r = 1 + int (length (observations_of db c))"
      by (auto simp: conversation_ok_def)
    have "u \<noteq> tn_id t" using u(2) ft by (auto simp: current_ok_def)
    then have "current_ok db' c u" using u(2) byid [of u] by (simp add: current_ok_def d)
    then show ?thesis using u rest by (simp add: conversation_ok_def observations_of_def d)
  qed
  have none: "observations_of db ?c = []"
    unfolding observations_of_def using okD(8) fc by (intro filter_False) (metis image_subset_iff)
  have "tn_id t \<notin> ob_source_turn ` set (db_observations db)" using okD(7) ft' by auto
  then have "current_ok db' ?c (tn_id t)" using f new byid by (simp add: current_ok_def fresh_start_def d)
  then have own: "conversation_ok db' ?c (conversation_row_of s)"
    using f none by (simp add: conversation_ok_def conversation_row_of_def fresh_start_def observations_of_def d)
  have "\<forall>(c, r) \<in> set (db_conversations db'). conversation_ok db' c r" using own keep by (auto simp: d)
  moreover have "\<forall>w \<in> set (db_turns db'). answered_ok db' w"
    using okD(4) new by (auto simp: answered_ok_def d)
  moreover have "dict_ok (db_conversations db')" using okD(1) fc by (simp add: dict_ok_def d)
  moreover have "distinct (map tw_turn_id (db_turns db'))" using okD(2) ft' new by (simp add: d)
  ultimately show "store_ok db'"
    unfolding store_ok_def using okD(5-8) by (auto simp: d)
qed

lemma close_retention_fields [simp]:
  "ss_version (close_retention s) = ss_version s" "ss_turn_id (close_retention s) = ss_turn_id s"
  "ds_conversation_id (close_retention s) = ds_conversation_id s" "ds_raw_until (close_retention s) = None"
  "ds_raw_enabled (close_retention s) = False" "ss_runtime (close_retention s) = ss_runtime s"
  "ss_pinned (close_retention s) = ss_pinned s"
  by (simp_all add: close_retention_def Let_def)

lemma close_retention_idem [simp]: "close_retention (close_retention s) = close_retention s"
  by (simp add: close_retention_def Let_def)

lemma purge_turn_fields [simp]:
  "tw_turn_id (purge_turn cs (forget_response now r)) = tw_turn_id r"
  "tw_conversation (purge_turn cs (forget_response now r)) = tw_conversation r"
  "tw_question (purge_turn cs (forget_response now r)) = tw_question r"
  "tw_contract (purge_turn cs (forget_response now r)) = tw_contract r"
  by (simp_all add: purge_turn_def forget_response_def split: option.splits)

lemma purge_turn_response:
  "tw_response (purge_turn cs (forget_response now r)) = None
   \<or> tw_response (purge_turn cs (forget_response now r)) = tw_response r"
  by (simp add: purge_turn_def forget_response_def split: option.splits)

lemma purge_turn_by_id:
  "turn_by_id (purge_expired_raw_data now db) t
     = map_option (purge_turn (due_conversations now db) \<circ> forget_response now) (turn_by_id db t)"
proof -
  have "List.find (\<lambda>r. tw_turn_id r = t) (map (purge_turn cs \<circ> forget_response now) rs)
    = map_option (purge_turn cs \<circ> forget_response now) (List.find (\<lambda>r. tw_turn_id r = t) rs)" for cs rs
    by (induction rs) auto
  then show ?thesis by (simp add: turn_by_id_def purge_expired_raw_data_def Let_def)
qed

lemma purge_conversations:
  "dict_get (db_conversations (purge_expired_raw_data now db)) c
     = map_option (purge_conversation now) (dict_get (db_conversations db) c)"
proof -
  have "dict_get (map (\<lambda>(c, r). (c, f r)) d) c = map_option f (dict_get d c)"
    for f :: "conversation_row \<Rightarrow> conversation_row" and d :: "(string, conversation_row) dict"
    by (induction d) auto
  then show ?thesis by (simp add: purge_expired_raw_data_def Let_def)
qed

lemma purge_conversation_fields [simp]:
  "cv_version (purge_conversation now r) = cv_version r"
  "ss_version (cv_state (purge_conversation now r)) = ss_version (cv_state r)"
  "ss_turn_id (cv_state (purge_conversation now r)) = ss_turn_id (cv_state r)"
  "ds_conversation_id (cv_state (purge_conversation now r)) = ds_conversation_id (cv_state r)"
  "close_retention (cv_state (purge_conversation now r)) = close_retention (cv_state r)"
  by (simp_all add: purge_conversation_def)

lemma purge_store_ok:
  assumes ok: "store_ok db"
  shows "store_ok (purge_expired_raw_data now db)"
proof -
  let ?db = "purge_expired_raw_data now db"
  note okD = store_okD [OF ok]
  have os: "db_observations ?db = db_observations db" by (simp add: purge_expired_raw_data_def Let_def)
  have ks: "dict_keys (db_conversations ?db) = dict_keys (db_conversations db)"
    by (auto simp: purge_expired_raw_data_def Let_def)
  have ids: "map tw_turn_id (db_turns ?db) = map tw_turn_id (db_turns db)"
    by (simp add: purge_expired_raw_data_def Let_def)
  have dok: "dict_ok (db_conversations ?db)" using okD(1) unfolding dict_ok_def ks .
  have "conversation_ok ?db c r" if h: "(c, r) \<in> set (db_conversations ?db)" for c r
  proof -
    have "dict_get (db_conversations ?db) c = Some r" using dok h by (rule dict_in_get)
    then obtain r0 where r0: "dict_get (db_conversations db) c = Some r0" "r = purge_conversation now r0"
      by (auto simp: purge_conversations)
    from okD(3) [OF r0(1)] obtain t w where t: "ss_turn_id (cv_state r0) = Some t" "current_ok db c t"
      "turn_by_id db t = Some w" "tw_conversation w = c" "tw_response w = None"
      and rest: "ds_conversation_id (cv_state r0) = c" "cv_version r0 = ss_version (cv_state r0)"
      "cv_raw_until r0 = ds_raw_until (cv_state r0)" "cv_version r0 = 1 + int (length (observations_of db c))"
      by (auto simp: conversation_ok_def current_ok_def)
    have "tw_response (purge_turn (due_conversations now db) (forget_response now w)) = None"
      using purge_turn_response [of "due_conversations now db" now w] t(5) by auto
    then have "current_ok ?db c t" using t by (simp add: current_ok_def os purge_turn_by_id)
    moreover have "cv_raw_until r = ds_raw_until (cv_state r)"
      using rest(3) by (simp add: r0(2) purge_conversation_def)
    ultimately show ?thesis using t(1) rest by (simp add: conversation_ok_def r0(2) observations_of_def os)
  qed
  then have "\<forall>(c, r) \<in> set (db_conversations ?db). conversation_ok ?db c r" by auto
  moreover have "\<forall>w \<in> set (db_turns ?db). answered_ok ?db w"
  proof
    fix w assume "w \<in> set (db_turns ?db)"
    then obtain r where r: "r \<in> set (db_turns db)" "w = purge_turn (due_conversations now db) (forget_response now r)"
      by (auto simp: purge_expired_raw_data_def Let_def)
    then show "answered_ok ?db w"
      using okD(4) [OF r(1)] purge_turn_response [of "due_conversations now db" now r]
      by (auto simp: answered_ok_def os)
  qed
  moreover have "tw_turn_id ` set (db_turns ?db) = tw_turn_id ` set (db_turns db)"
    using arg_cong [OF ids, of set] by simp
  ultimately show ?thesis
    unfolding store_ok_def ks ids using dok okD(2,5-8) by (simp add: os)
qed

end
