(* ===== verification/Turn_World.thy ===== *)
theory Turn_World
  imports Store_Inv
begin

text \<open>
  Optimistic concurrency. A value is read, worked on without a lock and written back under the
  version it was read with; the locale states once why no update is lost, and is interpreted on the
  conversations of the database. The worlds of the service are then the interleavings of any number of
  requests with creations and purges.
\<close>

section \<open>Versioned values\<close>

locale versioned =
  fixes read :: "'d \<Rightarrow> 'k \<Rightarrow> 'v option"
    and version :: "'v \<Rightarrow> int"
    and same :: "'v \<Rightarrow> 'v \<Rightarrow> bool"
    and step :: "'d \<Rightarrow> 'd \<Rightarrow> bool"
  assumes same_refl: "same v v"
    and same_trans: "same u v \<Longrightarrow> same v w \<Longrightarrow> same u w"
    and step_grows: "step d d' \<Longrightarrow> read d k = Some v \<Longrightarrow>
      \<exists>v'. read d' k = Some v' \<and> (version v < version v' \<or> version v = version v' \<and> same v v')"
begin

lemma history_grows:
  assumes "step\<^sup>*\<^sup>* d d'" and "read d k = Some v"
  shows "\<exists>v'. read d' k = Some v' \<and> (version v < version v' \<or> version v = version v' \<and> same v v')"
  using assms
proof (induction rule: rtranclp_induct)
  case base
  then show ?case using same_refl by auto
next
  case (step e e')
  then obtain u where u: "read e k = Some u" "version v < version u \<or> version v = version u \<and> same v u" by auto
  from step_grows [OF step.hyps(2) u(1)] obtain w where
    "read e' k = Some w" "version u < version w \<or> version u = version w \<and> same u w" by auto
  then show ?case using u(2) same_trans by fastforce
qed

lemma no_lost_update:
  assumes "step\<^sup>*\<^sup>* d d'" and "read d k = Some v" and "read d' k = Some v'" and "version v = version v'"
  shows "same v v'"
  using history_grows [OF assms(1,2)] assms(3,4) by auto

end

section \<open>How a transaction changes the database\<close>

text \<open>
  Retention may close the raw storage of a conversation without a new version; everything else of a
  conversation changes only with its version.
\<close>

definition same_dialogue :: "conversation_row \<Rightarrow> conversation_row \<Rightarrow> bool" where
  "same_dialogue r r' \<longleftrightarrow> close_retention (cv_state r) = close_retention (cv_state r')"

definition instant_before :: "int option \<Rightarrow> int \<Rightarrow> bool" where
  "instant_before limit now = (case limit of None \<Rightarrow> True | Some e \<Rightarrow> now < e)"

text \<open>The limit bounds the instants of the purges; without one they are arbitrary.\<close>

inductive store_step :: "storage_env \<Rightarrow> int option \<Rightarrow> store \<Rightarrow> store \<Rightarrow> bool" for env limit where
  commit: "follows (ci_previous i) (ci_result i) \<Longrightarrow> response_id (ci_response i) \<noteq> [] \<Longrightarrow>
    commit_turn env i db = Inr db' \<Longrightarrow> store_step env limit db db'"
| create: "fresh_start s t \<Longrightarrow> create_conversation s t db = Inr (c, db') \<Longrightarrow> store_step env limit db db'"
| profile: "store_step env limit db (save_profile now p db)"
| practice: "store_step env limit db (save_practice_summary i pr db)"
| purge: "instant_before limit now \<Longrightarrow> store_step env limit db (purge_expired_raw_data now db)"

inductive_cases store_stepE: "store_step env limit db db'"

definition conversation_of :: "store \<Rightarrow> string \<Rightarrow> conversation_row option" where
  "conversation_of db c = dict_get (db_conversations db) c"

lemma store_ok_same:
  "db_conversations db' = db_conversations db \<Longrightarrow> db_turns db' = db_turns db \<Longrightarrow>
   db_observations db' = db_observations db \<Longrightarrow> store_ok db' = store_ok db"
  by (simp add: store_ok_def conversation_ok_def current_ok_def answered_ok_def observations_of_def turn_by_id_def)

lemma store_step_ok: "store_step env limit db db' \<Longrightarrow> store_ok db \<Longrightarrow> store_ok db'"
proof (induction rule: store_step.induct)
  case (commit i db db') then show ?case using commit_store_ok by blast
next
  case (create s t db c db')
  from create.hyps(2) show ?case
  proof (cases rule: create_conversation_Inr)
    case 1 then show ?thesis using create.prems by simp
  next
    case (2 row)
    then show ?thesis using create_store_ok [OF create.prems _ create.hyps(1)] create.hyps(2) by simp
  qed
next
  case (profile db now p)
  have "store_ok (save_profile now p db) = store_ok db" by (rule store_ok_same) (simp_all add: save_profile_def)
  then show ?case using profile by simp
next
  case (practice db i pr)
  have "store_ok (save_practice_summary i pr db) = store_ok db"
    by (rule store_ok_same) (simp_all add: save_practice_summary_def)
  then show ?case using practice by simp
next
  case (purge now db) then show ?case by (simp add: purge_store_ok)
qed

lemma commit_version:
  assumes c: "commit_turn env i db = Inr db'" and f: "follows (ci_previous i) (ci_result i)"
  obtains conv where "conversation_of db (ds_conversation_id (ci_previous i)) = Some conv"
    "cv_version conv = ss_version (ci_previous i)"
    "\<And>k. conversation_of db' k = (if k = ds_conversation_id (ci_previous i)
        then Some (update_conversation (committed_state i) conv) else conversation_of db k)"
    "cv_version (update_conversation (committed_state i) conv) = cv_version conv + 1"
  using c
proof (rule commit_tables)
  fix conv row new b
  assume "dict_get (db_conversations db) (ds_conversation_id (ci_previous i)) = Some conv"
    "cv_version conv = ss_version (ci_previous i)"
    "db_conversations db' = AList.update (ds_conversation_id (ci_previous i))
       (update_conversation (committed_state i) conv) (db_conversations db)"
  then show thesis using f
    by (intro that [of conv]) (simp_all add: conversation_of_def update_conversation_def follows_def Let_def)
qed

lemma store_step_grows:
  assumes "store_step env limit db db'" and "conversation_of db k = Some r"
  shows "\<exists>r'. conversation_of db' k = Some r'
     \<and> (cv_version r < cv_version r' \<or> cv_version r = cv_version r' \<and> same_dialogue r r')"
  using assms
proof (induction rule: store_step.induct)
  case (commit i db db')
  from commit.hyps(3,1) show ?case
  proof (rule commit_version)
    fix conv assume "conversation_of db (ds_conversation_id (ci_previous i)) = Some conv"
      "\<And>k. conversation_of db' k = (if k = ds_conversation_id (ci_previous i)
        then Some (update_conversation (committed_state i) conv) else conversation_of db k)"
      "cv_version (update_conversation (committed_state i) conv) = cv_version conv + 1"
    then show ?thesis using commit.prems by (auto simp: same_dialogue_def)
  qed
next
  case (create s t db c db')
  from create.hyps(2) create.prems show ?case
    by (cases rule: create_conversation_Inr)
      (auto simp: same_dialogue_def conversation_of_def map_add_def dest: dict_get_Some_key)
next
  case (profile db now p) then show ?case by (simp add: save_profile_def conversation_of_def same_dialogue_def)
next
  case (practice db i pr)
  then show ?case by (simp add: save_practice_summary_def conversation_of_def same_dialogue_def)
next
  case (purge now db)
  then show ?case by (simp add: conversation_of_def purge_conversations same_dialogue_def)
qed

interpretation conversations: versioned conversation_of cv_version same_dialogue "store_step env limit" for env limit
proof
  show "same_dialogue v v" for v by (simp add: same_dialogue_def)
  show "same_dialogue u v \<Longrightarrow> same_dialogue v w \<Longrightarrow> same_dialogue u w" for u v w by (simp add: same_dialogue_def)
  show "store_step env limit d d' \<Longrightarrow> conversation_of d k = Some v \<Longrightarrow>
    \<exists>v'. conversation_of d' k = Some v' \<and> (cv_version v < cv_version v' \<or> cv_version v = cv_version v' \<and> same_dialogue v v')"
    for d d' k v by (rule store_step_grows)
qed

section \<open>Worlds\<close>

text \<open>
  A new request carries a response id (a UUID). The engines may answer differently at every moment,
  but they keep their contract.
\<close>

inductive world_step :: "storage_env \<Rightarrow> int option \<Rightarrow> world \<Rightarrow> world \<Rightarrow> bool" for env limit where
  arrive: "response_id r \<noteq> [] \<Longrightarrow> world_step env limit w (arrive c r w)"
| advance: "k < length (wd_requests w) \<Longrightarrow> engines_ok (mo_engines m) \<Longrightarrow>
    world_step env limit w (advance_request env m k w)"
| create: "fresh_start s t \<Longrightarrow> create_conversation s t (wd_store w) = Inr (c, db) \<Longrightarrow>
    world_step env limit w (w\<lparr>wd_store := db\<rparr>)"
| purge: "instant_before limit now \<Longrightarrow> world_step env limit w (w\<lparr>wd_store := purge_expired_raw_data now (wd_store w)\<rparr>)"

definition empty_world :: world where
  "empty_world = \<lparr>wd_store = empty_store, wd_requests = []\<rparr>"

definition reachable :: "storage_env \<Rightarrow> world \<Rightarrow> bool" where
  "reachable env w \<longleftrightarrow> (world_step env None)\<^sup>*\<^sup>* empty_world w"

text \<open>What a request remembers of the database it read.\<close>

definition seen :: "store \<Rightarrow> request \<Rightarrow> dialogue_state \<Rightarrow> turn_contract \<Rightarrow> bool" where
  "seen db q s t \<longleftrightarrow>
     ds_conversation_id s = rq_conversation q \<and> tn_id t = turn_id (rq_response q) \<and> ss_turn_id s = Some (tn_id t)
     \<and> (\<exists>r. conversation_of db (rq_conversation q) = Some r
          \<and> (ss_version s < cv_version r
             \<or> ss_version s = cv_version r \<and> close_retention s = close_retention (cv_state r)))"

definition request_ok :: "store \<Rightarrow> request \<Rightarrow> bool" where
  "request_ok db q \<longleftrightarrow> response_id (rq_response q) \<noteq> []
     \<and> (case rq_phase q of
          Running s t \<Rightarrow> seen db q s t
        | Writing s t r \<Rightarrow> seen db q s t \<and> follows s r
        | _ \<Rightarrow> True)"

definition world_ok :: "world \<Rightarrow> bool" where
  "world_ok w \<longleftrightarrow> store_ok (wd_store w) \<and> (\<forall>q \<in> set (wd_requests w). request_ok (wd_store w) q)"

lemma seen_phase [simp]: "seen db (q\<lparr>rq_phase := x\<rparr>) s t = seen db q s t"
  by (simp add: seen_def)

lemma seen_grows:
  assumes "(store_step env limit)\<^sup>*\<^sup>* db db'" and "seen db q s t"
  shows "seen db' q s t"
proof -
  obtain r where r: "conversation_of db (rq_conversation q) = Some r"
    "ss_version s < cv_version r \<or> ss_version s = cv_version r \<and> close_retention s = close_retention (cv_state r)"
    using assms(2) by (auto simp: seen_def)
  from conversations.history_grows [OF assms(1) r(1)] obtain r' where
    "conversation_of db' (rq_conversation q) = Some r'"
    "cv_version r < cv_version r' \<or> cv_version r = cv_version r' \<and> same_dialogue r r'" by auto
  then show ?thesis using assms(2) r(2) by (auto simp: seen_def same_dialogue_def)
qed

lemma request_ok_grows: "(store_step env limit)\<^sup>*\<^sup>* db db' \<Longrightarrow> request_ok db q \<Longrightarrow> request_ok db' q"
  unfolding request_ok_def using seen_grows by (auto split: phase.splits)

text \<open>A transition of a request changes the database by at most one of its transactions.\<close>

lemma load_state_fields [simp]:
  "ss_version (load_state now s) = ss_version s" "ss_turn_id (load_state now s) = ss_turn_id s"
  "ds_conversation_id (load_state now s) = ds_conversation_id s"
  "close_retention (load_state now s) = close_retention s"
  by (simp_all add: load_state_def)

lemma load_turn_Inr:
  "load_turn codec r = Inr t \<Longrightarrow> tn_id t = tn_id (tw_contract r) \<and> tn_input t = tn_input (tw_contract r)
     \<and> tn_status t = tn_status (tw_contract r)"
  unfolding load_turn_def by (auto simp: bindr_eq_Inr)

lemma active_turn_Inr:
  assumes "active_turn codec db s = Inr t"
  obtains r where "ss_turn_id s = Some (tw_turn_id r)" "turn_by_id db (tw_turn_id r) = Some r"
    "tw_conversation r = ds_conversation_id s" "load_turn codec r = Inr t"
proof -
  obtain i r where i: "ss_turn_id s = Some i" "turn_by_id db i = Some r"
    and r: "tw_conversation r = ds_conversation_id s" "load_turn codec r = Inr t"
    using assms unfolding active_turn_def by (auto split: option.splits if_splits)
  have "tw_turn_id r = i" using turn_by_id_Some [OF i(2)] by simp
  with i r that [of r] show thesis by simp
qed

lemma get_state_Inr:
  "get_state now db c = Inr s \<longleftrightarrow> (\<exists>r. conversation_of db c = Some r \<and> s = load_state now (cv_state r))"
  unfolding get_state_def conversation_of_def by (auto split: option.splits)

lemma load_turn_for_Inr:
  assumes "load_turn_for env m q db = Inr (s, t)"
  obtains r e w stored where "conversation_of db (rq_conversation q) = Some r" "s = load_state (mo_now m) (cv_state r)"
    "engine_for_state (mo_engines m) s = Inr e" "ss_turn_id s = Some (tw_turn_id w)"
    "turn_by_id db (tw_turn_id w) = Some w" "tw_conversation w = ds_conversation_id s"
    "load_turn (sv_codec env) w = Inr stored" "eg_anchor e s stored = Inr t"
    "tn_id t = turn_id (rq_response q)" "response_matches_input (kind (tn_input t)) (resp_type (rq_response q))"
    "validate_response_payload (tn_input t) (rq_response q) (ss_runtime s = VERDICT_V1) = Inr ()"
proof -
  obtain e stored where l: "get_state (mo_now m) db (rq_conversation q) = Inr s"
    "engine_for_state (mo_engines m) s = Inr e" "active_turn (sv_codec env) db s = Inr stored"
    "eg_anchor e s stored = Inr t" "tn_id t = turn_id (rq_response q)"
    "response_matches_input (kind (tn_input t)) (resp_type (rq_response q))"
    "validate_response_payload (tn_input t) (rq_response q) (ss_runtime s = VERDICT_V1) = Inr ()"
    using assms unfolding load_turn_for_def Let_def by (auto simp: bindr_eq_Inr split: if_splits)
  from l(1) obtain r where "conversation_of db (rq_conversation q) = Some r" "s = load_state (mo_now m) (cv_state r)"
    by (auto simp: get_state_Inr)
  with l(2-) that show thesis using l(3) by (elim active_turn_Inr)
qed

lemma run_engine_Inr:
  assumes "run_engine env m q db s t = Inr r" and "engines_ok (mo_engines m)"
  shows "follows s r"
proof -
  obtain e h where "engine_for_state (mo_engines m) s = Inr e" "eg_run e s (rq_response q) (tn_text t) h = Inr r"
    using assms(1) unfolding run_engine_def by (auto simp: bindr_eq_Inr)
  with engine_for_state_ok [OF assms(2)] show ?thesis by (auto dest: turn_engine.run_follows)
qed

lemma loaded_seen:
  assumes ok: "store_ok db" and es: "engines_ok (mo_engines m)" and l: "load_turn_for env m q db = Inr (s, t)"
  shows "seen db q s t"
  using l
proof (rule load_turn_for_Inr)
  fix r e w stored
  assume a: "conversation_of db (rq_conversation q) = Some r" "s = load_state (mo_now m) (cv_state r)"
    "engine_for_state (mo_engines m) s = Inr e" "ss_turn_id s = Some (tw_turn_id w)"
    "turn_by_id db (tw_turn_id w) = Some w" "load_turn (sv_codec env) w = Inr stored"
    "eg_anchor e s stored = Inr t" "tn_id t = turn_id (rq_response q)"
  have c: "conversation_ok db (rq_conversation q) r" using store_okD(3) [OF ok] a(1) by (simp add: conversation_of_def)
  have "answered_ok db w" using store_okD(4) [OF ok] turn_by_id_Some [OF a(5)] by simp
  then have "tn_id stored = tw_turn_id w" using load_turn_Inr [OF a(6)] by (simp add: answered_ok_def)
  moreover have "tn_id t = tn_id stored"
    using turn_engine.anchor_keeps [OF engine_for_state_ok [OF es a(3)] a(7)] by simp
  ultimately show ?thesis using a c by (simp add: seen_def conversation_ok_def)
qed

lemma request_step_store:
  assumes q: "request_ok db q" and e: "request_step env m q db = (p, db')"
  shows "(store_step env limit)\<^sup>*\<^sup>* db db'"
proof (cases "rq_phase q")
  case (Writing s t r)
  show ?thesis
  proof (cases "commit_turn env (commit_input_for m q s r) db")
    case (Inr db1)
    then have "store_step env limit db db1" using q Writing
      by (intro store_step.commit [of "commit_input_for m q s r"]) (simp_all add: request_ok_def commit_input_for_def)
    then show ?thesis using e Writing Inr by (auto simp: request_step_def)
  next
    case (Inl x)
    then show ?thesis using e Writing by (cases x) (simp_all add: request_step_def)
  qed
next
  case (Saving pr r)
  then show ?thesis using e store_step.profile [of env limit db] by (auto simp: request_step_def)
qed (use e in \<open>auto simp: request_step_def\<close>)

lemma replay_simple: "replay env m q db x = x \<or> (\<exists>t. replay env m q db x = Replied t True)
    \<or> (\<exists>e. replay env m q db x = Rejected e)"
  by (auto simp: replay_def split: sum.splits option.splits)

lemma request_step_ok:
  assumes ok: "store_ok db" and q: "request_ok db q" and es: "engines_ok (mo_engines m)"
    and e: "request_step env m q db = (p, db')"
  shows "request_ok db' (q\<lparr>rq_phase := p\<rparr>)"
proof -
  have rid: "response_id (rq_response q) \<noteq> []" using q by (simp add: request_ok_def)
  show ?thesis
  proof (cases "rq_phase q")
    case Received
    then show ?thesis using e rid replay_simple [of env m q db Loading]
      by (auto simp: request_step_def request_ok_def)
  next
    case Loading
    then show ?thesis using e rid loaded_seen [OF ok es, of env q]
      by (auto simp: request_step_def request_ok_def split: sum.splits)
  next
    case (Running s t)
    then have "seen db q s t" using q by (simp add: request_ok_def)
    then show ?thesis using e rid Running run_engine_Inr [OF _ es, of env q db s t]
      by (auto simp: request_step_def request_ok_def split: sum.splits)
  next
    case (Writing s t r)
    then show ?thesis using e rid
      by (auto simp: request_step_def request_ok_def split: sum.splits py_error.splits)
  next
    case Recovering
    then show ?thesis using e rid
        replay_simple [of env m q db "Rejected (PersistenceError ''duplicate_response_result_missing'')"]
      by (auto simp: request_step_def request_ok_def)
  next
    case (Crediting s r)
    then show ?thesis using e rid by (auto simp: request_step_def request_ok_def split: sum.splits)
  next
    case (Saving pr r)
    then show ?thesis using e rid by (auto simp: request_step_def request_ok_def)
  next
    case (Replied t b)
    then have "p = Replied t b" using e by (simp add: request_step_def)
    then show ?thesis using rid by (simp add: request_ok_def)
  next
    case (Rejected x)
    then have "p = Rejected x" using e by (simp add: request_step_def)
    then show ?thesis using rid by (simp add: request_ok_def)
  qed
qed

lemma store_steps_ok: "(store_step env limit)\<^sup>*\<^sup>* db db' \<Longrightarrow> store_ok db \<Longrightarrow> store_ok db'"
  by (induction rule: rtranclp_induct) (auto dest: store_step_ok)

lemma world_step_store:
  assumes "world_step env limit w w'" and "world_ok w"
  shows "(store_step env limit)\<^sup>*\<^sup>* (wd_store w) (wd_store w')"
  using assms
proof (induction rule: world_step.induct)
  case (arrive r w c) then show ?case by (simp add: arrive_def)
next
  case (advance k w m)
  then have q: "request_ok (wd_store w) (wd_requests w ! k)" by (simp add: world_ok_def)
  obtain p db where e: "request_step env m (wd_requests w ! k) (wd_store w) = (p, db)" by (cases "request_step env m (wd_requests w ! k) (wd_store w)")
  then show ?case using request_step_store [OF q e] by (simp add: advance_request_def Let_def)
next
  case (create s t w c db) then show ?case using store_step.create [of s t "wd_store w" c db env] by auto
next
  case (purge now w) then show ?case using store_step.purge [of limit now env "wd_store w"] by auto
qed

lemma world_step_ok:
  assumes "world_step env limit w w'" and "world_ok w"
  shows "world_ok w'"
proof -
  note st = world_step_store [OF assms]
  have ok: "store_ok (wd_store w')" using store_steps_ok [OF st] assms(2) by (simp add: world_ok_def)
  have old: "request_ok (wd_store w') q" if "q \<in> set (wd_requests w)" for q
    using request_ok_grows [OF st] assms(2) that by (simp add: world_ok_def)
  from assms have "\<forall>q \<in> set (wd_requests w'). request_ok (wd_store w') q" using old
  proof (induction rule: world_step.induct)
    case (arrive r w c)
    then show ?case by (auto simp: arrive_def request_ok_def)
  next
    case (advance k w m)
    obtain p db where e: "request_step env m (wd_requests w ! k) (wd_store w) = (p, db)" by (cases "request_step env m (wd_requests w ! k) (wd_store w)")
    have "request_ok db ((wd_requests w ! k)\<lparr>rq_phase := p\<rparr>)"
      using advance request_step_ok [OF _ _ _ e] by (simp add: world_ok_def)
    then show ?case using advance.prems(2) e set_update_subset_insert [of "wd_requests w" k]
      by (auto simp: advance_request_def Let_def)
  qed auto
  then show ?thesis using ok by (simp add: world_ok_def)
qed

lemma reachable_ok: "reachable env w \<Longrightarrow> world_ok w"
  unfolding reachable_def
proof (induction rule: rtranclp_induct)
  case base then show ?case by (simp add: world_ok_def empty_world_def empty_store_ok)
next
  case (step w w') then show ?case by (blast intro: world_step_ok)
qed

end
