(* ===== verification/Home_Engine.thy ===== *)
theory Home_Engine
  imports Turn_World Home_Session
begin

text \<open>
  The home runtime as an engine of the service: the analysis the reports read, the engine result, and
  the interpretation of the engine contract on it.
\<close>

section \<open>The analysis of a turn\<close>

definition basic_analysis :: "safety_category \<Rightarrow> response_category \<Rightarrow> difficulty_class \<Rightarrow> rat \<Rightarrow> utterance_analysis" where
  "basic_analysis s c d q =
     \<lparr>ua_safety = s, ua_category = c, ua_difficulty = d, ua_claims = [], ua_misconception = None,
      ua_bottleneck = ''unknown'', ua_confidence = q, ua_grounding_span = [], ua_note_candidate = []\<rparr>"

definition confidence_value :: "confidence_level \<Rightarrow> rat" where
  "confidence_value c = (case c of CONF_LOW \<Rightarrow> 35 / 100 | CONF_MEDIUM \<Rightarrow> 7 / 10 | CONF_HIGH \<Rightarrow> 1)"

definition learning_category :: "turn_semantics \<Rightarrow> response_category \<times> difficulty_class" where
  "learning_category m =
     (let r = sm_response m in
      if sm_source m = Asr_Empty then (Recognition_Or_Input_Error, Diff_Input)
      else if conversation_move r = MOVE_TASK_QUESTION then (Related_Vague, Diff_Unknown)
      else if sm_source m = Silence_Timeout then (No_Response, Diff_Expression)
      else if support_need r = SN_GENERAL_HELP then (Help_Request, Diff_Expression)
      else if support_need r = SN_EXPRESSION then (Expression_Block, Diff_Expression)
      else if support_need r \<in> {SN_CONCEPT, SN_BOTH} then
        (Conceptual_Block, if support_need r = SN_BOTH then Diff_Both else Diff_Concept)
      else if co_complete (ar_completion (sm_result m)) then (Correct_Full, Diff_Unknown)
      else if new_canonical_progress (sm_result m) then (Correct_Partial, Diff_Unknown)
      else if sm_structured_correct m = Some False \<or> (\<exists>c \<in> set (claims r). claim_verdict c = Incorrect)
        then (Conceptual_Error, Diff_Concept)
      else (Related_Vague, Diff_Expression))"

definition compatibility_analysis :: "turn_semantics \<Rightarrow> utterance_analysis" where
  "compatibility_analysis m =
     (if sm_source m = Deterministic_Fallback
        then basic_analysis Safety_Normal Recognition_Or_Input_Error Diff_Input 0
      else if sm_route m = Safety then
        basic_analysis (if utterance_class (sm_response m) = UC_SYSTEM_MANIPULATION
                        then Prompt_Injection else Dangerous) Unrelated_Response Diff_Engagement 1
      else if sm_route m = Bridge
        then basic_analysis Safety_Normal Unrelated_Response Diff_Engagement 1
      else (case learning_category m of
          (c, d) \<Rightarrow> basic_analysis Safety_Normal c d (confidence_value (confidence (sm_response m)))))"

section \<open>The engine\<close>

text \<open>
  What a run draws from outside: the understanding model, the speaker model, the resolved copy, the
  audit of the spoken line and the random part of new identifiers (\<^verbatim>\<open>new_id\<close>).
\<close>

record home_oracle =
  ho_env :: environment
  ho_gateway :: gateway
  ho_model_text :: "ustr option"
  ho_copy :: "string \<Rightarrow> ustr option"
  ho_audit :: speaker_audit
  ho_token :: string

definition home_turn_input :: "home_oracle \<Rightarrow> child_response \<Rightarrow> ustr \<Rightarrow> history_turn list \<Rightarrow> turn_input" where
  "home_turn_input h r question history =
     \<lparr>ti_response = r, ti_previous_question = question, ti_history = history,
      ti_gateway = ho_gateway h, ti_model_text = ho_model_text h, ti_resolved_copy = ho_copy h,
      ti_new_turn_id = ''turn_'' @ ho_token h\<rparr>"

definition home_note :: "home_oracle \<Rightarrow> note_update \<Rightarrow> identified_note" where
  "home_note h n = note_update.extend n \<lparr>nt_id = ''note_'' @ ho_token h\<rparr>"

definition home_result :: "home_oracle \<Rightarrow> dialogue_state \<Rightarrow> turn_result \<Rightarrow> engine_result" where
  "home_result h s x =
     (let a = compatibility_analysis (tr_semantics x) in
      \<lparr>er_state = session.extend (tr_state x) (session.more s), er_analysis = a,
       er_classifier = ua_category a, er_turn = tr_turn x,
       er_note = map_option (home_note h) (tn_note (tr_turn x)), er_runtime = ho_audit h,
       er_accepted = map (\<lambda>(k, v). (k, json_wire v)) (ss_verified_slots (tr_state x))\<rparr>)"

definition home_run ::
    "home_oracle \<Rightarrow> dialogue_state \<Rightarrow> child_response \<Rightarrow> ustr \<Rightarrow> history_turn list \<Rightarrow> engine_result res" where
  "home_run h s r question history =
     bindr (run_turn (ho_env h) (home_turn_input h r question history) (session.truncate s)) (\<lambda>x.
     Inr (home_result h s x))"

definition home_anchor :: "home_oracle \<Rightarrow> dialogue_state \<Rightarrow> turn_contract \<Rightarrow> turn_contract res" where
  "home_anchor h s t =
     (if tn_anchor t \<noteq> None \<or> tn_status t = COMPLETED then Inr t
      else bindr (resolve_state (en_hash (ho_env h)) (session.truncate s)) (\<lambda>(p, sn, l).
           bindr (question_contract_of (en_hash (ho_env h)) (session.truncate s) p l) (\<lambda>(q, s1).
           bindr (task_anchor_for p (qc_input q)) (\<lambda>a.
           Inr (t\<lparr>tn_anchor := Some a\<rparr>)))))"

definition home_engine :: "home_oracle \<Rightarrow> engine" where
  "home_engine h = \<lparr>eg_anchor = home_anchor h, eg_run = home_run h\<rparr>"

section \<open>The contract of the home engine\<close>

lemma session_extend_fields [simp]:
  "ss_version (session.extend x (session.more s)) = ss_version x"
  "ss_turn_id (session.extend x (session.more s)) = ss_turn_id x"
  "ss_runtime (session.extend x (session.more s)) = ss_runtime x"
  "ss_status (session.extend x (session.more s)) = ss_status x"
  "ss_task_index (session.extend x (session.more s)) = ss_task_index x"
  "ss_task_ids (session.extend x (session.more s)) = ss_task_ids x"
  "ss_pinned (session.extend x (session.more s)) = ss_pinned x"
  "ss_outcome (session.extend x (session.more s)) = ss_outcome x"
  "ss_reward (session.extend x (session.more s)) = ss_reward x"
  "ds_conversation_id (session.extend x (session.more s)) = ds_conversation_id s"
  "ds_learner_id (session.extend x (session.more s)) = ds_learner_id s"
  "ds_learning_session (session.extend x (session.more s)) = ds_learning_session s"
  "ds_round (session.extend x (session.more s)) = ds_round s"
  "ds_scene (session.extend x (session.more s)) = ds_scene s"
  "ds_raw_enabled (session.extend x (session.more s)) = ds_raw_enabled s"
  "ds_retention (session.extend x (session.more s)) = ds_retention s"
  "ds_raw_until (session.extend x (session.more s)) = ds_raw_until s"
  for s :: dialogue_state
  by (cases s; simp add: session.extend_def)+

lemma session_truncate_fields [simp]:
  "ss_version (session.truncate s) = ss_version s" "ss_runtime (session.truncate s) = ss_runtime s"
  "ss_turn_id (session.truncate s) = ss_turn_id s" "ss_status (session.truncate s) = ss_status s"
  "ss_pinned (session.truncate s) = ss_pinned s" "ss_expression (session.truncate s) = ss_expression s"
  "ss_task_index (session.truncate s) = ss_task_index s" "ss_task_ids (session.truncate s) = ss_task_ids s"
  by (simp_all add: session.truncate_def)

lemma session_truncate_extend [simp]: "session.truncate (session.extend x m) = x"
  by (cases x) (simp add: session.truncate_def session.extend_def)

lemma build_turn_contract:
  "build_turn H s p l words i = Inr (t, s1) \<Longrightarrow> tn_id t = i \<and> tn_text t = words \<and> check_all (mormi_checks words) = Inr ()"
  unfolding build_turn_def by (auto simp: bindr_eq_Inr split: prod.splits)

lemma compose_turn:
  assumes "compose_execution H s p m words i = Inr r"
  shows "ss_turn_id (tr_state r) = Some (tn_id (tr_turn r)) \<and> tn_id (tr_turn r) = i
    \<and> check_all (mormi_checks (tn_text (tr_turn r))) = Inr ()"
proof -
  obtain t s1 where b: "build_turn H s p (ar_ledger (sm_result m)) words i = Inr (t, s1)"
    and r: "r = \<lparr>tr_state = s1\<lparr>ss_turn_id := Some (tn_id t)\<rparr>, tr_turn = t, tr_semantics = m\<rparr>"
    using assms by (auto simp: compose_execution_def bindr_eq_Inr split: prod.splits)
  show ?thesis using build_turn_contract [OF b] r by simp
qed

lemma run_turn_contract:
  assumes "run_turn env i s = Inr r"
  shows "ss_turn_id (tr_state r) = Some (tn_id (tr_turn r))" "tn_id (tr_turn r) = ti_new_turn_id i"
    "check_all (mormi_checks (tn_text (tr_turn r))) = Inr ()"
proof -
  obtain s1 p m words where "compose_execution (en_hash env) s1 p m words (ti_new_turn_id i) = Inr r"
    using assms unfolding run_turn_def finish_execution_def continue_execution_def
    by (auto simp: bindr_eq_Inr split: if_splits prod.splits)
  from compose_turn [OF this]
  show "ss_turn_id (tr_state r) = Some (tn_id (tr_turn r))" "tn_id (tr_turn r) = ti_new_turn_id i"
    "check_all (mormi_checks (tn_text (tr_turn r))) = Inr ()" by simp_all
qed

lemma run_turn_version:
  assumes "run_turn env i s = Inr r"
  shows "ss_version (tr_state r) = ss_version s + 1" "identity_view (tr_state r) = identity_view s"
proof -
  obtain p sn l m s1 s2 where a: "apply_execution (turn_start s) p m (ss_hint s) = Inr s1"
    and c: "if co_complete (ar_completion (sm_result m)) then complete_state s1 p m = Inr s2 else s2 = s1"
    and w: "reworded s2 (tr_state r)"
    using run_turn_Inr [OF assms] by metis
  have "ss_version s2 = ss_version s1" "identity_view s2 = identity_view s1"
    using c complete_state_effect(3,5) [of s1 p m s2] by (auto split: if_splits)
  then show "ss_version (tr_state r) = ss_version s + 1" "identity_view (tr_state r) = identity_view s"
    using reworded_fields(3,5) [OF w] apply_execution_effect(4,5) [OF a] by simp_all
qed

lemma home_run_Inr:
  assumes "home_run h s r question history = Inr x"
  obtains y where "run_turn (ho_env h) (home_turn_input h r question history) (session.truncate s) = Inr y"
    "x = home_result h s y"
  using assms unfolding home_run_def by (auto simp: bindr_eq_Inr)

lemma home_run_follows:
  assumes "home_run h s q question history = Inr r"
  shows "follows s r"
  using assms
proof (rule home_run_Inr)
  fix y assume y: "run_turn (ho_env h) (home_turn_input h q question history) (session.truncate s) = Inr y"
    and r: "r = home_result h s y"
  have "ss_runtime (tr_state y) = ss_runtime s" using run_turn_version(2) [OF y] by (simp add: identity_view_def)
  then show ?thesis using run_turn_contract [OF y] run_turn_version(1) [OF y]
    by (simp add: follows_def Let_def r home_result_def home_turn_input_def)
qed

lemma home_anchor_keeps: "home_anchor h s t = Inr t' \<Longrightarrow> tn_id t' = tn_id t \<and> tn_input t' = tn_input t"
  unfolding home_anchor_def by (auto simp: bindr_eq_Inr split: if_splits)

interpretation home: turn_engine "home_engine h" for h
  by unfold_locales (auto simp: home_engine_def intro: home_run_follows dest: home_anchor_keeps)

text \<open>A service without the other two engines: a conversation they would run is refused.\<close>

definition no_engine :: engine where
  "no_engine = \<lparr>eg_anchor = (\<lambda>s t. Inl (RuntimeError ''no engine'')),
     eg_run = (\<lambda>s r q h. Inl (RuntimeError ''no engine''))\<rparr>"

definition home_engines :: "home_oracle \<Rightarrow> engines" where
  "home_engines h = \<lparr>es_legacy = no_engine, es_home = Some (home_engine h), es_life = None\<rparr>"

interpretation absent: turn_engine no_engine
  by unfold_locales (simp_all add: no_engine_def)

lemma home_engines_ok: "engines_ok (home_engines h)"
  by (simp add: engines_ok_def home_engines_def home.turn_engine_axioms absent.turn_engine_axioms)

end
