(* ===== verification/Service_Laws.thy ===== *)
theory Service_Laws
  imports Home_Engine
begin

text \<open>
  What a committed turn leaves for later: the stored result that replays an answer, and the part of
  the database that no child text reaches.
\<close>

section \<open>Replays\<close>

definition replayable ::
    "codec \<Rightarrow> store \<Rightarrow> string \<Rightarrow> string \<Rightarrow> int option \<Rightarrow> turn_contract \<Rightarrow> bool" where
  "replayable codec db c rid expiry u \<longleftrightarrow> tn_id u \<noteq> []
     \<and> (\<exists>w \<in> set (db_turns db). tw_conversation w = c \<and> tw_response w = Some rid
          \<and> tw_expires w = expiry \<and> tw_result w = Some (tn_id u))
     \<and> (\<exists>w. turn_by_id db (tn_id u) = Some w \<and> load_turn codec w = Inr u)"

lemma load_new_turn:
  assumes "new_turn_row s t = Inr row" and "check_all (mormi_checks (tn_text t)) = Inr ()"
  shows "load_turn codec row = Inr t"
proof -
  have q: "store_text (tn_text t) \<noteq> []" by (simp add: store_text_def plain_prefix_def)
  have "tw_question row = Some (store_text (tn_text t))" "tw_contract row = stored_turn_contract t"
    using new_turn_row_Inr [OF assms(1)] by simp_all
  then show ?thesis using assms(2) q by (simp add: load_turn_def stored_turn_contract_def)
qed

lemma load_turn_same:
  "tw_question w' = tw_question w \<Longrightarrow> tw_contract w' = tw_contract w \<Longrightarrow> load_turn codec w' = load_turn codec w"
  by (simp add: load_turn_def)

definition answer_expiry :: "storage_env \<Rightarrow> commit_input \<Rightarrow> int option" where
  "answer_expiry env i = (if ds_retention (ci_previous i) = Permanent then None
     else Some (ci_now i + int (sv_idempotency_days env) * day_micros))"

lemma commit_replayable:
  assumes ok: "store_ok db" and f: "follows (ci_previous i) (ci_result i)" and c: "commit_turn env i db = Inr db'"
  shows "replayable codec db' (ds_conversation_id (ci_previous i)) (response_id (ci_response i))
     (answer_expiry env i) (er_turn (ci_result i))"
  using c
proof (rule commit_tables)
  fix conv row new b
  let ?t = "turn_id (ci_response i)"
  assume row: "turn_by_id db ?t = Some row" "tw_conversation row = ds_conversation_id (ci_previous i)"
    and n: "new_turn_row (committed_state i) (er_turn (ci_result i)) = Inr new"
    and cf: "check_all (commit_conflicts db i) = Inr ()"
    and ts: "db_turns db' = map (\<lambda>r. if tw_turn_id r = ?t then answer_turn env i r else r) (db_turns db) @ [new]"
  have f': "tn_id (er_turn (ci_result i)) \<noteq> []" "check_all (mormi_checks (tn_text (er_turn (ci_result i)))) = Inr ()"
    using f by (simp_all add: follows_def Let_def)
  have r: "row \<in> set (db_turns db)" "tw_turn_id row = ?t" using turn_by_id_Some [OF row(1)] by simp_all
  have "answer_turn env i row \<in> set (db_turns db')" using r by (force simp: ts)
  moreover have "tw_expires (answer_turn env i row) = answer_expiry env i"
    by (simp add: answer_turn_def answer_expiry_def)
  moreover have "tw_turn_id new = tn_id (er_turn (ci_result i))" using new_turn_row_Inr [OF n] by simp
  then have "turn_by_id db' (tn_id (er_turn (ci_result i))) = Some new"
    using commit_turn_by_id [OF ts answer_turn_fields(1) store_okD(2) [OF ok]] commit_fresh_turn [OF cf] by simp
  ultimately show ?thesis
    unfolding replayable_def using f'(1) row(2) load_new_turn [OF n f'(2)]
    by (intro conjI bexI [of _ "answer_turn env i row"] exI [of _ new]) simp_all
qed

lemma commit_keeps_replayable:
  assumes ok: "store_ok db" and r: "replayable codec db c rid expiry u" and rid: "rid \<noteq> []"
    and k: "commit_turn env i db = Inr db'"
  shows "replayable codec db' c rid expiry u"
  using k
proof (rule commit_tables)
  fix conv row new b
  let ?t = "turn_id (ci_response i)"
  assume row: "turn_by_id db ?t = Some row" "tw_response row = None \<or> tw_response row = Some []"
    and n: "new_turn_row (committed_state i) (er_turn (ci_result i)) = Inr new"
    and cf: "check_all (commit_conflicts db i) = Inr ()"
    and ts: "db_turns db' = map (\<lambda>r. if tw_turn_id r = ?t then answer_turn env i r else r) (db_turns db) @ [new]"
  obtain w v where w: "w \<in> set (db_turns db)" "tw_conversation w = c" "tw_response w = Some rid"
      "tw_expires w = expiry" "tw_result w = Some (tn_id u)"
    and v: "turn_by_id db (tn_id u) = Some v" "load_turn codec v = Inr u" and u: "tn_id u \<noteq> []"
    using r by (auto simp: replayable_def)
  have "tw_turn_id w \<noteq> ?t"
  proof
    assume "tw_turn_id w = ?t"
    then have "turn_by_id db ?t = Some w" using turn_by_id_unique [OF store_okD(2) [OF ok] w(1)] by simp
    then show False using row w(3) rid by auto
  qed
  then have "w \<in> set (db_turns db')" using w(1) by (force simp: ts)
  moreover have nid: "tw_turn_id new = tn_id (er_turn (ci_result i))" using new_turn_row_Inr [OF n] by simp
  have "tn_id u \<noteq> tn_id (er_turn (ci_result i))"
    using commit_fresh_turn [OF cf] turn_by_id_Some [OF v(1)] imageI [of v "set (db_turns db)" tw_turn_id] by auto
  then have "turn_by_id db' (tn_id u) = Some (if tw_turn_id v = ?t then answer_turn env i v else v)"
    using commit_turn_by_id [OF ts answer_turn_fields(1) store_okD(2) [OF ok], of "tn_id u"] v(1)
      commit_fresh_turn [OF cf] nid by simp
  moreover have "load_turn codec (if tw_turn_id v = ?t then answer_turn env i v else v) = Inr u"
    using v(2) load_turn_same [of "answer_turn env i v" v codec] by simp
  ultimately show ?thesis unfolding replayable_def using w u by blast
qed

lemma replayable_same_turns: "db_turns db' = db_turns db \<Longrightarrow> replayable codec db' c rid e u = replayable codec db c rid e u"
  by (simp add: replayable_def turn_by_id_def)

lemma purge_keeps_replayable:
  assumes r: "replayable codec db c rid expiry u" and b: "instant_before expiry now"
  shows "replayable codec (purge_expired_raw_data now db) c rid expiry u"
proof -
  let ?f = "\<lambda>r. purge_turn (due_conversations now db) (forget_response now r)"
  obtain w v where w: "w \<in> set (db_turns db)" "tw_conversation w = c" "tw_response w = Some rid"
      "tw_expires w = expiry" "tw_result w = Some (tn_id u)"
    and v: "turn_by_id db (tn_id u) = Some v" "load_turn codec v = Inr u" and u: "tn_id u \<noteq> []"
    using r by (auto simp: replayable_def)
  have "forget_response now w = w" using b w(4) by (auto simp: forget_response_def instant_before_def split: option.splits)
  then have "?f w = purge_turn (due_conversations now db) w" by simp
  then have "tw_response (?f w) = Some rid" "tw_expires (?f w) = expiry" "tw_result (?f w) = Some (tn_id u)"
    using w by (simp_all add: purge_turn_def)
  moreover have "?f w \<in> set (db_turns (purge_expired_raw_data now db))"
    using w(1) by (auto simp: purge_expired_raw_data_def Let_def)
  moreover have "turn_by_id (purge_expired_raw_data now db) (tn_id u) = Some (?f v)"
    using v(1) by (simp add: purge_turn_by_id)
  moreover have "load_turn codec (?f v) = Inr u" using v(2) load_turn_same [of "?f v" v codec] by simp
  ultimately show ?thesis unfolding replayable_def using w(2) u by (metis purge_turn_fields(2))
qed

lemma create_keeps_replayable:
  assumes "create_conversation s t db = Inr (k, db')" and "replayable codec db c rid expiry u"
  shows "replayable codec db' c rid expiry u"
  using assms(1)
proof (cases rule: create_conversation_Inr)
  case 1 then show ?thesis using assms(2) by simp
next
  case (2 row)
  then have "db_turns db' = db_turns db @ [row]" by simp
  then show ?thesis using assms(2) unfolding replayable_def turn_by_id_def by auto (metis find_append_Some)
qed

lemma store_step_replayable:
  assumes "store_step env expiry db db'" and "store_ok db" and "replayable codec db c rid expiry u" and "rid \<noteq> []"
  shows "replayable codec db' c rid expiry u"
  using assms
proof (induction rule: store_step.induct)
  case (commit i db db') then show ?case using commit_keeps_replayable by blast
next
  case (create s t db c db') then show ?case using create_keeps_replayable by blast
next
  case (profile db now p)
  then show ?case using replayable_same_turns [of "save_profile now p db" db] by (simp add: save_profile_def)
next
  case (practice db i pr)
  then show ?case using replayable_same_turns [of "save_practice_summary i pr db" db]
    by (simp add: save_practice_summary_def split: if_splits)
next
  case (purge now db) then show ?case using purge_keeps_replayable by blast
qed

lemma world_steps_replayable:
  assumes "(world_step env expiry)\<^sup>*\<^sup>* w w'" and "world_ok w" and "replayable codec (wd_store w) c rid expiry u" and "rid \<noteq> []"
  shows "world_ok w' \<and> replayable codec (wd_store w') c rid expiry u"
  using assms
proof (induction rule: rtranclp_induct)
  case (step v v')
  then have v: "world_ok v" "replayable codec (wd_store v) c rid expiry u" by simp_all
  have "replayable codec db' c rid expiry u \<and> store_ok db'"
    if "(store_step env expiry)\<^sup>*\<^sup>* (wd_store v) db'" for db'
    using that
  proof (induction rule: rtranclp_induct)
    case base then show ?case using v by (simp add: world_ok_def)
  next
    case (step a b) then show ?case using store_step_replayable store_step_ok assms(4) by blast
  qed
  then show ?case using world_step_store [OF step.hyps(2) v(1)] world_step_ok [OF step.hyps(2) v(1)] by blast
qed simp

text \<open>A stored answer is found: response ids are unique in a conversation.\<close>

lemma replayable_found:
  assumes ok: "store_ok db" and r: "replayable codec db c rid expiry u" and b: "instant_before expiry now"
  shows "response_exists codec now db c rid = Inr (Some u)"
proof -
  obtain w v where w: "w \<in> set (db_turns db)" "tw_conversation w = c" "tw_response w = Some rid"
      "tw_expires w = expiry" "tw_result w = Some (tn_id u)"
    and v: "turn_by_id db (tn_id u) = Some v" "load_turn codec v = Inr u" and u: "tn_id u \<noteq> []"
    using r by (auto simp: replayable_def)
  have a: "answered_with now c rid w"
    using w b by (simp add: answered_with_def instant_before_def split: option.splits)
  then obtain x where x: "List.find (answered_with now c rid) (db_turns db) = Some x"
    using w(1) by (cases "List.find (answered_with now c rid) (db_turns db)") (auto simp: find_None_iff)
  have x': "x \<in> set (db_turns db)" "answered_with now c rid x" using find_SomeD [OF x] by simp_all
  have "\<exists>b \<in> set (db_observations db). ob_source_turn b = tw_turn_id y \<and> ob_conversation b = c \<and> ob_response b = Some rid"
    if "y \<in> set (db_turns db)" "answered_with now c rid y" for y
    using store_okD(4) [OF ok that(1)] that(2) by (auto simp: answered_ok_def answered_with_def)
  from this [OF w(1) a] this [OF x'] obtain b1 b2 where
    b: "b1 \<in> set (db_observations db)" "ob_source_turn b1 = tw_turn_id w" "ob_conversation b1 = c" "ob_response b1 = Some rid"
    "b2 \<in> set (db_observations db)" "ob_source_turn b2 = tw_turn_id x" "ob_conversation b2 = c" "ob_response b2 = Some rid"
    by blast
  have "b1 = b2" using store_okD(6) [OF ok] b by (auto simp: distinct_map inj_on_def)
  then have "x = w"
    using b turn_by_id_unique [OF store_okD(2) [OF ok] w(1)] turn_by_id_unique [OF store_okD(2) [OF ok] x'(1)] by auto
  then show ?thesis using x w(5) u v by (simp add: response_exists_def)
qed

end
