(* ===== verification/Retention_Laws.thy ===== *)
theory Retention_Laws
  imports Service_Laws
begin

text \<open>
  Child text in the database. Words of the child live in two raw columns: the stored answer of a turn
  and the evidence span of a claim. \<open>redact\<close> takes the words out of a commit and
  \<open>erase\<close> takes the raw columns out of a database; a commit and its redaction leave the same
  database but for those columns.
\<close>

section \<open>Redaction\<close>

definition redact_analysis :: "utterance_analysis \<Rightarrow> utterance_analysis" where
  "redact_analysis a = a\<lparr>ua_claims := map (\<lambda>c. c\<lparr>sc_span := []\<rparr>) (ua_claims a),
     ua_grounding_span := [], ua_note_candidate := []\<rparr>"

definition redact :: "commit_input \<Rightarrow> commit_input" where
  "redact i = i\<lparr>ci_response := (ci_response i)\<lparr>resp_text := None\<rparr>,
     ci_result := (ci_result i)\<lparr>er_analysis := redact_analysis (er_analysis (ci_result i))\<rparr>\<rparr>"

definition erase_turn :: "turn_row \<Rightarrow> turn_row" where
  "erase_turn r = r\<lparr>tw_raw := None, tw_structured := None\<rparr>"

definition erase_claim :: "claim_row \<Rightarrow> claim_row" where
  "erase_claim c = c\<lparr>cl_span := None\<rparr>"

definition erase :: "store \<Rightarrow> store" where
  "erase db = db\<lparr>db_turns := map erase_turn (db_turns db), db_claims := map erase_claim (db_claims db)\<rparr>"

lemma redact_fields [simp]:
  "ci_now (redact i) = ci_now i" "ci_previous (redact i) = ci_previous i"
  "ci_observation_id (redact i) = ci_observation_id i" "ci_outcome_id (redact i) = ci_outcome_id i"
  "ci_event_id (redact i) = ci_event_id i" "ci_note_event_id (redact i) = ci_note_event_id i"
  "turn_id (ci_response (redact i)) = turn_id (ci_response i)"
  "response_id (ci_response (redact i)) = response_id (ci_response i)"
  "resp_type (ci_response (redact i)) = resp_type (ci_response i)"
  "er_state (ci_result (redact i)) = er_state (ci_result i)" "er_turn (ci_result (redact i)) = er_turn (ci_result i)"
  "er_note (ci_result (redact i)) = er_note (ci_result i)" "er_runtime (ci_result (redact i)) = er_runtime (ci_result i)"
  "er_accepted (ci_result (redact i)) = er_accepted (ci_result i)"
  "er_classifier (ci_result (redact i)) = er_classifier (ci_result i)"
  "er_analysis (ci_result (redact i)) = redact_analysis (er_analysis (ci_result i))"
  by (simp_all add: redact_def)

lemma redact_analysis_fields [simp]:
  "ua_safety (redact_analysis a) = ua_safety a" "ua_category (redact_analysis a) = ua_category a"
  "ua_difficulty (redact_analysis a) = ua_difficulty a" "ua_misconception (redact_analysis a) = ua_misconception a"
  "ua_bottleneck (redact_analysis a) = ua_bottleneck a" "ua_confidence (redact_analysis a) = ua_confidence a"
  by (simp_all add: redact_analysis_def)

lemma redact_commit_parts [simp]:
  "committed_state (redact i) = committed_state i" "raw_allowed (redact i) = raw_allowed i"
  "commit_guards db (redact i) = commit_guards db i" "commit_conflicts db (redact i) = commit_conflicts db i"
  "observation_record (redact i) task tid row = observation_record i task tid row"
  by (simp_all add: committed_state_def raw_allowed_def commit_guards_def commit_conflicts_def
      observation_record_def safe_misconception_def safe_bottleneck_def Let_def cong: option.case_cong if_cong)

lemma claim_without_span [simp]:
  "accepted_claim_value d (c\<lparr>sc_span := []\<rparr>) = accepted_claim_value d c"
  "claim_accepted accepted slot (c\<lparr>sc_span := []\<rparr>) = claim_accepted accepted slot c"
  by (simp_all add: claim_accepted_def accepted_claim_value_def cong: option.case_cong)

lemma erase_claim_record:
  "erase_claim (claim_record accepted verified raw observation task (c\<lparr>sc_span := []\<rparr>))
     = erase_claim (claim_record accepted verified raw observation task c)"
  by (simp add: claim_record_def erase_claim_def Let_def cong: option.case_cong)

lemma redact_claims: "map erase_claim (claim_records (redact i) task) = map erase_claim (claim_records i task)"
  by (simp add: claim_records_def redact_analysis_def comp_def erase_claim_record)

lemma redact_claims_closed: "\<not> raw_allowed i \<Longrightarrow> claim_records (redact i) task = claim_records i task"
  by (simp add: claim_records_def redact_analysis_def comp_def claim_record_def Let_def cong: option.case_cong)

section \<open>What does not read the raw columns\<close>

lemma claims_payload_erased:
  "map erase_claim cs = map erase_claim cs' \<Longrightarrow> map claim_payload cs = map claim_payload cs'"
proof (induction cs arbitrary: cs')
  case (Cons c cs)
  then obtain d ds where cs': "cs' = d # ds" by (cases cs') auto
  have "claim_payload x = claim_payload (erase_claim x)" for x by (simp add: claim_payload_def erase_claim_def)
  then have "claim_payload c = claim_payload d" using Cons.prems cs' by (metis list.inject list.simps(9))
  then show ?case using Cons cs' by simp
qed simp

lemma claimed_slots_erased: "claimed_slots (map erase_claim cs) d = claimed_slots cs d"
proof -
  have f: "filter cl_verified (map erase_claim cs) = map erase_claim (filter cl_verified cs)"
    by (induction cs) (simp_all add: erase_claim_def)
  show ?thesis unfolding claimed_slots_def f by (simp add: foldl_map erase_claim_def cong: option.case_cong)
qed

lemma outcome_slots_erased:
  "map erase_claim cs = map erase_claim cs' \<Longrightarrow> outcome_slots p n cs = outcome_slots p n cs'"
  using claimed_slots_erased [of cs] claimed_slots_erased [of cs'] by (simp add: outcome_slots_def)

lemma task_outcome_erased:
  assumes "db_observations a = db_observations a'" and "map erase_claim cs = map erase_claim cs'"
  shows "task_outcome a (redact i) b cs = task_outcome a' i b cs'"
  using outcome_slots_erased [OF assms(2)] assms(1)
  by (simp add: task_outcome_def task_observations_def Let_def)

lemma observation_event_erased:
  "map erase_claim cs = map erase_claim cs' \<Longrightarrow> observation_event (redact i) b cs out = observation_event i b cs' out"
  using claims_payload_erased [of cs cs'] by (simp add: observation_event_def observation_payload_def)

lemma newly_verified_erased:
  "map erase_claim (db_claims a) = map erase_claim (db_claims a') \<Longrightarrow>
   newly_verified_slots a slots b = newly_verified_slots a' slots b"
proof -
  let ?P = "\<lambda>c. cl_observation c = b \<and> cl_verified c \<and> cl_newly c \<and> cl_slot c \<in> set slots"
  have "map cl_slot (filter ?P (map erase_claim cs)) = map cl_slot (filter ?P cs)" for cs
    by (induction cs) (simp_all add: erase_claim_def)
  note e = this
  assume "map erase_claim (db_claims a) = map erase_claim (db_claims a')"
  then have "map cl_slot (filter ?P (map erase_claim (db_claims a))) = map cl_slot (filter ?P (map erase_claim (db_claims a')))"
    by simp
  then show ?thesis unfolding newly_verified_slots_def e .
qed

lemma note_links_erased:
  assumes "db_observations a = db_observations a'" and "map erase_claim (db_claims a) = map erase_claim (db_claims a')"
  shows "note_links a p n task note = note_links a' p n task note"
proof -
  have t: "task_observations a c k = task_observations a' c k" for c k
    using assms(1) by (simp add: task_observations_def)
  have "home_links a n note = home_links a' n note" by (simp add: home_links_def t cong: option.case_cong task_pack.case_cong)
  moreover have "legacy_links a p task note = legacy_links a' p task note"
    using newly_verified_erased [OF assms(2)] by (simp add: legacy_links_def t)
  ultimately show ?thesis by (simp add: note_links_def)
qed

section \<open>A commit and its redaction\<close>

lemma map_res_bindr: "map_sum id f (bindr m k) = bindr m (\<lambda>x. map_sum id f (k x))"
  by (cases m) simp_all

lemma bindr_cong: "m = m' \<Longrightarrow> (\<And>x. m' = Inr x \<Longrightarrow> k x = k' x) \<Longrightarrow> bindr m k = bindr m' k'"
  by (cases m') simp_all

lemma star_note_redact [simp]: "star_note_event (redact i) b n ls = star_note_event i b n ls"
  by (simp add: star_note_event_def)

lemma erase_write_turn:
  "map erase_turn (db_turns (write_turn env (redact i) conv new db)) = map erase_turn (db_turns (write_turn env i conv new db))"
  by (simp add: write_turn_def erase_turn_def answer_turn_def)

lemma commit_redacted: "map_sum id erase (commit_turn env (redact i) db) = map_sum id erase (commit_turn env i db)"
proof -
  have w: "erase ((write_turn env (redact i) conv new db)\<lparr>db_observations := os, db_claims := db_claims db @ claim_records (redact i) task,
              db_notes := ns, db_links := ls, db_outcomes := qs, db_events := es\<rparr>)
         = erase ((write_turn env i conv new db)\<lparr>db_observations := os, db_claims := db_claims db @ claim_records i task,
              db_notes := ns, db_links := ls, db_outcomes := qs, db_events := es\<rparr>)" for conv new os task ns ls qs es
    using erase_write_turn [of env i conv new db] redact_claims [of i task]
    by (simp add: erase_def write_turn_def)
  have out: "task_outcome ((write_turn env (redact i) conv new db)\<lparr>db_observations := os, db_claims := db_claims db @ claim_records (redact i) task\<rparr>)
        (redact i) b (claim_records (redact i) task)
      = task_outcome ((write_turn env i conv new db)\<lparr>db_observations := os, db_claims := db_claims db @ claim_records i task\<rparr>)
        i b (claim_records i task)" for conv new os task b
    by (rule task_outcome_erased) (simp_all add: redact_claims)
  have lk: "note_links ((write_turn env (redact i) conv new db)\<lparr>db_observations := os, db_claims := db_claims db @ claim_records (redact i) task\<rparr>) p n task k
      = note_links ((write_turn env i conv new db)\<lparr>db_observations := os, db_claims := db_claims db @ claim_records i task\<rparr>) p n task k"
    for conv new os task p n k
    by (rule note_links_erased) (simp_all add: redact_claims write_turn_def)
  have ev: "observation_event (redact i) b (claim_records (redact i) task) x = observation_event i b (claim_records i task) x"
    for b task x by (rule observation_event_erased [OF redact_claims])
  show ?thesis
    unfolding commit_turn_def map_res_bindr redact_commit_parts redact_fields case_prod_beta
    apply (intro bindr_cong refl, unfold Let_def map_res_bindr redact_commit_parts, intro bindr_cong refl)
    subgoal by (simp only: lk)
    subgoal unfolding out ev star_note_redact by (simp only: if_distrib [of "map_sum id erase"] map_sum.simps w)
    done
qed

section \<open>Closed storage\<close>

lemma write_turn_closed: "\<not> raw_allowed i \<Longrightarrow> write_turn env (redact i) conv new db = write_turn env i conv new db"
  by (simp add: write_turn_def answer_turn_def)

lemma commit_closed:
  assumes "\<not> raw_allowed i"
  shows "commit_turn env (redact i) db = commit_turn env i db"
proof -
  have c: "claim_records (redact i) task = claim_records i task" for task using assms by (rule redact_claims_closed)
  have o: "task_outcome d (redact i) b cs = task_outcome d i b cs" for d b cs by (rule task_outcome_erased) simp_all
  have e: "observation_event (redact i) b cs x = observation_event i b cs x" for b cs x
    by (rule observation_event_erased) simp
  show ?thesis
    unfolding commit_turn_def redact_commit_parts redact_fields write_turn_closed [OF assms] c o e star_note_redact ..
qed

lemma committed_closed:
  assumes "ci_previous i = load_state t (cv_state conv)" and "raw_due (ci_now i) conv" and "t \<le> ci_now i"
    and "cv_raw_until conv = ds_raw_until (cv_state conv)" and "follows (ci_previous i) (ci_result i)"
  shows "ds_raw_until (committed_state i) = None"
proof (cases "retention_expired (ci_now i) (ci_previous i)")
  case True
  then show ?thesis by (simp add: committed_state_def Let_def)
next
  case False
  then have "ds_raw_until (ci_previous i) = None"
    using assms(1-4) by (auto simp: load_state_def retention_expired_def raw_due_def split: if_splits option.splits)
  then show ?thesis using False assms(5) by (simp add: committed_state_def Let_def follows_def)
qed

lemma not_due_kept:
  assumes "dict_ok (db_conversations db)" and "dict_get (db_conversations db) c = Some r" and "cv_raw_until r = None"
  shows "c \<notin> due_conversations now db"
proof
  assume "c \<in> due_conversations now db"
  then obtain r' where "(c, r') \<in> set (db_conversations db)" "raw_due now r'" by (auto simp: due_conversations_def)
  then show False using dict_in_get [OF assms(1)] assms(2,3) by (force simp: raw_due_def)
qed

end
