(* ===== verification/Service_Demo.thy ===== *)
theory Service_Demo
  imports Retention_Laws Home_Demo
begin

text \<open>
  A concrete service: one conversation of a legacy engine that repeats its question, and two requests
  that answer the same turn at the same time.
\<close>

definition demo_task :: task_definition where
  "demo_task = \<lparr>td_id = ''home_teaching'', td_skill = ''skill_1'',
     td_slots = [(''answer'', \<lparr>sd_role = ''conclusion'', sd_expected = JInt 500, sd_preserve = False,
        sd_mode = ''auto'', sd_accepts = (\<lambda>v. scalar_eq v (JInt 500))\<rparr>)],
     td_required = [''answer''], td_note_slots = [], td_misconceptions = []\<rparr>"

definition demo_storage :: storage_env where
  "demo_storage = \<lparr>sv_codec = None, sv_render = (\<lambda>_. []), sv_idempotency_days = 30,
     sv_tasks = [(''home_teaching'', demo_task)]\<rparr>"

definition demo_contract :: "string \<Rightarrow> int \<Rightarrow> turn_contract" where
  "demo_contract i v = \<lparr>tn_id = i, tn_task_id = ''home_teaching'', tn_task_index = 0, tn_text = [63],
     tn_input = \<lparr>kind = IK_TEXT, placeholder = None, choices = [], target_slots = [''answer''],
        submit_label = None, config = []\<rparr>,
     tn_success = False, tn_help = None, tn_note = None, tn_status = ACTIVE, tn_version = v,
     tn_completion = None, tn_anchor = None\<rparr>"

definition demo_turn_id :: "int \<Rightarrow> string" where
  "demo_turn_id v = ''turn_'' @ replicate (nat v) (CHR ''x'')"

definition demo_dialogue :: "int option \<Rightarrow> dialogue_state" where
  "demo_dialogue until = session.extend
     ((demo_fresh L4)\<lparr>ss_runtime := LEGACY_V1, ss_turn_id := Some (demo_turn_id 1)\<rparr>)
     \<lparr>ds_conversation_id = ''conversation_1'', ds_learner_id = 7, ds_learning_session = Some ''learning_1'',
      ds_round = 1, ds_scene = HOME_TEACH, ds_start_level = Some L4, ds_raw_enabled = True,
      ds_retention = (if until = None then Permanent else Days_30), ds_raw_until = until,
      ds_life = None, ds_patches = [], ds_transition = None, ds_updated_at = 0\<rparr>"

definition echo_run :: "dialogue_state \<Rightarrow> child_response \<Rightarrow> ustr \<Rightarrow> history_turn list \<Rightarrow> engine_result res" where
  "echo_run s r question history =
     (let v = ss_version s + 1; t = demo_contract (demo_turn_id v) v in
      Inr \<lparr>er_state = s\<lparr>ss_version := v, ss_turn_id := Some (tn_id t)\<rparr>,
        er_analysis = (basic_analysis Safety_Normal Related_Vague Diff_Expression 1)\<lparr>
           ua_claims := [\<lparr>sc_slot = ''answer'', sc_value = JInt 400, sc_factual = True,
                          sc_span = [52, 48, 48], sc_supported = None\<rparr>]\<rparr>,
        er_classifier = Related_Vague, er_turn = t, er_note = None,
        er_runtime = \<lparr>sa_act = ''ask_again'', sa_source = ''reviewed_fallback'', sa_verifier = ''not_required'',
                       sa_fallback = None\<rparr>, er_accepted = []\<rparr>)"

definition echo_engine :: engine where
  "echo_engine = \<lparr>eg_anchor = (\<lambda>s t. Inr t), eg_run = echo_run\<rparr>"

lemma demo_turn_id_nonempty [simp]: "demo_turn_id v \<noteq> []"
  by (simp add: demo_turn_id_def)

lemma demo_text_ok: "check_all (mormi_checks [63]) = Inr ()"
  by code_simp

interpretation echo: turn_engine echo_engine
proof
  fix s q question h r
  assume "eg_run echo_engine s q question h = Inr r"
  then show "follows s r" using demo_text_ok
    by (auto simp: echo_engine_def echo_run_def Let_def follows_def demo_contract_def)
qed (simp add: echo_engine_def)

definition demo_moment :: "int \<Rightarrow> moment" where
  "demo_moment now = \<lparr>mo_now = now,
     mo_engines = \<lparr>es_legacy = echo_engine, es_home = None, es_life = None\<rparr>,
     mo_observation_id = ''observation_'' @ demo_turn_id now, mo_outcome_id = ''outcome_'' @ demo_turn_id now,
     mo_event_id = ''event_'' @ demo_turn_id now, mo_note_event_id = ''note_'' @ demo_turn_id now\<rparr>"

lemma demo_moment_ok: "engines_ok (mo_engines (demo_moment now))"
  by (simp add: engines_ok_def demo_moment_def echo.turn_engine_axioms)

definition demo_answer :: "int \<Rightarrow> string \<Rightarrow> child_response" where
  "demo_answer v rid = \<lparr>turn_id = demo_turn_id v, response_id = rid, resp_type = RT_TEXT,
     resp_text = Some [52, 48, 48], choice_ids = [], resp_values = [], no_response_kind = None\<rparr>"

definition demo_store :: "int option \<Rightarrow> store" where
  "demo_store until =
     (case create_conversation (demo_dialogue until) (demo_contract (demo_turn_id 1) 1) empty_store of
        Inr (_, db) \<Rightarrow> db | Inl _ \<Rightarrow> empty_store)"

definition demo_run :: "int \<Rightarrow> nat list \<Rightarrow> world \<Rightarrow> world" where
  "demo_run now ks w = foldl (\<lambda>w k. advance_request demo_storage (demo_moment now) k w) w ks"

definition demo_rivals :: "int option \<Rightarrow> world" where
  "demo_rivals until = demo_run 1 [0, 1, 0, 1, 0, 1]
     (arrive ''conversation_1'' (demo_answer 1 ''response_1'')
       (arrive ''conversation_1'' (demo_answer 1 ''response_1'') \<lparr>wd_store = demo_store until, wd_requests = []\<rparr>))"

lemma demo_fresh_start: "fresh_start (demo_dialogue until) (demo_contract (demo_turn_id 1) 1)"
  by (simp add: fresh_start_def demo_dialogue_def demo_contract_def demo_fresh_def session.extend_def)

lemma demo_created:
  "create_conversation (demo_dialogue until) (demo_contract (demo_turn_id 1) 1) empty_store
     = Inr (''conversation_1'', demo_store until)"
proof -
  have "\<exists>db. create_conversation (demo_dialogue until) (demo_contract (demo_turn_id 1) 1) empty_store = Inr (''conversation_1'', db)"
    by (simp add: create_conversation_def empty_store_def demo_dialogue_def demo_fresh_def session.extend_def
        session.truncate_def round_taken_def turn_by_id_def new_turn_row_def current_task_id_def)
  then show ?thesis by (auto simp: demo_store_def)
qed


lemma demo_run_reachable:
  "reachable demo_storage w \<Longrightarrow> \<forall>k \<in> set ks. k < length (wd_requests w) \<Longrightarrow> reachable demo_storage (demo_run now ks w)"
proof (induction ks arbitrary: w)
  case (Cons k ks)
  let ?w = "advance_request demo_storage (demo_moment now) k w"
  have "world_step demo_storage None w ?w" using Cons.prems demo_moment_ok by (auto intro: world_step.advance)
  then have "reachable demo_storage ?w" using Cons.prems(1) unfolding reachable_def by (rule rtranclp.rtrancl_into_rtrancl [rotated])
  moreover have "length (wd_requests ?w) = length (wd_requests w)"
    by (simp add: advance_request_def Let_def split: prod.splits)
  ultimately show ?case using Cons.IH [of ?w] Cons.prems by (simp add: demo_run_def)
qed (simp add: demo_run_def)

lemma demo_rivals_reachable: "reachable demo_storage (demo_rivals until)"
proof -
  let ?r = "demo_answer 1 ''response_1''"
  let ?w = "\<lparr>wd_store = demo_store until, wd_requests = []\<rparr>"
  have "world_step demo_storage None empty_world (empty_world\<lparr>wd_store := demo_store until\<rparr>)"
    using demo_fresh_start demo_created by (intro world_step.create) (simp_all add: empty_world_def)
  then have "reachable demo_storage ?w" unfolding reachable_def by (simp add: empty_world_def r_into_rtranclp)
  moreover have "world_step demo_storage None w (arrive ''conversation_1'' ?r w)" for w
    by (rule world_step.arrive) (simp add: demo_answer_def)
  ultimately have "reachable demo_storage (arrive ''conversation_1'' ?r (arrive ''conversation_1'' ?r ?w))"
    unfolding reachable_def by (meson rtranclp.rtrancl_into_rtrancl)
  then show ?thesis unfolding demo_rivals_def by (rule demo_run_reachable) (auto simp: arrive_def)
qed

text \<open>Both requests are about to write; the first one succeeds.\<close>

definition demo_writes :: "world \<Rightarrow> nat \<Rightarrow> int \<Rightarrow> bool" where
  "demo_writes w k now =
     (case rq_phase (wd_requests w ! k) of
        Writing s t r \<Rightarrow>
          (case commit_turn demo_storage (commit_input_for (demo_moment now) (wd_requests w ! k) s r) (wd_store w) of
             Inr _ \<Rightarrow> True | Inl _ \<Rightarrow> False)
      | _ \<Rightarrow> False)"

lemma demo_rivals_write: "demo_writes (demo_rivals None) 0 2" "demo_writes (demo_rivals None) 1 3"
  by code_simp+

lemma demo_writesE:
  assumes "demo_writes w k now"
  obtains s t r db where "rq_phase (wd_requests w ! k) = Writing s t r"
    "commit_turn demo_storage (commit_input_for (demo_moment now) (wd_requests w ! k) s r) (wd_store w) = Inr db"
  using assms unfolding demo_writes_def by (auto split: phase.splits sum.splits)

lemma demo_rivals_requests:
  "map (\<lambda>q. (rq_conversation q, turn_id (rq_response q), response_id (rq_response q))) (wd_requests (demo_rivals None))
     = [(''conversation_1'', demo_turn_id 1, ''response_1''), (''conversation_1'', demo_turn_id 1, ''response_1'')]"
  by code_simp

lemma demo_conversation: "\<exists>conv. conversation_of (wd_store (demo_rivals None)) ''conversation_1'' = Some conv"
  using demo_rivals_write(1)
proof (rule demo_writesE)
  fix s t r db
  assume a: "rq_phase (wd_requests (demo_rivals None) ! 0) = Writing s t r"
  have l: "0 < length (wd_requests (demo_rivals None))" using demo_rivals_requests by (auto simp: map_eq_Cons_conv)
  then have "rq_conversation (wd_requests (demo_rivals None) ! 0) = ''conversation_1''"
    using demo_rivals_requests by (auto simp: map_eq_Cons_conv)
  moreover have "request_ok (wd_store (demo_rivals None)) (wd_requests (demo_rivals None) ! 0)"
    using reachable_ok [OF demo_rivals_reachable [of None]] l by (simp add: world_ok_def)
  ultimately show ?thesis using a by (auto simp: request_ok_def seen_def)
qed

text \<open>
  A conversation whose text may be kept until the instant 100: one answer at 1, and a second one that
  arrives at 200, before any purge.
\<close>

definition demo_late :: world where
  "demo_late = demo_run 1 [0, 0, 0, 0]
     (arrive ''conversation_1'' (demo_answer 1 ''response_1'') \<lparr>wd_store = demo_store (Some 100), wd_requests = []\<rparr>)"

definition demo_late_request :: request where
  "demo_late_request = \<lparr>rq_conversation = ''conversation_1'', rq_response = demo_answer 2 ''response_2'', rq_phase = Loading\<rparr>"

definition demo_late_input :: "dialogue_state \<Rightarrow> engine_result \<Rightarrow> commit_input" where
  "demo_late_input s r = commit_input_for (demo_moment 201) demo_late_request s r"

definition demo_late_ready :: bool where
  "demo_late_ready =
     (let db = wd_store demo_late in
      case (load_turn_for demo_storage (demo_moment 200) demo_late_request db, conversation_of db ''conversation_1'') of
        (Inr (s, t), Some conv) \<Rightarrow> \<not> ds_raw_enabled s \<and> raw_due 201 conv
          \<and> (case run_engine demo_storage (demo_moment 200) demo_late_request db s t of
               Inr r \<Rightarrow> (case commit_turn demo_storage (demo_late_input s r) db of
                   Inr db' \<Rightarrow> (\<exists>w \<in> set (db_turns db'). tw_raw w \<noteq> None) | Inl _ \<Rightarrow> False)
             | Inl _ \<Rightarrow> False)
          \<and> (\<exists>w \<in> set (db_turns db). tw_conversation w = ''conversation_1'' \<and> tw_turn_id w \<noteq> demo_turn_id 2 \<and> tw_raw w \<noteq> None)
      | _ \<Rightarrow> False)"

lemma demo_late_commits: demo_late_ready
  by code_simp

lemma demo_late_commitsE:
  assumes demo_late_ready
  obtains s t r db w conv where
    "load_turn_for demo_storage (demo_moment 200) demo_late_request (wd_store demo_late) = Inr (s, t)"
    "run_engine demo_storage (demo_moment 200) demo_late_request (wd_store demo_late) s t = Inr r"
    "commit_turn demo_storage (demo_late_input s r) (wd_store demo_late) = Inr db"
    "conversation_of (wd_store demo_late) ''conversation_1'' = Some conv" "raw_due 201 conv" "\<not> ds_raw_enabled s"
    "w \<in> set (db_turns (wd_store demo_late))" "tw_conversation w = ''conversation_1''"
    "tw_turn_id w \<noteq> demo_turn_id 2" "tw_raw w \<noteq> None" "\<exists>w \<in> set (db_turns db). tw_raw w \<noteq> None"
proof (cases "load_turn_for demo_storage (demo_moment 200) demo_late_request (wd_store demo_late)")
  case (Inl e)
  then show ?thesis using assms by (simp add: demo_late_ready_def Let_def)
next
  case (Inr st)
  obtain s t where st: "st = (s, t)" by (cases st)
  show ?thesis
  proof (cases "conversation_of (wd_store demo_late) ''conversation_1''")
    case None
    then show ?thesis using assms Inr st by (simp add: demo_late_ready_def Let_def)
  next
    case (Some conv)
    note l = Inr [unfolded st] Some
    show ?thesis
    proof (cases "run_engine demo_storage (demo_moment 200) demo_late_request (wd_store demo_late) s t")
      case (Inl e)
      then show ?thesis using assms l by (simp add: demo_late_ready_def Let_def)
    next
      case (Inr r)
      show ?thesis
      proof (cases "commit_turn demo_storage (demo_late_input s r) (wd_store demo_late)")
        case (Inl e)
        then show ?thesis using assms l Inr by (simp add: demo_late_ready_def Let_def)
      next
        case c: (Inr db)
        have "(\<exists>w \<in> set (db_turns (wd_store demo_late)). tw_conversation w = ''conversation_1'' \<and> tw_turn_id w \<noteq> demo_turn_id 2 \<and> tw_raw w \<noteq> None)"
          and rest: "\<not> ds_raw_enabled s" "raw_due 201 conv" "\<exists>w \<in> set (db_turns db). tw_raw w \<noteq> None"
          using assms l Inr c by (simp_all add: demo_late_ready_def Let_def)
        then obtain w where "w \<in> set (db_turns (wd_store demo_late))" "tw_conversation w = ''conversation_1''"
          "tw_turn_id w \<noteq> demo_turn_id 2" "tw_raw w \<noteq> None" by (elim bexE conjE)
        then show ?thesis by (rule that [OF l(1) Inr c l(2) rest(2,1) _ _ _ _ rest(3)])
      qed
    qed
  qed
qed

lemma demo_late_reachable: "reachable demo_storage demo_late"
proof -
  let ?r = "demo_answer 1 ''response_1''"
  let ?w = "\<lparr>wd_store = demo_store (Some 100), wd_requests = []\<rparr>"
  have "world_step demo_storage None empty_world (empty_world\<lparr>wd_store := demo_store (Some 100)\<rparr>)"
    using demo_fresh_start demo_created by (intro world_step.create) (simp_all add: empty_world_def)
  then have "reachable demo_storage ?w" unfolding reachable_def by (simp add: empty_world_def r_into_rtranclp)
  moreover have "world_step demo_storage None ?w (arrive ''conversation_1'' ?r ?w)"
    by (rule world_step.arrive) (simp add: demo_answer_def)
  ultimately have "reachable demo_storage (arrive ''conversation_1'' ?r ?w)"
    unfolding reachable_def by (meson rtranclp.rtrancl_into_rtrancl)
  then show ?thesis unfolding demo_late_def by (rule demo_run_reachable) (auto simp: arrive_def)
qed

end
