(* ===== verification/Service_Properties.thy ===== *)
theory Service_Properties
  imports Service_Demo
begin

text \<open>
  The properties of the request lifecycle and of the conversation database.
\<close>

section \<open>Concurrent requests\<close>

lemma written_request:
  assumes "reachable env w" and "k < length (wd_requests w)" and "rq_phase (wd_requests w ! k) = Writing s t r"
  shows "store_ok (wd_store w)" "seen (wd_store w) (wd_requests w ! k) s t" "follows s r"
    "response_id (rq_response (wd_requests w ! k)) \<noteq> []"
proof -
  have "world_ok w" using assms(1) by (rule reachable_ok)
  then have "store_ok (wd_store w)" "request_ok (wd_store w) (wd_requests w ! k)"
    using assms(2) by (auto simp: world_ok_def)
  then show "store_ok (wd_store w)" "seen (wd_store w) (wd_requests w ! k) s t" "follows s r"
    "response_id (rq_response (wd_requests w ! k)) \<noteq> []"
    using assms(3) by (simp_all add: request_ok_def)
qed

text \<open>C13. No update is lost. Requests work on a conversation without holding a lock, yet whenever one of
  them commits, the state it worked on is the state stored at that instant (up to text whose retention
  has ended), and the turn it answers is the current turn, however the requests interleave.\<close>

theorem committed_turn_extends_current_state:
  assumes "reachable env w" and "k < length (wd_requests w)" and "rq_phase (wd_requests w ! k) = Writing s t r"
    and "commit_turn env (commit_input_for m (wd_requests w ! k) s r) (wd_store w) = Inr db"
  shows "\<exists>conv. conversation_of (wd_store w) (rq_conversation (wd_requests w ! k)) = Some conv
     \<and> close_retention s = close_retention (cv_state conv)
     \<and> ss_turn_id (cv_state conv) = Some (turn_id (rq_response (wd_requests w ! k)))"
proof -
  let ?q = "wd_requests w ! k"
  note p = written_request [OF assms(1-3)]
  obtain conv where c: "conversation_of (wd_store w) (ds_conversation_id s) = Some conv" "cv_version conv = ss_version s"
    using commit_version [OF assms(4)] p(3) by (auto simp: commit_input_for_def)
  have s: "ds_conversation_id s = rq_conversation ?q" "ss_turn_id s = Some (turn_id (rq_response ?q))"
    using p(2) by (simp_all add: seen_def)
  have "close_retention s = close_retention (cv_state conv)" using p(2) c s(1) by (auto simp: seen_def)
  moreover from arg_cong [OF this, of ss_turn_id] have "ss_turn_id (cv_state conv) = ss_turn_id s" by simp
  ultimately show ?thesis using c s by auto
qed

theorem committed_turn_extends_current_state_witness:
  "\<exists>conv. conversation_of (wd_store (demo_rivals None)) ''conversation_1'' = Some conv
     \<and> ss_turn_id (cv_state conv) = Some (demo_turn_id 1)"
  using demo_rivals_write(1)
proof (rule demo_writesE)
  fix s t r db
  assume a: "rq_phase (wd_requests (demo_rivals None) ! 0) = Writing s t r"
    "commit_turn demo_storage (commit_input_for (demo_moment 2) (wd_requests (demo_rivals None) ! 0) s r) (wd_store (demo_rivals None)) = Inr db"
  have l: "0 < length (wd_requests (demo_rivals None))" using demo_rivals_requests by (auto simp: map_eq_Cons_conv)
  then have q: "rq_conversation (wd_requests (demo_rivals None) ! 0) = ''conversation_1''"
    "turn_id (rq_response (wd_requests (demo_rivals None) ! 0)) = demo_turn_id 1"
    using demo_rivals_requests by (auto simp: map_eq_Cons_conv)
  from committed_turn_extends_current_state [OF demo_rivals_reachable l a] q show ?thesis by auto
qed

text \<open>C11. Every answer counts exactly once. In every database the service can reach, the version of a
  conversation is one more than the number of its recorded answers, no response id is recorded twice in
  a conversation and no turn is answered twice.\<close>

theorem every_answer_counts_once:
  assumes "reachable env w" and "conversation_of (wd_store w) c = Some conv"
  shows "cv_version conv = 1 + int (length (observations_of (wd_store w) c))
     \<and> distinct (map ob_response (observations_of (wd_store w) c))
     \<and> distinct (map ob_source_turn (observations_of (wd_store w) c))"
proof -
  have ok: "store_ok (wd_store w)" using reachable_ok [OF assms(1)] by (simp add: world_ok_def)
  have "conversation_ok (wd_store w) c conv" using store_okD(3) [OF ok] assms(2) by (simp add: conversation_of_def)
  moreover have "distinct (map (\<lambda>b. (ob_conversation b, ob_response b)) (observations_of (wd_store w) c))"
    "distinct (map ob_source_turn (observations_of (wd_store w) c))"
    unfolding observations_of_def using store_okD(5,6) [OF ok] by (simp_all add: distinct_map_filter)
  then have "distinct (map ob_response (observations_of (wd_store w) c))"
    by (auto simp: distinct_map inj_on_def observations_of_def)
  ultimately show ?thesis
    using store_okD(5) [OF ok] by (simp add: conversation_ok_def observations_of_def distinct_map_filter)
qed

theorem every_answer_counts_once_witness:
  "\<exists>conv. conversation_of (wd_store (demo_rivals None)) ''conversation_1'' = Some conv
     \<and> cv_version conv = 1 + int (length (observations_of (wd_store (demo_rivals None)) ''conversation_1''))"
  using demo_conversation every_answer_counts_once [OF demo_rivals_reachable [of None]]
  by blast

text \<open>C12. An answer that was sent again is replayed, not repeated: once a request has committed, and until
  its response id expires, every later request with the same response id gets the stored turn of the
  first one and changes nothing, whatever it contains and whatever happened in between.\<close>

theorem replay_returns_the_first_result:
  assumes "reachable env w" and "k < length (wd_requests w)" and "rq_phase (wd_requests w ! k) = Writing s t r"
    and "commit_turn env (commit_input_for m (wd_requests w ! k) s r) (wd_store w) = Inr db"
    and "engines_ok (mo_engines m)"
    and "(world_step env (answer_expiry env (commit_input_for m (wd_requests w ! k) s r)))\<^sup>*\<^sup>* (advance_request env m k w) w'"
    and "rq_conversation q = rq_conversation (wd_requests w ! k)" and "rq_phase q = Received"
    and "response_id (rq_response q) = response_id (rq_response (wd_requests w ! k))"
    and "instant_before (answer_expiry env (commit_input_for m (wd_requests w ! k) s r)) (mo_now m')"
  shows "request_step env m' q (wd_store w') = (Replied (er_turn r) True, wd_store w')"
proof -
  let ?q = "wd_requests w ! k" and ?i = "commit_input_for m (wd_requests w ! k) s r"
  note p = written_request [OF assms(1-3)]
  have c: "ds_conversation_id s = rq_conversation ?q" using p(2) by (simp add: seen_def)
  have st: "wd_store (advance_request env m k w) = db"
    using assms(3,4) by (simp add: advance_request_def request_step_def Let_def)
  have "world_ok (advance_request env m k w)"
    using world_step_ok [OF world_step.advance [OF assms(2,5)] reachable_ok [OF assms(1)]] .
  moreover have "replayable (sv_codec env) (wd_store (advance_request env m k w)) (rq_conversation ?q)
      (response_id (rq_response ?q)) (answer_expiry env ?i) (er_turn r)"
    using commit_replayable [OF p(1) _ assms(4)] p(3) c unfolding st by (simp add: commit_input_for_def)
  ultimately have "world_ok w' \<and> replayable (sv_codec env) (wd_store w') (rq_conversation ?q)
      (response_id (rq_response ?q)) (answer_expiry env ?i) (er_turn r)"
    by (intro world_steps_replayable [OF assms(6)]) (use p(4) in simp_all)
  then have "response_exists (sv_codec env) (mo_now m') (wd_store w') (rq_conversation ?q)
      (response_id (rq_response ?q)) = Inr (Some (er_turn r))"
    using assms(10) by (intro replayable_found) (simp_all add: world_ok_def)
  then show ?thesis using assms(7-9) by (simp add: request_step_def replay_def)
qed

theorem replay_returns_the_first_result_witness:
  "\<exists>s t r. rq_phase (wd_requests (demo_rivals None) ! 0) = Writing s t r
     \<and> fst (request_step demo_storage (demo_moment 9)
          \<lparr>rq_conversation = ''conversation_1'', rq_response = demo_answer 5 ''response_1'', rq_phase = Received\<rparr>
          (wd_store (advance_request demo_storage (demo_moment 2) 0 (demo_rivals None)))) = Replied (er_turn r) True"
  using demo_rivals_write(1)
proof (rule demo_writesE)
  fix s t r db
  let ?q = "\<lparr>rq_conversation = ''conversation_1'', rq_response = demo_answer 5 ''response_1'', rq_phase = Received\<rparr>"
  assume a: "rq_phase (wd_requests (demo_rivals None) ! 0) = Writing s t r"
    "commit_turn demo_storage (commit_input_for (demo_moment 2) (wd_requests (demo_rivals None) ! 0) s r) (wd_store (demo_rivals None)) = Inr db"
  have q: "0 < length (wd_requests (demo_rivals None))" "rq_conversation (wd_requests (demo_rivals None) ! 0) = ''conversation_1''"
    "response_id (rq_response (wd_requests (demo_rivals None) ! 0)) = ''response_1''"
    using demo_rivals_requests by (auto simp: map_eq_Cons_conv)
  have e: "instant_before (answer_expiry demo_storage (commit_input_for (demo_moment 2)
      (wd_requests (demo_rivals None) ! 0) s r)) (mo_now (demo_moment 9))"
    by (simp add: instant_before_def answer_expiry_def commit_input_for_def demo_moment_def demo_storage_def day_micros_def)
  have "rq_conversation ?q = rq_conversation (wd_requests (demo_rivals None) ! 0)" "rq_phase ?q = Received"
    "response_id (rq_response ?q) = response_id (rq_response (wd_requests (demo_rivals None) ! 0))"
    using q by (simp_all add: demo_answer_def)
  from replay_returns_the_first_result [OF demo_rivals_reachable q(1) a demo_moment_ok rtranclp.rtrancl_refl this e] a(1)
  show ?thesis by auto
qed

text \<open>C16. Two requests that worked on the same version of a conversation cannot both commit: after the first
  the second is refused as stale. This holds for the same answer sent twice at the same time too, so
  the loser of such a race is told of a conflict instead of being given the stored turn.\<close>

theorem second_writer_is_stale:
  assumes "commit_turn env i db = Inr db'" and "follows (ci_previous i) (ci_result i)"
    and "ds_conversation_id (ci_previous j) = ds_conversation_id (ci_previous i)"
    and "ss_version (ci_previous j) = ss_version (ci_previous i)"
  shows "commit_turn env j db' = Inl (StaleConversationError (ds_conversation_id (ci_previous j)))"
  using assms(1,2)
proof (rule commit_version)
  fix conv
  assume "cv_version conv = ss_version (ci_previous i)"
    "\<And>k. conversation_of db' k = (if k = ds_conversation_id (ci_previous i)
        then Some (update_conversation (committed_state i) conv) else conversation_of db k)"
    "cv_version (update_conversation (committed_state i) conv) = cv_version conv + 1"
  then show ?thesis using assms(3,4)
    by (simp add: commit_turn_def commit_guards_def Let_def conversation_of_def)
qed

theorem second_writer_is_stale_witness:
  "\<exists>i j db. response_id (ci_response i) = response_id (ci_response j) \<and> commit_turn demo_storage i (wd_store (demo_rivals None)) = Inr db
     \<and> commit_turn demo_storage j db = Inl (StaleConversationError ''conversation_1'')"
  using demo_rivals_write(1)
proof (rule demo_writesE)
  fix s t r db
  let ?i = "commit_input_for (demo_moment 2) (wd_requests (demo_rivals None) ! 0) s r"
  let ?j = "commit_input_for (demo_moment 3) (wd_requests (demo_rivals None) ! 0) s r"
  assume a: "rq_phase (wd_requests (demo_rivals None) ! 0) = Writing s t r"
    "commit_turn demo_storage ?i (wd_store (demo_rivals None)) = Inr db"
  have q: "0 < length (wd_requests (demo_rivals None))" "rq_conversation (wd_requests (demo_rivals None) ! 0) = ''conversation_1''"
    using demo_rivals_requests by (auto simp: map_eq_Cons_conv)
  note p = written_request [OF demo_rivals_reachable q(1) a(1)]
  have "ds_conversation_id s = ''conversation_1''" using p(2) q(2) by (simp add: seen_def)
  then have "commit_turn demo_storage ?j db = Inl (StaleConversationError ''conversation_1'')"
    using second_writer_is_stale [OF a(2), of ?j] p(3) by (simp add: commit_input_for_def)
  moreover have "response_id (ci_response ?i) = response_id (ci_response ?j)" by (simp add: commit_input_for_def)
  ultimately show ?thesis using a(2) by blast
qed

section \<open>Child text\<close>




text \<open>C15. A deadline can pass unnoticed. When a child answers after the retention deadline of a conversation
  and before the periodic purge has seen it, the commit closes the storage for new text and clears the
  deadline; from then on no purge, at whatever instant, removes the text of the earlier answers.\<close>

theorem late_turn_keeps_expired_words:
  assumes "store_ok db" and "load_turn_for env m q db = Inr (s, t)" and "conversation_of db (rq_conversation q) = Some conv"
    and "raw_due (mo_now m') conv" and "mo_now m \<le> mo_now m'" and "follows s r"
    and "commit_turn env (commit_input_for m' q s r) db = Inr db'"
    and "w \<in> set (db_turns db)" and "tw_conversation w = rq_conversation q" and "tw_turn_id w \<noteq> turn_id (rq_response q)"
  shows "\<exists>w' \<in> set (db_turns (purge_expired_raw_data now db')). tw_turn_id w' = tw_turn_id w \<and> tw_raw w' = tw_raw w"
proof -
  let ?i = "commit_input_for m' q s r"
  have cok: "conversation_ok db (rq_conversation q) conv"
    using store_okD(3) [OF assms(1)] assms(3) by (simp add: conversation_of_def)
  have s: "s = load_state (mo_now m) (cv_state conv)" using assms(2,3) by (elim load_turn_for_Inr) simp
  have c: "ds_conversation_id s = rq_conversation q" using cok s by (simp add: conversation_ok_def)
  have closed: "ds_raw_until (committed_state ?i) = None"
    by (rule committed_closed [where t = "mo_now m" and conv = conv])
      (use s assms(4-6) cok in \<open>simp_all add: commit_input_for_def conversation_ok_def\<close>)
  obtain conv' new where
    cs: "db_conversations db' = AList.update (rq_conversation q) (update_conversation (committed_state ?i) conv') (db_conversations db)"
    and ts: "db_turns db' = map (\<lambda>r. if tw_turn_id r = turn_id (rq_response q) then answer_turn env ?i r else r) (db_turns db) @ [new]"
    using assms(7) c by (elim commit_tables) (simp add: commit_input_for_def)
  have w': "w \<in> set (db_turns db')" using assms(8,10) by (force simp: ts)
  have "rq_conversation q \<notin> due_conversations now db'"
    by (rule not_due_kept [where r = "update_conversation (committed_state ?i) conv'"])
      (use store_okD(1) [OF assms(1)] closed in \<open>simp_all add: cs update_conversation_def\<close>)
  then have "tw_raw (purge_turn (due_conversations now db') (forget_response now w)) = tw_raw w"
    using assms(9) by (simp add: purge_turn_def forget_response_def split: option.splits)
  then show ?thesis using w'
    by (intro bexI [of _ "purge_turn (due_conversations now db') (forget_response now w)"])
      (auto simp: purge_expired_raw_data_def Let_def)
qed

theorem late_turn_keeps_expired_words_witness:
  "\<exists>db' w w'. w \<in> set (db_turns (wd_store demo_late)) \<and> tw_raw w \<noteq> None
     \<and> w' \<in> set (db_turns (purge_expired_raw_data 1000 db')) \<and> tw_raw w' = tw_raw w"
  using demo_late_commits
proof (rule demo_late_commitsE)
  fix s t r db w conv
  assume a: "load_turn_for demo_storage (demo_moment 200) demo_late_request (wd_store demo_late) = Inr (s, t)"
    "run_engine demo_storage (demo_moment 200) demo_late_request (wd_store demo_late) s t = Inr r"
    "commit_turn demo_storage (demo_late_input s r) (wd_store demo_late) = Inr db"
    "conversation_of (wd_store demo_late) ''conversation_1'' = Some conv" "raw_due 201 conv"
    "w \<in> set (db_turns (wd_store demo_late))" "tw_conversation w = ''conversation_1''"
    "tw_turn_id w \<noteq> demo_turn_id 2" "tw_raw w \<noteq> None"
  have q: "rq_conversation demo_late_request = ''conversation_1''" "turn_id (rq_response demo_late_request) = demo_turn_id 2"
    "mo_now (demo_moment 200) \<le> mo_now (demo_moment 201)" "raw_due (mo_now (demo_moment 201)) conv"
    using a(5) by (simp_all add: demo_late_request_def demo_answer_def demo_moment_def)
  have f: "follows s r" using run_engine_Inr [OF a(2) demo_moment_ok] .
  have ok: "store_ok (wd_store demo_late)" using reachable_ok [OF demo_late_reachable] by (simp add: world_ok_def)
  from late_turn_keeps_expired_words [OF ok a(1) a(4) [folded q(1)] q(4,3) f a(3) [unfolded demo_late_input_def] a(6)
      a(7) [folded q(1)] a(8) [folded q(2)], of 1000] a(6,9) show ?thesis by auto
qed

end
