(* ===== verification/Life_Turn.thy ===== *)
theory Life_Turn
  imports Store_Rows
begin

text \<open>
  The runtime of cafe and amusement conversations (\<^verbatim>\<open>dialogue_v2_life_runtime.py\<close>).
  It inherits the understanding of a free answer, the joint action and the support policy of the home
  runtime and replaces the rest: a conversation is a sequence of tasks, each with its own pinned pack,
  ledger and note; finishing a task starts the next one, whose variant may depend on an earlier answer.
\<close>

section \<open>The inherited parts\<close>

record life_environment = environment +
  en_scenario_hash :: "scenario_pack \<Rightarrow> string"

text \<open>
  Inherited operations work on the common fields of a conversation, and read the attributes a life pack
  shares with a home pack.
\<close>

definition on_session :: "(session \<Rightarrow> session) \<Rightarrow> dialogue_state \<Rightarrow> dialogue_state" where
  "on_session f s = session.extend (f (session.truncate s)) (session.more s)"

definition plain_card :: "life_help_card \<Rightarrow> help_card" where
  "plain_card c = help_card.truncate c"

definition shared_pack :: "life_pack \<Rightarrow> home_pack" where
  "shared_pack p =
     \<lparr>hp_pack_id = li_pack_id p, hp_content_version = li_content_version p, hp_session_id = li_task_id p,
      hp_title = li_title p, hp_journey_role = [], hp_transfer_ids = [], hp_prompt = li_source_prompt p,
      hp_rendered_labels = [], hp_answers = [], hp_correct = [],
      hp_graph = \<lparr>facts = map content_fact.truncate (lg_facts (li_graph p)),
        relations = map content_relation.truncate (lg_relations (li_graph p)),
        completion = lg_completion (li_graph p),
        open_auxiliary_claims = lg_open_auxiliary_claims (li_graph p)\<rparr>,
      hp_initial = li_initial p, hp_l3_plans = li_l3_plans p, hp_copy_slots = li_copy_slots p,
      hp_l2_plans = [], hp_l0 = li_l0 p,
      hp_help = \<lparr>card_H1 = plain_card (life_H1 (li_help p)), card_H2 = plain_card (life_H2 (li_help p)),
        card_H3 = plain_card (life_H3 (li_help p))\<rparr>,
      hp_note_relation_ids = po_note_relation_ids (li_policies p)\<rparr>"

section \<open>The active task\<close>

definition resolve_scenario ::
    "life_environment \<Rightarrow> dialogue_state \<Rightarrow> (scenario_pack \<times> pinned_scenario) res" where
  "resolve_scenario env s =
     (case ds_life s of
        None \<Rightarrow> Inl (ValueError ''verdict-v1 life conversation has no scenario snapshot'')
      | Some ps \<Rightarrow>
        bindr (resolve_life_scenario (en_hash env) (en_scenario_hash env) ps) (\<lambda>sc.
        if sp_scene sc \<noteq> ds_scene s \<or> sp_scenario_id sc \<noteq> ss_scenario_id s
        then Inl (ValueError ''pinned life scenario failed identity validation'')
        else if map st_task_id (sp_stages sc) \<noteq> ss_task_ids s
        then Inl (ValueError ''pinned life scenario task order changed'')
        else Inr (sc, ps)))"

definition current_task :: "dialogue_state \<Rightarrow> string res" where
  "current_task s = current_task_id (session.truncate s)"

text \<open>\<^verbatim>\<open>except KeyError: raise ValueError(...)\<close>.\<close>

definition key_error_as :: "string \<Rightarrow> 'a res \<Rightarrow> 'a res" where
  "key_error_as m r = (case r of Inl (KeyError _) \<Rightarrow> Inl (ValueError m) | _ \<Rightarrow> r)"

definition resolve_life_state ::
    "life_environment \<Rightarrow> dialogue_state \<Rightarrow> (life_pack \<times> snapshot \<times> reasoning_ledger) res" where
  "resolve_life_state env s =
     (if ss_runtime s \<noteq> VERDICT_V1 then Inl (ValueError ''legacy conversation cannot enter life V2 engine'')
      else bindr (resolve_scenario env s) (\<lambda>(sc, ps).
        bindr (current_task s) (\<lambda>t.
        bindr (key_error_as ''pinned life task runtime is incomplete''
                 (bindr (pack_of_task ps sc t) (\<lambda>p. bindr (ledger_of_task ps t) (\<lambda>l. Inr (p, l))))) (\<lambda>(p, l).
        bindr (pin_pack (en_hash env) (Life p)) (\<lambda>sn.
        bindr (reasoning_completion (en_hash env) sn l) (\<lambda>_. Inr (p, sn, l)))))))"

definition store_life_ledger :: "dialogue_state \<Rightarrow> reasoning_ledger \<Rightarrow> dialogue_state res" where
  "store_life_ledger s l =
     (case ds_life s of
        None \<Rightarrow> Inl (ValueError ''missing life scenario runtime'')
      | Some ps \<Rightarrow> bindr (current_task s) (\<lambda>t.
          Inr (s\<lparr>ds_life := Some (ps\<lparr>ps_ledgers := AList.update t l (ps_ledgers ps)\<rparr>)\<rparr>)))"

section \<open>Open targets and questions\<close>

definition life_ordered :: "life_pack \<Rightarrow> reasoning_ledger \<Rightarrow> target_ref list" where
  "life_ordered p l =
     filter (\<lambda>t. plan_key t \<in> remaining_keys (completion_of (Life p) l)) (qp_targets (li_initial p))"

definition life_narrowed ::
    "expression_level \<Rightarrow> life_pack \<Rightarrow> reasoning_ledger \<Rightarrow> target_ref list \<Rightarrow> target_ref list" where
  "life_narrowed level p l ordered =
     (if level \<in> {L4, L0} then ordered
      else case List.find (open_partial l) ordered of
          Some t \<Rightarrow> [t]
        | None \<Rightarrow>
          (case List.find (\<lambda>q. qp_targets q ! 0 \<in> set ordered) (if level = L3 then li_l3_plans p else []) of
             Some q \<Rightarrow> [qp_targets q ! 0]
           | None \<Rightarrow>
             (case List.find (\<lambda>q. ll_target q \<in> set ordered) (li_l2_plans p) of
                Some q \<Rightarrow> [ll_target q]
              | None \<Rightarrow> take 1 ordered)))"

definition life_targets ::
    "(task_pack \<Rightarrow> string) \<Rightarrow> expression_level \<Rightarrow> life_pack \<Rightarrow> reasoning_ledger \<Rightarrow> target_ref list res" where
  "life_targets H level p l =
     bindr (pin_pack H (Life p)) (\<lambda>sn.
     bindr (reasoning_completion H sn l) (\<lambda>_.
     Inr (life_narrowed level p l (life_ordered p l))))"

definition life_l2_for_targets :: "life_pack \<Rightarrow> target_ref list \<Rightarrow> life_l2_plan res" where
  "life_l2_for_targets p ts =
     (case List.find (\<lambda>q. plan_key (ll_target q) \<in> set (map plan_key ts)) (li_l2_plans p) of
        None \<Rightarrow> Inl (ValueError ''life pack has no L2 plan for the remaining target'')
      | Some q \<Rightarrow> Inr q)"

definition active_life_l2 ::
    "(task_pack \<Rightarrow> string) \<Rightarrow> dialogue_state \<Rightarrow> life_pack \<Rightarrow> reasoning_ledger \<Rightarrow> life_l2_plan res" where
  "active_life_l2 H s p l =
     (case List.find (\<lambda>q. ll_plan_id q = ss_subgoal s) (li_l2_plans p) of
        Some q \<Rightarrow> Inr q
      | None \<Rightarrow> bindr (life_targets H (ss_expression s) p l) (life_l2_for_targets p))"

definition authored_config :: "(string \<times> json) list \<Rightarrow> (string \<times> wire_value) list" where
  "authored_config kvs = map (\<lambda>(k, v). (k, WJson v)) kvs"

definition life_joint_question :: "life_pack \<Rightarrow> target_ref list \<Rightarrow> question_contract res" where
  "life_joint_question p ts =
     bindr (py_next (\<lambda>c. cs_purpose c = L0_Intro) (li_copy_slots p)) (\<lambda>intro.
     bindr (py_next (\<lambda>c. cs_purpose c = L0_Action) (li_copy_slots p)) (\<lambda>action.
     Inr \<lparr>qc_targets = ts, qc_fallback = cs_fallback intro,
          qc_input = \<lparr>kind = IK_JOINT, placeholder = None, choices = [],
            target_slots = map target_slot_key ts, submit_label = Some (jp_button (li_l0 p)),
            config = assign_all
              [(''text'', WText (cs_fallback action)),
               (''action_id'', WJson (JStr (jp_action_id (li_l0 p)))),
               (''completion_values'', WJson (JObj (joint_expected_values (shared_pack p))))]
              (authored_config (jp_config (li_l0 p)))\<rparr>,
          qc_slot = Some intro\<rparr>))"

definition life_choice_question :: "life_pack \<Rightarrow> life_l2_plan \<Rightarrow> question_contract res" where
  "life_choice_question p q =
     bindr (py_next (\<lambda>c. cs_slot c = ll_copy_slot q) (li_copy_slots p)) (\<lambda>slot.
     Inr \<lparr>qc_targets = [ll_target q], qc_fallback = cs_fallback slot,
          qc_input = \<lparr>kind = IK_CHOICES, placeholder = None,
            choices = map (\<lambda>c. \<lparr>opt_id = lc_id c, opt_label = lc_label c, opt_disabled = Some (lc_disabled c)\<rparr>)
              (ll_choices q),
            target_slots = [target_slot_key (ll_target q)], submit_label = Some (ll_submit_label q),
            config = assign_all (authored_config (ll_config q)) [(''plan_id'', WJson (JStr (ll_plan_id q)))]\<rparr>,
          qc_slot = Some slot\<rparr>)"

definition life_question ::
    "(task_pack \<Rightarrow> string) \<Rightarrow> dialogue_state \<Rightarrow> life_pack \<Rightarrow> reasoning_ledger
     \<Rightarrow> (question_contract \<times> dialogue_state) res" where
  "life_question H s p l =
     (if ss_status s = COMPLETED then Inr (empty_question, s)
      else bindr (life_targets H (ss_expression s) p l) (\<lambda>ts.
        if ss_expression s = L0 then
          bindr (life_joint_question p ts) (\<lambda>q. Inr (q, s\<lparr>ss_hint := H3, ss_subgoal := ''l0.joint''\<rparr>))
        else if ss_expression s = L2 then
          bindr (life_l2_for_targets p ts) (\<lambda>pl.
          bindr (life_choice_question p pl) (\<lambda>q. Inr (q, s\<lparr>ss_subgoal := ll_plan_id pl\<rparr>)))
        else if ss_expression s = L3 then
          bindr (py_next (\<lambda>q. target_slot_key (qp_targets q ! 0) \<in> set (map target_slot_key ts)) (li_l3_plans p)) (\<lambda>q.
          Inr (text_question (qp_targets q) [qp_targets q ! 0] (qp_fallback q) label_short,
               s\<lparr>ss_subgoal := qp_plan_id q\<rparr>))
        else if 1 < length ts then
          Inr (text_question ts ts (qp_fallback (li_initial p)) label_answer_and_method,
               s\<lparr>ss_subgoal := qp_plan_id (li_initial p)\<rparr>)
        else if ts = [] then Inl IndexError
        else bindr (py_next (\<lambda>q. qp_targets q ! 0 = ts ! 0) (li_l3_plans p)) (\<lambda>q.
          Inr (text_question ts ts (qp_fallback q) label_short, s\<lparr>ss_subgoal := qp_plan_id q\<rparr>))))"

section \<open>What an answer means\<close>

text \<open>The request for a free answer is built as in the home runtime, for the task of the pack.\<close>

definition life_request ::
    "(task_pack \<Rightarrow> string) \<Rightarrow> dialogue_state \<Rightarrow> life_pack \<Rightarrow> reasoning_ledger \<Rightarrow> child_response \<Rightarrow> ustr
     \<Rightarrow> history_turn list \<Rightarrow> understanding_request res" where
  "life_request H s p l resp previous_question history =
     (case resp_text resp of
        None \<Rightarrow> Inl AssertionError
      | Some text \<Rightarrow>
        let v = shared_pack p in
        bindr (life_targets H (ss_expression s) p l) (\<lambda>ts.
        bindr (mapr (request_fact_context v) (facts (hp_graph v))) (\<lambda>contexts.
        bindr (mapr (request_target v) ts) (\<lambda>targets.
        let r = \<lparr>req_task_id = li_task_id p, req_visible_facts = visible_facts v,
             req_fact_contexts = contexts, req_targets = targets,
             req_graph = \<lparr>cg_fact_ids = map fact_id (facts (hp_graph v)),
                cg_relation_ids = map relation_id (relations (hp_graph v)),
                cg_open_auxiliary_claims = open_auxiliary_claims (hp_graph v)\<rparr>,
             req_turn = \<lparr>tc_mormi_question = previous_question, tc_asks = dedup (map tr_ask ts),
                tc_expression_level = ss_expression s, tc_hint_level = ss_hint s,
                tc_help_scaffolded_relation_ids =
                  (if ss_hint s \<in> {H2, H3}
                   then map tr_id (filter (\<lambda>t. tr_kind t = TK_Relation) ts) else [])\<rparr>,
             req_ui_elements = visible_ui_elements v (ss_hint s),
             req_history = last_six history, req_child_utterance = text,
             req_guard_feedback_codes = []\<rparr>
        in bindr (validate_understanding_request r) (\<lambda>_. Inr r)))))"

definition life_text_semantics ::
    "life_environment \<Rightarrow> gateway \<Rightarrow> dialogue_state \<Rightarrow> life_pack \<Rightarrow> snapshot \<Rightarrow> reasoning_ledger
     \<Rightarrow> child_response \<Rightarrow> ustr \<Rightarrow> history_turn list \<Rightarrow> turn_semantics res" where
  "life_text_semantics env gateway s p sn l resp previous_question history =
     bindr (life_request (en_hash env) s p l resp previous_question history) (\<lambda>request.
     run_attempt_graph (understand_attempt (en_hash env) (en_sha env) (en_nfc env) gateway)
       (understanding_exhausted (en_hash env) (en_sha env))
       \<lparr>ax_session = session.truncate s, ax_snapshot = sn, ax_ledger = l, ax_response = resp,
        ax_request = request, ax_admitted = None\<rparr>)"

definition enabled_choice :: "life_l2_plan \<Rightarrow> string \<Rightarrow> life_choice option" where
  "enabled_choice q i =
     (case List.find (\<lambda>c. lc_id c = i) (ll_choices q) of
        None \<Rightarrow> None | Some c \<Rightarrow> if lc_disabled c then None else Some c)"

definition life_choice_semantics ::
    "life_environment \<Rightarrow> dialogue_state \<Rightarrow> life_pack \<Rightarrow> snapshot \<Rightarrow> reasoning_ledger \<Rightarrow> child_response
     \<Rightarrow> (turn_semantics \<times> (string \<times> json) list option) res" where
  "life_choice_semantics env s p sn l resp =
     (if ss_expression s \<noteq> L2 then Inl (ValueError ''life choice response is not valid outside L2'')
      else bindr (active_life_l2 (en_hash env) s p l) (\<lambda>q.
        if length (choice_ids resp) \<noteq> 1 then Inl (ValueError ''life L2 response requires exactly one choice'')
        else case enabled_choice q (choice_ids resp ! 0) of
            None \<Rightarrow> Inl (ValueError ''choice_id is unavailable in the pinned life plan'')
          | Some c \<Rightarrow>
            let e = lc_effect c; correct = (le_verdict e = Correct);
                semantic = choice_response correct (tr_kind (ll_target q))
            in bindr (if correct
                      then apply_structured_progress (en_hash env) (en_sha env) sn l
                             (assign_all (le_fact_updates e) []) (le_relation_ids e) (turn_id resp) Choice_Source
                      else unchanged_result (en_hash env) sn l) (\<lambda>result.
               bindr (validate_semantic_contract semantic) (\<lambda>_.
               Inr ((base_semantics semantic result Main Structured_Choice)\<lparr>sm_structured_correct := Some correct\<rparr>,
                    if le_visual_patch e = [] then None else Some (le_visual_patch e))))))"

definition interpret_life ::
    "life_environment \<Rightarrow> gateway \<Rightarrow> dialogue_state \<Rightarrow> life_pack \<Rightarrow> snapshot \<Rightarrow> reasoning_ledger
     \<Rightarrow> child_response \<Rightarrow> ustr \<Rightarrow> history_turn list \<Rightarrow> (turn_semantics \<times> (string \<times> json) list option) res" where
  "interpret_life env gateway s p sn l resp previous_question history =
     (let plain = (\<lambda>r. bindr r (\<lambda>m. Inr (m, None)))
      in case resp_type resp of
        RT_TEXT \<Rightarrow> plain (life_text_semantics env gateway s p sn l resp previous_question history)
      | RT_NO_RESPONSE \<Rightarrow> plain (no_response_semantics (en_hash env) (session.truncate s) sn l resp)
      | RT_CHOICE \<Rightarrow> life_choice_semantics env s p sn l resp
      | RT_FILL \<Rightarrow> life_choice_semantics env s p sn l resp
      | RT_ACTION \<Rightarrow> plain (joint_semantics (en_hash env) (en_sha env) (session.truncate s) (shared_pack p) sn l resp)
      | _ \<Rightarrow> Inl (ValueError ''V2 home teaching received an unsupported response type''))"

section \<open>Support, slots and provenance\<close>

definition life_policy ::
    "dialogue_state \<Rightarrow> turn_semantics \<Rightarrow> (string \<times> json) list option \<Rightarrow> dialogue_state res" where
  "life_policy s m patch =
     (let s1 = on_session (\<lambda>x. apply_ladder_policy x m) s
      in case patch of
          None \<Rightarrow> Inr s1
        | Some d \<Rightarrow> bindr (current_task s1) (\<lambda>t. Inr (s1\<lparr>ds_patches := AList.update t d (ds_patches s1)\<rparr>)))"

definition sync_life_slots :: "dialogue_state \<Rightarrow> life_pack \<Rightarrow> reasoning_ledger \<Rightarrow> dialogue_state res" where
  "sync_life_slots s p l =
     bindr (mapr (\<lambda>i. bindr (py_index (dict_by relation_id (lg_relations (li_graph p))) i) (\<lambda>r.
              Inr (i, WText (rel_label r)))) (dict_keys (verified_relations l))) (\<lambda>rs.
     Inr (s\<lparr>ss_verified_slots := assign_all
              (map (\<lambda>(i, e). (i, WJson (primitive (fe_canonical_value e)))) (verified_facts l) @ rs) []\<rparr>))"

definition turn_evidence :: "apply_result \<Rightarrow> string \<Rightarrow> string list" where
  "turn_evidence r i =
     (case dict_get (verified_relations (ar_ledger r)) i of
        None \<Rightarrow> []
      | Some e \<Rightarrow> filter (\<lambda>k. k \<in> set (as_new_relation_evidence_ids (ar_state r))) (map re_id (re_evidence e)))"

definition track_life_relation ::
    "apply_result \<Rightarrow> bool \<Rightarrow> (string, string list) dict \<times> string list \<Rightarrow> string
     \<Rightarrow> (string, string list) dict \<times> string list" where
  "track_life_relation r direct = (\<lambda>(independent, supported) i.
     (if turn_evidence r i = [] then (independent, supported)
      else if direct \<and> i \<notin> set supported then
        (AList.update i (dedup (turn_evidence r i)) independent, supported)
      else if i \<notin> set (dict_keys independent) then (independent, supported @ [i])
      else (independent, supported)))"

definition track_note_state ::
    "life_pack \<Rightarrow> turn_semantics \<Rightarrow> hint_level \<Rightarrow> hint_level \<Rightarrow> task_note_state \<Rightarrow> task_note_state" where
  "track_note_state p m before_hint after_hint n =
     (let notes = po_note_relation_ids (li_policies p);
          tracked = foldl (track_life_relation (sm_result m) (direct_turn m before_hint))
                      (ns_independent n, ns_supported n) notes;
          open_notes = (if before_hint \<in> {H2, H3} \<or> after_hint \<in> {H2, H3}
                        then filter (\<lambda>i. i \<notin> set (dict_keys (verified_relations (ar_ledger (sm_result m))))) notes
                        else [])
      in n\<lparr>ns_independent := fst tracked, ns_supported := sort (dedup (snd tracked @ open_notes)),
           ns_joint := (ns_joint n \<or> sm_source m = Structured_Joint)\<rparr>)"

definition track_life_note ::
    "dialogue_state \<Rightarrow> life_pack \<Rightarrow> turn_semantics \<Rightarrow> hint_level \<Rightarrow> dialogue_state res" where
  "track_life_note s p m before_hint =
     (if po_note_policy (li_policies p) = Note_None then Inr s
      else case ds_life s of
          None \<Rightarrow> Inl (ValueError ''missing life scenario note state'')
        | Some ps \<Rightarrow> bindr (py_index (ps_notes ps) (li_task_id p)) (\<lambda>n.
            Inr (s\<lparr>ds_life := Some (ps\<lparr>ps_notes := AList.update (li_task_id p)
                     (track_note_state p m before_hint (ss_hint s) n) (ps_notes ps)\<rparr>)\<rparr>)))"

definition apply_life ::
    "dialogue_state \<Rightarrow> life_pack \<Rightarrow> turn_semantics \<Rightarrow> (string \<times> json) list option \<Rightarrow> hint_level
     \<Rightarrow> dialogue_state res" where
  "apply_life s p m patch before_hint =
     bindr (life_policy s m patch) (\<lambda>s1.
     bindr (store_life_ledger s1 (ar_ledger (sm_result m))) (\<lambda>s2.
     bindr (sync_life_slots s2 p (ar_ledger (sm_result m))) (\<lambda>s3.
     track_life_note s3 p m before_hint)))"

section \<open>Finishing a task\<close>

text \<open>
  \<^verbatim>\<open>str\<close> of a number: \<open>real_text\<close> is Python's rendering of a binary float, which only
  floats need.
\<close>

fun digits :: "nat \<Rightarrow> string" where
  "digits n = (if n < 10 then [char_of (48 + n)] else digits (n div 10) @ [char_of (48 + n mod 10)])"

declare digits.simps [simp del]

definition int_text :: "int \<Rightarrow> string" where
  "int_text i = (if i < 0 then ''-'' @ digits (nat (- i)) else digits (nat i))"

definition value_lookup_key :: "(rat \<Rightarrow> string) \<Rightarrow> canonical_value \<Rightarrow> string" where
  "value_lookup_key real_text v =
     (case primitive v of
        JBool b \<Rightarrow> if b then ''true'' else ''false''
      | JInt i \<Rightarrow> int_text i
      | JFloat q \<Rightarrow> real_text q
      | JStr s \<Rightarrow> s
      | _ \<Rightarrow> [])"

definition selected_variant ::
    "(rat \<Rightarrow> string) \<Rightarrow> pinned_scenario \<Rightarrow> task_stage \<Rightarrow> string res" where
  "selected_variant real_text ps st =
     (case st_selector st of
        None \<Rightarrow> Inr (st_default_variant st)
      | Some sel \<Rightarrow>
        bindr (ledger_of_task ps (vs_source_task_id sel)) (\<lambda>l.
        key_error_as ''life task variant selector has no verified mapping''
          (bindr (py_index (verified_facts l) (vs_fact_id sel)) (\<lambda>e.
           py_index (vs_value_to_variant sel) (value_lookup_key real_text (fe_canonical_value e))))))"

definition start_task :: "life_pack \<Rightarrow> dialogue_state \<Rightarrow> dialogue_state" where
  "start_task p s =
     s\<lparr>ss_status := ACTIVE, ss_expression := po_entry_level (li_policies p), ss_hint := H0, ss_max_hint := H0,
       ss_subgoal := qp_plan_id (li_initial p), ss_verified_slots := [], ss_expression_failures := 0,
       ss_concept_failures := 0, ss_vague := 0, ss_unrelated := 0,
       ds_start_level := Some (po_entry_level (li_policies p))\<rparr>"

definition independent_task :: "life_pack \<Rightarrow> task_note_state \<Rightarrow> bool" where
  "independent_task p n \<longleftrightarrow> set (po_note_relation_ids (li_policies p)) \<subseteq> set (dict_keys (ns_independent n))"

definition credit_task :: "life_pack \<Rightarrow> turn_semantics \<Rightarrow> task_note_state \<Rightarrow> dialogue_state \<Rightarrow> dialogue_state" where
  "credit_task p m n s =
     (let joint = (sm_source m = Structured_Joint);
          direct = (if po_note_policy (li_policies p) \<noteq> Note_None
                    then po_note_relation_ids (li_policies p) \<noteq> [] \<and> independent_task p n
                    else sm_source m = Sonnet_Low)
      in s\<lparr>ss_joint_used := (ss_joint_used s \<or> joint),
           ss_all_direct := (ss_all_direct s \<and> direct \<and> \<not> joint),
           ss_completed_slots := AList.update (li_task_id p) (ss_verified_slots s) (ss_completed_slots s)\<rparr>)"

definition finish_scenario :: "dialogue_state \<Rightarrow> dialogue_state" where
  "finish_scenario s =
     (let outcome = (if ss_all_direct s \<and> \<not> ss_joint_used s then TAUGHT else SUPPORTED)
      in s\<lparr>ss_status := COMPLETED, ss_outcome := Some outcome, ss_reward := (outcome = TAUGHT)\<rparr>)"

definition enter_task ::
    "life_environment \<Rightarrow> (rat \<Rightarrow> string) \<Rightarrow> scenario_pack \<Rightarrow> pinned_scenario \<Rightarrow> string \<Rightarrow> life_pack
     \<Rightarrow> dialogue_state \<Rightarrow> dialogue_state res" where
  "enter_task env real_text sc ps t done s =
     bindr (stage_by_task_id sc t) (\<lambda>st.
     bindr (selected_variant real_text ps st) (\<lambda>v.
     bindr (py_index (st_variants st) v) (\<lambda>p.
     bindr (pin_pack (en_hash env) (Life p)) (\<lambda>sn.
     let ps1 = ps\<lparr>ps_variants := AList.update t v (ps_variants ps),
                  ps_ledgers := AList.update t (empty_reasoning_ledger sn) (ps_ledgers ps)\<rparr>
     in Inr (start_task p (s\<lparr>ds_life := Some ps1, ss_task_index := Suc (ss_task_index s),
               ds_patches := AList.delete (li_task_id done) (ds_patches s),
               ds_transition := Some (li_task_id done)\<rparr>))))))"

definition complete_life ::
    "life_environment \<Rightarrow> (rat \<Rightarrow> string) \<Rightarrow> dialogue_state \<Rightarrow> life_pack \<Rightarrow> turn_semantics \<Rightarrow> dialogue_state res" where
  "complete_life env real_text s p m =
     bindr (resolve_scenario env s) (\<lambda>(sc, ps).
     bindr (py_index (ps_notes ps) (li_task_id p)) (\<lambda>n.
     let s1 = credit_task p m n s
     in if Suc (ss_task_index s1) \<ge> length (ss_task_ids s1) then Inr (finish_scenario s1)
        else enter_task env real_text sc ps (ss_task_ids s1 ! Suc (ss_task_index s1)) p s1))"

section \<open>Building a turn\<close>

text \<open>
  A star note is written once, when its task is finished. The new identifier of the note is an argument.
\<close>

definition life_note ::
    "dialogue_state \<Rightarrow> life_pack \<Rightarrow> reasoning_ledger \<Rightarrow> string \<Rightarrow> (note_update option \<times> dialogue_state) res" where
  "life_note s p l note_id =
     (let po = li_policies p in
      if po_note_policy po = Note_None then Inr (None, s)
      else if \<not> set (po_note_relation_ids po) \<subseteq> set (dict_keys (verified_relations l)) then Inr (None, s)
      else case ds_life s of
          None \<Rightarrow> Inl (ValueError ''missing life scenario note state'')
        | Some ps \<Rightarrow> bindr (py_index (ps_notes ps) (li_task_id p)) (\<lambda>n.
          if ns_emitted n then Inr (None, s)
          else let independent = independent_task p n \<and> \<not> ns_joint n;
                   body = (if independent then po_direct_fallback po else po_coauthored_note po)
               in case (po_note_skill_id po, body) of
                   (Some skill, Some t) \<Rightarrow>
                     Inr (Some \<lparr>nt_skill = skill, nt_text = t,
                            nt_attribution = (if independent then Note_Child else Note_Coauthored),
                            nt_evidence = (if independent then Direct_Explanation else Supported_Completion),
                            nt_label = (if independent then label_child_note else label_joint_note)\<rparr>,
                          s\<lparr>ds_life := Some (ps\<lparr>ps_notes := AList.update (li_task_id p)
                              (n\<lparr>ns_emitted := True, ns_note_id := Some note_id\<rparr>) (ps_notes ps)\<rparr>)\<rparr>)
                 | _ \<Rightarrow> Inl (ValidationError ''note_update'')))"

definition life_help_for :: "life_pack \<Rightarrow> hint_level \<Rightarrow> help_contract option" where
  "life_help_for p h =
     (let card = (\<lambda>c. Some \<lparr>hv_level = h, hv_body = hc_body c,
                     hv_visual = Authored_Visual (hc_visual_type c) (hc_visual_data c)\<rparr>)
      in case h of
          H0 \<Rightarrow> None | H1 \<Rightarrow> card (life_H1 (li_help p)) | H2 \<Rightarrow> card (life_H2 (li_help p))
        | H3 \<Rightarrow> card (life_H3 (li_help p)))"

definition projected_value ::
    "pinned_scenario \<Rightarrow> scenario_pack \<Rightarrow> completion_projection \<Rightarrow> (string \<times> wire_value) res" where
  "projected_value ps sc c =
     bindr (pack_of_task ps sc (cp_source_task_id c)) (\<lambda>p.
     bindr (ledger_of_task ps (cp_source_task_id c)) (\<lambda>l.
     if cp_source_kind c = PK_Fact then
       (case dict_get (verified_facts l) (cp_source_id c) of
          Some e \<Rightarrow> Inr (cp_output_key c, WJson (primitive (fe_canonical_value e)))
        | None \<Rightarrow> bindr (py_next (\<lambda>f. fact_id f = cp_source_id c) (lg_facts (li_graph p))) (\<lambda>f.
            if initially_visible f then Inr (cp_output_key c, WJson (primitive (fact_value f)))
            else Inl (ValueError ''life completion fact was not verified'')))
     else if cp_source_id c \<notin> set (dict_keys (verified_relations l))
       then Inl (ValueError ''life completion relation was not verified'')
     else Inr (cp_output_key c, WJson (case cp_relation_value c of None \<Rightarrow> JNull | Some v \<Rightarrow> v))))"

definition life_completion_facts ::
    "life_environment \<Rightarrow> dialogue_state \<Rightarrow> (string, wire_value) dict res" where
  "life_completion_facts env s =
     bindr (resolve_scenario env s) (\<lambda>(sc, ps).
     bindr (mapr (projected_value ps sc) (sp_projection sc)) (\<lambda>kvs. Inr (assign_all kvs [])))"

definition life_anchor_for :: "life_pack \<Rightarrow> input_contract \<Rightarrow> task_anchor res" where
  "life_anchor_for p i = task_anchor_for (shared_pack p) i"

record life_contract = turn_contract +
  lt_visual :: "string \<times> (string \<times> json) list"

definition merge_visual ::
    "string \<times> (string \<times> json) list \<Rightarrow> (string \<times> json) list option \<Rightarrow> string \<times> (string \<times> json) list" where
  "merge_visual v patch = (case patch of None \<Rightarrow> v | Some d \<Rightarrow> (fst v, assign_all d (snd v)))"

definition txt_next_curious :: ustr where
  "txt_next_curious = [45796, 51020, 32, 44163, 46020, 32, 44417, 44552, 54644, 46, 46, 46]"

definition life_contract_for ::
    "life_environment \<Rightarrow> dialogue_state \<Rightarrow> life_pack \<Rightarrow> question_contract \<Rightarrow> ustr \<Rightarrow> note_update option
     \<Rightarrow> string \<Rightarrow> life_contract res" where
  "life_contract_for env s p q text note new_turn_id =
     bindr (case (ss_status s, ss_outcome s) of
              (COMPLETED, Some outcome) \<Rightarrow>
                bindr (life_completion_facts env s) (\<lambda>fs.
                Inr (Some \<lparr>cn_outcome = outcome, cn_reward = ss_reward s, cn_stage = True, cn_facts = fs\<rparr>))
            | _ \<Rightarrow> Inr None) (\<lambda>comp.
     bindr (check_all (mormi_checks text)) (\<lambda>_.
     bindr (if ss_status s = ACTIVE
            then bindr (life_anchor_for p (qc_input q)) (\<lambda>a. Inr (Some a)) else Inr None) (\<lambda>anchor.
     Inr \<lparr>tn_id = new_turn_id, tn_task_id = li_task_id p, tn_task_index = ss_task_index s,
          tn_text = text, tn_input = qc_input q, tn_success = (ss_status s = COMPLETED),
          tn_help = life_help_for p (ss_hint s), tn_note = note, tn_status = ss_status s,
          tn_version = ss_version s, tn_completion = comp, tn_anchor = anchor,
          lt_visual = (if ss_status s = COMPLETED then (''success'', [(''task'', JStr (li_task_id p))])
                       else merge_visual (li_base_visual p) (dict_get (ds_patches s) (li_task_id p)))\<rparr>)))"

definition build_life_turn ::
    "life_environment \<Rightarrow> dialogue_state \<Rightarrow> life_pack \<Rightarrow> reasoning_ledger \<Rightarrow> ustr \<Rightarrow> string \<Rightarrow> string
     \<Rightarrow> (life_contract \<times> dialogue_state) res" where
  "build_life_turn env s done l text note_id new_turn_id =
     bindr (current_task s) (\<lambda>t.
     let moved = (t \<noteq> li_task_id done) in
     bindr (if moved \<or> ss_status s = COMPLETED then life_note s done l note_id else Inr (None, s)) (\<lambda>(note, s1).
     bindr (if moved
            then bindr (resolve_life_state env s1) (\<lambda>(p, _, l1). Inr (p, l1, s1\<lparr>ds_transition := None\<rparr>))
            else Inr (done, l, s1)) (\<lambda>(p, l1, s2).
     bindr (life_question (en_hash env) s2 p l1) (\<lambda>(q, s3).
     let body = (if moved
                 then (case po_transition_text (li_policies done) of
                         Some u \<Rightarrow> if u \<noteq> [] then u else txt_next_curious | None \<Rightarrow> txt_next_curious)
                      @ [32] @ qc_fallback q
                 else text)
     in bindr (life_contract_for env s3 p q body note new_turn_id) (\<lambda>c. Inr (c, s3))))))"

section \<open>A turn\<close>

text \<open>
  Between the policy and the contract the home runtime phrases the next question. Here the phrasing is
  the argument \<open>lx_spoken\<close>, a text for the question that is asked.
\<close>

record life_input =
  lx_response :: child_response
  lx_previous_question :: ustr
  lx_history :: "history_turn list"
  lx_gateway :: gateway
  lx_spoken :: "question_contract \<Rightarrow> ustr"
  lx_note_id :: string
  lx_new_turn_id :: string
  lx_real_text :: "rat \<Rightarrow> string"

record life_result =
  lr_state :: dialogue_state
  lr_turn :: life_contract
  lr_semantics :: turn_semantics

definition asked_question ::
    "(task_pack \<Rightarrow> string) \<Rightarrow> dialogue_state \<Rightarrow> life_pack \<Rightarrow> turn_semantics
     \<Rightarrow> (question_contract \<times> dialogue_state) res" where
  "asked_question H s p m =
     bindr (life_question H s p (ar_ledger (sm_result m))) (\<lambda>(q, s1).
     if sm_initial_help m
     then bindr (initial_help_question_contract (shared_pack p) q) (\<lambda>q1. Inr (q1, s1))
     else Inr (q, s1))"

definition run_life :: "life_environment \<Rightarrow> life_input \<Rightarrow> dialogue_state \<Rightarrow> life_result res" where
  "run_life env i s =
     bindr (resolve_life_state env s) (\<lambda>(p, sn, l).
     bindr (interpret_life env (lx_gateway i) s p sn l (lx_response i) (lx_previous_question i) (lx_history i)) (\<lambda>(m, patch).
     bindr (apply_life (s\<lparr>ss_version := ss_version s + 1, ss_turn_id := None\<rparr>) p m patch (ss_hint s)) (\<lambda>s1.
     bindr (if co_complete (ar_completion (sm_result m))
            then bindr (complete_life env (lx_real_text i) s1 p m) (\<lambda>s2. Inr (txt_thanks, s2))
            else bindr (asked_question (en_hash env) s1 p m) (\<lambda>(q, s2). Inr (lx_spoken i q, s2))) (\<lambda>(text, s2).
     bindr (build_life_turn env s2 p (ar_ledger (sm_result m)) text (lx_note_id i) (lx_new_turn_id i)) (\<lambda>(c, s3).
     Inr \<lparr>lr_state = s3\<lparr>ss_turn_id := Some (tn_id c)\<rparr>, lr_turn = c, lr_semantics = m\<rparr>)))))"

section \<open>Starting a conversation\<close>

definition initialize_scenario ::
    "life_environment \<Rightarrow> scenario_pack \<Rightarrow> dialogue_state \<Rightarrow> string \<Rightarrow> string
     \<Rightarrow> (life_contract \<times> dialogue_state) res" where
  "initialize_scenario env sc s note_id new_turn_id =
     (if ss_runtime s \<noteq> VERDICT_V1 then Inl (ValueError ''life V2 state must be pinned to verdict-v1'')
      else if ds_scene s \<noteq> sp_scene sc \<or> ss_scenario_id s \<noteq> sp_scenario_id sc
        then Inl (ValueError ''materialized life scenario does not match session identity'')
      else if ss_task_ids s \<noteq> map st_task_id (sp_stages sc)
        then Inl (ValueError ''materialized life scenario task order does not match session'')
      else
        bindr (pin_life_scenario (en_hash env) (en_scenario_hash env) sc) (\<lambda>ps.
        let s1 = s\<lparr>ss_pinned := None, ds_life := Some ps, ss_task_index := 0\<rparr>
        in bindr (resolve_life_state env s1) (\<lambda>(p, _, l).
           let s2 = s1\<lparr>ss_expression := po_entry_level (li_policies p),
                       ds_start_level := Some (po_entry_level (li_policies p)), ss_hint := H0, ss_max_hint := H0,
                       ss_subgoal := qp_plan_id (li_initial p), ss_verified_slots := [], ss_completed_slots := [],
                       ss_status := ACTIVE\<rparr>
           in bindr (life_question (en_hash env) s2 p l) (\<lambda>(q, s3).
              bindr (build_life_turn env s3 p l (qc_fallback q) note_id new_turn_id) (\<lambda>(c, s4).
              Inr (c, s4\<lparr>ss_turn_id := Some (tn_id c)\<rparr>))))))"

end
