(* ===== verification/Life_Laws.thy ===== *)
theory Life_Laws
  imports Life_Turn Home_Session
begin

text \<open>
  What every step of a cafe or amusement conversation keeps: the pinned scenario can be loaded again,
  each ledger stays bound to the active variant of its task, and the provenance of a note agrees with
  the evidence in the ledger.
\<close>

section \<open>New relations and their evidence\<close>

text \<open>A relation is either verified from before or new in this turn, with evidence of this turn.\<close>

definition tracked_entry :: "string list \<Rightarrow> string list \<Rightarrow> string \<Rightarrow> relation_entry \<Rightarrow> bool" where
  "tracked_entry ids evidence i e \<longleftrightarrow> i \<in> set ids \<and> (\<exists>x \<in> set (re_evidence e). re_id x \<in> set evidence)"

definition tracked_relations ::
    "reasoning_ledger \<Rightarrow> (string, relation_entry) dict \<Rightarrow> string list \<Rightarrow> string list \<Rightarrow> bool" where
  "tracked_relations l rels ids evidence \<longleftrightarrow> (\<forall>i e. dict_get rels i = Some e \<longrightarrow>
     i \<in> set (dict_keys (verified_relations l)) \<or> tracked_entry ids evidence i e)"

definition tracked_state :: "reasoning_ledger \<Rightarrow> apply_state \<Rightarrow> bool" where
  "tracked_state l st =
     tracked_relations l (as_relations st) (as_new_relation_ids st) (as_new_relation_evidence_ids st)"

lemma record_relation_tracked:
  assumes "record_relation rid ev st = Inr st'" and "tracked_state l st"
  shows "tracked_state l st'"
  using assms unfolding record_relation_def tracked_state_def tracked_relations_def
  by (fastforce simp: tracked_entry_def simp del: set_map split: option.splits if_splits)

lemma tracked_frame:
  "record_fact fs fid val ev st = Inr st' \<Longrightarrow> tracked_state l st' = tracked_state l st"
  "record_partial rid pv st = Inr st' \<Longrightarrow> tracked_state l st' = tracked_state l st"
  "tracked_state l (record_auxiliary pv v st) = tracked_state l st"
  "tracked_state l (note_claim c e st) = tracked_state l st"
  "tracked_state l (ignore_claim c st) = tracked_state l st"
  by (auto simp: tracked_state_def record_fact_def record_partial_def record_auxiliary_def note_claim_def
      ignore_claim_def bindr_eq_Inr split: option.splits if_splits)

lemma initial_tracked: "tracked_state l (initial_state l)"
  by (auto simp: tracked_state_def tracked_relations_def initial_state_def simp del: set_map dest: dict_get_Some_key)

lemma apply_claim_tracked:
  assumes "apply_claim sha fs ms turn c st = Inr st'" and "tracked_state l st"
  shows "tracked_state l st'"
  using assms by (cases c) (auto simp: bindr_eq_Inr Let_def tracked_frame(3-5) split: if_splits
      dest!: tracked_frame(1,2) record_relation_tracked)

text \<open>
  \<open>newly_tracked l r\<close>: every relation verified after the turn was verified before it or is new with
  evidence of the turn, and the ledger still satisfies the model validator of the ledger.
\<close>

definition newly_tracked :: "reasoning_ledger \<Rightarrow> apply_result \<Rightarrow> bool" where
  "newly_tracked l r \<longleftrightarrow> (map_keys_must_match_entries l = Inr () \<longrightarrow> map_keys_must_match_entries (ar_ledger r) = Inr ())
     \<and> (\<forall>i \<in> set (dict_keys (verified_relations (ar_ledger r))).
     i \<in> set (dict_keys (verified_relations l))
     \<or> (i \<in> set (as_new_relation_ids (ar_state r)) \<and> turn_evidence r i \<noteq> []))"

lemma finish_tracked:
  assumes f: "finish_apply H sn l prior st = Inr r" and t: "tracked_state l st"
  shows "newly_tracked l r"
  unfolding newly_tracked_def
proof (intro conjI impI ballI)
  show "map_keys_must_match_entries (ar_ledger r) = Inr ()" by (rule finish_apply_Inr(3) [OF f])
next
  fix i assume "i \<in> set (dict_keys (verified_relations (ar_ledger r)))"
  then obtain e where e: "dict_get (verified_relations (ar_ledger r)) i = Some e"
    using dict_get_None_iff by (metis not_None_eq)
  have eq: "verified_relations (ar_ledger r) = as_relations st" "ar_state r = st"
    using finish_apply_Inr(1,2) [OF f] by (simp_all add: next_ledger_def)
  have "i \<in> set (dict_keys (verified_relations l)) \<or> tracked_entry (as_new_relation_ids st) (as_new_relation_evidence_ids st) i e"
    using t e unfolding tracked_state_def tracked_relations_def eq by blast
  then show "i \<in> set (dict_keys (verified_relations l))
     \<or> (i \<in> set (as_new_relation_ids (ar_state r)) \<and> turn_evidence r i \<noteq> [])"
    using e by (auto simp: turn_evidence_def tracked_entry_def eq filter_empty_conv)
qed

lemma guarded_tracked:
  assumes "apply_guarded_understanding H sha sn l g turn = Inr r"
  shows "newly_tracked l r"
  using assms
proof (rule apply_guarded_Inr)
  fix tp ms st
  assume s: "fold_res (apply_claim sha (dict_by tf_id (pack_facts tp)) ms turn) (claims (response g)) (initial_state l) = Inr st"
    and f: "finish_apply H sn l (completion_of tp l) st = Inr r"
  have "tracked_state l st" by (rule fold_res_preserves [OF s]) (rule initial_tracked, rule apply_claim_tracked)
  then show ?thesis by (rule finish_tracked [OF f])
qed

lemma structured_tracked:
  assumes "apply_structured_progress H sha sn l us rids turn sk = Inr r"
  shows "newly_tracked l r"
  using assms
proof (rule apply_structured_Inr)
  fix tp st1 st
  assume s: "fold_res (apply_structured_fact sha (dict_by tf_id (pack_facts tp)) turn sk) us (initial_state l) = Inr st1"
      "fold_res (apply_structured_relation sha turn sk) rids st1 = Inr st"
    and f: "finish_apply H sn l (completion_of tp l) st = Inr r"
  have "tracked_state l st1"
    by (rule fold_res_preserves [OF s(1)]) (rule initial_tracked, simp add: apply_structured_fact_def tracked_frame(1))
  then have "tracked_state l st"
    by (rule fold_res_preserves [OF s(2)]) (simp add: apply_structured_relation_def record_relation_tracked)
  then show ?thesis by (rule finish_tracked [OF f])
qed

lemma unchanged_tracked: "unchanged_result H sn l = Inr r \<Longrightarrow> newly_tracked l r"
  by (auto simp: unchanged_result_def bindr_eq_Inr newly_tracked_def)

text \<open>The semantics of every answer of a cafe or amusement conversation.\<close>

definition life_semantics_ok ::
    "(task_pack \<Rightarrow> string) \<Rightarrow> snapshot \<Rightarrow> life_pack \<Rightarrow> reasoning_ledger \<Rightarrow> turn_semantics \<Rightarrow> bool" where
  "life_semantics_ok H sn p l m \<longleftrightarrow> semantics_ok H sn (Life p) l m \<and> newly_tracked l (sm_result m)"

lemma admitted_tracked:
  assumes "admitted_understanding_semantics H sha cx k = Inr m"
  shows "newly_tracked (ax_ledger cx) (sm_result m)"
  using assms guarded_tracked
  by (auto simp: admitted_understanding_semantics_def bindr_eq_Inr Let_def split: option.splits)

lemma failure_tracked:
  assumes "understanding_failure_semantics H sn l k reason = Inr m"
  shows "newly_tracked l (sm_result m)"
  using assms unchanged_tracked by (auto simp: understanding_failure_semantics_def bindr_eq_Inr base_semantics_def)

lemma attempt_tracked:
  assumes "understand_attempt H sha nfc gateway cx k = Inr out"
  shows "case out of Inl m \<Rightarrow> newly_tracked (ax_ledger cx) (sm_result m) | Inr cx' \<Rightarrow> ax_ledger cx' = ax_ledger cx"
proof -
  have p: "newly_tracked (ax_ledger cx) (sm_result m)" if "provider_failure H sha cx k reason = Inr m" for reason m
    using that admitted_tracked failure_tracked by (auto simp: provider_failure_def split: if_splits)
  have c: ?thesis if "understand_candidate H sha nfc cx k resp = Inr out" for resp
    using that unchanged_tracked failure_tracked admitted_tracked [of H sha "cx\<lparr>ax_admitted := Some g\<rparr>" k for g]
    by (fastforce simp: understand_candidate_def Let_def bindr_eq_Inr base_semantics_def split: if_splits)
  show ?thesis using assms p c
    by (auto simp: understand_attempt_def bindr_eq_Inr split: gateway_answer.splits)
qed

lemma attempt_graph_tracked:
  "attempt_graph (understand_attempt H sha nfc gateway) (understanding_exhausted H sha) n k cx = Inr m \<Longrightarrow>
   newly_tracked (ax_ledger cx) (sm_result m)"
proof (induction n arbitrary: k cx)
  case 0
  then show ?case using admitted_tracked failure_tracked by (auto simp: understanding_exhausted_def split: if_splits)
next
  case (Suc n)
  then obtain out where a: "understand_attempt H sha nfc gateway cx (Suc k) = Inr out"
    and rest: "(case out of Inl result \<Rightarrow> Inr result
      | Inr cx' \<Rightarrow> attempt_graph (understand_attempt H sha nfc gateway) (understanding_exhausted H sha) n
          (Suc k) cx') = Inr m" by (auto simp: bindr_eq_Inr)
  show ?case
  proof (cases out)
    case (Inl m')
    then show ?thesis using attempt_tracked [OF a] rest by simp
  next
    case (Inr cx')
    then have "attempt_graph (understand_attempt H sha nfc gateway) (understanding_exhausted H sha) n (Suc k) cx' = Inr m"
      using rest by simp
    then show ?thesis using Suc.IH [of "Suc k" cx'] attempt_tracked [OF a] Inr by simp
  qed
qed

lemma interpret_life_semantics:
  assumes r: "resolved_task (en_hash env) sn (Life p) l"
    and i: "interpret_life env gateway s p sn l resp question history = Inr (m, patch)"
  shows "life_semantics_ok (en_hash env) sn p l m"
proof -
  have t: "life_semantics_ok (en_hash env) sn p l m"
    if "life_text_semantics env gateway s p sn l resp question history = Inr m"
    using that attempt_graph_semantics [OF r] attempt_graph_tracked
    by (fastforce simp: life_text_semantics_def bindr_eq_Inr life_semantics_ok_def run_attempt_graph_def)
  have n: "life_semantics_ok (en_hash env) sn p l m"
    if "no_response_semantics (en_hash env) (session.truncate s) sn l resp = Inr m"
    using no_response_result [OF r that] that unchanged_tracked
    by (auto simp: life_semantics_ok_def no_response_semantics_def Let_def bindr_eq_Inr base_semantics_def)
  have c: "life_semantics_ok (en_hash env) sn p l m"
    if "life_choice_semantics env s p sn l resp = Inr (m, patch)"
    using that unchanged_result_Inr [OF r] structured_result_ok [OF r] unchanged_tracked structured_tracked
    by (auto simp: life_choice_semantics_def Let_def bindr_eq_Inr life_semantics_ok_def semantics_ok_def
        base_semantics_def split: if_splits option.splits)
  have j: "life_semantics_ok (en_hash env) sn p l m"
    if "joint_semantics (en_hash env) (en_sha env) (session.truncate s) (shared_pack p) sn l resp = Inr m"
    using joint_result [OF r that] that structured_tracked
    by (auto simp: life_semantics_ok_def joint_semantics_def bindr_eq_Inr base_semantics_def split: if_splits)
  show ?thesis using i t n c j
    by (auto simp: interpret_life_def Let_def bindr_eq_Inr split: response_type.splits)
qed

section \<open>Provenance of a note\<close>

text \<open>
  The provenance agrees with the ledger: a relation is recorded as the child's own only when the child
  verified it in words, and every verified relation of the note is recorded one way or the other.
\<close>

definition provenance_ok :: "life_pack \<Rightarrow> reasoning_ledger \<Rightarrow> task_note_state \<Rightarrow> bool" where
  "provenance_ok p l n \<longleftrightarrow> dict_ok (ns_independent n)
     \<and> (\<forall>i \<in> set (dict_keys (ns_independent n)). child_verified (verified_relations l) i)
     \<and> (po_note_policy (li_policies p) \<noteq> Note_None \<longrightarrow>
          (\<forall>i \<in> set (po_note_relation_ids (li_policies p)). i \<in> set (dict_keys (verified_relations l)) \<longrightarrow>
             i \<in> set (dict_keys (ns_independent n)) \<union> set (ns_supported n)))"

definition note_ok :: "life_pack \<Rightarrow> reasoning_ledger \<Rightarrow> task_note_state \<Rightarrow> bool" where
  "note_ok p l n \<longleftrightarrow> check_task_notes p n = Inr () \<and> validate_note_provenance n = Inr () \<and> provenance_ok p l n"

lemma check_task_notes_Inr:
  "check_task_notes p n = Inr () \<longleftrightarrow>
     set (dict_keys (ns_independent n)) \<union> set (ns_supported n) \<subseteq> set (po_note_relation_ids (li_policies p))
     \<and> set (po_note_relation_ids (li_policies p)) \<subseteq> relation_id ` set (lg_relations (li_graph p))
     \<and> \<not> (ns_emitted n \<and> po_note_policy (li_policies p) = Note_None)"
  unfolding check_task_notes_def check_all_Inr by simp

lemma validate_note_provenance_Inr:
  "validate_note_provenance n = Inr () \<longleftrightarrow>
     distinct (ns_supported n) \<and> set (dict_keys (ns_independent n)) \<inter> set (ns_supported n) = {}
     \<and> (\<forall>es \<in> set (map snd (ns_independent n)). es \<noteq> [] \<and> distinct es)
     \<and> ns_emitted n = (ns_note_id n \<noteq> None)"
  unfolding validate_note_provenance_def check_all_Inr by simp

lemma empty_note_ok:
  assumes "check_task_notes p empty_note_state = Inr ()"
  shows "note_ok p (empty_reasoning_ledger sn) empty_note_state"
  using assms by (simp add: note_ok_def empty_note_state_def validate_note_provenance_def provenance_ok_def
      empty_reasoning_ledger_def)

lemma child_verified_key: "child_verified rels i \<Longrightarrow> i \<in> set (dict_keys rels)"
  by (auto simp: child_verified_def dest: dict_get_Some_key)

definition tracked_pair ::
    "string list \<Rightarrow> apply_result \<Rightarrow> (string, string list) dict \<times> string list \<Rightarrow> bool" where
  "tracked_pair notes r = (\<lambda>(ind, sup). dict_ok ind
     \<and> set (dict_keys ind) \<inter> set sup = {} \<and> set (dict_keys ind) \<union> set sup \<subseteq> set notes
     \<and> (\<forall>es \<in> set (map snd ind). es \<noteq> [] \<and> distinct es)
     \<and> (\<forall>i \<in> set (dict_keys ind). child_verified (verified_relations (ar_ledger r)) i))"

lemma dict_update_values: "set (map snd (AList.update k v d)) \<subseteq> insert v (set (map snd d))"
  by (auto dest: dict_update_entries)

lemma dedup_Nil_iff [simp]: "dedup xs = [] \<longleftrightarrow> xs = []"
  by (metis set_dedup set_empty)

lemma track_relation_pair:
  assumes "tracked_pair notes r st" and "i \<in> set notes"
    and "direct \<Longrightarrow> turn_evidence r i \<noteq> [] \<Longrightarrow> i \<notin> set (snd st) \<Longrightarrow> child_verified (verified_relations (ar_ledger r)) i"
  shows "tracked_pair notes r (track_life_relation r direct st i)"
proof -
  obtain ind sup where st: "st = (ind, sup)" by (cases st)
  have p: "dict_ok ind" "set (dict_keys ind) \<inter> set sup = {}"
    "set (dict_keys ind) \<union> set sup \<subseteq> set notes" "\<forall>es \<in> set (map snd ind). es \<noteq> [] \<and> distinct es"
    "\<forall>k \<in> set (dict_keys ind). child_verified (verified_relations (ar_ledger r)) k"
    using assms(1) by (auto simp only: tracked_pair_def st prod.case)
  show ?thesis
  proof (cases "direct \<and> turn_evidence r i \<noteq> [] \<and> i \<notin> set sup")
    case True
    have eq: "track_life_relation r direct st i = (AList.update i (dedup (turn_evidence r i)) ind, sup)"
      using True by (simp add: track_life_relation_def st)
    have v: "\<forall>es \<in> set (map snd (AList.update i (dedup (turn_evidence r i)) ind)). es \<noteq> [] \<and> distinct es"
    proof
      fix es assume "es \<in> set (map snd (AList.update i (dedup (turn_evidence r i)) ind))"
      then have "es = dedup (turn_evidence r i) \<or> es \<in> set (map snd ind)" using dict_update_values by fast
      then show "es \<noteq> [] \<and> distinct es" using p(4) True by (elim disjE) (simp_all del: set_map)
    qed
    have c: "\<forall>k \<in> insert i (set (dict_keys ind)). child_verified (verified_relations (ar_ledger r)) k"
      using p(5) assms(3) True by (simp add: st)
    show ?thesis unfolding eq tracked_pair_def prod.case dict_keys_update
    proof (intro conjI)
      show "dict_ok (AList.update i (dedup (turn_evidence r i)) ind)" using p(1) by (rule dict_ok_update)
      show "insert i (set (dict_keys ind)) \<inter> set sup = {}" using p(2) True by blast
      show "insert i (set (dict_keys ind)) \<union> set sup \<subseteq> set notes" using p(3) assms(2) by blast
    qed (rule v, rule c)
  next
    case False
    then have "track_life_relation r direct st i = st
        \<or> (i \<notin> set (dict_keys ind) \<and> track_life_relation r direct st i = (ind, sup @ [i]))"
      by (auto simp: track_life_relation_def st simp del: set_map)
    then show ?thesis
    proof
      assume eq: "i \<notin> set (dict_keys ind) \<and> track_life_relation r direct st i = (ind, sup @ [i])"
      show ?thesis unfolding conjunct2 [OF eq] tracked_pair_def prod.case
        using p(2,3) eq assms(2) by (intro conjI p(1,4,5)) (simp_all del: set_map)
    qed (use assms(1) in simp)
  qed
qed

lemma track_relation_mono:
  "set (dict_keys (fst st)) \<subseteq> set (dict_keys (fst (track_life_relation r direct st i)))"
  "set (snd st) \<subseteq> set (snd (track_life_relation r direct st i))"
  "turn_evidence r i \<noteq> [] \<Longrightarrow>
   i \<in> set (dict_keys (fst (track_life_relation r direct st i))) \<union> set (snd (track_life_relation r direct st i))"
  by (cases st; auto simp: track_life_relation_def simp del: set_map)+

lemma track_relations_pair:
  assumes "tracked_pair notes r st" and "set is \<subseteq> set notes"
    and "\<And>i. direct \<Longrightarrow> turn_evidence r i \<noteq> [] \<Longrightarrow> i \<notin> set (snd st) \<Longrightarrow> i \<in> set notes \<Longrightarrow>
           child_verified (verified_relations (ar_ledger r)) i"
  shows "tracked_pair notes r (foldl (track_life_relation r direct) st is)
    \<and> set (dict_keys (fst st)) \<subseteq> set (dict_keys (fst (foldl (track_life_relation r direct) st is)))
    \<and> set (snd st) \<subseteq> set (snd (foldl (track_life_relation r direct) st is))
    \<and> (\<forall>i \<in> set is. turn_evidence r i \<noteq> [] \<longrightarrow>
         i \<in> set (dict_keys (fst (foldl (track_life_relation r direct) st is)))
           \<union> set (snd (foldl (track_life_relation r direct) st is)))"
  using assms
proof (induction "is" arbitrary: st)
  case (Cons i "is")
  let ?st = "track_life_relation r direct st i"
  note m = track_relation_mono [where r = r and direct = direct and st = st and i = i]
  have p: "tracked_pair notes r ?st" using Cons.prems by (intro track_relation_pair) auto
  have "child_verified (verified_relations (ar_ledger r)) k"
    if "direct" "turn_evidence r k \<noteq> []" "k \<notin> set (snd ?st)" "k \<in> set notes" for k
    using Cons.prems(3) [OF that(1,2)] m(2) that(3,4) by blast
  from Cons.IH [OF p _ this] Cons.prems(2) have ih:
    "tracked_pair notes r (foldl (track_life_relation r direct) ?st is)"
    "set (dict_keys (fst ?st)) \<subseteq> set (dict_keys (fst (foldl (track_life_relation r direct) ?st is)))"
    "set (snd ?st) \<subseteq> set (snd (foldl (track_life_relation r direct) ?st is))"
    "\<forall>i \<in> set is. turn_evidence r i \<noteq> [] \<longrightarrow>
         i \<in> set (dict_keys (fst (foldl (track_life_relation r direct) ?st is)))
           \<union> set (snd (foldl (track_life_relation r direct) ?st is))" by simp_all
  have "turn_evidence r i \<noteq> [] \<Longrightarrow> i \<in> set (dict_keys (fst (foldl (track_life_relation r direct) ?st is)))
           \<union> set (snd (foldl (track_life_relation r direct) ?st is))"
    using m(3) ih(2,3) by blast
  then show ?case using ih m(1,2) unfolding foldl_Cons list.set by (intro conjI) blast+
qed simp

lemma turn_evidence_verified: "turn_evidence r i \<noteq> [] \<Longrightarrow> i \<in> set (dict_keys (verified_relations (ar_ledger r)))"
  by (auto simp: turn_evidence_def simp del: set_map dest: dict_get_Some_key split: option.splits)

lemma direct_evidence_verified:
  assumes n: "provenance_ok p l n" and m: "life_semantics_ok H sn p l m" and po: "po_note_policy (li_policies p) \<noteq> Note_None"
    and i: "i \<in> set (po_note_relation_ids (li_policies p))" "turn_evidence (sm_result m) i \<noteq> []" "i \<notin> set (ns_supported n)"
    and d: "direct_turn m h"
  shows "child_verified (verified_relations (ar_ledger (sm_result m))) i"
proof (cases "i \<in> set (dict_keys (verified_relations l))")
  case True
  then have "child_verified (verified_relations l) i" using n po i(1,3) unfolding provenance_ok_def by blast
  moreover have "dict_le relation_le (verified_relations l) (verified_relations (ar_ledger (sm_result m)))"
    using m by (simp add: life_semantics_ok_def semantics_ok_def result_ok_def ledger_le_def)
  ultimately show ?thesis by (metis child_verified_mono)
next
  case False
  then have "i \<in> set (as_new_relation_ids (ar_state (sm_result m)))"
    using m turn_evidence_verified [OF i(2)] unfolding life_semantics_ok_def newly_tracked_def by blast
  then show ?thesis using m d by (simp add: life_semantics_ok_def semantics_ok_def direct_turn_def)
qed

lemma track_note_ok:
  assumes n: "note_ok p l n" and m: "life_semantics_ok H sn p l m" and po: "po_note_policy (li_policies p) \<noteq> Note_None"
  shows "note_ok p (ar_ledger (sm_result m)) (track_note_state p m h h' n)"
proof -
  let ?r = "sm_result m" and ?notes = "po_note_relation_ids (li_policies p)" and ?d = "direct_turn m h"
  let ?st = "foldl (track_life_relation ?r ?d) (ns_independent n, ns_supported n) ?notes"
  have pr: "provenance_ok p l n" using n by (simp add: note_ok_def)
  have le: "dict_le relation_le (verified_relations l) (verified_relations (ar_ledger ?r))"
    using m by (simp add: life_semantics_ok_def semantics_ok_def result_ok_def ledger_le_def)
  have nt: "newly_tracked l ?r" using m by (simp add: life_semantics_ok_def)
  have c: "set (dict_keys (ns_independent n)) \<union> set (ns_supported n) \<subseteq> set ?notes"
    "set ?notes \<subseteq> relation_id ` set (lg_relations (li_graph p))"
    using n unfolding note_ok_def check_task_notes_Inr by blast+
  have v: "set (dict_keys (ns_independent n)) \<inter> set (ns_supported n) = {}"
    "\<forall>es \<in> set (map snd (ns_independent n)). es \<noteq> [] \<and> distinct es" "ns_emitted n = (ns_note_id n \<noteq> None)"
    using n unfolding note_ok_def validate_note_provenance_Inr by blast+
  have "\<forall>i \<in> set (dict_keys (ns_independent n)). child_verified (verified_relations (ar_ledger ?r)) i"
    using pr child_verified_mono [OF le] unfolding provenance_ok_def by blast
  then have p0: "tracked_pair ?notes ?r (ns_independent n, ns_supported n)"
    using c(1) v(1,2) pr unfolding tracked_pair_def provenance_ok_def prod.case by blast
  obtain ind sup where st: "?st = (ind, sup)" by (cases ?st)
  have "child_verified (verified_relations (ar_ledger ?r)) i"
    if "?d" "turn_evidence ?r i \<noteq> []" "i \<notin> set (snd (ns_independent n, ns_supported n))" "i \<in> set ?notes" for i
    using direct_evidence_verified [OF pr m po that(4,2) _ that(1)] that(3) by simp
  note f' = track_relations_pair [where direct = ?d, OF p0 subset_refl this]
  have f: "tracked_pair ?notes ?r (ind, sup)" "set (dict_keys (ns_independent n)) \<subseteq> set (dict_keys ind)"
    "set (ns_supported n) \<subseteq> set sup"
    "\<forall>i \<in> set ?notes. turn_evidence ?r i \<noteq> [] \<longrightarrow> i \<in> set (dict_keys ind) \<union> set sup"
    using f' unfolding st fst_conv snd_conv by blast+
  define extra where "extra = (if h \<in> {H2, H3} \<or> h' \<in> {H2, H3}
    then filter (\<lambda>i. i \<notin> set (dict_keys (verified_relations (ar_ledger ?r)))) ?notes else [])"
  have x: "set extra \<subseteq> set ?notes" "set extra \<inter> set (dict_keys (verified_relations (ar_ledger ?r))) = {}"
    by (auto simp: extra_def simp del: set_map)
  have t: "track_note_state p m h h' n = n\<lparr>ns_independent := ind, ns_supported := sort (dedup (sup @ extra)),
      ns_joint := (ns_joint n \<or> sm_source m = Structured_Joint)\<rparr>"
    unfolding track_note_state_def Let_def st extra_def by simp
  have i: "dict_ok ind" "set (dict_keys ind) \<inter> set sup = {}" "set (dict_keys ind) \<union> set sup \<subseteq> set ?notes"
    "\<forall>es \<in> set (map snd ind). es \<noteq> [] \<and> distinct es"
    "\<forall>k \<in> set (dict_keys ind). child_verified (verified_relations (ar_ledger ?r)) k"
    using f(1) unfolding tracked_pair_def prod.case by blast+
  have "set (dict_keys ind) \<inter> set extra = {}" using i(5) child_verified_key x(2) by blast
  moreover have "k \<in> set (dict_keys ind) \<union> set sup"
    if "k \<in> set ?notes" "k \<in> set (dict_keys (verified_relations (ar_ledger ?r)))" for k
  proof (cases "k \<in> set (dict_keys (verified_relations l))")
    case True
    then show ?thesis using pr po that(1) f(2,3) unfolding provenance_ok_def by blast
  next
    case False
    then show ?thesis using nt that f(4) unfolding newly_tracked_def by blast
  qed
  then have "\<forall>k \<in> set ?notes. k \<in> set (dict_keys (verified_relations (ar_ledger ?r))) \<longrightarrow>
      k \<in> set (dict_keys ind) \<union> set (sup @ extra)" by (simp del: set_map) blast
  ultimately show ?thesis unfolding t note_ok_def check_task_notes_Inr validate_note_provenance_Inr provenance_ok_def
    using i x(1) c(2) v(3) po by (simp add: Int_Un_distrib del: set_map)
qed

end
