(* ===== verification/Life_Session.thy ===== *)
theory Life_Session
  imports Life_Laws
begin

text \<open>
  The stored runtime of a cafe or amusement conversation, task by task: what makes it loadable, what
  pinning gives, and how one update of one task keeps the rest.
\<close>

section \<open>The state of one task\<close>

type_synonym task_slot = "string option \<times> reasoning_ledger option \<times> task_note_state option"

definition task_slot :: "pinned_scenario \<Rightarrow> string \<Rightarrow> task_slot" where
  "task_slot ps t = (dict_get (ps_variants ps) t, dict_get (ps_ledgers ps) t, dict_get (ps_notes ps) t)"

definition life_snapshot :: "(task_pack \<Rightarrow> string) \<Rightarrow> life_pack \<Rightarrow> snapshot" where
  "life_snapshot H p = \<lparr>sn_pack_id = li_pack_id p, sn_content_version = li_content_version p,
     sn_subject = li_task_id p, sn_content_hash = H (Life p), sn_payload = Life p\<rparr>"

definition task_ready ::
    "(task_pack \<Rightarrow> string) \<Rightarrow> life_pack \<Rightarrow> reasoning_ledger \<Rightarrow> task_note_state \<Rightarrow> bool" where
  "task_ready H p l n \<longleftrightarrow> resolved_task H (life_snapshot H p) (Life p) l
     \<and> map_keys_must_match_entries l = Inr () \<and> note_ok p l n"

definition slot_holds ::
    "task_stage \<Rightarrow> task_slot \<Rightarrow> (life_pack \<Rightarrow> reasoning_ledger \<Rightarrow> task_note_state \<Rightarrow> bool) \<Rightarrow> bool" where
  "slot_holds st slot P \<longleftrightarrow>
     (case slot of
        (Some v, Some l, Some n) \<Rightarrow> (case dict_get (st_variants st) v of Some p \<Rightarrow> P p l n | None \<Rightarrow> False)
      | _ \<Rightarrow> False)"

abbreviation stage_ready :: "(task_pack \<Rightarrow> string) \<Rightarrow> task_stage \<Rightarrow> task_slot \<Rightarrow> bool" where
  "stage_ready H st slot \<equiv> slot_holds st slot (task_ready H)"

lemma slot_holds_iff:
  "slot_holds st slot P \<longleftrightarrow> (\<exists>v l n p. slot = (Some v, Some l, Some n) \<and> dict_get (st_variants st) v = Some p \<and> P p l n)"
  by (auto simp: slot_holds_def split: prod.splits option.splits)

lemma slot_holds_mono: "slot_holds st slot P \<Longrightarrow> (\<And>p l n. P p l n \<Longrightarrow> Q p l n) \<Longrightarrow> slot_holds st slot Q"
  unfolding slot_holds_iff by blast

lemma pin_life: "pin_pack H (Life p) = Inr sn \<longleftrightarrow> validate_life_pack p = Inr () \<and> sn = life_snapshot H p"
  by (auto simp: pin_pack_def life_snapshot_def validate_pinned_pack_def snapshot_matches_def bindr_eq_Inr
      check_Inr)

lemma pin_life_pack: "validate_life_pack p = Inr () \<Longrightarrow> pin_pack H (Life p) = Inr (life_snapshot H p)"
  using pin_life by blast

lemma empty_task_resolved:
  assumes "validate_life_pack p = Inr ()"
  shows "resolved_task H (life_snapshot H p) (Life p) (empty_reasoning_ledger (life_snapshot H p))"
  using assms by (simp add: resolved_task_def resolve_pack_Inr snapshot_matches_def life_snapshot_def
      validate_ledger_binding_def empty_reasoning_ledger_def Let_def)

lemma empty_ledger_keys: "map_keys_must_match_entries (empty_reasoning_ledger sn) = Inr ()"
  by (simp add: map_keys_must_match_entries_def empty_reasoning_ledger_def bounded_def)

lemma empty_task_ready:
  assumes "validate_life_pack p = Inr ()"
  shows "task_ready H p (empty_reasoning_ledger (life_snapshot H p)) empty_note_state"
proof -
  have "set (po_note_relation_ids (li_policies p)) \<subseteq> relation_id ` set (lg_relations (li_graph p))"
    using validate_life_pack_parts(2) [OF assms]
    by (auto simp: validate_task_def Let_def bindr_eq_Inr split: if_splits)
  then have "check_task_notes p empty_note_state = Inr ()"
    by (simp add: check_task_notes_Inr empty_note_state_def)
  then show ?thesis using empty_note_ok [of p "life_snapshot H p"] empty_task_resolved [OF assms] empty_ledger_keys
    by (simp add: task_ready_def)
qed

lemma empty_task_open:
  assumes "validate_life_pack p = Inr ()"
  shows "\<not> co_complete (completion_of (Life p) (empty_reasoning_ledger sn))"
proof -
  have "required_fact_ids (lg_completion (li_graph p)) \<noteq> []"
    using validate_life_pack_parts(6) [OF assms] unfolding check_all_Inr by (auto simp: life_fields_def field_def)
  then show ?thesis by (cases "required_fact_ids (lg_completion (li_graph p))")
    (simp_all add: completion_of_complete empty_reasoning_ledger_def)
qed

section \<open>A scenario in good order\<close>

abbreviation task_ids :: "scenario_pack \<Rightarrow> string list" where
  "task_ids sc \<equiv> map st_task_id (sp_stages sc)"

definition scenario_ready ::
    "(task_pack \<Rightarrow> string) \<Rightarrow> (scenario_pack \<Rightarrow> string) \<Rightarrow> scenario_pack \<Rightarrow> pinned_scenario \<Rightarrow> bool" where
  "scenario_ready H Hs sc ps \<longleftrightarrow> validate_scenario_pack sc = Inr ()
     \<and> (ps_pack ps, ps_pack_id ps, ps_content_version ps, ps_source_hash ps)
         = (sc, sp_pack_id sc, sp_content_version sc, Hs sc)
     \<and> dict_ok (ps_variants ps) \<and> dict_ok (ps_ledgers ps) \<and> dict_ok (ps_notes ps)
     \<and> set (dict_keys (ps_variants ps)) = set (task_ids sc) \<and> set (dict_keys (ps_ledgers ps)) = set (task_ids sc)
     \<and> set (dict_keys (ps_notes ps)) = set (task_ids sc)
     \<and> (\<forall>st \<in> set (sp_stages sc). stage_ready H st (task_slot ps (st_task_id st)))"

lemma scenario_pack_parts:
  assumes "validate_scenario_pack sc = Inr ()"
  shows "distinct (task_ids sc)" and "sp_stages sc \<noteq> []"
    and "\<And>st. st \<in> set (sp_stages sc) \<Longrightarrow> \<exists>p. dict_get (st_variants st) (st_default_variant st) = Some p"
    and "\<And>st v p. st \<in> set (sp_stages sc) \<Longrightarrow> dict_get (st_variants st) v = Some p \<Longrightarrow>
           validate_life_pack p = Inr () \<and> li_task_id p = st_task_id st"
proof -
  note parts = assms [unfolded validate_scenario_pack_def bindr_eq_Inr for_each_Inr check_all_Inr]
  have st: "validate_stage st = Inr ()" if "st \<in> set (sp_stages sc)" for st using parts that by blast
  have "validate_scenario sc = Inr ()" using parts by blast
  then show "distinct (task_ids sc)"
    unfolding validate_scenario_def Let_def bindr_eq_Inr check_all_Inr by simp
  have "1 \<le> length (sp_stages sc)" using parts by (auto simp: field_def)
  then show "sp_stages sc \<noteq> []" by auto
  have v: "validate_variants st = Inr ()" "\<forall>p \<in> set (map snd (st_variants st)). validate_life_pack p = Inr ()"
    if "st \<in> set (sp_stages sc)" for st
    using st [OF that] unfolding validate_stage_def bindr_eq_Inr for_each_Inr by blast+
  have w: "st_default_variant st \<in> set (dict_keys (st_variants st))"
    "\<forall>p \<in> set (map snd (st_variants st)). li_task_id p = st_task_id st" if "st \<in> set (sp_stages sc)" for st
    using v(1) [OF that] unfolding validate_variants_def check_all_Inr by (simp_all del: set_map)
  show "\<exists>p. dict_get (st_variants st) (st_default_variant st) = Some p" if "st \<in> set (sp_stages sc)" for st
    using w(1) [OF that] dict_get_None_iff by (metis not_None_eq)
  show "validate_life_pack p = Inr () \<and> li_task_id p = st_task_id st"
    if "st \<in> set (sp_stages sc)" "dict_get (st_variants st) v = Some p" for st v p
  proof -
    have "p \<in> set (map snd (st_variants st))" using that(2) by (force dest: map_of_SomeD)
    then show ?thesis using v(2) w(2) that(1) by blast
  qed
qed

lemma stage_lookup:
  assumes "validate_scenario_pack sc = Inr ()" and "st \<in> set (sp_stages sc)"
  shows "stage_by_task_id sc (st_task_id st) = Inr st"
proof -
  have "\<exists>s \<in> set (sp_stages sc). st_task_id s = st_task_id st" using assms(2) by blast
  from py_next_total [OF this] obtain st' where s: "stage_by_task_id sc (st_task_id st) = Inr st'"
    unfolding stage_by_task_id_def by blast
  then have "st' \<in> set (sp_stages sc)" "st_task_id st' = st_task_id st"
    by (auto simp: stage_by_task_id_def dest: py_next_Inr)
  then have "st' = st" using inj_onD [OF conjunct2 [OF scenario_pack_parts(1) [OF assms(1), unfolded distinct_map]]]
      assms(2) by blast
  then show ?thesis using s by simp
qed

lemma stage_found:
  "stage_by_task_id sc t = Inr st \<Longrightarrow> st \<in> set (sp_stages sc) \<and> st_task_id st = t"
  by (auto simp: stage_by_task_id_def dest: py_next_Inr)

text \<open>A scenario in good order loads: neither the content check nor the model validators reject it.\<close>

lemma ready_scenario_loads:
  assumes "scenario_ready H Hs sc ps"
  shows "resolve_life_scenario H Hs ps = Inr sc" and "validate_pinned_scenario ps = Inr ()"
proof -
  note r = assms [unfolded scenario_ready_def]
  have one: "bindr (stage_by_task_id sc t) (\<lambda>st.
        case dict_get (st_variants st) v of
          None \<Rightarrow> Inl (snapshot_error ''active life task variant is unavailable'')
        | Some p \<Rightarrow> bindr (py_index (ps_ledgers ps) t) (\<lambda>l.
          if \<not> ledger_bound H p l
          then Inl (snapshot_error ''life reasoning ledger is not bound to active task variant'')
          else bindr (py_index (ps_notes ps) t) (check_task_notes p))) = Inr ()"
    if tv: "(t, v) \<in> set (ps_variants ps)" for t v
  proof -
    have "t \<in> set (task_ids sc)" using tv r by (metis fst_conv image_eqI list.set_map)
    then obtain st where st: "st \<in> set (sp_stages sc)" "st_task_id st = t" by auto
    have v: "dict_get (ps_variants ps) t = Some v" using r tv by (intro dict_in_get) blast+
    have "stage_ready H st (task_slot ps t)" using r st by blast
    then obtain l n p where s: "dict_get (ps_ledgers ps) t = Some l" "dict_get (ps_notes ps) t = Some n"
      "dict_get (st_variants st) v = Some p" "task_ready H p l n"
      unfolding slot_holds_iff task_slot_def v by auto
    have "ledger_bound H p l" using s(4)
      by (auto simp: task_ready_def resolved_task_def validate_ledger_binding_def Let_def bindr_eq_Inr
          ledger_bound_def life_snapshot_def simp del: set_map split: if_splits)
    then show ?thesis using s r stage_lookup [of sc st] st by (simp add: py_index_def task_ready_def note_ok_def)
  qed
  have k: "(set (dict_keys (ps_variants ps)) \<noteq> set (task_ids sc)) = False" using r by blast
  have "validate_task_state H sc ps = Inr ()"
    unfolding validate_task_state_def k if_False for_each_Inr
  proof
    fix x assume "x \<in> set (ps_variants ps)"
    then show "(case x of (t, v) \<Rightarrow> bindr (stage_by_task_id sc t) (\<lambda>st.
        case dict_get (st_variants st) v of
          None \<Rightarrow> Inl (snapshot_error ''active life task variant is unavailable'')
        | Some p \<Rightarrow> bindr (py_index (ps_ledgers ps) t) (\<lambda>l.
          if \<not> ledger_bound H p l
          then Inl (snapshot_error ''life reasoning ledger is not bound to active task variant'')
          else bindr (py_index (ps_notes ps) t) (check_task_notes p)))) = Inr ()"
      by (cases x rule: prod.exhaust) (simp only: prod.case one)
  qed
  then show "resolve_life_scenario H Hs ps = Inr sc" using r by (simp add: resolve_life_scenario_def)
  have n: "validate_note_provenance n = Inr ()" if "(t, n) \<in> set (ps_notes ps)" for t n
  proof -
    have "t \<in> set (task_ids sc)" using that r by (metis fst_conv image_eqI list.set_map)
    then obtain st where st: "st \<in> set (sp_stages sc)" "st_task_id st = t" by auto
    have "dict_get (ps_notes ps) t = Some n" using r that by (intro dict_in_get) blast+
    moreover have "stage_ready H st (task_slot ps t)" using r st by blast
    ultimately show ?thesis unfolding slot_holds_iff task_slot_def by (auto simp: task_ready_def note_ok_def)
  qed
  have "for_each validate_note_provenance (map snd (ps_notes ps)) = Inr ()"
    using n by (auto simp: for_each_Inr)
  then show "validate_pinned_scenario ps = Inr ()"
    using r by (simp add: validate_pinned_scenario_def task_scopes_must_match_def check_Inr del: set_map)
qed

lemma ready_slot:
  assumes "scenario_ready H Hs sc ps" and "st \<in> set (sp_stages sc)"
  obtains v l n p where "task_slot ps (st_task_id st) = (Some v, Some l, Some n)"
    "dict_get (st_variants st) v = Some p" "task_ready H p l n" "li_task_id p = st_task_id st"
    "validate_life_pack p = Inr ()"
proof -
  have "stage_ready H st (task_slot ps (st_task_id st))" "validate_scenario_pack sc = Inr ()"
    using assms by (auto simp: scenario_ready_def)
  then show thesis using that scenario_pack_parts(4) assms(2) unfolding slot_holds_iff by blast
qed

section \<open>Changing one task\<close>

text \<open>\<open>same_but t ps ps'\<close>: the two runtimes pin the same scenario and differ in task \<open>t\<close> at most.\<close>

definition same_but :: "string set \<Rightarrow> pinned_scenario \<Rightarrow> pinned_scenario \<Rightarrow> bool" where
  "same_but T ps ps' \<longleftrightarrow>
     (ps_pack ps', ps_pack_id ps', ps_content_version ps', ps_source_hash ps')
       = (ps_pack ps, ps_pack_id ps, ps_content_version ps, ps_source_hash ps)
     \<and> (\<forall>t. t \<notin> T \<longrightarrow> task_slot ps' t = task_slot ps t)"

lemma same_but_refl [simp]: "same_but T ps ps"
  by (simp add: same_but_def)

lemma same_but_trans: "same_but S a b \<Longrightarrow> same_but T b c \<Longrightarrow> same_but (S \<union> T) a c"
  by (simp add: same_but_def)

lemma same_but_mono: "same_but S a b \<Longrightarrow> S \<subseteq> T \<Longrightarrow> same_but T a b"
  by (auto simp: same_but_def)

lemma same_but_slot: "same_but T ps ps' \<Longrightarrow> t \<notin> T \<Longrightarrow> task_slot ps' t = task_slot ps t"
  by (simp add: same_but_def)

lemma ready_change:
  assumes r: "scenario_ready H Hs sc ps" and b: "same_but T ps ps'"
    and ok: "dict_ok (ps_variants ps')" "dict_ok (ps_ledgers ps')" "dict_ok (ps_notes ps')"
    and k: "set (dict_keys (ps_variants ps')) = set (task_ids sc)" "set (dict_keys (ps_ledgers ps')) = set (task_ids sc)"
      "set (dict_keys (ps_notes ps')) = set (task_ids sc)"
    and t: "\<And>st. st \<in> set (sp_stages sc) \<Longrightarrow> st_task_id st \<in> T \<Longrightarrow> stage_ready H st (task_slot ps' (st_task_id st))"
  shows "scenario_ready H Hs sc ps'"
proof -
  have "stage_ready H st (task_slot ps' (st_task_id st))" if "st \<in> set (sp_stages sc)" for st
    using t [OF that] r that same_but_slot [OF b, of "st_task_id st"] unfolding scenario_ready_def by metis
  then show ?thesis using r b ok k unfolding scenario_ready_def same_but_def by auto
qed

end
