(* ===== verification/Life_Run.thy ===== *)
theory Life_Run
  imports Life_Session
begin

text \<open>
  The steps of a cafe or amusement conversation on the stored runtime: pinning, one answer, the end of a
  task and the start of the next one.
\<close>

section \<open>Pinning\<close>

lemma assign_map:
  assumes "distinct (map k xs)"
  shows "assign_all (map (\<lambda>x. (k x, f x)) xs) [] = map (\<lambda>x. (k x, f x)) xs"
proof -
  have "foldl (\<lambda>d x. AList.update (fst x) (snd x) d) [] (map (\<lambda>x. (k x, f x)) xs) = map (\<lambda>x. (k x, f x)) xs"
    if "distinct (map k xs)" for xs
    using that
  proof (induction xs rule: rev_induct)
    case (snoc x xs)
    then have "k x \<notin> set (dict_keys (map (\<lambda>x. (k x, f x)) xs))" by auto
    then show ?case using snoc by (simp add: dict_update_fresh del: set_map)
  qed simp
  from this [OF assms] show ?thesis by (simp add: assign_all_def case_prod_beta')
qed

lemma get_map:
  assumes "distinct (map k xs)" and "x \<in> set xs"
  shows "dict_get (map (\<lambda>x. (k x, f x)) xs) (k x) = Some (f x)"
proof -
  have "dict_ok (map (\<lambda>x. (k x, f x)) xs)" using assms(1) by (simp add: dict_ok_def comp_def)
  then show ?thesis using assms(2) by (intro dict_in_get) auto
qed

lemma mapr_all: "(\<And>x. x \<in> set xs \<Longrightarrow> f x = Inr (g x)) \<Longrightarrow> mapr f xs = Inr (map g xs)"
  by (induction xs) auto

definition default_life :: "task_stage \<Rightarrow> life_pack" where
  "default_life st = the (dict_get (st_variants st) (st_default_variant st))"

definition fresh_scenario ::
    "(task_pack \<Rightarrow> string) \<Rightarrow> (scenario_pack \<Rightarrow> string) \<Rightarrow> scenario_pack \<Rightarrow> pinned_scenario" where
  "fresh_scenario H Hs sc = \<lparr>ps_pack = sc, ps_pack_id = sp_pack_id sc, ps_content_version = sp_content_version sc,
     ps_source_hash = Hs sc, ps_variants = map (\<lambda>st. (st_task_id st, st_default_variant st)) (sp_stages sc),
     ps_ledgers = map (\<lambda>st. (st_task_id st, empty_reasoning_ledger (life_snapshot H (default_life st)))) (sp_stages sc),
     ps_notes = map (\<lambda>st. (st_task_id st, empty_note_state)) (sp_stages sc)\<rparr>"

lemma fresh_slot:
  assumes "validate_scenario_pack sc = Inr ()" and "st \<in> set (sp_stages sc)"
  shows "task_slot (fresh_scenario H Hs sc) (st_task_id st) = (Some (st_default_variant st),
     Some (empty_reasoning_ledger (life_snapshot H (default_life st))), Some empty_note_state)"
  by (simp add: task_slot_def fresh_scenario_def get_map [OF scenario_pack_parts(1) [OF assms(1)] assms(2)])

lemma default_life_get:
  assumes "validate_scenario_pack sc = Inr ()" and "st \<in> set (sp_stages sc)"
  shows "dict_get (st_variants st) (st_default_variant st) = Some (default_life st)"
    and "validate_life_pack (default_life st) = Inr ()"
proof -
  obtain p where p: "dict_get (st_variants st) (st_default_variant st) = Some p"
    using scenario_pack_parts(3) [OF assms] by blast
  then show "dict_get (st_variants st) (st_default_variant st) = Some (default_life st)"
    "validate_life_pack (default_life st) = Inr ()"
    using scenario_pack_parts(4) [OF assms p] by (simp_all add: default_life_def)
qed

lemma fresh_scenario_ready:
  assumes v: "validate_scenario_pack sc = Inr ()"
  shows "scenario_ready H Hs sc (fresh_scenario H Hs sc)"
proof -
  note d = scenario_pack_parts(1) [OF v]
  have "stage_ready H st (task_slot (fresh_scenario H Hs sc) (st_task_id st))" if "st \<in> set (sp_stages sc)" for st
    unfolding fresh_slot [OF v that] slot_holds_iff
    using default_life_get [OF v that] empty_task_ready by blast
  then show ?thesis using v d
    by (simp add: scenario_ready_def dict_ok_def fresh_scenario_def comp_def image_image)
qed

lemma pin_scenario:
  assumes "pin_life_scenario H Hs sc = Inr ps"
  shows "validate_scenario_pack sc = Inr ()" and "ps = fresh_scenario H Hs sc"
proof -
  obtain ls where ls: "mapr (\<lambda>st. bindr (default_pack st) (\<lambda>p. bindr (pin_pack H (Life p)) (\<lambda>sn.
              Inr (st_task_id st, empty_reasoning_ledger sn)))) (sp_stages sc) = Inr ls"
    and ps: "ps = \<lparr>ps_pack = sc, ps_pack_id = sp_pack_id sc, ps_content_version = sp_content_version sc,
               ps_source_hash = Hs sc,
               ps_variants = assign_all (map (\<lambda>st. (st_task_id st, st_default_variant st)) (sp_stages sc)) [],
               ps_ledgers = assign_all ls [],
               ps_notes = assign_all (map (\<lambda>st. (st_task_id st, empty_note_state)) (sp_stages sc)) []\<rparr>"
    and r: "resolve_life_scenario H Hs ps = Inr sc \<or> (\<exists>sc'. resolve_life_scenario H Hs ps = Inr sc')"
    using assms by (auto simp: pin_life_scenario_def bindr_eq_Inr Let_def)
  show v: "validate_scenario_pack sc = Inr ()" using r by (auto simp: resolve_life_scenario_def bindr_eq_Inr ps)
  have "mapr (\<lambda>st. bindr (default_pack st) (\<lambda>p. bindr (pin_pack H (Life p)) (\<lambda>sn.
              Inr (st_task_id st, empty_reasoning_ledger sn)))) (sp_stages sc)
      = Inr (map (\<lambda>st. (st_task_id st, empty_reasoning_ledger (life_snapshot H (default_life st)))) (sp_stages sc))"
    using default_life_get [OF v] pin_life_pack by (intro mapr_all) (simp add: default_pack_def py_index_def)
  then show "ps = fresh_scenario H Hs sc" using ls scenario_pack_parts(1) [OF v] unfolding ps
    by (simp add: assign_map fresh_scenario_def)
qed

section \<open>The active task\<close>

definition at_task :: "scenario_pack \<Rightarrow> dialogue_state \<Rightarrow> task_stage" where
  "at_task sc s = sp_stages sc ! ss_task_index s"

text \<open>The place of a conversation, which no step changes.\<close>

definition in_scenario :: "scenario_pack \<Rightarrow> dialogue_state \<Rightarrow> bool" where
  "in_scenario sc s \<longleftrightarrow> ss_runtime s = VERDICT_V1 \<and> ds_scene s = sp_scene sc \<and> ss_scenario_id s = sp_scenario_id sc
     \<and> ss_task_ids s = task_ids sc \<and> ss_task_index s < length (sp_stages sc)"

lemma current_task_at:
  assumes "in_scenario sc s"
  shows "current_task s = Inr (st_task_id (at_task sc s))" and "at_task sc s \<in> set (sp_stages sc)"
  using assms by (simp_all add: current_task_def current_task_id_def in_scenario_def at_task_def session.truncate_def)

lemma resolve_scenario_ready:
  assumes "in_scenario sc s" and "ds_life s = Some ps" and "scenario_ready (en_hash env) (en_scenario_hash env) sc ps"
  shows "resolve_scenario env s = Inr (sc, ps)"
  using assms ready_scenario_loads(1) [OF assms(3)] by (simp add: resolve_scenario_def in_scenario_def)

lemma resolve_life_ready:
  assumes i: "in_scenario sc s" and l: "ds_life s = Some ps"
    and r: "scenario_ready (en_hash env) (en_scenario_hash env) sc ps"
    and slot: "task_slot ps (st_task_id (at_task sc s)) = (Some v, Some l, Some n)"
    and p: "dict_get (st_variants (at_task sc s)) v = Some p"
  shows "resolve_life_state env s = Inr (p, life_snapshot (en_hash env) p, l)"
proof -
  note c = current_task_at [OF i]
  have val: "validate_scenario_pack sc = Inr ()" using r by (simp add: scenario_ready_def)
  have t: "task_ready (en_hash env) p l n"
    by (rule ready_slot [OF r c(2)]) (use slot p in auto)
  have "pack_of_task ps sc (st_task_id (at_task sc s)) = Inr p" "ledger_of_task ps (st_task_id (at_task sc s)) = Inr l"
    using stage_lookup [OF val c(2)] slot p t
    by (simp_all add: pack_of_task_def ledger_of_task_def task_slot_def py_index_def task_ready_def)
  moreover have "pin_pack (en_hash env) (Life p) = Inr (life_snapshot (en_hash env) p)"
    using scenario_pack_parts(4) [OF val c(2) p] by (intro pin_life_pack) simp
  moreover have "reasoning_completion (en_hash env) (life_snapshot (en_hash env) p) l = Inr (completion_of (Life p) l)"
    using t by (intro resolved_completion) (simp add: task_ready_def)
  ultimately show ?thesis using i resolve_scenario_ready [OF i l r] c(1)
    by (simp add: resolve_life_state_def in_scenario_def key_error_as_def)
qed

section \<open>What an answer changes\<close>

lemma on_session_fields:
  "ds_life (on_session f s) = ds_life s" "ds_scene (on_session f s) = ds_scene s"
  "ds_patches (on_session f s) = ds_patches s" "ds_transition (on_session f s) = ds_transition s"
  "session.truncate (on_session f s) = f (session.truncate s)"
  "ss_runtime (on_session f s) = ss_runtime (f (session.truncate s))"
  "ss_scenario_id (on_session f s) = ss_scenario_id (f (session.truncate s))"
  "ss_task_ids (on_session f s) = ss_task_ids (f (session.truncate s))"
  "ss_task_index (on_session f s) = ss_task_index (f (session.truncate s))"
  "ss_status (on_session f s) = ss_status (f (session.truncate s))"
  "ss_joint_used (on_session f s) = ss_joint_used (f (session.truncate s))"
  "ss_all_direct (on_session f s) = ss_all_direct (f (session.truncate s))"
  "ss_outcome (on_session f s) = ss_outcome (f (session.truncate s))"
  "ss_reward (on_session f s) = ss_reward (f (session.truncate s))"
  by (cases s; cases "f (session.truncate s)"; simp add: on_session_def session.extend_def session.truncate_def)+

lemma truncate_views:
  "ss_runtime (session.truncate s) = ss_runtime s" "ss_scenario_id (session.truncate s) = ss_scenario_id s"
  "ss_task_ids (session.truncate s) = ss_task_ids s" "ss_task_index (session.truncate s) = ss_task_index s"
  "ss_status (session.truncate s) = ss_status s" "ss_joint_used (session.truncate s) = ss_joint_used s"
  "ss_all_direct (session.truncate s) = ss_all_direct s" "ss_outcome (session.truncate s) = ss_outcome s"
  "ss_reward (session.truncate s) = ss_reward s"
  by (simp_all add: session.truncate_def)

text \<open>The fields that place a conversation and the ones that record how far it came.\<close>

definition place :: "dialogue_state \<Rightarrow> runtime_contract_version \<times> scene_type \<times> string \<times> string list" where
  "place s = (ss_runtime s, ds_scene s, ss_scenario_id s, ss_task_ids s)"

definition progress :: "dialogue_state \<Rightarrow> nat \<times> session_status \<times> bool \<times> bool \<times> completion_outcome option \<times> bool" where
  "progress s = (ss_task_index s, ss_status s, ss_joint_used s, ss_all_direct s, ss_outcome s, ss_reward s)"

lemmas life_views = place_def progress_def

lemma in_scenario_place:
  "place s' = place s \<Longrightarrow> ss_task_index s' = ss_task_index s \<Longrightarrow> in_scenario sc s' = in_scenario sc s"
  by (simp add: place_def in_scenario_def)

lemma policy_frame:
  "place (on_session (\<lambda>x. apply_ladder_policy x m) s) = place s"
  "progress (on_session (\<lambda>x. apply_ladder_policy x m) s) = progress s"
  using apply_ladder_policy_frame(1,2) [of "session.truncate s" m]
  by (simp_all add: view_defs life_views truncate_views on_session_fields)

definition answered ::
    "string \<Rightarrow> life_pack \<Rightarrow> turn_semantics \<Rightarrow> hint_level \<Rightarrow> hint_level \<Rightarrow> pinned_scenario \<Rightarrow> pinned_scenario" where
  "answered t p m h h' ps =
     (let ps1 = ps\<lparr>ps_ledgers := AList.update t (ar_ledger (sm_result m)) (ps_ledgers ps)\<rparr>
      in if po_note_policy (li_policies p) = Note_None then ps1
         else ps1\<lparr>ps_notes := AList.update (li_task_id p)
                (track_note_state p m h h' (the (dict_get (ps_notes ps) (li_task_id p)))) (ps_notes ps1)\<rparr>)"

lemma apply_life_effect:
  assumes a: "apply_life s p m patch h = Inr s'" and i: "in_scenario sc s" and l: "ds_life s = Some ps"
  shows "place s' = place s" "progress s' = progress s"
    "ds_life s' = Some (answered (st_task_id (at_task sc s)) p m h (ss_hint s') ps)"
    "po_note_policy (li_policies p) \<noteq> Note_None \<Longrightarrow> \<exists>n. dict_get (ps_notes ps) (li_task_id p) = Some n"
proof -
  obtain s1 s2 s3 where s1: "life_policy s m patch = Inr s1" and s2: "store_life_ledger s1 (ar_ledger (sm_result m)) = Inr s2"
    and s3: "sync_life_slots s2 p (ar_ledger (sm_result m)) = Inr s3" and s': "track_life_note s3 p m h = Inr s'"
    using a by (auto simp: apply_life_def bindr_eq_Inr)
  let ?t = "st_task_id (at_task sc s)"
  have e1: "place s1 = place s \<and> progress s1 = progress s \<and> ds_life s1 = Some ps"
  proof -
    obtain d where "s1 = (on_session (\<lambda>x. apply_ladder_policy x m) s)\<lparr>ds_patches := d\<rparr>"
      using s1 by (cases patch) (auto simp: life_policy_def Let_def bindr_eq_Inr,
        metis dialogue_state.surjective dialogue_state.update_convs(11))
    then show ?thesis using policy_frame [of m s] l by (simp add: life_views on_session_fields)
  qed
  then have "ss_task_index s1 = ss_task_index s" by (simp add: progress_def)
  then have i1: "in_scenario sc s1" and t1: "at_task sc s1 = at_task sc s"
    using e1 i in_scenario_place [of s1 s] by (auto simp: at_task_def)
  have e2: "s2 = s1\<lparr>ds_life := Some (ps\<lparr>ps_ledgers := AList.update ?t (ar_ledger (sm_result m)) (ps_ledgers ps)\<rparr>)\<rparr>"
    using s2 e1 current_task_at(1) [OF i1] t1 by (simp add: store_life_ledger_def)
  obtain vs where e3: "s3 = s2\<lparr>ss_verified_slots := vs\<rparr>" using s3 by (auto simp: sync_life_slots_def bindr_eq_Inr)
  have f: "place s' = place s1 \<and> progress s' = progress s1 \<and> ss_hint s' = ss_hint s3
    \<and> ds_life s' = Some (answered ?t p m h (ss_hint s3) ps)
    \<and> (po_note_policy (li_policies p) \<noteq> Note_None \<longrightarrow> (\<exists>n. dict_get (ps_notes ps) (li_task_id p) = Some n))"
    using s' unfolding track_life_note_def e3 e2
    by (auto simp: answered_def Let_def life_views bindr_eq_Inr py_index_Inr split: if_splits)
  then show "place s' = place s" "progress s' = progress s"
    "ds_life s' = Some (answered (st_task_id (at_task sc s)) p m h (ss_hint s') ps)"
    "po_note_policy (li_policies p) \<noteq> Note_None \<Longrightarrow> \<exists>n. dict_get (ps_notes ps) (li_task_id p) = Some n"
    using e1 by auto
qed

section \<open>Answers, new tasks and notes on the stored runtime\<close>

lemma get_update: "dict_get (AList.update k v d) k' = (if k' = k then Some v else dict_get d k')"
  by (simp add: update_conv')

lemma note_ok_mono:
  assumes "note_ok p l n" and "po_note_policy (li_policies p) = Note_None" and "ledger_le l l'"
  shows "note_ok p l' n"
  using assms child_verified_mono [of "verified_relations l" "verified_relations l'"]
  unfolding note_ok_def provenance_ok_def ledger_le_def by blast

definition answered_note ::
    "life_pack \<Rightarrow> turn_semantics \<Rightarrow> hint_level \<Rightarrow> hint_level \<Rightarrow> task_note_state \<Rightarrow> task_note_state" where
  "answered_note p m h h' n =
     (if po_note_policy (li_policies p) = Note_None then n else track_note_state p m h h' n)"

lemma answered_slot:
  assumes "task_slot ps t = (Some v, Some l, Some n)" and "li_task_id p = t"
  shows "task_slot (answered t p m h h' ps) t = (Some v, Some (ar_ledger (sm_result m)), Some (answered_note p m h h' n))"
    and "same_but {t} ps (answered t p m h h' ps)"
  using assms by (auto simp: task_slot_def answered_def answered_note_def Let_def get_update same_but_def)

lemma answered_task_ready:
  assumes r: "task_ready H p l n" and m: "life_semantics_ok H (life_snapshot H p) p l m"
  shows "task_ready H p (ar_ledger (sm_result m)) (answered_note p m h h' n)"
proof -
  have n: "note_ok p l n" using r by (simp add: task_ready_def)
  have m': "resolved_task H (life_snapshot H p) (Life p) (ar_ledger (sm_result m))"
    "ledger_le l (ar_ledger (sm_result m))" "map_keys_must_match_entries (ar_ledger (sm_result m)) = Inr ()"
    using m r by (simp_all add: life_semantics_ok_def semantics_ok_def result_ok_def newly_tracked_def task_ready_def)
  then show ?thesis using note_ok_mono [OF n _ m'(2)] track_note_ok [OF n m, of h h']
    by (simp add: task_ready_def answered_note_def)
qed

lemma answered_dicts:
  assumes "scenario_ready H Hs sc ps" and "t \<in> set (task_ids sc)" and "li_task_id p = t"
  shows "dict_ok (ps_variants (answered t p m h h' ps))" "dict_ok (ps_ledgers (answered t p m h h' ps))"
    "dict_ok (ps_notes (answered t p m h h' ps))"
    "set (dict_keys (ps_variants (answered t p m h h' ps))) = set (task_ids sc)"
    "set (dict_keys (ps_ledgers (answered t p m h h' ps))) = set (task_ids sc)"
    "set (dict_keys (ps_notes (answered t p m h h' ps))) = set (task_ids sc)"
  using assms unfolding scenario_ready_def answered_def Let_def
  by (simp_all add: insert_absorb del: set_map)

lemma answered_ready:
  assumes r: "scenario_ready H Hs sc ps" and st: "st \<in> set (sp_stages sc)"
    and slot: "task_slot ps (st_task_id st) = (Some v, Some l, Some n)" and p: "dict_get (st_variants st) v = Some p"
    and m: "life_semantics_ok H (life_snapshot H p) p l m"
  shows "scenario_ready H Hs sc (answered (st_task_id st) p m h h' ps)"
proof -
  have id: "li_task_id p = st_task_id st" and rdy: "task_ready H p l n"
    by (rule ready_slot [OF r st]; use slot p in auto)+
  have mem: "st_task_id st \<in> set (task_ids sc)" using st by simp
  have d: "distinct (task_ids sc)" using r scenario_pack_parts(1) by (auto simp: scenario_ready_def)
  note s = answered_slot [OF slot id, of m h h']
  have one: "stage_ready H st' (task_slot (answered (st_task_id st) p m h h' ps) (st_task_id st'))"
    if "st' \<in> set (sp_stages sc)" "st_task_id st' \<in> {st_task_id st}" for st'
  proof -
    have "st' = st" using that st d by (auto simp: distinct_map dest: inj_onD)
    then show ?thesis using s(1) p answered_task_ready [OF rdy m] unfolding slot_holds_iff by auto
  qed
  show ?thesis by (rule ready_change [OF r s(2) answered_dicts [OF r mem id] one])
qed

definition entered :: "(task_pack \<Rightarrow> string) \<Rightarrow> string \<Rightarrow> string \<Rightarrow> life_pack \<Rightarrow> pinned_scenario \<Rightarrow> pinned_scenario" where
  "entered H t v p ps = ps\<lparr>ps_variants := AList.update t v (ps_variants ps),
     ps_ledgers := AList.update t (empty_reasoning_ledger (life_snapshot H p)) (ps_ledgers ps)\<rparr>"

lemma entered_slot:
  assumes "dict_get (ps_notes ps) t = Some n"
  shows "task_slot (entered H t v p ps) t = (Some v, Some (empty_reasoning_ledger (life_snapshot H p)), Some n)"
    and "same_but {t} ps (entered H t v p ps)"
  using assms by (auto simp: task_slot_def entered_def get_update same_but_def)

lemma entered_ready:
  assumes r: "scenario_ready H Hs sc ps" and st: "st \<in> set (sp_stages sc)"
    and n: "dict_get (ps_notes ps) (st_task_id st) = Some empty_note_state" and p: "dict_get (st_variants st) v = Some p"
  shows "scenario_ready H Hs sc (entered H (st_task_id st) v p ps)"
proof -
  have v: "validate_scenario_pack sc = Inr ()" and mem: "st_task_id st \<in> set (task_ids sc)"
    using r st by (simp_all add: scenario_ready_def)
  note s = entered_slot [OF n, of H v p]
  have one: "stage_ready H st' (task_slot (entered H (st_task_id st) v p ps) (st_task_id st'))"
    if "st' \<in> set (sp_stages sc)" "st_task_id st' \<in> {st_task_id st}" for st'
  proof -
    have "st' = st" using that st scenario_pack_parts(1) [OF v] by (auto simp: distinct_map dest: inj_onD)
    then show ?thesis using s(1) p empty_task_ready scenario_pack_parts(4) [OF v st p] unfolding slot_holds_iff by auto
  qed
  show ?thesis
    by (rule ready_change [OF r s(2)]; (rule one)?;
        use r mem in \<open>simp add: scenario_ready_def entered_def insert_absorb del: set_map\<close>)
qed

definition noted :: "life_pack \<Rightarrow> reasoning_ledger \<Rightarrow> string \<Rightarrow> pinned_scenario \<Rightarrow> pinned_scenario" where
  "noted p l note_id ps =
     (case dict_get (ps_notes ps) (li_task_id p) of
        None \<Rightarrow> ps
      | Some n \<Rightarrow>
        if po_note_policy (li_policies p) = Note_None \<or> ns_emitted n
           \<or> \<not> set (po_note_relation_ids (li_policies p)) \<subseteq> set (dict_keys (verified_relations l)) then ps
        else ps\<lparr>ps_notes := AList.update (li_task_id p) (n\<lparr>ns_emitted := True, ns_note_id := Some note_id\<rparr>)
               (ps_notes ps)\<rparr>)"

text \<open>What a note says of the state it was written from.\<close>

definition note_of :: "life_pack \<Rightarrow> reasoning_ledger \<Rightarrow> pinned_scenario \<Rightarrow> note_update \<Rightarrow> bool" where
  "note_of p l ps x \<longleftrightarrow> (\<exists>n. dict_get (ps_notes ps) (li_task_id p) = Some n \<and> \<not> ns_emitted n
     \<and> po_note_policy (li_policies p) \<noteq> Note_None
     \<and> set (po_note_relation_ids (li_policies p)) \<subseteq> set (dict_keys (verified_relations l))
     \<and> (nt_attribution x = Note_Child \<longleftrightarrow> independent_task p n \<and> \<not> ns_joint n))"

lemma life_note_effect:
  assumes a: "life_note s p l note_id = Inr (note, s')" and l: "ds_life s = Some ps"
  shows "s' = s\<lparr>ds_life := Some (noted p l note_id ps)\<rparr>"
    and "if noted p l note_id ps = ps then note = None \<or> (\<exists>x. note = Some x \<and> note_of p l ps x)
         else \<exists>x. note = Some x \<and> note_of p l ps x"
proof -
  have id: "s\<lparr>ds_life := Some ps\<rparr> = s" using l by (cases s) simp
  let ?off = "po_note_policy (li_policies p) = Note_None
    \<or> \<not> set (po_note_relation_ids (li_policies p)) \<subseteq> set (dict_keys (verified_relations l))"
  have "s' = s\<lparr>ds_life := Some (noted p l note_id ps)\<rparr> \<and>
    (if noted p l note_id ps = ps then note = None \<or> (\<exists>x. note = Some x \<and> note_of p l ps x)
         else \<exists>x. note = Some x \<and> note_of p l ps x)"
  proof (cases ?off)
    case True
    then have "note = None \<and> s' = s"
      using a unfolding life_note_def Let_def by (cases "po_note_policy (li_policies p) = Note_None") simp_all
    moreover have "noted p l note_id ps = ps" using True unfolding noted_def by (auto simp del: set_map split: option.split)
    ultimately show ?thesis using id by simp
  next
    case on: False
    then obtain n where n: "dict_get (ps_notes ps) (li_task_id p) = Some n"
      and rest: "(if ns_emitted n then Inr (None, s)
          else let independent = independent_task p n \<and> \<not> ns_joint n;
                   body = (if independent then po_direct_fallback (li_policies p) else po_coauthored_note (li_policies p))
               in case (po_note_skill_id (li_policies p), body) of
                   (Some skill, Some t) \<Rightarrow>
                     Inr (Some \<lparr>nt_skill = skill, nt_text = t,
                            nt_attribution = (if independent then Note_Child else Note_Coauthored),
                            nt_evidence = (if independent then Direct_Explanation else Supported_Completion),
                            nt_label = (if independent then label_child_note else label_joint_note)\<rparr>,
                          s\<lparr>ds_life := Some (ps\<lparr>ps_notes := AList.update (li_task_id p)
                              (n\<lparr>ns_emitted := True, ns_note_id := Some note_id\<rparr>) (ps_notes ps)\<rparr>)\<rparr>)
                 | _ \<Rightarrow> Inl (ValidationError ''note_update'')) = Inr (note, s')"
      using a l unfolding life_note_def Let_def by (auto simp: bindr_eq_Inr py_index_Inr simp del: set_map)
    show ?thesis
    proof (cases "ns_emitted n")
      case True
      then have "noted p l note_id ps = ps" using n by (simp add: noted_def)
      then show ?thesis using rest True id by simp
    next
      case False
      have e: "noted p l note_id ps = ps\<lparr>ps_notes := AList.update (li_task_id p)
          (n\<lparr>ns_emitted := True, ns_note_id := Some note_id\<rparr>) (ps_notes ps)\<rparr>"
        using n on False by (simp add: noted_def del: set_map)
      obtain x where "note = Some x" "s' = s\<lparr>ds_life := Some (noted p l note_id ps)\<rparr>"
        "nt_attribution x = Note_Child \<longleftrightarrow> independent_task p n \<and> \<not> ns_joint n"
        using rest False unfolding e by (auto simp: Let_def split: option.splits if_splits)
      then show ?thesis using n on False by (auto simp: note_of_def simp del: set_map)
    qed
  qed
  then show "s' = s\<lparr>ds_life := Some (noted p l note_id ps)\<rparr>"
    "if noted p l note_id ps = ps then note = None \<or> (\<exists>x. note = Some x \<and> note_of p l ps x)
         else \<exists>x. note = Some x \<and> note_of p l ps x" by blast+
qed

lemma noted_slot:
  assumes "task_slot ps (li_task_id p) = (Some v, Some l0, Some n)"
  shows "\<exists>n'. task_slot (noted p l note_id ps) (li_task_id p) = (Some v, Some l0, Some n')
      \<and> ns_independent n' = ns_independent n \<and> ns_supported n' = ns_supported n \<and> ns_joint n' = ns_joint n
      \<and> (note_ok p l0 n \<longrightarrow> note_ok p l0 n')
      \<and> (po_note_policy (li_policies p) \<noteq> Note_None
         \<and> set (po_note_relation_ids (li_policies p)) \<subseteq> set (dict_keys (verified_relations l)) \<longrightarrow> ns_emitted n')"
    and "same_but {li_task_id p} ps (noted p l note_id ps)"
proof -
  have n: "dict_get (ps_notes ps) (li_task_id p) = Some n" using assms by (simp add: task_slot_def)
  let ?off = "po_note_policy (li_policies p) = Note_None \<or> ns_emitted n
           \<or> \<not> set (po_note_relation_ids (li_policies p)) \<subseteq> set (dict_keys (verified_relations l))"
  let ?n = "if ?off then n else n\<lparr>ns_emitted := True, ns_note_id := Some note_id\<rparr>"
  have e: "noted p l note_id ps = (if ?off then ps else ps\<lparr>ps_notes := AList.update (li_task_id p) ?n (ps_notes ps)\<rparr>)"
    using n by (simp add: noted_def)
  have s: "task_slot (noted p l note_id ps) (li_task_id p) = (Some v, Some l0, Some ?n)"
    unfolding e using assms by (simp add: task_slot_def get_update)
  have k: "note_ok p l0 n \<longrightarrow> note_ok p l0 ?n"
    unfolding note_ok_def check_task_notes_Inr validate_note_provenance_Inr provenance_ok_def by (simp del: set_map)
  show "\<exists>n'. task_slot (noted p l note_id ps) (li_task_id p) = (Some v, Some l0, Some n')
      \<and> ns_independent n' = ns_independent n \<and> ns_supported n' = ns_supported n \<and> ns_joint n' = ns_joint n
      \<and> (note_ok p l0 n \<longrightarrow> note_ok p l0 n')
      \<and> (po_note_policy (li_policies p) \<noteq> Note_None
         \<and> set (po_note_relation_ids (li_policies p)) \<subseteq> set (dict_keys (verified_relations l)) \<longrightarrow> ns_emitted n')"
    by (intro exI [of _ ?n] conjI s k) (simp_all del: set_map)
  show "same_but {li_task_id p} ps (noted p l note_id ps)"
    unfolding e by (simp add: same_but_def task_slot_def get_update)
qed

end
