(* ===== verification/Life_Invariant.thy ===== *)
theory Life_Invariant
  imports Life_Run
begin

text \<open>
  The invariant of a cafe or amusement conversation: its stored scenario loads, the tasks before the
  current one are finished, the current one is open until the conversation is completed, and the tasks
  after it are untouched.
\<close>

section \<open>The steps on a conversation\<close>

lemma noted_ready:
  assumes r: "scenario_ready H Hs sc ps" and st: "st \<in> set (sp_stages sc)"
    and slot: "task_slot ps (st_task_id st) = (Some v, Some l, Some n)" and p: "dict_get (st_variants st) v = Some p"
  shows "scenario_ready H Hs sc (noted p l' note_id ps)"
proof -
  have id: "li_task_id p = st_task_id st" and rdy: "task_ready H p l n"
    by (rule ready_slot [OF r st]; use slot p in auto)+
  have d: "distinct (task_ids sc)" using r scenario_pack_parts(1) by (auto simp: scenario_ready_def)
  obtain n' where n': "task_slot (noted p l' note_id ps) (st_task_id st) = (Some v, Some l, Some n')"
    "note_ok p l n \<longrightarrow> note_ok p l n'"
    using noted_slot(1) [of ps p v l n l' note_id] slot id by auto
  have one: "stage_ready H st' (task_slot (noted p l' note_id ps) (st_task_id st'))"
    if "st' \<in> set (sp_stages sc)" "st_task_id st' \<in> {li_task_id p}" for st'
  proof -
    have "st' = st" using that st d id by (auto simp: distinct_map dest: inj_onD)
    then show ?thesis using n' p rdy unfolding slot_holds_iff by (auto simp: task_ready_def)
  qed
  have b: "same_but {li_task_id p} ps (noted p l' note_id ps)"
    by (rule noted_slot(2) [of ps p v l n]) (simp only: id slot)
  have mem: "li_task_id p \<in> set (task_ids sc)" using st id by simp
  have dicts: "dict_ok (ps_variants (noted p l' note_id ps))" "dict_ok (ps_ledgers (noted p l' note_id ps))"
    "dict_ok (ps_notes (noted p l' note_id ps))"
    "set (dict_keys (ps_variants (noted p l' note_id ps))) = set (task_ids sc)"
    "set (dict_keys (ps_ledgers (noted p l' note_id ps))) = set (task_ids sc)"
    "set (dict_keys (ps_notes (noted p l' note_id ps))) = set (task_ids sc)"
    using r mem unfolding scenario_ready_def noted_def
    by (simp_all add: insert_absorb del: set_map split: option.split)
  show ?thesis by (rule ready_change [OF r b dicts one])
qed

lemma life_question_frame:
  assumes "life_question H s p l = Inr (q, s')"
  shows "place s' = place s" "progress s' = progress s" "ds_life s' = ds_life s"
  using assms unfolding life_question_def
  by (auto simp: bindr_eq_Inr life_views split: if_splits)

lemma asked_question_frame:
  assumes "asked_question H s p m = Inr (q, s')"
  shows "place s' = place s" "progress s' = progress s" "ds_life s' = ds_life s"
  using assms life_question_frame [of H s p "ar_ledger (sm_result m)"]
  by (auto simp: asked_question_def bindr_eq_Inr split: if_splits prod.splits)

text \<open>The end of a task: the credit it earns, and the next task or the end of the conversation.\<close>

definition direct_task :: "life_pack \<Rightarrow> turn_semantics \<Rightarrow> task_note_state \<Rightarrow> bool" where
  "direct_task p m n \<longleftrightarrow> sm_source m \<noteq> Structured_Joint
     \<and> (po_note_policy (li_policies p) \<noteq> Note_None \<longrightarrow> independent_task p n)"

lemma credit_task_effect:
  "place (credit_task p m n s) = place s" "ds_life (credit_task p m n s) = ds_life s"
  "ss_task_index (credit_task p m n s) = ss_task_index s" "ss_status (credit_task p m n s) = ss_status s"
  "ss_outcome (credit_task p m n s) = ss_outcome s" "ss_reward (credit_task p m n s) = ss_reward s"
  "ss_joint_used (credit_task p m n s) \<longleftrightarrow> ss_joint_used s \<or> sm_source m = Structured_Joint"
  "ss_all_direct (credit_task p m n s) \<Longrightarrow> ss_all_direct s \<and> direct_task p m n"
  by (auto simp: credit_task_def Let_def place_def direct_task_def split: if_splits)

lemma finish_scenario_effect:
  "place (finish_scenario s) = place s" "ds_life (finish_scenario s) = ds_life s"
  "progress (finish_scenario s) = (ss_task_index s, COMPLETED, ss_joint_used s, ss_all_direct s,
     Some (if ss_all_direct s \<and> \<not> ss_joint_used s then TAUGHT else SUPPORTED), ss_all_direct s \<and> \<not> ss_joint_used s)"
  by (simp_all add: finish_scenario_def Let_def life_views)

lemma enter_task_effect:
  assumes e: "enter_task env rt sc ps (st_task_id st) p s = Inr s'"
    and st: "st \<in> set (sp_stages sc)" and v: "validate_scenario_pack sc = Inr ()"
  obtains v p' where "dict_get (st_variants st) v = Some p'"
    "ds_life s' = Some (entered (en_hash env) (st_task_id st) v p' ps)" "place s' = place s"
    "progress s' = (Suc (ss_task_index s), ACTIVE, ss_joint_used s, ss_all_direct s, ss_outcome s, ss_reward s)"
proof -
  obtain v p' sn where v': "dict_get (st_variants st) v = Some p'" "pin_pack (en_hash env) (Life p') = Inr sn"
    and s': "s' = start_task p' (s\<lparr>ds_life := Some (ps\<lparr>ps_variants := AList.update (st_task_id st) v (ps_variants ps),
                  ps_ledgers := AList.update (st_task_id st) (empty_reasoning_ledger sn) (ps_ledgers ps)\<rparr>),
               ss_task_index := Suc (ss_task_index s),
               ds_patches := AList.delete (li_task_id p) (ds_patches s), ds_transition := Some (li_task_id p)\<rparr>)"
    using e stage_lookup [OF v st] by (auto simp: enter_task_def bindr_eq_Inr py_index_Inr Let_def)
  have "sn = life_snapshot (en_hash env) p'" using v'(2) by (simp add: pin_life)
  then show thesis using that [OF v'(1)] s' by (simp add: start_task_def entered_def life_views)
qed

section \<open>The invariant\<close>

definition finished_task ::
    "dialogue_state \<Rightarrow> life_pack \<Rightarrow> reasoning_ledger \<Rightarrow> task_note_state \<Rightarrow> bool" where
  "finished_task s p l n \<longleftrightarrow> co_complete (completion_of (Life p) l)
     \<and> (ss_all_direct s \<longrightarrow> po_note_policy (li_policies p) \<noteq> Note_None \<longrightarrow> independent_task p n)
     \<and> (po_note_policy (li_policies p) \<noteq> Note_None
        \<and> set (po_note_relation_ids (li_policies p)) \<subseteq> set (dict_keys (verified_relations l)) \<longrightarrow> ns_emitted n)"

definition open_task :: "life_pack \<Rightarrow> reasoning_ledger \<Rightarrow> task_note_state \<Rightarrow> bool" where
  "open_task p l n \<longleftrightarrow> \<not> co_complete (completion_of (Life p) l) \<and> \<not> ns_emitted n"

definition untouched_task :: "life_pack \<Rightarrow> reasoning_ledger \<Rightarrow> task_note_state \<Rightarrow> bool" where
  "untouched_task p l n \<longleftrightarrow> n = empty_note_state"

definition task_phase :: "dialogue_state \<Rightarrow> nat \<Rightarrow> life_pack \<Rightarrow> reasoning_ledger \<Rightarrow> task_note_state \<Rightarrow> bool" where
  "task_phase s k =
     (if k < ss_task_index s \<or> k = ss_task_index s \<and> ss_status s = COMPLETED then finished_task s
      else if k = ss_task_index s then open_task else untouched_task)"

definition phases_ok :: "scenario_pack \<Rightarrow> dialogue_state \<Rightarrow> pinned_scenario \<Rightarrow> bool" where
  "phases_ok sc s ps \<longleftrightarrow> (\<forall>k < length (sp_stages sc).
     slot_holds (sp_stages sc ! k) (task_slot ps (st_task_id (sp_stages sc ! k))) (task_phase s k))"

definition life_outcome_ok :: "scenario_pack \<Rightarrow> dialogue_state \<Rightarrow> bool" where
  "life_outcome_ok sc s \<longleftrightarrow> ss_status s \<in> {ACTIVE, COMPLETED} \<and> (ss_status s = COMPLETED \<longrightarrow> Suc (ss_task_index s) = length (sp_stages sc))
     \<and> (ss_outcome s = None \<longleftrightarrow> ss_status s = ACTIVE) \<and> ss_reward s = (ss_outcome s = Some TAUGHT)
     \<and> (ss_outcome s = Some TAUGHT \<longrightarrow> ss_all_direct s \<and> \<not> ss_joint_used s)"

definition life_ok :: "life_environment \<Rightarrow> scenario_pack \<Rightarrow> dialogue_state \<Rightarrow> bool" where
  "life_ok env sc s \<longleftrightarrow> in_scenario sc s \<and> life_outcome_ok sc s
     \<and> (\<exists>ps. ds_life s = Some ps \<and> scenario_ready (en_hash env) (en_scenario_hash env) sc ps \<and> phases_ok sc s ps)"

lemma finished_task_direct: "ss_all_direct s' = ss_all_direct s \<Longrightarrow> finished_task s' = finished_task s"
  by (intro ext) (simp add: finished_task_def)

lemma task_phase_progress:
  "progress s' = progress s \<Longrightarrow> task_phase s' k = task_phase s k"
  using finished_task_direct [of s' s] by (simp add: task_phase_def progress_def)

lemma life_ok_frame:
  assumes "life_ok env sc s" and "place s' = place s" "progress s' = progress s" "ds_life s' = ds_life s"
  shows "life_ok env sc s'"
proof -
  have "ss_task_index s' = ss_task_index s" using assms(3) by (simp add: progress_def)
  then have "in_scenario sc s' = in_scenario sc s" by (rule in_scenario_place [OF assms(2)])
  moreover have "life_outcome_ok sc s' = life_outcome_ok sc s" using assms(3) by (simp add: life_outcome_ok_def progress_def)
  moreover have "phases_ok sc s' ps = phases_ok sc s ps" for ps
    using task_phase_progress [OF assms(3)] by (simp add: phases_ok_def)
  ultimately show ?thesis using assms(1,4) by (simp add: life_ok_def)
qed

lemma task_index_unique:
  assumes "distinct (task_ids sc)" and "k < length (sp_stages sc)" "j < length (sp_stages sc)"
  shows "st_task_id (sp_stages sc ! k) = st_task_id (sp_stages sc ! j) \<longleftrightarrow> k = j"
  using nth_eq_iff_index_eq [OF assms(1), of k j] assms(2,3) by simp

lemma phases_change:
  assumes ph: "phases_ok sc s ps" and b: "same_but ((\<lambda>j. st_task_id (sp_stages sc ! j)) ` J) ps ps'"
    and k: "\<And>k. k < length (sp_stages sc) \<Longrightarrow> k \<notin> J \<Longrightarrow> task_phase s' k = task_phase s k"
    and new: "\<And>k. k \<in> J \<Longrightarrow>
       slot_holds (sp_stages sc ! k) (task_slot ps' (st_task_id (sp_stages sc ! k))) (task_phase s' k)"
    and d: "distinct (task_ids sc)" "\<And>j. j \<in> J \<Longrightarrow> j < length (sp_stages sc)"
  shows "phases_ok sc s' ps'"
  unfolding phases_ok_def
proof (intro allI impI)
  fix k assume l: "k < length (sp_stages sc)"
  show "slot_holds (sp_stages sc ! k) (task_slot ps' (st_task_id (sp_stages sc ! k))) (task_phase s' k)"
  proof (cases "k \<in> J")
    case False
    then have "st_task_id (sp_stages sc ! k) \<notin> (\<lambda>j. st_task_id (sp_stages sc ! j)) ` J"
      using task_index_unique [OF d(1) l d(2)] by auto
    then have "task_slot ps' (st_task_id (sp_stages sc ! k)) = task_slot ps (st_task_id (sp_stages sc ! k))"
      by (rule same_but_slot [OF b])
    then show ?thesis using ph k [OF l False] l by (simp add: phases_ok_def)
  qed (rule new)
qed

section \<open>One turn\<close>

lemma life_contract_note: "life_contract_for env s p q txt note tid = Inr c \<Longrightarrow> tn_note c = note"
  by (auto simp: life_contract_for_def bindr_eq_Inr)

lemma build_life_turn_Inr:
  assumes b: "build_life_turn env s done l txt nid tid = Inr (c, s')" and ps: "ds_life s = Some ps"
    and t: "current_task s = Inr t"
  shows "place s' = place s" "progress s' = progress s"
    and "if t \<noteq> li_task_id done \<or> ss_status s = COMPLETED
         then ds_life s' = Some (noted done l nid ps) \<and>
           (if noted done l nid ps = ps then tn_note c = None \<or> (\<exists>x. tn_note c = Some x \<and> note_of done l ps x)
            else \<exists>x. tn_note c = Some x \<and> note_of done l ps x)
         else ds_life s' = Some ps \<and> tn_note c = None"
proof -
  let ?ends = "t \<noteq> li_task_id done \<or> ss_status s = COMPLETED"
  obtain nt s1 p l1 s2 q where n: "(if ?ends then life_note s done l nid else Inr (None, s)) = Inr (nt, s1)"
    and m: "(if t \<noteq> li_task_id done then bindr (resolve_life_state env s1) (\<lambda>(p, _, l1). Inr (p, l1, s1\<lparr>ds_transition := None\<rparr>))
            else Inr (done, l, s1)) = Inr (p, l1, s2)"
    and q: "life_question (en_hash env) s2 p l1 = Inr (q, s')" and c: "tn_note c = nt"
  proof -
    from b t show thesis unfolding build_life_turn_def
      by (auto simp: bindr_eq_Inr Let_def dest: life_contract_note intro: that)
  qed
  have f2: "place s2 = place s1" "progress s2 = progress s1" "ds_life s2 = ds_life s1"
    using m by (auto simp: bindr_eq_Inr life_views split: if_splits)
  note f = life_question_frame [OF q]
  show "place s' = place s" "progress s' = progress s"
  proof -
    have "place s1 = place s \<and> progress s1 = progress s"
    proof (cases ?ends)
      case True
      then have "s1 = s\<lparr>ds_life := Some (noted done l nid ps)\<rparr>" using n life_note_effect(1) [OF _ ps] by simp
      then show ?thesis by (simp add: life_views)
    qed (use n in simp)
    then show "place s' = place s" "progress s' = progress s" using f f2 by simp_all
  qed
  show "if ?ends then ds_life s' = Some (noted done l nid ps) \<and>
           (if noted done l nid ps = ps then tn_note c = None \<or> (\<exists>x. tn_note c = Some x \<and> note_of done l ps x)
            else \<exists>x. tn_note c = Some x \<and> note_of done l ps x)
         else ds_life s' = Some ps \<and> tn_note c = None"
  proof (cases ?ends)
    case True
    then have k: "life_note s done l nid = Inr (nt, s1)" using n by simp
    have "ds_life s' = Some (noted done l nid ps)" using life_note_effect(1) [OF k ps] f f2 by simp
    then show ?thesis using True life_note_effect(2) [OF k ps] c by simp
  next
    case False
    then show ?thesis using n f f2 ps c by simp
  qed
qed

lemma current_phase:
  assumes ok: "life_ok env sc s"
  obtains ps v l n p where "ds_life s = Some ps" "scenario_ready (en_hash env) (en_scenario_hash env) sc ps"
    "phases_ok sc s ps" "task_slot ps (st_task_id (at_task sc s)) = (Some v, Some l, Some n)"
    "dict_get (st_variants (at_task sc s)) v = Some p" "task_ready (en_hash env) p l n"
    "li_task_id p = st_task_id (at_task sc s)" "resolve_life_state env s = Inr (p, life_snapshot (en_hash env) p, l)"
    "ss_status s = ACTIVE \<Longrightarrow> open_task p l n"
proof -
  obtain ps where ps: "ds_life s = Some ps" "scenario_ready (en_hash env) (en_scenario_hash env) sc ps" "phases_ok sc s ps"
    and i: "in_scenario sc s" using ok by (auto simp: life_ok_def)
  obtain v l n p where s: "task_slot ps (st_task_id (at_task sc s)) = (Some v, Some l, Some n)"
    "dict_get (st_variants (at_task sc s)) v = Some p" "task_ready (en_hash env) p l n"
    "li_task_id p = st_task_id (at_task sc s)"
    using ready_slot [OF ps(2) current_task_at(2) [OF i]] by metis
  have "slot_holds (at_task sc s) (task_slot ps (st_task_id (at_task sc s))) (task_phase s (ss_task_index s))"
    using ps(3) i unfolding phases_ok_def in_scenario_def at_task_def by blast
  then have "ss_status s = ACTIVE \<Longrightarrow> open_task p l n"
    using s(1,2) by (simp add: slot_holds_def task_phase_def)
  then show thesis using that [OF ps s resolve_life_ready [OF i ps(1,2) s(1,2)]] by blast
qed

text \<open>
  The three ways a turn ends, on the stored runtime: the task stays open, the last task is finished, or
  the next task is entered. \<open>wrote\<close> relates the note of the turn to the stored provenance.
\<close>

definition wrote :: "life_pack \<Rightarrow> reasoning_ledger \<Rightarrow> string \<Rightarrow> pinned_scenario \<Rightarrow> note_update option \<Rightarrow> bool" where
  "wrote p l nid ps out \<longleftrightarrow>
     (if noted p l nid ps = ps then out = None \<or> (\<exists>x. out = Some x \<and> note_of p l ps x)
      else \<exists>x. out = Some x \<and> note_of p l ps x)"

definition credited ::
    "dialogue_state \<Rightarrow> life_pack \<Rightarrow> turn_semantics \<Rightarrow> task_note_state \<Rightarrow> dialogue_state \<Rightarrow> bool" where
  "credited s p m n s' \<longleftrightarrow> (ss_joint_used s' \<longleftrightarrow> ss_joint_used s \<or> sm_source m = Structured_Joint)
     \<and> (ss_all_direct s' \<longrightarrow> ss_all_direct s \<and> direct_task p m n)"

definition stays :: "dialogue_state \<Rightarrow> pinned_scenario \<Rightarrow> dialogue_state \<Rightarrow> note_update option \<Rightarrow> bool" where
  "stays s ps1 s' out \<longleftrightarrow> ds_life s' = Some ps1 \<and> progress s' = progress s \<and> out = None"

definition ends ::
    "scenario_pack \<Rightarrow> dialogue_state \<Rightarrow> life_pack \<Rightarrow> reasoning_ledger \<Rightarrow> string \<Rightarrow> pinned_scenario \<Rightarrow> dialogue_state
     \<Rightarrow> note_update option \<Rightarrow> bool" where
  "ends sc s p l nid ps1 s' out \<longleftrightarrow> Suc (ss_task_index s) = length (sp_stages sc)
     \<and> ds_life s' = Some (noted p l nid ps1) \<and> wrote p l nid ps1 out
     \<and> (ss_task_index s', ss_status s') = (ss_task_index s, COMPLETED)
     \<and> ss_outcome s' = Some (if ss_all_direct s' \<and> \<not> ss_joint_used s' then TAUGHT else SUPPORTED)
     \<and> ss_reward s' = (ss_all_direct s' \<and> \<not> ss_joint_used s')"

definition enters ::
    "(task_pack \<Rightarrow> string) \<Rightarrow> scenario_pack \<Rightarrow> dialogue_state \<Rightarrow> life_pack \<Rightarrow> reasoning_ledger \<Rightarrow> string \<Rightarrow> pinned_scenario
     \<Rightarrow> dialogue_state \<Rightarrow> note_update option \<Rightarrow> bool" where
  "enters H sc s p l nid ps1 s' out \<longleftrightarrow> Suc (ss_task_index s) < length (sp_stages sc)
     \<and> (\<exists>v' p' ps2. dict_get (st_variants (sp_stages sc ! Suc (ss_task_index s))) v' = Some p'
          \<and> ps2 = entered H (st_task_id (sp_stages sc ! Suc (ss_task_index s))) v' p' ps1
          \<and> ds_life s' = Some (noted p l nid ps2) \<and> wrote p l nid ps2 out)
     \<and> (ss_task_index s', ss_status s') = (Suc (ss_task_index s), ACTIVE)
     \<and> (ss_outcome s', ss_reward s') = (ss_outcome s, ss_reward s)"

definition completes ::
    "(task_pack \<Rightarrow> string) \<Rightarrow> scenario_pack \<Rightarrow> dialogue_state \<Rightarrow> pinned_scenario \<Rightarrow> dialogue_state \<Rightarrow> bool" where
  "completes H sc s ps s' \<longleftrightarrow>
     (Suc (ss_task_index s) = length (sp_stages sc) \<and> ds_life s' = Some ps
        \<and> (ss_task_index s', ss_status s') = (ss_task_index s, COMPLETED)
        \<and> ss_outcome s' = Some (if ss_all_direct s' \<and> \<not> ss_joint_used s' then TAUGHT else SUPPORTED)
        \<and> ss_reward s' = (ss_all_direct s' \<and> \<not> ss_joint_used s'))
     \<or> (Suc (ss_task_index s) < length (sp_stages sc)
        \<and> (\<exists>v' p'. dict_get (st_variants (sp_stages sc ! Suc (ss_task_index s))) v' = Some p'
             \<and> ds_life s' = Some (entered H (st_task_id (sp_stages sc ! Suc (ss_task_index s))) v' p' ps))
        \<and> (ss_task_index s', ss_status s') = (Suc (ss_task_index s), ACTIVE)
        \<and> (ss_outcome s', ss_reward s') = (ss_outcome s, ss_reward s))"

lemma complete_life_effect:
  assumes c: "complete_life env rt s p m = Inr s'" and i: "in_scenario sc s" and ps: "ds_life s = Some ps"
    and r: "scenario_ready (en_hash env) (en_scenario_hash env) sc ps"
    and n: "dict_get (ps_notes ps) (li_task_id p) = Some n"
  shows "place s' = place s \<and> credited s p m n s' \<and> completes (en_hash env) sc s ps s'"
proof -
  let ?c = "credit_task p m n s"
  note k = credit_task_effect [of p m n s]
  have v: "validate_scenario_pack sc = Inr ()" using r by (simp add: scenario_ready_def)
  have ids: "ss_task_ids ?c = task_ids sc" "ss_task_index s < length (sp_stages sc)"
    using k(1) i by (simp_all add: place_def in_scenario_def)
  have e: "(if Suc (ss_task_index s) \<ge> length (sp_stages sc) then Inr (finish_scenario ?c)
        else enter_task env rt sc ps (ss_task_ids ?c ! Suc (ss_task_index s)) p ?c) = Inr s'"
    using c resolve_scenario_ready [OF i ps r] n k(3) ids(1)
    by (simp add: complete_life_def Let_def py_index_def cong: if_cong)
  show ?thesis
  proof (cases "Suc (ss_task_index s) \<ge> length (sp_stages sc)")
    case True
    then have s': "s' = finish_scenario ?c" and l: "Suc (ss_task_index s) = length (sp_stages sc)" using e ids by simp_all
    show ?thesis using finish_scenario_effect [of ?c] k l ps unfolding s'
      by (auto simp: progress_def credited_def completes_def)
  next
    case False
    then have en: "enter_task env rt sc ps (st_task_id (sp_stages sc ! Suc (ss_task_index s))) p ?c = Inr s'"
      and l: "Suc (ss_task_index s) < length (sp_stages sc)" using e ids by simp_all
    show ?thesis
      by (rule enter_task_effect [OF en nth_mem [OF l] v])
        (use k l in \<open>auto simp: progress_def credited_def completes_def\<close>)
  qed
qed

end
