(* ===== verification/Life_Reach.thy ===== *)
theory Life_Reach
  imports Life_Invariant
begin

text \<open>
  Every turn of a cafe or amusement conversation keeps the invariant of \<open>life_ok\<close>, and what one
  turn does to it.
\<close>

section \<open>One turn of a conversation in good order\<close>

lemma run_life_Inr:
  assumes "run_life env i s = Inr r"
  obtains p sn l m patch s1 s2 tx c s3 where
    "resolve_life_state env s = Inr (p, sn, l)"
    "interpret_life env (lx_gateway i) s p sn l (lx_response i) (lx_previous_question i) (lx_history i) = Inr (m, patch)"
    "apply_life (s\<lparr>ss_version := ss_version s + 1, ss_turn_id := None\<rparr>) p m patch (ss_hint s) = Inr s1"
    "if co_complete (ar_completion (sm_result m)) then complete_life env (lx_real_text i) s1 p m = Inr s2
     else \<exists>q. asked_question (en_hash env) s1 p m = Inr (q, s2)"
    "build_life_turn env s2 p (ar_ledger (sm_result m)) tx (lx_note_id i) (lx_new_turn_id i) = Inr (c, s3)"
    "lr_state r = s3\<lparr>ss_turn_id := Some (tn_id c)\<rparr>" "lr_turn r = c" "lr_semantics r = m"
proof -
  obtain p sn l m patch s1 s2 tx c s3 where a: "resolve_life_state env s = Inr (p, sn, l)"
    "interpret_life env (lx_gateway i) s p sn l (lx_response i) (lx_previous_question i) (lx_history i) = Inr (m, patch)"
    "apply_life (s\<lparr>ss_version := ss_version s + 1, ss_turn_id := None\<rparr>) p m patch (ss_hint s) = Inr s1"
    and e: "(if co_complete (ar_completion (sm_result m))
            then bindr (complete_life env (lx_real_text i) s1 p m) (\<lambda>s2. Inr (txt_thanks, s2))
            else bindr (asked_question (en_hash env) s1 p m) (\<lambda>(q, s2). Inr (lx_spoken i q, s2))) = Inr (tx, s2)"
    and b: "build_life_turn env s2 p (ar_ledger (sm_result m)) tx (lx_note_id i) (lx_new_turn_id i) = Inr (c, s3)"
    and r: "r = \<lparr>lr_state = s3\<lparr>ss_turn_id := Some (tn_id c)\<rparr>, lr_turn = c, lr_semantics = m\<rparr>"
    using assms unfolding run_life_def bindr_eq_Inr split_paired_Ex prod.case by fast
  have "if co_complete (ar_completion (sm_result m)) then complete_life env (lx_real_text i) s1 p m = Inr s2
     else \<exists>q. asked_question (en_hash env) s1 p m = Inr (q, s2)"
    using e by (auto simp: bindr_eq_Inr split: if_splits)
  then show thesis using that [OF a _ b] r by simp
qed

definition turn_note :: "life_result \<Rightarrow> note_update option" where
  "turn_note r = tn_note (lr_turn r)"

lemma life_turn:
  assumes ok: "life_ok env sc s" and act: "ss_status s = ACTIVE" and run: "run_life env i s = Inr r"
  obtains ps v l n p h' where
    "ds_life s = Some ps" "scenario_ready (en_hash env) (en_scenario_hash env) sc ps" "phases_ok sc s ps"
    "task_slot ps (st_task_id (at_task sc s)) = (Some v, Some l, Some n)"
    "dict_get (st_variants (at_task sc s)) v = Some p" "task_ready (en_hash env) p l n"
    "li_task_id p = st_task_id (at_task sc s)" "open_task p l n"
    "life_semantics_ok (en_hash env) (life_snapshot (en_hash env) p) p l (lr_semantics r)"
    "place (lr_state r) = place s"
    "if co_complete (ar_completion (sm_result (lr_semantics r)))
     then credited s p (lr_semantics r) (answered_note p (lr_semantics r) (ss_hint s) h' n) (lr_state r)
       \<and> (let ps1 = answered (li_task_id p) p (lr_semantics r) (ss_hint s) h' ps;
              l' = ar_ledger (sm_result (lr_semantics r)) in
          ends sc s p l' (lx_note_id i) ps1 (lr_state r) (turn_note r)
          \<or> enters (en_hash env) sc s p l' (lx_note_id i) ps1 (lr_state r) (turn_note r))
     else stays s (answered (li_task_id p) p (lr_semantics r) (ss_hint s) h' ps) (lr_state r) (turn_note r)"
proof -
  let ?H = "en_hash env" and ?Hs = "en_scenario_hash env"
  obtain ps v l n p where ps: "ds_life s = Some ps" and rdy: "scenario_ready ?H ?Hs sc ps" and ph: "phases_ok sc s ps"
    and slot: "task_slot ps (st_task_id (at_task sc s)) = (Some v, Some l, Some n)"
    and p: "dict_get (st_variants (at_task sc s)) v = Some p" and tr: "task_ready ?H p l n"
    and id: "li_task_id p = st_task_id (at_task sc s)"
    and res: "resolve_life_state env s = Inr (p, life_snapshot ?H p, l)" and op: "open_task p l n"
    using current_phase [OF ok] act by metis
  obtain m patch s1 s2 tx c s3 where
    it: "interpret_life env (lx_gateway i) s p (life_snapshot ?H p) l (lx_response i) (lx_previous_question i) (lx_history i)
         = Inr (m, patch)"
    and ap: "apply_life (s\<lparr>ss_version := ss_version s + 1, ss_turn_id := None\<rparr>) p m patch (ss_hint s) = Inr s1"
    and co: "if co_complete (ar_completion (sm_result m)) then complete_life env (lx_real_text i) s1 p m = Inr s2
     else \<exists>q. asked_question ?H s1 p m = Inr (q, s2)"
    and bu: "build_life_turn env s2 p (ar_ledger (sm_result m)) tx (lx_note_id i) (lx_new_turn_id i) = Inr (c, s3)"
    and r: "lr_state r = s3\<lparr>ss_turn_id := Some (tn_id c)\<rparr>" "lr_turn r = c" "lr_semantics r = m"
  proof (rule run_life_Inr [OF run])
    fix p0 sn0 l0 m0 patch0 a1 a2 tx0 c0 a3
    assume "resolve_life_state env s = Inr (p0, sn0, l0)"
    then have "p0 = p" "sn0 = life_snapshot ?H p" "l0 = l" using res by auto
    moreover assume "interpret_life env (lx_gateway i) s p0 sn0 l0 (lx_response i) (lx_previous_question i) (lx_history i)
        = Inr (m0, patch0)"
      "apply_life (s\<lparr>ss_version := ss_version s + 1, ss_turn_id := None\<rparr>) p0 m0 patch0 (ss_hint s) = Inr a1"
      "if co_complete (ar_completion (sm_result m0)) then complete_life env (lx_real_text i) a1 p0 m0 = Inr a2
       else \<exists>q. asked_question ?H a1 p0 m0 = Inr (q, a2)"
      "build_life_turn env a2 p0 (ar_ledger (sm_result m0)) tx0 (lx_note_id i) (lx_new_turn_id i) = Inr (c0, a3)"
      "lr_state r = a3\<lparr>ss_turn_id := Some (tn_id c0)\<rparr>" "lr_turn r = c0" "lr_semantics r = m0"
    ultimately show thesis by (simp only: that)
  qed
  have sem: "life_semantics_ok ?H (life_snapshot ?H p) p l m"
    by (rule interpret_life_semantics [OF _ it]) (use tr in \<open>simp add: task_ready_def\<close>)
  have isc: "in_scenario sc s" using ok by (simp add: life_ok_def)
  let ?s0 = "s\<lparr>ss_version := ss_version s + 1, ss_turn_id := None\<rparr>"
  have i0: "in_scenario sc ?s0" "ds_life ?s0 = Some ps" "place ?s0 = place s" "progress ?s0 = progress s"
    "at_task sc ?s0 = at_task sc s"
    using isc ps by (simp_all add: in_scenario_def life_views at_task_def)
  define h' where "h' = ss_hint s1"
  define ps1 where "ps1 = answered (li_task_id p) p m (ss_hint s) h' ps"
  note f1 = apply_life_effect [OF ap i0(1,2)]
  have e1: "place s1 = place s" "progress s1 = progress s" "ds_life s1 = Some ps1"
    using f1(1,2,3) i0 id by (simp_all add: ps1_def h'_def)
  then have x1: "ss_task_index s1 = ss_task_index s" "ss_status s1 = ACTIVE" using act by (simp_all add: progress_def)
  then have is1: "in_scenario sc s1" using isc in_scenario_place [OF e1(1)] by simp
  note st = current_task_at(2) [OF isc]
  have rdy1: "scenario_ready ?H ?Hs sc ps1" unfolding ps1_def id by (rule answered_ready [OF rdy st slot p sem])
  have slot1: "task_slot ps1 (li_task_id p) = (Some v, Some (ar_ledger (sm_result m)), Some (answered_note p m (ss_hint s) h' n))"
    unfolding ps1_def by (rule answered_slot(1)) (use slot id in auto)
  then have n1: "dict_get (ps_notes ps1) (li_task_id p) = Some (answered_note p m (ss_hint s) h' n)"
    by (simp add: task_slot_def)
  have v: "distinct (task_ids sc)" using rdy scenario_pack_parts(1) by (auto simp: scenario_ready_def)
  have r': "place (lr_state r) = place s3" "progress (lr_state r) = progress s3" "ds_life (lr_state r) = ds_life s3"
    "turn_note r = tn_note c" using r by (simp_all add: life_views turn_note_def)
  have goal: "place (lr_state r) = place s \<and> (if co_complete (ar_completion (sm_result m))
     then credited s p m (answered_note p m (ss_hint s) h' n) (lr_state r)
       \<and> (ends sc s p (ar_ledger (sm_result m)) (lx_note_id i) ps1 (lr_state r) (turn_note r)
          \<or> enters ?H sc s p (ar_ledger (sm_result m)) (lx_note_id i) ps1 (lr_state r) (turn_note r))
     else stays s ps1 (lr_state r) (turn_note r))"
  proof (cases "co_complete (ar_completion (sm_result m))")
    case False
    then obtain q where "asked_question ?H s1 p m = Inr (q, s2)" using co by auto
    note f2 = asked_question_frame [OF this]
    have "ss_task_index s2 = ss_task_index s1" "ss_status s2 = ACTIVE" using f2(2) x1 by (simp_all add: progress_def)
    then have "in_scenario sc s2" "at_task sc s2 = at_task sc s"
      using is1 in_scenario_place [OF f2(1)] x1 by (simp_all add: at_task_def)
    then have t2: "current_task s2 = Inr (li_task_id p)" using current_task_at(1) [of sc s2] id by simp
    have "ds_life s2 = Some ps1" using f2(3) e1(3) by simp
    note b = build_life_turn_Inr [OF bu this t2]
    show ?thesis using False b f2 e1 r' \<open>ss_status s2 = ACTIVE\<close> by (simp add: stays_def)
  next
    case True
    then have cl: "complete_life env (lx_real_text i) s1 p m = Inr s2" using co by simp
    have k: "place s2 = place s1" "credited s1 p m (answered_note p m (ss_hint s) h' n) s2" "completes ?H sc s1 ps1 s2"
      using complete_life_effect [OF cl is1 e1(3) rdy1 n1] by blast+
    have cr: "credited s p m (answered_note p m (ss_hint s) h' n) s2"
      using k(2) e1(2) by (simp add: credited_def progress_def)
    have crs: "credited s p m (answered_note p m (ss_hint s) h' n) (lr_state r)" if "progress (lr_state r) = progress s2"
      using cr that by (simp add: credited_def progress_def)
    consider (last) "Suc (ss_task_index s) = length (sp_stages sc)" "ds_life s2 = Some ps1"
        "ss_task_index s2 = ss_task_index s" "ss_status s2 = COMPLETED"
        "ss_outcome s2 = Some (if ss_all_direct s2 \<and> \<not> ss_joint_used s2 then TAUGHT else SUPPORTED)"
        "ss_reward s2 = (ss_all_direct s2 \<and> \<not> ss_joint_used s2)"
      | (more) v' p' where "Suc (ss_task_index s) < length (sp_stages sc)"
        "dict_get (st_variants (sp_stages sc ! Suc (ss_task_index s))) v' = Some p'"
        "ds_life s2 = Some (entered ?H (st_task_id (sp_stages sc ! Suc (ss_task_index s))) v' p' ps1)"
        "ss_task_index s2 = Suc (ss_task_index s)" "ss_status s2 = ACTIVE" "ss_outcome s2 = ss_outcome s1"
        "ss_reward s2 = ss_reward s1"
      using k(3) x1(1) unfolding completes_def by auto
    then show ?thesis
    proof cases
      case last
      then have "in_scenario sc s2" "at_task sc s2 = at_task sc s"
        using isc in_scenario_place [of s2 s] k(1) e1(1) by (simp_all add: at_task_def)
      then have t2: "current_task s2 = Inr (li_task_id p)" using current_task_at(1) [of sc s2] id by simp
      note b = build_life_turn_Inr [OF bu last(2) t2]
      have q: "progress (lr_state r) = progress s2" using b(2) r' by simp
      then have w: "ss_task_index (lr_state r) = ss_task_index s2" "ss_status (lr_state r) = ss_status s2"
        "ss_outcome (lr_state r) = ss_outcome s2" "ss_reward (lr_state r) = ss_reward s2"
        "ss_all_direct (lr_state r) = ss_all_direct s2" "ss_joint_used (lr_state r) = ss_joint_used s2"
        by (simp_all add: progress_def)
      have "ends sc s p (ar_ledger (sm_result m)) (lx_note_id i) ps1 (lr_state r) (turn_note r)"
        using b(3) last r' w by (simp add: ends_def wrote_def)
      then show ?thesis using True crs [OF q] b(1) r' k(1) e1(1) by simp
    next
      case more
      then have i2: "in_scenario sc s2" using isc k(1) e1(1) by (simp add: in_scenario_def place_def)
      have a2: "at_task sc s2 = sp_stages sc ! Suc (ss_task_index s)" using more by (simp add: at_task_def)
      have t2: "current_task s2 = Inr (st_task_id (sp_stages sc ! Suc (ss_task_index s)))"
        using current_task_at(1) [OF i2] a2 by simp
      have ne: "st_task_id (sp_stages sc ! Suc (ss_task_index s)) \<noteq> li_task_id p"
        using task_index_unique [OF v more(1), of "ss_task_index s"] more(1) id by (simp add: at_task_def)
      note b = build_life_turn_Inr [OF bu more(3) t2]
      have q: "progress (lr_state r) = progress s2" using b(2) r' by simp
      then have w: "ss_task_index (lr_state r) = ss_task_index s2" "ss_status (lr_state r) = ss_status s2"
        "ss_outcome (lr_state r) = ss_outcome s" "ss_reward (lr_state r) = ss_reward s"
        using more e1(2) by (simp_all add: progress_def)
      have "enters ?H sc s p (ar_ledger (sm_result m)) (lx_note_id i) ps1 (lr_state r) (turn_note r)"
      proof -
        have "ds_life (lr_state r) = Some (noted p (ar_ledger (sm_result m)) (lx_note_id i)
            (entered ?H (st_task_id (sp_stages sc ! Suc (ss_task_index s))) v' p' ps1))"
          "wrote p (ar_ledger (sm_result m)) (lx_note_id i)
            (entered ?H (st_task_id (sp_stages sc ! Suc (ss_task_index s))) v' p' ps1) (turn_note r)"
          using b(3) ne r' by (simp_all add: wrote_def)
        then show ?thesis unfolding enters_def using more(1,2,5) w more(4) by (intro conjI exI) (rule refl | simp)+
      qed
      then show ?thesis using True crs [OF q] b(1) r' k(1) e1(1) by simp
    qed
  qed
  show thesis
    by (rule that [OF ps rdy ph slot p tr id op, of h', unfolded Let_def r(3), OF sem])
      (rule conjunct1 [OF goal [unfolded ps1_def]], rule conjunct2 [OF goal [unfolded ps1_def]])
qed

section \<open>The invariant is kept\<close>

lemma credited_mono: "credited s p m n s' \<Longrightarrow> ss_all_direct s' \<Longrightarrow> ss_all_direct s"
  by (simp add: credited_def)

lemma finished_mono:
  "finished_task s p l n \<Longrightarrow> (ss_all_direct s' \<Longrightarrow> ss_all_direct s) \<Longrightarrow> finished_task s' p l n"
  by (auto simp: finished_task_def)

text \<open>The phase of a task that the turn does not touch can only be weakened by a lost credit.\<close>

lemma phases_later:
  assumes ph: "phases_ok sc s ps" and b: "same_but ((\<lambda>j. st_task_id (sp_stages sc ! j)) ` J) ps ps'"
    and before: "\<And>k. k < length (sp_stages sc) \<Longrightarrow> k \<notin> J \<Longrightarrow>
       task_phase s' k = task_phase s k \<or> (task_phase s k = finished_task s \<and> task_phase s' k = finished_task s')"
    and d': "ss_all_direct s' \<Longrightarrow> ss_all_direct s"
    and new: "\<And>k. k \<in> J \<Longrightarrow>
       slot_holds (sp_stages sc ! k) (task_slot ps' (st_task_id (sp_stages sc ! k))) (task_phase s' k)"
    and d: "distinct (task_ids sc)" "\<And>j. j \<in> J \<Longrightarrow> j < length (sp_stages sc)"
  shows "phases_ok sc s' ps'"
  unfolding phases_ok_def
proof (intro allI impI)
  fix k assume l: "k < length (sp_stages sc)"
  show "slot_holds (sp_stages sc ! k) (task_slot ps' (st_task_id (sp_stages sc ! k))) (task_phase s' k)"
  proof (cases "k \<in> J")
    case False
    then have "st_task_id (sp_stages sc ! k) \<notin> (\<lambda>j. st_task_id (sp_stages sc ! j)) ` J"
      using task_index_unique [OF d(1) l d(2)] by auto
    then have e: "task_slot ps' (st_task_id (sp_stages sc ! k)) = task_slot ps (st_task_id (sp_stages sc ! k))"
      by (rule same_but_slot [OF b])
    have old: "slot_holds (sp_stages sc ! k) (task_slot ps (st_task_id (sp_stages sc ! k))) (task_phase s k)"
      using ph l by (simp add: phases_ok_def)
    show ?thesis using before [OF l False]
    proof
      assume "task_phase s k = finished_task s \<and> task_phase s' k = finished_task s'"
      then show ?thesis using old finished_mono [OF _ d'] unfolding e by (auto elim: slot_holds_mono)
    qed (use old e in simp)
  qed (rule new)
qed

lemma wrote_finished:
  assumes slot: "task_slot ps (li_task_id p) = (Some v, Some l, Some n)" and c: "co_complete (completion_of (Life p) l)"
    and st: "dict_get (st_variants st) v = Some p" and cr: "ss_all_direct s' \<Longrightarrow> direct_task p m n"
  shows "slot_holds st (task_slot (noted p l nid ps) (li_task_id p)) (finished_task s')"
proof -
  obtain n' where n': "task_slot (noted p l nid ps) (li_task_id p) = (Some v, Some l, Some n')"
    "ns_independent n' = ns_independent n"
    "po_note_policy (li_policies p) \<noteq> Note_None
       \<and> set (po_note_relation_ids (li_policies p)) \<subseteq> set (dict_keys (verified_relations l)) \<longrightarrow> ns_emitted n'"
    using noted_slot(1) [OF slot, of l nid] by blast
  have "finished_task s' p l n'" unfolding finished_task_def
    using c n'(2,3) cr by (auto simp: direct_task_def independent_task_def simp del: set_map)
  then show ?thesis unfolding n'(1) slot_holds_iff using st by blast
qed

lemma life_step_ok:
  assumes ok: "life_ok env sc s" and act: "ss_status s = ACTIVE" and run: "run_life env i s = Inr r"
  shows "life_ok env sc (lr_state r)"
proof -
  let ?H = "en_hash env" and ?Hs = "en_scenario_hash env" and ?m = "lr_semantics r" and ?s = "lr_state r"
  obtain ps v l n p h' where ps: "ds_life s = Some ps" and rdy: "scenario_ready ?H ?Hs sc ps" and ph: "phases_ok sc s ps"
    and slot: "task_slot ps (st_task_id (at_task sc s)) = (Some v, Some l, Some n)"
    and p: "dict_get (st_variants (at_task sc s)) v = Some p" and tr: "task_ready ?H p l n"
    and id: "li_task_id p = st_task_id (at_task sc s)" and op: "open_task p l n"
    and sem: "life_semantics_ok ?H (life_snapshot ?H p) p l ?m" and pl: "place ?s = place s"
    and fin: "if co_complete (ar_completion (sm_result ?m))
     then credited s p ?m (answered_note p ?m (ss_hint s) h' n) ?s
       \<and> (let ps1 = answered (li_task_id p) p ?m (ss_hint s) h' ps; l' = ar_ledger (sm_result ?m) in
          ends sc s p l' (lx_note_id i) ps1 ?s (turn_note r) \<or> enters ?H sc s p l' (lx_note_id i) ps1 ?s (turn_note r))
     else stays s (answered (li_task_id p) p ?m (ss_hint s) h' ps) ?s (turn_note r)"
    using life_turn [OF ok act run] .
  have isc: "in_scenario sc s" and oc: "life_outcome_ok sc s" using ok by (simp_all add: life_ok_def)
  have ix: "ss_task_index s < length (sp_stages sc)" using isc by (simp add: in_scenario_def)
  note st = current_task_at(2) [OF isc]
  have v: "validate_scenario_pack sc = Inr ()" and d: "distinct (task_ids sc)"
    using rdy scenario_pack_parts(1) by (auto simp: scenario_ready_def)
  define l' where "l' = ar_ledger (sm_result ?m)"
  define n' where "n' = answered_note p ?m (ss_hint s) h' n"
  define ps1 where "ps1 = answered (li_task_id p) p ?m (ss_hint s) h' ps"
  have com: "ar_completion (sm_result ?m) = completion_of (Life p) l'"
    using sem by (simp add: life_semantics_ok_def semantics_ok_def result_ok_def l'_def)
  have rdy1: "scenario_ready ?H ?Hs sc ps1" unfolding ps1_def id by (rule answered_ready [OF rdy st slot p sem])
  have s1: "task_slot ps1 (li_task_id p) = (Some v, Some l', Some n')"
    and b1: "same_but {li_task_id p} ps ps1"
    unfolding ps1_def l'_def n'_def using answered_slot [OF slot id] id by simp_all
  let ?k = "ss_task_index s"
  have idk: "st_task_id (sp_stages sc ! ?k) = li_task_id p" using id by (simp add: at_task_def)
  have em: "\<not> ns_emitted n'" using op by (simp add: n'_def open_task_def answered_note_def track_note_state_def Let_def)
  show ?thesis
  proof (cases "co_complete (ar_completion (sm_result ?m))")
    case False
    then have f: "ds_life ?s = Some ps1" "progress ?s = progress s" using fin by (simp_all add: stays_def ps1_def)
    have "phases_ok sc ?s ps1"
    proof (rule phases_change [OF ph, where J = "{?k}"])
      show "same_but ((\<lambda>j. st_task_id (sp_stages sc ! j)) ` {?k}) ps ps1" using b1 idk by simp
      show "task_phase ?s k = task_phase s k" for k by (rule task_phase_progress [OF f(2)])
      show "slot_holds (sp_stages sc ! k) (task_slot ps1 (st_task_id (sp_stages sc ! k))) (task_phase ?s k)" if "k \<in> {?k}" for k
      proof -
        have "open_task p l' n'" using False com em by (simp add: open_task_def)
        moreover have "task_phase ?s ?k = open_task"
          using task_phase_progress [OF f(2), of ?k] act by (simp add: task_phase_def)
        ultimately show ?thesis using that s1 idk p by (simp add: slot_holds_def at_task_def)
      qed
    qed (use d ix in simp_all)
    moreover have "life_outcome_ok sc ?s" "in_scenario sc ?s"
      using oc f(2) isc in_scenario_place [OF pl] by (simp_all add: life_outcome_ok_def progress_def)
    ultimately show ?thesis using f(1) rdy1 by (simp add: life_ok_def)
  next
    case True
    then have cr: "credited s p ?m n' ?s" and br: "ends sc s p l' (lx_note_id i) ps1 ?s (turn_note r)
        \<or> enters ?H sc s p l' (lx_note_id i) ps1 ?s (turn_note r)"
      using fin by (simp_all add: ps1_def l'_def n'_def Let_def)
    have cl: "co_complete (completion_of (Life p) l')" using True com by simp
    have dt: "ss_all_direct ?s \<Longrightarrow> direct_task p ?m n'" using cr by (simp add: credited_def)
    note mono = credited_mono [OF cr]
    show ?thesis using br
    proof
      assume e: "ends sc s p l' (lx_note_id i) ps1 ?s (turn_note r)"
      let ?ps = "noted p l' (lx_note_id i) ps1"
      have f: "ds_life ?s = Some ?ps" "ss_task_index ?s = ?k" "ss_status ?s = COMPLETED" "Suc ?k = length (sp_stages sc)"
        "ss_outcome ?s = Some (if ss_all_direct ?s \<and> \<not> ss_joint_used ?s then TAUGHT else SUPPORTED)"
        "ss_reward ?s = (ss_all_direct ?s \<and> \<not> ss_joint_used ?s)" using e by (simp_all add: ends_def)
      have "phases_ok sc ?s ?ps"
      proof (rule phases_later [OF ph, where J = "{?k}"])
        show "same_but ((\<lambda>j. st_task_id (sp_stages sc ! j)) ` {?k}) ps ?ps"
          using same_but_trans [OF b1 noted_slot(2) [OF s1]] idk by simp
        show "task_phase ?s k = task_phase s k \<or> (task_phase s k = finished_task s \<and> task_phase ?s k = finished_task ?s)"
          if "k < length (sp_stages sc)" "k \<notin> {?k}" for k using that f by (simp add: task_phase_def)
        show "slot_holds (sp_stages sc ! k) (task_slot ?ps (st_task_id (sp_stages sc ! k))) (task_phase ?s k)"
          if "k \<in> {?k}" for k
          using wrote_finished [OF s1 cl p dt, where nid = "lx_note_id i"] that idk f by (simp add: task_phase_def at_task_def)
      qed (use d ix mono in simp_all)
      moreover have "scenario_ready ?H ?Hs sc ?ps"
        by (rule noted_ready [OF rdy1 st]) (use s1 id p in auto)
      moreover have "life_outcome_ok sc ?s" using f by (auto simp: life_outcome_ok_def)
      moreover have "in_scenario sc ?s" using isc in_scenario_place [OF pl] f by simp
      ultimately show ?thesis using f(1) by (simp add: life_ok_def)
    next
      assume e: "enters ?H sc s p l' (lx_note_id i) ps1 ?s (turn_note r)"
      let ?st = "sp_stages sc ! Suc ?k"
      obtain v2 p2 where e2: "dict_get (st_variants ?st) v2 = Some p2"
        "ds_life ?s = Some (noted p l' (lx_note_id i) (entered ?H (st_task_id ?st) v2 p2 ps1))"
        using e by (auto simp: enters_def)
      let ?ps2 = "entered ?H (st_task_id ?st) v2 p2 ps1"
      let ?ps = "noted p l' (lx_note_id i) ?ps2"
      have f: "ss_task_index ?s = Suc ?k" "ss_status ?s = ACTIVE" "Suc ?k < length (sp_stages sc)"
        "ss_outcome ?s = ss_outcome s" "ss_reward ?s = ss_reward s" using e by (simp_all add: enters_def)
      have mem: "?st \<in> set (sp_stages sc)" using f(3) by simp
      have ne: "st_task_id ?st \<noteq> li_task_id p" using task_index_unique [OF d f(3) ix] idk by simp
      have "slot_holds ?st (task_slot ps (st_task_id ?st)) untouched_task"
        using ph f(3) act by (auto simp: phases_ok_def task_phase_def)
      then have n2: "dict_get (ps_notes ps1) (st_task_id ?st) = Some empty_note_state"
        using same_but_slot [OF b1, of "st_task_id ?st"] ne
        unfolding slot_holds_iff by (auto simp: untouched_task_def task_slot_def)
      note s2 = entered_slot [OF n2, of ?H v2 p2]
      have rdy2: "scenario_ready ?H ?Hs sc ?ps2" by (rule entered_ready [OF rdy1 mem n2 e2(1)])
      have t2: "task_slot ?ps2 (li_task_id p) = (Some v, Some l', Some n')"
        using same_but_slot [OF s2(2), of "li_task_id p"] ne s1 by simp
      have t3: "task_slot ?ps (st_task_id ?st) = (Some v2, Some (empty_reasoning_ledger (life_snapshot ?H p2)), Some empty_note_state)"
        using same_but_slot [OF noted_slot(2) [OF t2], of "st_task_id ?st"] ne s2(1) by simp
      have "phases_ok sc ?s ?ps"
      proof (rule phases_later [OF ph, where J = "{?k, Suc ?k}"])
        show "same_but ((\<lambda>j. st_task_id (sp_stages sc ! j)) ` {?k, Suc ?k}) ps ?ps"
          by (rule same_but_mono [OF same_but_trans [OF same_but_trans [OF b1 s2(2)] noted_slot(2) [OF t2]]]) (use idk in auto)
        show "task_phase ?s k = task_phase s k \<or> (task_phase s k = finished_task s \<and> task_phase ?s k = finished_task ?s)"
          if "k < length (sp_stages sc)" "k \<notin> {?k, Suc ?k}" for k using that f by (simp add: task_phase_def)
        show "slot_holds (sp_stages sc ! k) (task_slot ?ps (st_task_id (sp_stages sc ! k))) (task_phase ?s k)"
          if "k \<in> {?k, Suc ?k}" for k
        proof (cases "k = ?k")
          case True
          then show ?thesis using wrote_finished [OF t2 cl p dt, where nid = "lx_note_id i"] idk f
            by (simp add: task_phase_def at_task_def)
        next
          case False
          then have k: "k = Suc ?k" using that by simp
          have "validate_life_pack p2 = Inr ()" using scenario_pack_parts(4) [OF v mem e2(1)] by simp
          then have "open_task p2 (empty_reasoning_ledger (life_snapshot ?H p2)) empty_note_state"
            using empty_task_open by (simp add: open_task_def empty_note_state_def)
          then show ?thesis using t3 e2(1) f k by (simp add: task_phase_def slot_holds_def)
        qed
      qed (use d ix f mono in auto)
      moreover have "scenario_ready ?H ?Hs sc ?ps"
        by (rule noted_ready [OF rdy2 st]) (use t2 id p in auto)
      moreover have "life_outcome_ok sc ?s" using f oc act by (simp add: life_outcome_ok_def)
      moreover have "in_scenario sc ?s" using isc pl f by (simp add: in_scenario_def place_def)
      ultimately show ?thesis using e2(2) by (simp add: life_ok_def)
    qed
  qed
qed

section \<open>Reachable conversations\<close>

text \<open>
  A conversation starts from the defaults of \<^verbatim>\<open>SessionState\<close>, and a turn is run only on an
  active one.
\<close>

definition fresh_life :: "dialogue_state \<Rightarrow> bool" where
  "fresh_life s \<longleftrightarrow> ss_outcome s = None \<and> \<not> ss_reward s"

inductive life_step :: "life_environment \<Rightarrow> dialogue_state \<Rightarrow> dialogue_state \<Rightarrow> bool" for env where
  "ss_status s = ACTIVE \<Longrightarrow> run_life env i s = Inr r \<Longrightarrow> life_step env s (lr_state r)"

inductive life_session :: "life_environment \<Rightarrow> scenario_pack \<Rightarrow> dialogue_state \<Rightarrow> bool" for env sc where
  started: "fresh_life s0 \<Longrightarrow> initialize_scenario env sc s0 nid tid = Inr (t, s) \<Longrightarrow> life_session env sc s"
| continued: "life_session env sc s \<Longrightarrow> life_step env s s' \<Longrightarrow> life_session env sc s'"

inductive_cases life_stepE: "life_step env s s'"

lemma initialize_life_ok:
  assumes f: "fresh_life s0" and i: "initialize_scenario env sc s0 nid tid = Inr (t, s)"
  shows "life_ok env sc s"
proof -
  let ?H = "en_hash env" and ?Hs = "en_scenario_hash env"
  obtain ps p sn l q s3 s4 where ps: "pin_life_scenario ?H ?Hs sc = Inr ps"
    and id0: "ss_runtime s0 = VERDICT_V1" "ds_scene s0 = sp_scene sc" "ss_scenario_id s0 = sp_scenario_id sc"
      "ss_task_ids s0 = task_ids sc"
    and r: "resolve_life_state env (s0\<lparr>ss_pinned := None, ds_life := Some ps, ss_task_index := 0\<rparr>) = Inr (p, sn, l)"
    and q: "life_question ?H (s0\<lparr>ss_pinned := None, ds_life := Some ps, ss_task_index := 0,
        ss_expression := po_entry_level (li_policies p), ds_start_level := Some (po_entry_level (li_policies p)),
        ss_hint := H0, ss_max_hint := H0, ss_subgoal := qp_plan_id (li_initial p), ss_verified_slots := [],
        ss_completed_slots := [], ss_status := ACTIVE\<rparr>) p l = Inr (q, s3)"
    and b: "build_life_turn env s3 p l (qc_fallback q) nid tid = Inr (t, s4)"
    and s: "s = s4\<lparr>ss_turn_id := Some (tn_id t)\<rparr>"
    using i by (auto simp: initialize_scenario_def bindr_eq_Inr Let_def split: if_splits prod.splits)
  have v: "validate_scenario_pack sc = Inr ()" and e: "ps = fresh_scenario ?H ?Hs sc"
    using pin_scenario [OF ps] by simp_all
  have rdy: "scenario_ready ?H ?Hs sc ps" unfolding e by (rule fresh_scenario_ready [OF v])
  let ?s1 = "s0\<lparr>ss_pinned := None, ds_life := Some ps, ss_task_index := 0\<rparr>"
  have len: "0 < length (sp_stages sc)" using scenario_pack_parts(2) [OF v] by simp
  have i1: "in_scenario sc ?s1" using id0 len by (simp add: in_scenario_def)
  note st = current_task_at(2) [OF i1]
  have at: "at_task sc ?s1 = sp_stages sc ! 0" by (simp add: at_task_def)
  have slot: "task_slot ps (st_task_id st) = (Some (st_default_variant st),
     Some (empty_reasoning_ledger (life_snapshot ?H (default_life st))), Some empty_note_state)"
    if "st \<in> set (sp_stages sc)" for st
    unfolding e by (rule fresh_slot [OF v that])
  have p: "p = default_life (sp_stages sc ! 0)"
    using resolve_life_ready [OF i1 _ rdy slot [OF st] default_life_get(1) [OF v st]] r at by simp
  have pid: "li_task_id p = st_task_id (sp_stages sc ! 0)"
    using scenario_pack_parts(4) [OF v _ default_life_get(1) [OF v]] st at p by simp
  note f3 = life_question_frame [OF q]
  have x3: "ds_life s3 = Some ps" "place s3 = place s0" "progress s3 = (0, ACTIVE, ss_joint_used s0, ss_all_direct s0, None, False)"
    using f3 f by (simp_all add: life_views fresh_life_def)
  then have i3: "in_scenario sc s3" using id0 len by (simp add: in_scenario_def life_views)
  have "at_task sc s3 = sp_stages sc ! 0" using x3(3) by (simp add: at_task_def progress_def)
  then have t3: "current_task s3 = Inr (li_task_id p)" using current_task_at(1) [OF i3] pid by simp
  have act: "ss_status s3 = ACTIVE" using x3(3) by (simp add: progress_def)
  note b' = build_life_turn_Inr [OF b x3(1) t3]
  have x: "ds_life s = Some ps" "place s = place s0" "progress s = (0, ACTIVE, ss_joint_used s0, ss_all_direct s0, None, False)"
    using b' act x3 s by (simp_all add: life_views)
  have "phases_ok sc s ps" unfolding phases_ok_def
  proof (intro allI impI)
    fix k assume k: "k < length (sp_stages sc)"
    let ?st = "sp_stages sc ! k"
    have mem: "?st \<in> set (sp_stages sc)" using k by simp
    note g = default_life_get [OF v mem]
    have op: "open_task (default_life ?st) (empty_reasoning_ledger (life_snapshot ?H (default_life ?st))) empty_note_state"
      using empty_task_open [OF g(2)] by (simp add: open_task_def empty_note_state_def)
    have "task_phase s k = (if k = 0 then open_task else untouched_task)"
      using x(3) by (simp add: task_phase_def progress_def)
    then have "task_phase s k (default_life ?st) (empty_reasoning_ledger (life_snapshot ?H (default_life ?st))) empty_note_state"
      using op by (cases "k = 0") (auto simp: untouched_task_def)
    then show "slot_holds ?st (task_slot ps (st_task_id ?st)) (task_phase s k)"
      using slot [OF mem] g(1) by (simp add: slot_holds_def)
  qed
  moreover have "life_outcome_ok sc s" "in_scenario sc s"
    using x(2,3) id0 len by (simp_all add: life_outcome_ok_def in_scenario_def life_views)
  ultimately show ?thesis using x(1) rdy by (simp add: life_ok_def)
qed

lemma life_session_ok: "life_session env sc s \<Longrightarrow> life_ok env sc s"
proof (induction rule: life_session.induct)
  case (started s0 nid tid t s)
  then show ?case by (rule initialize_life_ok)
next
  case (continued s s')
  from continued.hyps(2) show ?case
    by (cases rule: life_step.cases) (use continued.IH life_step_ok in blast)
qed

section \<open>What the invariant says of a task\<close>

lemma slot_task:
  assumes r: "scenario_ready H Hs sc ps" and st: "st \<in> set (sp_stages sc)"
    and slot: "task_slot ps (st_task_id st) = (Some v, Some l, Some n)" and p: "dict_get (st_variants st) v = Some p"
  shows "pack_of_task ps sc (st_task_id st) = Inr p" and "ledger_of_task ps (st_task_id st) = Inr l"
    and "task_ready H p l n"
proof -
  have v: "validate_scenario_pack sc = Inr ()" using r by (simp add: scenario_ready_def)
  show t: "task_ready H p l n" by (rule ready_slot [OF r st]) (use slot p in auto)
  show "pack_of_task ps sc (st_task_id st) = Inr p" "ledger_of_task ps (st_task_id st) = Inr l"
    using stage_lookup [OF v st] slot p t
    by (simp_all add: pack_of_task_def ledger_of_task_def task_slot_def py_index_def task_ready_def)
qed

lemma independent_child_verified:
  assumes "task_ready H p l n" and "independent_task p n" and "i \<in> set (po_note_relation_ids (li_policies p))"
  shows "child_verified (verified_relations l) i"
  using assms unfolding task_ready_def note_ok_def provenance_ok_def independent_task_def by blast

text \<open>The tasks a conversation has finished.\<close>

definition finished_ids :: "dialogue_state \<Rightarrow> string list" where
  "finished_ids s = (if ss_status s = COMPLETED then ss_task_ids s else take (ss_task_index s) (ss_task_ids s))"

lemma finished_phase:
  assumes ok: "life_ok env sc s" and t: "t \<in> set (finished_ids s)"
  obtains ps v l n p where "ds_life s = Some ps" "task_slot ps t = (Some v, Some l, Some n)"
    "pack_of_task ps sc t = Inr p" "ledger_of_task ps t = Inr l" "task_ready (en_hash env) p l n" "finished_task s p l n"
proof -
  obtain ps where ps: "ds_life s = Some ps" "scenario_ready (en_hash env) (en_scenario_hash env) sc ps" "phases_ok sc s ps"
    and i: "in_scenario sc s" and oc: "life_outcome_ok sc s" using ok by (auto simp: life_ok_def)
  obtain k where k: "k < length (sp_stages sc)" "t = st_task_id (sp_stages sc ! k)"
    "k < ss_task_index s \<or> ss_status s = COMPLETED"
    using t i by (auto simp: finished_ids_def in_scenario_def in_set_conv_nth split: if_splits)
  have "task_phase s k = finished_task s" using k oc by (auto simp: task_phase_def life_outcome_ok_def)
  then have "slot_holds (sp_stages sc ! k) (task_slot ps t) (finished_task s)"
    using ps(3) k by (metis phases_ok_def)
  then obtain v l n p where s: "task_slot ps t = (Some v, Some l, Some n)"
    "dict_get (st_variants (sp_stages sc ! k)) v = Some p" "finished_task s p l n"
    unfolding slot_holds_iff by blast
  note st = slot_task [OF ps(2) nth_mem [OF k(1)], folded k(2), OF s(1,2)]
  show thesis by (rule that [OF ps(1) s(1) st s(3)])
qed

lemma stored_life_state: "life_session env sc s \<Longrightarrow> \<exists>p sn l. resolve_life_state env s = Inr (p, sn, l)"
  using current_phase [OF life_session_ok] by metis

lemma turn_touches:
  assumes ok: "life_ok env sc s" and act: "ss_status s = ACTIVE" and run: "run_life env i s = Inr r"
  obtains ps ps' T where "ds_life s = Some ps" "ds_life (lr_state r) = Some ps'" "same_but T ps ps'"
    "T \<subseteq> {st_task_id (at_task sc s)} \<union> (if Suc (ss_task_index s) < length (sp_stages sc)
       then {st_task_id (sp_stages sc ! Suc (ss_task_index s))} else {})"
proof -
  let ?H = "en_hash env" and ?m = "lr_semantics r" and ?t = "st_task_id (at_task sc s)"
  obtain ps v l n p h' where ps: "ds_life s = Some ps" and ph: "phases_ok sc s ps"
    and slot: "task_slot ps ?t = (Some v, Some l, Some n)" and id: "li_task_id p = ?t"
    and fin: "if co_complete (ar_completion (sm_result ?m))
     then credited s p ?m (answered_note p ?m (ss_hint s) h' n) (lr_state r)
       \<and> (let ps1 = answered (li_task_id p) p ?m (ss_hint s) h' ps; l' = ar_ledger (sm_result ?m) in
          ends sc s p l' (lx_note_id i) ps1 (lr_state r) (turn_note r)
          \<or> enters ?H sc s p l' (lx_note_id i) ps1 (lr_state r) (turn_note r))
     else stays s (answered (li_task_id p) p ?m (ss_hint s) h' ps) (lr_state r) (turn_note r)"
    and rdy: "scenario_ready ?H (en_scenario_hash env) sc ps"
    using life_turn [OF ok act run] by metis
  let ?ps1 = "answered (li_task_id p) p ?m (ss_hint s) h' ps"
  have b1: "same_but {?t} ps ?ps1" using answered_slot(2) [OF slot id] id by simp
  have s1: "task_slot ?ps1 (li_task_id p) = (Some v, Some (ar_ledger (sm_result ?m)), Some (answered_note p ?m (ss_hint s) h' n))"
    using answered_slot(1) [OF slot id] id by simp
  show thesis
  proof (cases "co_complete (ar_completion (sm_result ?m))")
    case False
    then have "ds_life (lr_state r) = Some ?ps1" using fin by (simp add: stays_def)
    from that [OF ps this b1] show thesis by simp
  next
    case True
    then consider (last) "ends sc s p (ar_ledger (sm_result ?m)) (lx_note_id i) ?ps1 (lr_state r) (turn_note r)"
      | (more) "enters ?H sc s p (ar_ledger (sm_result ?m)) (lx_note_id i) ?ps1 (lr_state r) (turn_note r)"
      using fin by (auto simp: Let_def)
    then show thesis
    proof cases
      case last
      then have "ds_life (lr_state r) = Some (noted p (ar_ledger (sm_result ?m)) (lx_note_id i) ?ps1)" by (simp add: ends_def)
      from that [OF ps this same_but_trans [OF b1 noted_slot(2) [OF s1]]] id show thesis by simp
    next
      case more
      let ?st = "sp_stages sc ! Suc (ss_task_index s)"
      have l: "Suc (ss_task_index s) < length (sp_stages sc)" using more by (simp add: enters_def)
      obtain v2 p2 where e2: "ds_life (lr_state r) = Some (noted p (ar_ledger (sm_result ?m)) (lx_note_id i)
          (entered ?H (st_task_id ?st) v2 p2 ?ps1))" using more by (auto simp: enters_def)
      have ne: "st_task_id ?st \<noteq> li_task_id p"
        using task_index_unique [OF _ l, of "ss_task_index s"] l rdy scenario_pack_parts(1) [of sc] id
        by (auto simp: scenario_ready_def at_task_def)
      obtain n2 where n2: "dict_get (ps_notes ?ps1) (st_task_id ?st) = Some n2"
      proof (rule ready_slot [OF rdy nth_mem [OF l]])
        fix v3 l3 n3 p3 assume "task_slot ps (st_task_id ?st) = (Some v3, Some l3, Some n3)"
        then have "task_slot ?ps1 (st_task_id ?st) = (Some v3, Some l3, Some n3)"
          using same_but_slot [OF b1, of "st_task_id ?st"] ne id by simp
        then show thesis by (intro that) (simp add: task_slot_def)
      qed
      note s2 = entered_slot [OF n2, of ?H v2 p2]
      have t2: "task_slot (entered ?H (st_task_id ?st) v2 p2 ?ps1) (li_task_id p)
          = (Some v, Some (ar_ledger (sm_result ?m)), Some (answered_note p ?m (ss_hint s) h' n))"
        using same_but_slot [OF s2(2), of "li_task_id p"] ne s1 by simp
      from that [OF ps e2 same_but_trans [OF same_but_trans [OF b1 s2(2)] noted_slot(2) [OF t2]]] id l
      show thesis by simp
    qed
  qed
qed

text \<open>A note with the child attribution is written from a provenance in which every relation is the child's.\<close>

lemma turn_child_note:
  assumes ok: "life_ok env sc s" and act: "ss_status s = ACTIVE" and run: "run_life env i s = Inr r"
    and x: "tn_note (lr_turn r) = Some x" "nt_attribution x = Note_Child"
    and p0: "resolve_life_state env s = Inr (p0, sn, l0)" and j: "j \<in> set (po_note_relation_ids (li_policies p0))"
  shows "child_verified (verified_relations (ar_ledger (sm_result (lr_semantics r)))) j
    \<and> sm_source (lr_semantics r) \<noteq> Structured_Joint"
proof -
  let ?H = "en_hash env" and ?m = "lr_semantics r" and ?t = "st_task_id (at_task sc s)"
  let ?l = "ar_ledger (sm_result ?m)"
  obtain ps v l n p h' where ps: "ds_life s = Some ps" and rdy: "scenario_ready ?H (en_scenario_hash env) sc ps"
    and slot: "task_slot ps ?t = (Some v, Some l, Some n)" and id: "li_task_id p = ?t"
    and pv: "dict_get (st_variants (at_task sc s)) v = Some p" and tr: "task_ready ?H p l n"
    and sem: "life_semantics_ok ?H (life_snapshot ?H p) p l ?m"
    and fin: "if co_complete (ar_completion (sm_result ?m))
     then credited s p ?m (answered_note p ?m (ss_hint s) h' n) (lr_state r)
       \<and> (let ps1 = answered (li_task_id p) p ?m (ss_hint s) h' ps; l' = ar_ledger (sm_result ?m) in
          ends sc s p l' (lx_note_id i) ps1 (lr_state r) (turn_note r)
          \<or> enters ?H sc s p l' (lx_note_id i) ps1 (lr_state r) (turn_note r))
     else stays s (answered (li_task_id p) p ?m (ss_hint s) h' ps) (lr_state r) (turn_note r)"
    using life_turn [OF ok act run] by metis
  have isc: "in_scenario sc s" using ok by (simp add: life_ok_def)
  have p: "p0 = p" using resolve_life_ready [OF isc ps rdy slot pv] p0 by simp
  let ?ps1 = "answered (li_task_id p) p ?m (ss_hint s) h' ps" and ?n = "answered_note p ?m (ss_hint s) h' n"
  have s1: "task_slot ?ps1 (li_task_id p) = (Some v, Some ?l, Some ?n)" using answered_slot(1) [OF slot id] id by simp
  have co: "co_complete (ar_completion (sm_result ?m))"
    using fin x(1) by (auto simp: stays_def turn_note_def split: if_splits)
  have "\<exists>ps2. note_of p ?l ps2 x \<and> dict_get (ps_notes ps2) (li_task_id p) = Some ?n"
  proof -
    consider (last) "ends sc s p ?l (lx_note_id i) ?ps1 (lr_state r) (turn_note r)"
      | (more) "enters ?H sc s p ?l (lx_note_id i) ?ps1 (lr_state r) (turn_note r)"
      using fin co by (auto simp: Let_def)
    then show ?thesis
    proof cases
      case last
      then have "note_of p ?l ?ps1 x" using x(1) by (auto simp: ends_def wrote_def turn_note_def split: if_splits)
      then show ?thesis using s1 by (auto simp: task_slot_def)
    next
      case more
      then obtain v2 p2 where "wrote p ?l (lx_note_id i)
          (entered ?H (st_task_id (sp_stages sc ! Suc (ss_task_index s))) v2 p2 ?ps1) (turn_note r)"
        by (auto simp: enters_def)
      then have "note_of p ?l (entered ?H (st_task_id (sp_stages sc ! Suc (ss_task_index s))) v2 p2 ?ps1) x"
        using x(1) by (auto simp: wrote_def turn_note_def split: if_splits)
      then show ?thesis using s1 by (auto simp: task_slot_def entered_def)
    qed
  qed
  then have n: "independent_task p ?n" "\<not> ns_joint ?n" "po_note_policy (li_policies p) \<noteq> Note_None"
    using x(2) by (auto simp: note_of_def)
  have "task_ready ?H p ?l ?n" by (rule answered_task_ready [OF tr sem])
  from independent_child_verified [OF this n(1)] have "child_verified (verified_relations ?l) j" using j p by simp
  moreover have "sm_source ?m \<noteq> Structured_Joint"
    using n(2,3) by (simp add: answered_note_def track_note_state_def Let_def)
  ultimately show ?thesis by blast
qed

end
