(* ===== verification/Life_Demo.thy ===== *)
theory Life_Demo
  imports Life_Reach Home_Demo
begin

text \<open>
  A concrete cafe conversation: two tasks in which the child counts four cups, the second
  selected by the verified number of the first. The properties of the life runtime are instantiated
  on it.
\<close>

definition demo_life_targets :: "target_ref list" where
  "demo_life_targets = [\<lparr>tr_kind = TK_Fact, tr_id = ''f'', tr_ask = Ask_Answer\<rparr>,
     \<lparr>tr_kind = TK_Relation, tr_id = ''r'', tr_ask = Ask_Reason_Or_Method\<rparr>]"

definition demo_life_graph :: life_graph where
  "demo_life_graph =
     \<lparr>lg_facts =
        [\<lparr>fact_id = ''c'', fact_role = Visible_Value, fact_value = NumberValue (PInt 4) None, fact_label = [52980],
           initially_visible = True, fact_required = False, surface_forms = [[52980]], accepted_values = []\<rparr>,
         \<lparr>fact_id = ''f'', fact_role = Final_Answer, fact_value = NumberValue (PInt 4) None, fact_label = [51060],
           initially_visible = False, fact_required = True, surface_forms = [[52]], accepted_values = []\<rparr>],
      lg_relations =
        [\<lparr>relation_id = ''r'', rel_role = ''procedure_step'', operation = Counting, input_fact_ids = [''c''],
           output_fact_id = ''f'', evaluation_mode = ''open_semantic_support'', rel_label = [49464],
           rel_rubric = \<lparr>rb_sufficient = [[49464]], rb_partial = [[48372]], rb_incorrect = [[48764]]\<rparr>,
           rel_required = True, comparison_goal = None\<rparr>],
      lg_completion = \<lparr>required_fact_ids = [''f''], required_relation_ids = [''r'']\<rparr>,
      lg_open_auxiliary_claims = True\<rparr>"

definition demo_life_slot :: "string \<Rightarrow> copy_purpose \<Rightarrow> target_ref list \<Rightarrow> copy_slot" where
  "demo_life_slot i u ts = \<lparr>cs_slot = i, cs_purpose = u, cs_targets = ts, cs_brief = [63], cs_fallback = [63]\<rparr>"

definition demo_life_choice :: "string \<Rightarrow> (string \<times> canonical_value) list \<Rightarrow> string list \<Rightarrow> bool \<Rightarrow> life_choice" where
  "demo_life_choice i us rels good =
     \<lparr>lc_id = i, lc_label = [63], lc_image = None, lc_disabled = False,
      lc_effect = \<lparr>le_verdict = (if good then Correct else Incorrect), le_fact_updates = us, le_relation_ids = rels,
        le_misconception = (if good then None else Some ''m''), le_visual_patch = []\<rparr>\<rparr>"

definition demo_life_l2 :: "life_l2_plan list" where
  "demo_life_l2 =
     [\<lparr>ll_plan_id = ''q1'', ll_target = demo_life_targets ! 0, ll_copy_slot = ''q1'',
       ll_choices = [demo_life_choice ''y'' [(''f'', NumberValue (PInt 4) None)] [] True,
         demo_life_choice ''n'' [] [] False], ll_config = [], ll_submit_label = [63]\<rparr>,
      \<lparr>ll_plan_id = ''q2'', ll_target = demo_life_targets ! 1, ll_copy_slot = ''q2'',
       ll_choices = [demo_life_choice ''y'' [] [''r''] True, demo_life_choice ''n'' [] [] False],
       ll_config = [], ll_submit_label = [63]\<rparr>]"

definition demo_life_card :: "hint_level \<Rightarrow> support_type \<Rightarrow> answer_policy \<Rightarrow> string list \<Rightarrow> string list \<Rightarrow> life_help_card" where
  "demo_life_card h u q fs rs = \<lparr>hc_level = h, hc_support = u, hc_policy = q, hc_body = [63], hc_action = None,
     hc_facts = fs, hc_relations = rs, hc_visual_type = None, hc_visual_data = []\<rparr>"

definition demo_life_pack :: "string \<Rightarrow> life_pack" where
  "demo_life_pack t =
     \<lparr>li_pack_id = ''k'', li_content_version = 1, li_scene = CAFE, li_scenario_id = ''s'',
      li_task_id = t, li_stage_id = t, li_phase = Single, li_skill_id = ''r'', li_title = [63],
      li_dictionary_card_id = ''r'', li_source_prompt = [63], li_base_visual = (''s'', []),
      li_graph = demo_life_graph,
      li_initial = \<lparr>qp_plan_id = ''i'', qp_targets = demo_life_targets, qp_fallback = [63]\<rparr>,
      li_l3_plans = map (\<lambda>x. \<lparr>qp_plan_id = ''l'', qp_targets = [x], qp_fallback = [63]\<rparr>) demo_life_targets,
      li_copy_slots = [demo_life_slot ''h'' Initial_Help (take 1 demo_life_targets),
        demo_life_slot ''q1'' L2_Question (take 1 demo_life_targets), demo_life_slot ''q2'' L2_Question (drop 1 demo_life_targets),
        demo_life_slot ''i0'' L0_Intro demo_life_targets, demo_life_slot ''a0'' L0_Action demo_life_targets],
      li_l2_plans = demo_life_l2,
      li_l0 = \<lparr>jp_action_id = ''j'', jp_intro_slot = ''i0'', jp_action_slot = ''a0'',
        jp_completion = [JointFact ''f'' (NumberValue (PInt 4) None), JointRelation ''r''],
        jp_button = [63], jp_config = []\<rparr>,
      li_help = \<lparr>life_H1 = demo_life_card H1 Attention Hidden [] [], life_H2 = demo_life_card H2 Guided_Action Partially_Shown [] [],
        life_H3 = demo_life_card H3 Joint_Model Revealed [''f''] [''r'']\<rparr>,
      li_policies = \<lparr>po_entry_level = L4, po_note_policy = Verified_Child_Or_Coauthored,
        po_note_relation_ids = [''r''], po_note_skill_id = Some ''r'',
        po_note_context = Some [63], po_direct_fallback = Some [49464],
        po_coauthored_note = Some [49464], po_transition_text = None\<rparr>\<rparr>"

definition demo_stage :: "string \<Rightarrow> variant_selector option \<Rightarrow> task_stage" where
  "demo_stage t sel = \<lparr>st_task_id = t, st_default_variant = ''v'', st_variants = [(''v'', demo_life_pack t)],
     st_selector = sel\<rparr>"

definition demo_scenario :: scenario_pack where
  "demo_scenario =
     \<lparr>sp_pack_id = ''k'', sp_content_version = 1, sp_scene = CAFE, sp_scenario_id = ''s'',
      sp_stages = [demo_stage ''o'' None,
        demo_stage ''p'' (Some \<lparr>vs_source_task_id = ''o'', vs_fact_id = ''f'',
           vs_value_to_variant = [(''4'', ''v'')]\<rparr>)],
      sp_projection = [\<lparr>cp_output_key = ''t'', cp_source_task_id = ''o'', cp_source_kind = PK_Fact,
        cp_source_id = ''f'', cp_relation_value = None\<rparr>]\<rparr>"

definition demo_life_env :: life_environment where
  "demo_life_env = environment.extend (demo_env\<lparr>en_hash := \<lambda>p. case p of Life l \<Rightarrow> li_task_id l | _ \<Rightarrow> []\<rparr>)
     \<lparr>en_scenario_hash = sp_pack_id\<rparr>"

definition demo_cafe :: dialogue_state where
  "demo_cafe = session.extend
     ((demo_fresh L4)\<lparr>ss_scenario_id := ''s'', ss_task_ids := [''o'', ''p'']\<rparr>)
     \<lparr>ds_conversation_id = ''conversation_1'', ds_learner_id = 7, ds_learning_session = None, ds_round = 1,
      ds_scene = CAFE, ds_start_level = None, ds_raw_enabled = True, ds_retention = Permanent,
      ds_raw_until = None, ds_life = None, ds_patches = [], ds_transition = None, ds_updated_at = 0\<rparr>"

definition demo_life_input :: "child_response \<Rightarrow> gateway \<Rightarrow> string \<Rightarrow> life_input" where
  "demo_life_input r g i = \<lparr>lx_response = r, lx_previous_question = [63], lx_history = [], lx_gateway = g,
     lx_spoken = qc_fallback, lx_note_id = ''n'' @ i, lx_new_turn_id = ''t'' @ i, lx_real_text = (\<lambda>_. [])\<rparr>"

definition demo_life_words :: ustr where
  "demo_life_words = [49464, 32, 52]"

definition demo_life_answer :: understanding_response where
  "demo_life_answer = (default_response UC_LEARNING_RESPONSE)
     \<lparr>contains_learning_evidence := True, claims :=
       [FactClaim \<lparr>fc_claim_id = ''a'', fc_fact_id = ''f'', fc_claim_type = ''final_answer'', fc_evidence_span = [52],
          fc_interpreted_value = None, fc_verdict = Correct, fc_confidence = None\<rparr>,
        RelationClaim \<lparr>rc_claim_id = ''b'', rc_relation_id = ''r'', rc_claim_type = ''procedure_step'',
          rc_evidence_span = [49464], rc_verdict = Sufficient, rc_arithmetic = None, rc_confidence = None\<rparr>]\<rparr>"

definition demo_life_taught :: "string \<Rightarrow> life_input" where
  "demo_life_taught i = demo_life_input (demo_child RT_TEXT (Some demo_life_words) [] None)
     (\<lambda>k rq. Candidate demo_life_answer) i"

text \<open>The child explains both tasks in its own words.\<close>

definition demo_lesson :: "(life_contract \<times> dialogue_state \<times> life_result \<times> life_result) res" where
  "demo_lesson =
     bindr (initialize_scenario demo_life_env demo_scenario demo_cafe ''n'' ''t'') (\<lambda>(t, s0).
     bindr (run_life demo_life_env (demo_life_taught ''1'') s0) (\<lambda>r1.
     bindr (run_life demo_life_env (demo_life_taught ''2'') (lr_state r1)) (\<lambda>r2. Inr (t, s0, r1, r2))))"

lemma demo_lesson_runs:
  "case demo_lesson of
     Inr (t, s0, r1, r2) \<Rightarrow> ss_status s0 = ACTIVE \<and> ss_status (lr_state r1) = ACTIVE
       \<and> ss_task_index (lr_state r1) = 1 \<and> map_option nt_attribution (turn_note r1) = Some Note_Child
       \<and> ss_status (lr_state r2) = COMPLETED \<and> ss_outcome (lr_state r2) = Some TAUGHT
   | Inl _ \<Rightarrow> False"
  by code_simp

lemma demo_fresh_life: "fresh_life demo_cafe"
  by (simp add: fresh_life_def demo_cafe_def demo_fresh_def session.extend_def)

lemma demo_lessonE:
  obtains s0 r1 r2 x where
    "life_session demo_life_env demo_scenario s0" "ss_status s0 = ACTIVE"
    "run_life demo_life_env (demo_life_taught ''1'') s0 = Inr r1"
    "life_session demo_life_env demo_scenario (lr_state r1)" "ss_status (lr_state r1) = ACTIVE"
    "ss_task_index (lr_state r1) = 1" "tn_note (lr_turn r1) = Some x" "nt_attribution x = Note_Child"
    "run_life demo_life_env (demo_life_taught ''2'') (lr_state r1) = Inr r2"
    "life_session demo_life_env demo_scenario (lr_state r2)"
    "ss_status (lr_state r2) = COMPLETED" "ss_outcome (lr_state r2) = Some TAUGHT"
proof -
  obtain y where y: "demo_lesson = Inr y"
  proof (cases demo_lesson)
    case (Inl e)
    have False using demo_lesson_runs unfolding Inl sum.case .
    then show thesis ..
  qed (rule that)
  obtain t s0 r1 r2 where "y = (t, s0, r1, r2)" by (cases y)
  with y have l: "demo_lesson = Inr (t, s0, r1, r2)" by simp
  then have i: "initialize_scenario demo_life_env demo_scenario demo_cafe ''n'' ''t'' = Inr (t, s0)"
    and r: "run_life demo_life_env (demo_life_taught ''1'') s0 = Inr r1"
      "run_life demo_life_env (demo_life_taught ''2'') (lr_state r1) = Inr r2"
    by (auto simp: demo_lesson_def bindr_eq_Inr)
  have f: "ss_status s0 = ACTIVE" "ss_status (lr_state r1) = ACTIVE" "ss_task_index (lr_state r1) = 1"
    "map_option nt_attribution (tn_note (lr_turn r1)) = Some Note_Child"
    "ss_status (lr_state r2) = COMPLETED" "ss_outcome (lr_state r2) = Some TAUGHT"
    using demo_lesson_runs unfolding l sum.case prod.case turn_note_def by blast+
  then obtain x where x: "tn_note (lr_turn r1) = Some x" "nt_attribution x = Note_Child" by auto
  have s: "life_session demo_life_env demo_scenario s0" by (rule life_session.started [OF demo_fresh_life i])
  have s1: "life_session demo_life_env demo_scenario (lr_state r1)"
    by (rule life_session.continued [OF s life_step.intros [OF f(1) r(1)]])
  have s2: "life_session demo_life_env demo_scenario (lr_state r2)"
    by (rule life_session.continued [OF s1 life_step.intros [OF f(2) r(2)]])
  show thesis by (rule that [OF s f(1) r(1) s1 f(2,3) x r(2) s2 f(5,6)])
qed

end
