(* ===== verification/Life_Properties.thy ===== *)
theory Life_Properties
  imports Life_Demo
begin

text \<open>The properties of a cafe or amusement conversation as a whole, over every reachable state of it.\<close>

section \<open>The stored runtime\<close>



text \<open>C7. The verified truth of a task is complete before the conversation leaves it: every task before the
  current one, and every task of a completed conversation, has a ledger that verifies all its required
  facts and relations against the variant that was active.\<close>

theorem finished_tasks_are_verified:
  assumes "life_session env sc s" and "t \<in> set (finished_ids s)"
  shows "\<exists>ps p l. ds_life s = Some ps \<and> pack_of_task ps sc t = Inr p \<and> ledger_of_task ps t = Inr l
    \<and> co_complete (completion_of (Life p) l)"
  by (rule finished_phase [OF life_session_ok [OF assms(1)] assms(2)]) (auto simp: finished_task_def)

lemma finished_tasks_are_verified_witness:
  "\<exists>(s :: dialogue_state) ps p l. ss_status s = COMPLETED \<and> ds_life s = Some ps \<and> pack_of_task ps demo_scenario ''p'' = Inr p
     \<and> ledger_of_task ps ''p'' = Inr l \<and> co_complete (completion_of (Life p) l)"
proof -
  obtain s0 x and r1 r2 :: life_result where s: "life_session demo_life_env demo_scenario (lr_state r2)" "ss_status (lr_state r2) = COMPLETED"
    by (rule demo_lessonE) (rule that; assumption)
  have "in_scenario demo_scenario (lr_state r2)" using life_session_ok [OF s(1)] by (simp add: life_ok_def)
  then have "''p'' \<in> set (finished_ids (lr_state r2))"
    using s(2) by (simp add: finished_ids_def in_scenario_def demo_scenario_def demo_stage_def)
  from finished_tasks_are_verified [OF s(1) this] s(2) show ?thesis by blast
qed

text \<open>C8. One turn touches one task: the variant, the ledger and the note provenance of every task other than
  the current one and the next one are the same after the turn, and so is the pinned scenario.\<close>

theorem one_turn_touches_one_task:
  assumes s: "life_session env sc s" and act: "ss_status s = ACTIVE" and run: "run_life env i s = Inr r"
    and t: "t \<noteq> st_task_id (at_task sc s)"
    and next_t: "Suc (ss_task_index s) < length (sp_stages sc) \<Longrightarrow> t \<noteq> st_task_id (sp_stages sc ! Suc (ss_task_index s))"
  shows "\<exists>ps ps'. ds_life s = Some ps \<and> ds_life (lr_state r) = Some ps' \<and> ps_pack ps' = ps_pack ps
    \<and> ps_source_hash ps' = ps_source_hash ps \<and> task_slot ps' t = task_slot ps t"
proof -
  obtain ps ps' T where x: "ds_life s = Some ps" "ds_life (lr_state r) = Some ps'" "same_but T ps ps'"
    "T \<subseteq> {st_task_id (at_task sc s)} \<union> (if Suc (ss_task_index s) < length (sp_stages sc)
       then {st_task_id (sp_stages sc ! Suc (ss_task_index s))} else {})"
    by (rule turn_touches [OF life_session_ok [OF s] act run])
  have "t \<notin> T" using x(4) t next_t by (auto split: if_splits)
  then show ?thesis using x(1,2,3) by (simp add: same_but_def)
qed

lemma one_turn_touches_one_task_witness:
  "\<exists>s r ps ps'. run_life demo_life_env (demo_life_taught ''2'') s = Inr r
     \<and> ds_life s = Some ps \<and> ds_life (lr_state r) = Some ps' \<and> ps_pack ps' = ps_pack ps
     \<and> ps_source_hash ps' = ps_source_hash ps \<and> task_slot ps' ''o'' = task_slot ps ''o''"
proof -
  obtain s0 x and r1 r2 :: life_result where s: "life_session demo_life_env demo_scenario (lr_state r1)" "ss_status (lr_state r1) = ACTIVE"
    "run_life demo_life_env (demo_life_taught ''2'') (lr_state r1) = Inr r2" "ss_task_index (lr_state r1) = 1"
    by (rule demo_lessonE) (rule that; assumption)
  have "''o'' \<noteq> st_task_id (at_task demo_scenario (lr_state r1))"
    using s(4) by (simp add: at_task_def demo_scenario_def demo_stage_def)
  from one_turn_touches_one_task [OF s(1-3) this] s(3,4) show ?thesis by (simp add: demo_scenario_def) blast
qed

section \<open>Notes and rewards\<close>

text \<open>C9. A note that is signed by the child is the child's: when a turn writes a star note with the child
  attribution, the child has verified every relation of the note in its own words, and the task was never
  finished by a joint action.\<close>

theorem child_note_is_the_childs:
  assumes "life_session env sc s" and "ss_status s = ACTIVE" and "run_life env i s = Inr r"
    and "tn_note (lr_turn r) = Some x" and "nt_attribution x = Note_Child"
    and "resolve_life_state env s = Inr (p, sn, l)" and "j \<in> set (po_note_relation_ids (li_policies p))"
  shows "child_verified (verified_relations (ar_ledger (sm_result (lr_semantics r)))) j
    \<and> sm_source (lr_semantics r) \<noteq> Structured_Joint"
  using turn_child_note [OF life_session_ok [OF assms(1)] assms(2-7)] .

lemma child_note_is_the_childs_witness:
  "\<exists>s r x p sn l. run_life demo_life_env (demo_life_taught ''1'') s = Inr r \<and> tn_note (lr_turn r) = Some x
     \<and> nt_attribution x = Note_Child \<and> resolve_life_state demo_life_env s = Inr (p, sn, l) \<and> (\<forall>j \<in> set (po_note_relation_ids (li_policies p)).
     child_verified (verified_relations (ar_ledger (sm_result (lr_semantics r)))) j)"
proof -
  obtain s0 x and r1 r2 :: life_result where s: "life_session demo_life_env demo_scenario s0" "ss_status s0 = ACTIVE"
    "run_life demo_life_env (demo_life_taught ''1'') s0 = Inr r1" "tn_note (lr_turn r1) = Some x" "nt_attribution x = Note_Child"
    by (rule demo_lessonE) (rule that; assumption)
  obtain p sn l where p: "resolve_life_state demo_life_env s0 = Inr (p, sn, l)"
    using stored_life_state [OF s(1)] by blast
  have "\<forall>j \<in> set (po_note_relation_ids (li_policies p)).
      child_verified (verified_relations (ar_ledger (sm_result (lr_semantics r1)))) j"
    using child_note_is_the_childs [OF s p] by blast
  then show ?thesis using p s(3,4,5) by blast
qed

text \<open>C10. The reward of a conversation is earned in every task: a conversation that ends as taught, with the
  reward, has verified by the child's own words every note relation of every task with a note.\<close>

theorem taught_conversation_was_explained:
  assumes s: "life_session env sc s" and o: "ss_reward s" and t: "t \<in> set (ss_task_ids s)"
    and ps: "ds_life s = Some ps" and p: "pack_of_task ps sc t = Inr p" "po_note_policy (li_policies p) \<noteq> Note_None"
    and j: "j \<in> set (po_note_relation_ids (li_policies p))"
  shows "\<exists>l. ledger_of_task ps t = Inr l \<and> child_verified (verified_relations l) j"
proof -
  have ok: "life_ok env sc s" by (rule life_session_ok [OF s])
  then have c: "ss_all_direct s" "t \<in> set (finished_ids s)"
    using o t by (auto simp: life_ok_def life_outcome_ok_def finished_ids_def)
  show ?thesis
  proof (rule finished_phase [OF ok c(2)])
    fix ps' v l n p'
    assume f: "ds_life s = Some ps'" "pack_of_task ps' sc t = Inr p'" "ledger_of_task ps' t = Inr l"
      "task_ready (en_hash env) p' l n" "finished_task s p' l n"
    then have "ps' = ps" "p' = p" using ps p by simp_all
    then show ?thesis using f c(1) p(2) independent_child_verified [OF f(4) _ ] j by (auto simp: finished_task_def)
  qed
qed

lemma taught_conversation_was_explained_witness:
  "\<exists>(s :: dialogue_state) ps p. ss_reward s \<and> ds_life s = Some ps \<and> pack_of_task ps demo_scenario ''p'' = Inr p
     \<and> (po_note_policy (li_policies p) \<noteq> Note_None \<longrightarrow> (\<forall>j \<in> set (po_note_relation_ids (li_policies p)).
         \<exists>l. ledger_of_task ps ''p'' = Inr l \<and> child_verified (verified_relations l) j))"
proof -
  obtain s0 x and r1 r2 :: life_result where s: "life_session demo_life_env demo_scenario (lr_state r2)" "ss_status (lr_state r2) = COMPLETED"
    "ss_outcome (lr_state r2) = Some TAUGHT" by (rule demo_lessonE) (rule that; assumption)
  have ok: "life_ok demo_life_env demo_scenario (lr_state r2)" by (rule life_session_ok [OF s(1)])
  then have t: "ss_reward (lr_state r2)" "''p'' \<in> set (ss_task_ids (lr_state r2))"
    using s(3) by (auto simp: life_ok_def life_outcome_ok_def in_scenario_def demo_scenario_def demo_stage_def)
  then have "''p'' \<in> set (finished_ids (lr_state r2))" using s(2) by (simp add: finished_ids_def)
  then obtain ps v l n p where ps: "ds_life (lr_state r2) = Some ps" "pack_of_task ps demo_scenario ''p'' = Inr p"
    by (rule finished_phase [OF ok])
  show ?thesis using t(1) ps taught_conversation_was_explained [OF s(1) t ps] by blast
qed

end
