(* ===== verification/Spec2Isabelle.thy ===== *)
theory Spec2Isabelle
  imports Dialogue_Properties Queue_Properties Outbox_Properties Ladder_Properties Home_Properties
    Service_Properties Life_Properties
begin

text \<open>
  Verification of the Mormi dialogue service (\<^verbatim>\<open>src/src/mormi_api\<close>). A child teaches
  the character Mormi: Mormi asks a question, the child answers by text, by a choice or by
  performing a joint action, and the service decides what the child has explained, how much help
  comes next and when the lesson is complete. A language model only proposes what an answer means
  and how a reply is worded. The decisions are taken by the code that is modelled here.

  The parts of the program and how they interact:

  An HTTP request answers the active turn of a conversation. The service validates it, loads the
  stored state under a version, runs the engine pinned in the conversation outside any lock, and
  commits the result in one transaction that checks the version again. The engine of a home lesson
  and that of a cafe or amusement scenario share the understanding of an answer: the model's
  claims pass the literal-evidence guard, the reasoning ledger pinned to the reviewed content records
  the ones the content accepts, and the support policy moves the expression and the hint level. A
  committed turn leaves events in the outbox, and finished practice leaves jobs for the ladder
  analysis. Generated copy is produced once per content digest by the copy cache.

  Common vocabulary.
\<^item> \<open>Mormi_Prelude\<close>: Python exceptions as values (\<open>'a res\<close>), guard blocks (\<open>check_all\<close>),
  dictionaries as association lists.
\<^item> \<open>Schemas\<close>: the data contracts of \<^verbatim>\<open>schemas.py\<close> used by the dialogue core: support levels,
  canonical values, claims, understanding requests and responses, child responses, and their
  validators.

  Reviewed content and evidence.
\<^item> \<open>Evidence\<close>: \<^verbatim>\<open>dialogue_v2_evidence.py\<close>, the guard between model and ledger. The lemmas
  and properties show that what it admits quotes the words of the child.
\<^item> \<open>Content\<close>, \<open>Packs\<close>: \<^verbatim>\<open>dialogue_v2_content.py\<close>, reasoning graphs (arithmetic,
  acyclicity) and home teaching packs with their cross-reference checks. \<open>Life_Packs\<close>:
  \<^verbatim>\<open>dialogue_v2_life_content.py\<close>, real-life task packs, scenarios, variant selection, and
  \<open>pack_view\<close>, the view of a home and of a life pack that ledger and runtime share.
\<^item> \<open>Money_Price\<close>, \<open>Money_Price_Turn\<close>: the \<^verbatim>\<open>money-price\<close> lesson of the shipped
  catalog as a closed term, accepted by the validators, and turns on it. Witnesses are evaluated on it.
\<^item> \<open>Ledger\<close>, \<open>Ledger_Laws\<close>: \<^verbatim>\<open>dialogue_v2_ledger.py\<close>. The laws say that progress is
  inflationary (locale \<open>inflationary\<close>), that exactly the accepted claims are recorded, that
  the ledger stays bound to the pinned content, and that evidence counts once.
\<^item> \<open>Dialogue_Properties\<close>: the properties of these theories.

  The home runtime (\<^verbatim>\<open>dialogue_v2_runtime.py\<close>, \<^verbatim>\<open>dialogue_v2_graph.py\<close>,
  \<^verbatim>\<open>dialogue_v2_attempt_graph.py\<close>).
\<^item> \<open>Home_Questions\<close>, \<open>Home_Request\<close>: open targets, the question contract of a level, and the
  request sent to the understanding model.
\<^item> \<open>Home_Semantics\<close>: what a response means; at most two model attempts, the second of which
  repairs the first.
\<^item> \<open>Home_Policy\<close>: the two ladders, the stored ledger, slots, note provenance, completion.
\<^item> \<open>Home_Speech\<close>, \<open>Home_Turn\<close>: speech route and texts, the turn contract, the staged
  execution \<open>run_session_turn\<close>, the start of a session.
\<^item> \<open>Home_Laws\<close>, \<open>Home_Policy_Laws\<close>, \<open>Home_Request_Laws\<close>, \<open>Home_Interpret_Laws\<close>,
  \<open>Home_Speech_Laws\<close>, \<open>Home_Turn_Laws\<close>: every stage is total on a valid pack, and what every stage
  may change. \<open>Home_Session\<close>: reachable sessions and their invariant. \<open>Home_Returns\<close>: every turn of
  a ready session returns and leaves it ready. \<open>Home_Demo\<close>: a concrete session.
\<^item> \<open>Home_Properties\<close>: the properties of the home runtime.

  Cafe and amusement conversations (\<^verbatim>\<open>dialogue_v2_life_runtime.py\<close>,
  \<^verbatim>\<open>dialogue_v2_scenario_snapshot.py\<close>).
\<^item> \<open>Life_Scenario\<close>: the pinned scenario: for every task the active variant, its ledger and the
  provenance of its note; pinning and loading. \<open>Life_Turn\<close>: questions, choices, slots, notes, the
  end of a task and the selection of the next variant, the turn \<open>run_life_turn\<close>.
\<^item> \<open>Life_Laws\<close>, \<open>Life_Session\<close>, \<open>Life_Run\<close>: what each stage keeps of the stored runtime.
  \<open>Life_Invariant\<close>, \<open>Life_Reach\<close>: the invariant \<open>life_ok\<close> of reachable conversations.
  \<open>Life_Demo\<close>: a two-task conversation. \<open>Life_Properties\<close>: the properties.

  Durable queues.
\<^item> \<open>Leases\<close>: the locale \<open>fenced\<close> of a row that is claimed under an attempt number and settled
  only by the holder of that number, extended by \<open>fenced_settle\<close> and \<open>fenced_final\<close>. It is interpreted
  by the generated-copy cache (\<open>Copy_Cache\<close>, \<^verbatim>\<open>copy_cache.py\<close>), the outbox (\<open>Outbox\<close>,
  \<^verbatim>\<open>outbox.py\<close>) and the ladder jobs (\<open>Ladder\<close>, \<^verbatim>\<open>ladder_analysis_repository.py\<close>,
  \<^verbatim>\<open>ladder_analysis_worker.py\<close>, \<^verbatim>\<open>ladder_model/policy.py\<close>).
\<^item> \<open>Queue_Properties\<close>, \<open>Outbox_Properties\<close>, \<open>Ladder_Properties\<close>: their properties.

  The conversation database and the service.
\<^item> \<open>Store_Rows\<close>, \<open>Store\<close>: rows (\<^verbatim>\<open>db.py\<close>), the text codec (\<^verbatim>\<open>security.py\<close>) and the
  operations of \<^verbatim>\<open>repository.py\<close>. \<open>Turn_Commit\<close>: \<^verbatim>\<open>commit_turn\<close>, one transaction.
  \<open>Store_Laws\<close>, \<open>Store_Inv\<close>: the database invariant and that every transaction keeps it, for every
  engine that satisfies the locale \<open>turn_engine\<close>; \<open>Home_Engine\<close> interprets it by the home runtime.
\<^item> \<open>Turn_Service\<close>: \<^verbatim>\<open>service.py\<close>, a request as the sequence of its transactions.
  \<open>Turn_World\<close>: interleavings of requests, creations and purges; the locale \<open>versioned\<close> is
  optimistic concurrency, interpreted on conversations.
\<^item> \<open>Service_Laws\<close>, \<open>Retention_Laws\<close>, \<open>Service_Demo\<close>, \<open>Service_Properties\<close>: replay, deletion of child
  text, two racing requests, and the properties.

  How state and operations correspond. A Pydantic model or a database row is a record whose fields
  have the source's names (with a short prefix where they would clash), an enumeration is a datatype.
  A function that raises returns \<open>'a res\<close>, and every \<open>raise\<close> of it is a branch. A method that assigns
  to its state argument returns the state. A repository method that is one transaction is one
  function from the database to a result and the database; an error leaves the database unchanged.

  What is a parameter, and what is assumed of it. The understanding model is a function of the attempt
  and the request (it may fail or return anything); texts a speaker model wrote are inputs. SHA-256,
  Unicode normalisation and the text cipher are functions; the hypotheses a property needs (a
  digest separates the keys of one pack, the codec reads back what it wrote) are written in its
  statement and its witness gives a function that satisfies them. Clocks, fresh identifiers and random
  tokens are arguments.

  Bounds and fuel. No definition uses fuel. The two attempts of the model are unfolded as in the
  source. The depth-first search of graph validation terminates because a call either grows the
  recursion stack within the facts of the graph or shortens its list; \<open>graph_validation_decides_acyclicity\<close>
  shows that it decides acyclicity. A dispatch cycle of the outbox is bounded by its batch size. Python
  integers are \<open>int\<close> or \<open>nat\<close>; floats are the rationals of their shortest decimal form.

  Not modelled, and why.
\<^item> Language model gateways (\<^verbatim>\<open>llm.py\<close>): prompts and remote calls. The answers are arguments.
\<^item> Wording checks of reviewed copy, the answer firewall of generated speech
  (\<^verbatim>\<open>copy_quality.py\<close>, \<^verbatim>\<open>dialogue_v2_speaker.py\<close>) and the safety patterns of
  \<^verbatim>\<open>security.py\<close>: regular expressions over Korean text. Their verdict is an input where the
  modelled code branches on it.
\<^item> Authored data: reviewed copy tables, cafe and amusement content, V1 tasks, dictionary. One home pack
  is written out in full.
\<^item> HTTP routes, settings, tracing, schema migrations: input and output.
\<^item> Reports and content audits are read-only; model training is offline.
\<^item> The V1 engine (\<^verbatim>\<open>engine.py\<close>), whose progress comes from a classifier graph over model prose;
  its profile update is in \<open>Ladder\<close>. The service treats it as any engine that satisfies the contract.
\<^item> Runtime router and session parent graph.
\<close>

end
